(* ===== verification/Prelude.thy ===== *)
theory Prelude
  imports Complex_Main "HOL-Library.AList" "HOL-Library.Multiset" "HOL-Library.Sublist"
    "HOL-Library.Char_ord" "HOL-Library.List_Lexorder" "HOL-Library.Product_Lexorder"
begin

text \<open>
  What the components share: the exceptions of the Python code, its strings, its
  insertion-ordered dictionaries, its rounding and its clock; the interface locales
  \<open>py_dict\<close> (a dictionary), \<open>inv_system\<close> and \<open>op_system\<close> (a component whose
  operations keep an invariant); and the lemmas on sorting that the selection proofs use.

  Conventions of the whole development. A \<open>str\<close> is a \<open>string\<close> (a list of bytes, so
  that a character outside ASCII is its UTF-8 encoding). A \<open>float\<close> is a \<open>real\<close>: the
  arithmetic is exact, and the rounding of binary floating point is not modelled. An
  \<open>int\<close> is an \<open>int\<close>. A \<open>dict\<close> is an association list with distinct keys in insertion
  order. A \<open>set\<close> whose iteration order the code observes is a list in an arbitrary
  order. A raised exception is the left summand of a sum. A UUID is its canonical text.
\<close>

section \<open>Exceptions\<close>

datatype exc =
    RuntimeError string
  | ValueError string
  | PermissionErr string
  | KeyError string
  | FileNotFoundErr string
  | ValidationError
  | IndexError
  | UnboundLocalError
  | IntegrityError
  | DataError
  | TypeError
  | HTTPException int string
  | ConfigError string
  | OtherError

type_synonym 'a result = "exc + 'a"
type_synonym uuid = string

section \<open>Strings\<close>

definition em_dash :: string where
  "em_dash = [CHR 0xE2, CHR 0x80, CHR 0x94]"

definition right_arrow :: string where
  "right_arrow = [CHR 0xE2, CHR 0x86, CHR 0x92]"

abbreviation newline :: string where
  "newline \<equiv> [CHR 0x0A]"

text \<open>The operator \<open>in\<close> on two strings.\<close>

fun py_in :: "string \<Rightarrow> string \<Rightarrow> bool" where
  "py_in n [] = (n = [])"
| "py_in n (c # h) = (prefix n (c # h) \<or> py_in n h)"

definition is_space :: "char \<Rightarrow> bool" where
  "is_space c \<longleftrightarrow> c \<in> {CHR '' '', CHR 0x09, CHR 0x0A, CHR 0x0B, CHR 0x0C, CHR 0x0D,
     CHR 0x1C, CHR 0x1D, CHR 0x1E, CHR 0x1F}"

definition is_digit :: "char \<Rightarrow> bool" where
  "is_digit c \<longleftrightarrow> c \<in> set ''0123456789''"

definition py_strip :: "string \<Rightarrow> string" where
  "py_strip s = rev (dropWhile is_space (rev (dropWhile is_space s)))"

text \<open>\<open>str.lower\<close> on the ASCII letters (the keyword tables it is used with are ASCII).\<close>

definition lower_char :: "char \<Rightarrow> char" where
  "lower_char c = (let n = of_char c :: nat in if 65 \<le> n \<and> n \<le> 90 then char_of (n + 32) else c)"

definition upper_char :: "char \<Rightarrow> char" where
  "upper_char c = (let n = of_char c :: nat in if 97 \<le> n \<and> n \<le> 122 then char_of (n - 32) else c)"

definition is_letter :: "char \<Rightarrow> bool" where
  "is_letter c \<longleftrightarrow> lower_char c \<noteq> c \<or> upper_char c \<noteq> c"

text \<open>\<open>str.title\<close>: a letter after a character that is no letter becomes upper case.\<close>

fun title_from :: "bool \<Rightarrow> string \<Rightarrow> string" where
  "title_from after [] = []"
| "title_from after (c # cs) =
     (if after then lower_char c else upper_char c) # title_from (is_letter c) cs"

definition py_title :: "string \<Rightarrow> string" where
  "py_title s = title_from False s"

definition py_lower :: "string \<Rightarrow> string" where
  "py_lower s = map lower_char s"

text \<open>\<open>s.split(c)\<close> for a separator of one character.\<close>

fun py_split :: "char \<Rightarrow> string \<Rightarrow> string list" where
  "py_split c [] = [[]]"
| "py_split c (x # xs) =
     (if x = c then [] # py_split c xs
      else case py_split c xs of [] \<Rightarrow> [[x]] | w # ws \<Rightarrow> (x # w) # ws)"

fun py_join :: "string \<Rightarrow> string list \<Rightarrow> string" where
  "py_join sep [] = []"
| "py_join sep [x] = x"
| "py_join sep (x # y # ys) = x @ sep @ py_join sep (y # ys)"

text \<open>\<open>s.replace(c, r)\<close> for a pattern of one character.\<close>

definition py_replace :: "char \<Rightarrow> string \<Rightarrow> string \<Rightarrow> string" where
  "py_replace c r s = concat (map (\<lambda>x. if x = c then r else [x]) s)"

fun show_nat :: "nat \<Rightarrow> string" where
  "show_nat n =
     (if n < 10 then [''0123456789'' ! n] else show_nat (n div 10) @ [''0123456789'' ! (n mod 10)])"

declare show_nat.simps [simp del]

definition show_int :: "int \<Rightarrow> string" where
  "show_int i = (if i < 0 then ''-'' @ show_nat (nat (- i)) else show_nat (nat i))"

text \<open>\<open>x or d\<close> for an optional string: \<open>None\<close> and the empty string are falsy.\<close>

definition str_or :: "string option \<Rightarrow> string \<Rightarrow> string" where
  "str_or x d = (case x of None \<Rightarrow> d | Some s \<Rightarrow> if s = [] then d else s)"

text \<open>
  The length of a \<open>str\<close> and its slices count characters: the continuation bytes of UTF-8
  belong to the character they continue.
\<close>

definition continuation :: "char \<Rightarrow> bool" where
  "continuation c \<longleftrightarrow> 128 \<le> (of_char c :: nat) \<and> (of_char c :: nat) < 192"

definition char_count :: "string \<Rightarrow> nat" where
  "char_count s = length (filter (\<lambda>c. \<not> continuation c) s)"

text \<open>
  PostgreSQL takes a text into a column of type \<open>VARCHAR(n)\<close> when it has at most n characters or
  all the excess ones are spaces, which it cuts off; any other text makes the flush raise a
  DataError.
\<close>

definition fits_column :: "nat \<Rightarrow> string \<Rightarrow> bool" where
  "fits_column n s \<longleftrightarrow> char_count (rev (dropWhile (\<lambda>c. c = CHR '' '') (rev s))) \<le> n"

lemma char_count_le_length: "char_count s \<le> length s"
  by (simp add: char_count_def)

lemma char_count_append [simp]: "char_count (s @ t) = char_count s + char_count t"
  by (simp add: char_count_def)

lemma fits_columnI: "char_count s \<le> n \<Longrightarrow> fits_column n s"
proof -
  obtain r where "s = rev (dropWhile (\<lambda>c. c = CHR '' '') (rev s)) @ r"
    by (metis rev_append rev_rev_ident takeWhile_dropWhile_id)
  then have "char_count (rev (dropWhile (\<lambda>c. c = CHR '' '') (rev s))) \<le> char_count s"
    by (metis char_count_append le_add1)
  then show "char_count s \<le> n \<Longrightarrow> fits_column n s" by (simp add: fits_column_def)
qed

lemma short_fits: "length s \<le> n \<Longrightarrow> fits_column n s"
  using char_count_le_length [of s] by (intro fits_columnI) simp

text \<open>\<open>s[:n]\<close>\<close>

fun take_chars :: "nat \<Rightarrow> string \<Rightarrow> string" where
  "take_chars n [] = []"
| "take_chars n (c # cs) =
     (if continuation c then c # take_chars n cs
      else case n of 0 \<Rightarrow> [] | Suc k \<Rightarrow> c # take_chars k cs)"

text \<open>\<open>s.rsplit(c, 1)[0]\<close>: what precedes the last \<open>c\<close>, the whole text without one.\<close>

definition rsplit_first :: "char \<Rightarrow> string \<Rightarrow> string" where
  "rsplit_first c s =
     (if c \<in> set s then rev (tl (dropWhile (\<lambda>x. x \<noteq> c) (rev s))) else s)"

lemma py_in_iff_sublist: "py_in n h \<longleftrightarrow> sublist n h"
  by (induction h) (auto simp: sublist_Cons_right)

lemma py_in_empty [simp]: "py_in [] h"
  by (simp add: py_in_iff_sublist)

lemma py_in_trans: "py_in a b \<Longrightarrow> py_in b c \<Longrightarrow> py_in a c"
  by (auto simp: py_in_iff_sublist intro: sublist_order.order_trans)

lemma py_in_append [intro]: "py_in a b \<Longrightarrow> py_in a (c @ b @ d)"
  unfolding py_in_iff_sublist by (metis sublist_appendI sublist_order.order_trans)

lemma py_split_ne [simp]: "py_split c s \<noteq> []"
  by (induction s) (auto split: list.splits)

lemma py_join_split: "py_join [c] (py_split c s) = s"
proof (induction s)
  case (Cons x xs)
  obtain w ws where sp: "py_split c xs = w # ws"
    by (cases "py_split c xs") auto
  with Cons.IH have eq: "py_join [c] (w # ws) = xs" by simp
  show ?case
  proof (cases ws)
    case Nil
    with eq sp show ?thesis by auto
  next
    case (Cons v vs)
    with eq sp show ?thesis by auto
  qed
qed simp

lemma show_nat_ne [simp]: "show_nat n \<noteq> []"
  by (simp add: show_nat.simps [of n])

lemma show_nat_length: "length (show_nat n) \<le> Suc n"
proof (induction n rule: less_induct)
  case (less n)
  show ?case
    using less.IH [of "n div 10"] by (cases "n < 10") (simp_all add: show_nat.simps [of n])
qed

lemma show_nat_inject: "show_nat m = show_nat n \<longleftrightarrow> m = n"
proof
  have digit: "''0123456789'' ! a = ''0123456789'' ! b \<longleftrightarrow> a = b" if "a < 10" "b < 10" for a b :: nat
    using that by (intro nth_eq_iff_index_eq) simp_all
  show "show_nat m = show_nat n \<Longrightarrow> m = n"
  proof (induction m arbitrary: n rule: less_induct)
    case (less m)
    note eq = less.prems [unfolded show_nat.simps [of m] show_nat.simps [of n]]
    consider "m < 10" "n < 10" | "m < 10" "\<not> n < 10" | "\<not> m < 10" "n < 10" | "\<not> m < 10" "\<not> n < 10"
      by blast
    then show ?case
    proof cases
      case 1
      with eq digit show ?thesis by simp
    next
      case 4
      then have "show_nat (m div 10) = show_nat (n div 10)" "m mod 10 = n mod 10"
        using eq digit [of "m mod 10" "n mod 10"] by simp_all
      with less.IH [of "m div 10" "n div 10"] 4 show ?thesis
        by (metis div_less_dividend div_mult_mod_eq le_less_trans less_le_trans not_less numeral_One
            one_less_numeral_iff semiring_norm(76) zero_less_iff_neq_zero zero_less_numeral)
    qed (use eq show_nat_ne [of "n div 10"] show_nat_ne [of "m div 10"] in \<open>auto simp del: show_nat_ne\<close>)
  qed
qed simp

lemma set_py_join: "set (py_join sep xs) \<subseteq> set sep \<union> \<Union> (set ` set xs)"
  by (induction sep xs rule: py_join.induct) auto

lemma set_py_strip: "set (py_strip s) \<subseteq> set s"
  unfolding py_strip_def by (metis (no_types, lifting) set_dropWhileD set_rev subsetI)

lemma set_py_replace: "c \<notin> set r \<Longrightarrow> c \<notin> set (py_replace c r s)"
  by (auto simp: py_replace_def split: if_splits)

section \<open>Dictionaries\<close>

type_synonym ('k, 'v) dict = "('k \<times> 'v) list"

definition dict_get :: "('k, 'v) dict \<Rightarrow> 'k \<Rightarrow> 'v option" where
  "dict_get d k = map_of d k"

definition dict_set :: "'k \<Rightarrow> 'v \<Rightarrow> ('k, 'v) dict \<Rightarrow> ('k, 'v) dict" where
  "dict_set k v d = AList.update k v d"

definition dict_pop :: "'k \<Rightarrow> ('k, 'v) dict \<Rightarrow> ('k, 'v) dict" where
  "dict_pop k d = AList.delete k d"

definition dict_keys :: "('k, 'v) dict \<Rightarrow> 'k list" where
  "dict_keys d = map fst d"

definition dict_wf :: "('k, 'v) dict \<Rightarrow> bool" where
  "dict_wf d \<longleftrightarrow> distinct (map fst d)"

definition dict_get_or :: "('k, 'v) dict \<Rightarrow> 'k \<Rightarrow> 'v \<Rightarrow> 'v" where
  "dict_get_or d k v = (case dict_get d k of None \<Rightarrow> v | Some x \<Rightarrow> x)"

text \<open>A dict comprehension: later pairs overwrite earlier ones.\<close>

definition dict_of :: "('k \<times> 'v) list \<Rightarrow> ('k, 'v) dict" where
  "dict_of ps = foldl (\<lambda>d (k, v). dict_set k v d) [] ps"

text \<open>
  The interface: what the clients of a dictionary rely on. Its lemmas are proved once,
  here, for every dictionary that keeps the laws.
\<close>

locale py_dict =
  fixes empty :: "'d"
    and get :: "'d \<Rightarrow> 'k \<Rightarrow> 'v option"
    and put :: "'k \<Rightarrow> 'v \<Rightarrow> 'd \<Rightarrow> 'd"
    and pop :: "'k \<Rightarrow> 'd \<Rightarrow> 'd"
    and keys :: "'d \<Rightarrow> 'k list"
    and wf :: "'d \<Rightarrow> bool"
  assumes get_empty: "get empty k = None"
    and get_put: "get (put k v d) k' = (if k' = k then Some v else get d k')"
    and get_pop: "get (pop k d) k' = (if k' = k then None else get d k')"
    and keys_get: "k \<in> set (keys d) \<longleftrightarrow> get d k \<noteq> None"
    and wf_empty: "wf empty"
    and wf_put: "wf d \<Longrightarrow> wf (put k v d)"
    and wf_pop: "wf d \<Longrightarrow> wf (pop k d)"
    and wf_keys: "wf d \<Longrightarrow> distinct (keys d)"
begin

lemma set_keys_put: "set (keys (put k v d)) = insert k (set (keys d))"
  by (auto simp: keys_get get_put split: if_splits)

lemma set_keys_pop: "set (keys (pop k d)) = set (keys d) - {k}"
  by (auto simp: keys_get get_pop split: if_splits)

lemma length_keys_put:
  assumes "wf d"
  shows "length (keys (put k v d)) =
    (if get d k = None then Suc (length (keys d)) else length (keys d))"
proof -
  have "length (keys (put k v d)) = card (insert k (set (keys d)))"
    using wf_keys [OF wf_put [OF assms]] by (metis distinct_card set_keys_put)
  also have "\<dots> = (if get d k = None then Suc (length (keys d)) else length (keys d))"
    using wf_keys [OF assms] by (auto simp: distinct_card insert_absorb keys_get card_insert_if)
  finally show ?thesis .
qed

lemma length_keys_pop:
  assumes "wf d"
  shows "length (keys (pop k d)) = length (keys d) - (if get d k = None then 0 else 1)"
proof -
  have "length (keys (pop k d)) = card (set (keys d) - {k})"
    using wf_keys [OF wf_pop [OF assms]] by (metis distinct_card set_keys_pop)
  also have "\<dots> = length (keys d) - (if get d k = None then 0 else 1)"
    using wf_keys [OF assms] by (auto simp: distinct_card keys_get card_Diff_singleton_if)
  finally show ?thesis .
qed

lemma put_commutes:
  "k \<noteq> k' \<Longrightarrow> get (put k v (put k' v' d)) j = get (put k' v' (put k v d)) j"
  by (simp add: get_put)

lemma pop_put: "get (pop k (put k v d)) j = get (pop k d) j"
  by (simp add: get_put get_pop)

end

interpretation alist: py_dict "[]" dict_get dict_set dict_pop dict_keys dict_wf
  by unfold_locales
    (auto simp: dict_get_def dict_set_def dict_pop_def dict_keys_def dict_wf_def
      AList.update_conv' AList.delete_conv' AList.distinct_update AList.distinct_delete
      map_of_eq_None_iff)

lemmas dict_simps = alist.get_empty alist.get_put alist.get_pop alist.set_keys_put
  alist.set_keys_pop alist.wf_empty alist.wf_put alist.wf_pop

declare dict_simps [simp]

lemma dict_get_Some_mem: "dict_get d k = Some v \<Longrightarrow> (k, v) \<in> set d"
  by (simp add: dict_get_def map_of_SomeD)

lemma dict_get_mem: "dict_wf d \<Longrightarrow> (k, v) \<in> set d \<Longrightarrow> dict_get d k = Some v"
  by (simp add: dict_get_def dict_wf_def)

lemma dict_set_fresh: "dict_get d k = None \<Longrightarrow> dict_set k v d = d @ [(k, v)]"
  by (induction d) (auto simp: dict_get_def dict_set_def split: if_splits)

lemma dict_of_snoc: "dict_of (ps @ [(k, v)]) = dict_set k v (dict_of ps)"
  by (simp add: dict_of_def)

lemma dict_wf_dict_of [simp]: "dict_wf (dict_of ps)"
proof (induction ps rule: rev_induct)
  case Nil
  show ?case by (simp add: dict_of_def)
next
  case (snoc p ps)
  then show ?case by (cases p) (simp add: dict_of_snoc)
qed

lemma dict_get_dict_of: "dict_get (dict_of ps) k = map_of (rev ps) k"
proof (induction ps rule: rev_induct)
  case Nil
  show ?case by (simp add: dict_of_def)
next
  case (snoc p ps)
  then show ?case by (cases p) (simp add: dict_of_snoc)
qed

text \<open>Statements in sequence: the first exception ends them.\<close>

definition bind_result :: "'a result \<Rightarrow> ('a \<Rightarrow> 'b result) \<Rightarrow> 'b result" where
  "bind_result r f = (case r of Inl e \<Rightarrow> Inl e | Inr x \<Rightarrow> f x)"

lemma bind_result_simps [simp]:
  "bind_result (Inl e) f = Inl e" "bind_result (Inr x) f = f x"
  by (simp_all add: bind_result_def)

lemma bind_result_Inr: "bind_result r f = Inr y \<longleftrightarrow> (\<exists>x. r = Inr x \<and> f x = Inr y)"
  by (cases r) simp_all

text \<open>The values a JSON column holds.\<close>

datatype json =
    JNull
  | JBool bool
  | JInt int
  | JNum real
  | JStr string
  | JArr "json list"
  | JObj "(string \<times> json) list"

section \<open>Numbers: rounding and decimal text\<close>

text \<open>\<open>round(x, n)\<close> rounds half to even.\<close>

definition round_half_even :: "real \<Rightarrow> int" where
  "round_half_even x =
     (let f = \<lfloor>x\<rfloor>; d = x - of_int f
      in if d < 1/2 then f else if d > 1/2 then f + 1 else if even f then f else f + 1)"

definition py_round :: "nat \<Rightarrow> real \<Rightarrow> real" where
  "py_round n x = of_int (round_half_even (x * 10 ^ n)) / 10 ^ n"

lemma round_half_even_int [simp]: "round_half_even (of_int i) = i"
  by (simp add: round_half_even_def)

lemma round_half_even_error: "\<bar>of_int (round_half_even x) - x\<bar> \<le> 1/2"
proof -
  have "of_int \<lfloor>x\<rfloor> \<le> x" and "x < of_int \<lfloor>x\<rfloor> + 1"
    by linarith+
  then show ?thesis
    by (auto simp: round_half_even_def Let_def abs_le_iff)
qed

lemma round_half_even_mono: "x \<le> y \<Longrightarrow> round_half_even x \<le> round_half_even y"
proof -
  assume le: "x \<le> y"
  then have fl: "\<lfloor>x\<rfloor> \<le> \<lfloor>y\<rfloor>" by (rule floor_mono)
  show ?thesis
  proof (cases "\<lfloor>x\<rfloor> = \<lfloor>y\<rfloor>")
    case True
    with le show ?thesis by (auto simp: round_half_even_def Let_def)
  next
    case False
    with fl have "\<lfloor>x\<rfloor> + 1 \<le> \<lfloor>y\<rfloor>" by simp
    then show ?thesis by (auto simp: round_half_even_def Let_def)
  qed
qed

lemma py_round_error: "\<bar>py_round n x - x\<bar> \<le> 1 / (2 * 10 ^ n)"
proof -
  have "py_round n x - x = (of_int (round_half_even (x * 10 ^ n)) - x * 10 ^ n) / 10 ^ n"
    by (simp add: py_round_def field_simps)
  then have "\<bar>py_round n x - x\<bar> = \<bar>of_int (round_half_even (x * 10 ^ n)) - x * 10 ^ n\<bar> / 10 ^ n"
    by simp
  also have "\<dots> \<le> (1/2) / 10 ^ n"
    by (intro divide_right_mono round_half_even_error) simp
  finally show ?thesis by simp
qed

lemma py_round_mono: "x \<le> y \<Longrightarrow> py_round n x \<le> py_round n y"
  by (simp add: py_round_def divide_right_mono round_half_even_mono)

lemma py_round_0 [simp]: "py_round n 0 = 0"
  using round_half_even_int [of 0] by (simp add: py_round_def)

lemma py_round_1 [simp]: "py_round n 1 = 1"
  using round_half_even_int [of "10 ^ n"] by (simp add: py_round_def)

lemma py_round_unit: "0 \<le> x \<Longrightarrow> x \<le> 1 \<Longrightarrow> 0 \<le> py_round n x \<and> py_round n x \<le> 1"
  using py_round_mono [of 0 x n] py_round_mono [of x 1 n] by simp

text \<open>The format \<open>.nf\<close> of an f-string, for a positive number of decimals.\<close>

definition zero_pad :: "nat \<Rightarrow> string \<Rightarrow> string" where
  "zero_pad w s = replicate (w - length s) (CHR ''0'') @ s"

definition fmt_fixed :: "nat \<Rightarrow> real \<Rightarrow> string" where
  "fmt_fixed n x =
     (let m = round_half_even (\<bar>x\<bar> * 10 ^ n); t = zero_pad (Suc n) (show_int m);
          k = length t - n
      in (if x < 0 then ''-'' else []) @ take k t @ ''.'' @ drop k t)"

section \<open>Sorting by a key\<close>

text \<open>
  \<open>list.sort(key=...)\<close> is stable, as \<open>sort_key\<close> is. The code that picks
  \<open>scored[0]\<close> after a sort picks the first of the elements with the least key.
\<close>

lemma sort_key_eq_Nil [simp]: "sort_key k xs = [] \<longleftrightarrow> xs = []"
  by (metis length_0_conv length_sort)

lemma insort_key_cong: "(\<And>y. y \<in> insert x (set xs) \<Longrightarrow> f y = g y) \<Longrightarrow> insort_key f x xs = insort_key g x xs"
  by (induction xs) auto

lemma sort_key_cong: "(\<And>x. x \<in> set xs \<Longrightarrow> f x = g x) \<Longrightarrow> sort_key f xs = sort_key g xs"
  by (induction xs) (auto intro!: insort_key_cong)

lemma sort_key_Cons_first:
  "sort_key k xs = y # ys \<Longrightarrow> \<exists>p s. xs = p @ y # s \<and> (\<forall>x\<in>set p. k y < k x)"
proof (induction xs arbitrary: ys)
  case (Cons x xs)
  show ?case
  proof (cases "sort_key k xs")
    case Nil
    with Cons.prems have "x # xs = [] @ y # []" by simp
    then show ?thesis by fastforce
  next
    case (Cons z zs)
    show ?thesis
    proof (cases "k x \<le> k z")
      case True
      with Cons Cons.prems have "y = x" by simp
      then show ?thesis by (intro exI [of _ "[]"] exI [of _ xs]) simp
    next
      case False
      with Cons Cons.prems have "y = z" by simp
      with Cons.IH Cons obtain p s where
        "xs = p @ y # s" and "\<forall>x\<in>set p. k y < k x" by blast
      with False \<open>y = z\<close> have "x # xs = (x # p) @ y # s"
        and "\<forall>w\<in>set (x # p). k y < k w" by auto
      then show ?thesis by blast
    qed
  qed
qed simp

lemma sort_key_Cons_mem: "sort_key k xs = y # ys \<Longrightarrow> y \<in> set xs"
  by (metis list.set_intros(1) set_sort)

lemma sort_key_Cons_least: "sort_key k xs = y # ys \<Longrightarrow> x \<in> set xs \<Longrightarrow> k y \<le> k x"
proof -
  assume eq: "sort_key k xs = y # ys" and x: "x \<in> set xs"
  then have "sorted (map k (y # ys))" and "x \<in> set (y # ys)"
    by (metis sorted_sort_key, metis set_sort)
  then show ?thesis by auto
qed

section \<open>Components that keep an invariant\<close>

text \<open>
  A step relation whose every step keeps \<open>inv\<close>, and a component with a set of
  operations that keep it: the second gives the first.
\<close>

locale inv_system =
  fixes init :: "'s \<Rightarrow> bool"
    and step :: "'s \<Rightarrow> 's \<Rightarrow> bool"
    and inv :: "'s \<Rightarrow> bool"
  assumes init_inv: "init s \<Longrightarrow> inv s"
    and step_inv: "step s t \<Longrightarrow> inv s \<Longrightarrow> inv t"
begin

lemma steps_inv: "step\<^sup>*\<^sup>* s t \<Longrightarrow> inv s \<Longrightarrow> inv t"
  by (induction rule: rtranclp_induct) (auto intro: step_inv)

lemma reachable_inv: "init s \<Longrightarrow> step\<^sup>*\<^sup>* s t \<Longrightarrow> inv t"
  by (blast intro: init_inv steps_inv)

end

locale op_system =
  fixes exec :: "'s \<Rightarrow> 'op \<Rightarrow> 's"
    and ok :: "'op \<Rightarrow> bool"
    and inv :: "'s \<Rightarrow> bool"
  assumes exec_inv: "inv s \<Longrightarrow> ok oper \<Longrightarrow> inv (exec s oper)"
begin

lemma run_inv: "inv s \<Longrightarrow> list_all ok ops \<Longrightarrow> inv (foldl exec s ops)"
  by (induction ops arbitrary: s) (auto intro: exec_inv)

end

sublocale op_system \<subseteq> steps: inv_system inv "\<lambda>s t. \<exists>oper. ok oper \<and> t = exec s oper" inv
  by unfold_locales (auto intro: exec_inv)


text \<open>
  A component with a potential that every hit lowers by at least one: the hits of a run are
  bounded by the drop of the potential.
\<close>

fun hits :: "('s \<Rightarrow> 'op \<Rightarrow> 's) \<Rightarrow> ('s \<Rightarrow> 'op \<Rightarrow> bool) \<Rightarrow> 's \<Rightarrow> 'op list \<Rightarrow> nat" where
  "hits exec hit s [] = 0"
| "hits exec hit s (x # xs) = (if hit s x then 1 else 0) + hits exec hit (exec s x) xs"

locale metered = op_system exec ok inv
  for exec :: "'s \<Rightarrow> 'op \<Rightarrow> 's" and ok :: "'op \<Rightarrow> bool" and inv :: "'s \<Rightarrow> bool" +
  fixes hit :: "'s \<Rightarrow> 'op \<Rightarrow> bool"
    and pot :: "'s \<Rightarrow> real"
  assumes pot_exec: "inv s \<Longrightarrow> ok oper \<Longrightarrow> pot (exec s oper) \<le> pot s - (if hit s oper then 1 else 0)"
begin

lemma hits_bound:
  "inv s \<Longrightarrow> list_all ok ops \<Longrightarrow> real (hits exec hit s ops) \<le> pot s - pot (foldl exec s ops)"
proof (induction ops arbitrary: s)
  case (Cons x xs)
  have "real (hits exec hit (exec s x) xs) \<le> pot (exec s x) - pot (foldl exec (exec s x) xs)"
    using Cons by (auto intro: exec_inv)
  moreover have "pot (exec s x) \<le> pot s - (if hit s x then 1 else 0)"
    using pot_exec [of s x] Cons.prems by simp
  ultimately show ?case by (auto split: if_splits)
qed simp

end

end
