(* ===== verification/Metrics.thy ===== *)
theory Metrics
  imports Prelude
begin

text \<open>
  The request and provider metrics of the backend (backend/app/core/metrics.py): the history of
  health checks, the HTTP middleware with its endpoint labels, the quantiles computed from
  histogram buckets and the JSON summary. What \<open>REGISTRY.collect()\<close> of the Prometheus client
  yields is a parameter, a list of families with their samples; the calls of the middleware to
  the client are a trace. Texts are ASCII.
\<close>

section \<open>Health checks\<close>

record health_check =
  hc_timestamp :: string
  hc_overall :: bool
  hc_checks :: "(string, bool) dict"
  hc_duration :: real

text \<open>The \<open>deque\<close> keeps its last 100 entries; the gauge is the second component.\<close>

definition record_health_check ::
  "string \<Rightarrow> bool \<Rightarrow> (string, bool) dict \<Rightarrow> real \<Rightarrow> health_check list \<Rightarrow> health_check list \<times> int" where
  "record_health_check now overall checks duration hist =
     (let hist1 = hist @ [\<lparr>hc_timestamp = now, hc_overall = overall, hc_checks = checks,
                           hc_duration = py_round 1 duration\<rparr>]
      in (drop (length hist1 - 100) hist1, if overall then 1 else 0))"

text \<open>\<open>list(h)[-limit:]\<close>, for every integer \<open>limit\<close>.\<close>

definition get_health_history :: "int \<Rightarrow> health_check list \<Rightarrow> health_check list" where
  "get_health_history limit hist =
     (if 0 < limit then drop (length hist - nat limit) hist else drop (nat (- limit)) hist)"

text \<open>
  The endpoints of backend/app/core/health.py. The outcome and the duration of the ping of the
  database, and of the whole check, are arguments.
\<close>

record health_report =
  hr_status :: string
  hr_timestamp :: real
  hr_duration :: real
  hr_database :: string
  hr_database_ms :: real

definition check_database :: "bool \<Rightarrow> real \<Rightarrow> bool \<times> real" where
  "check_database ping_ok elapsed = (ping_ok, py_round 1 elapsed)"

definition health_check_endpoint ::
  "bool \<Rightarrow> real \<Rightarrow> real \<Rightarrow> string \<Rightarrow> real \<Rightarrow> health_check list \<Rightarrow> health_report \<times> health_check list \<times> int" where
  "health_check_endpoint ping_ok ping_ms elapsed now_text now_secs hist =
     (let (db_ok, db_ms) = check_database ping_ok ping_ms;
          checks = [(''database'', db_ok)];
          overall = list_all snd checks
      in (\<lparr>hr_status = (if overall then ''ok'' else ''degraded''), hr_timestamp = now_secs,
           hr_duration = py_round 1 elapsed, hr_database = (if db_ok then ''ok'' else ''error''),
           hr_database_ms = db_ms\<rparr>,
          record_health_check now_text overall checks elapsed hist))"

definition health_history :: "int \<Rightarrow> health_check list \<Rightarrow> health_check list result" where
  "health_history limit hist =
     (if limit < 1 \<or> 100 < limit then Inl ValidationError else Inr (get_health_history limit hist))"

section \<open>The middleware\<close>

definition METRICS_SKIP_PATHS :: "string list" where
  "METRICS_SKIP_PATHS = [''/metrics'', ''/metrics/openmetrics'', ''/metrics/api'', ''/favicon.ico'']"

definition slash_strip :: "string \<Rightarrow> string" where
  "slash_strip s = rev (dropWhile (\<lambda>c. c = CHR ''/'') (rev (dropWhile (\<lambda>c. c = CHR ''/'') s)))"

definition is_hex :: "char \<Rightarrow> bool" where
  "is_hex c \<longleftrightarrow> c \<in> set ''0123456789abcdef''"

text \<open>The pattern of a UUID; its \<open>$\<close> also matches before a final newline.\<close>

definition is_uuid :: "string \<Rightarrow> bool" where
  "is_uuid seg =
     (let s = (if seg \<noteq> [] \<and> last seg = CHR 0x0A then butlast seg else seg);
          parts = py_split (CHR ''-'') s
      in map length parts = [8, 4, 4, 4, 12] \<and> list_all (list_all is_hex) parts)"

definition is_number :: "string \<Rightarrow> bool" where
  "is_number seg \<longleftrightarrow> seg \<noteq> [] \<and> list_all is_digit seg"

definition normal_segment :: "string \<Rightarrow> string" where
  "normal_segment seg =
     (if is_uuid seg then ''{uuid}'' else if is_number seg then ''{id}'' else seg)"

definition normalize_path :: "string \<Rightarrow> string" where
  "normalize_path path =
     ''/'' @ py_join ''/'' (map normal_segment (py_split (CHR ''/'') (slash_strip path)))"

record metrics_calls =
  mc_in_flight :: "(string, int) dict"
  mc_requests :: "(string \<times> string \<times> int) list"
  mc_durations :: "(string \<times> string \<times> real) list"

text \<open>
  \<open>call_next\<close> runs the rest of the application, which may use the metrics itself. When it
  raises, the variable \<open>response\<close> is unbound in the \<open>finally\<close> block.
\<close>

definition metrics_dispatch ::
  "string \<Rightarrow> string \<Rightarrow> real \<Rightarrow> (metrics_calls \<Rightarrow> int result \<times> metrics_calls) \<Rightarrow> metrics_calls \<Rightarrow>
   int result \<times> metrics_calls" where
  "metrics_dispatch path req_method elapsed call_next s =
     (if path \<in> set METRICS_SKIP_PATHS then call_next s
      else
        let g = dict_get_or (mc_in_flight s) req_method 0;
            (response, s1) = call_next (s\<lparr>mc_in_flight := dict_set req_method (g + 1) (mc_in_flight s)\<rparr>);
            g1 = dict_get_or (mc_in_flight s1) req_method 0;
            s2 = s1\<lparr>mc_in_flight := dict_set req_method (g1 - 1) (mc_in_flight s1)\<rparr>;
            endpoint = normalize_path path
        in case response of
             Inl e \<Rightarrow> (Inl UnboundLocalError, s2)
           | Inr status \<Rightarrow>
               (Inr status, s2\<lparr>mc_requests := mc_requests s2 @ [(req_method, endpoint, status)],
                              mc_durations := mc_durations s2 @ [(req_method, endpoint, elapsed)]\<rparr>))"

section \<open>Quantiles\<close>

text \<open>The first index with \<open>cc \<ge> target\<close>.\<close>

fun rank_from :: "nat \<Rightarrow> real \<Rightarrow> int list \<Rightarrow> nat option" where
  "rank_from i target [] = None"
| "rank_from i target (cc # ccs) = (if of_int cc \<ge> target then Some i else rank_from (Suc i) target ccs)"

definition quantile :: "real list \<Rightarrow> int list \<Rightarrow> int \<Rightarrow> real \<Rightarrow> real result" where
  "quantile buckets cumulative total_count q =
     (if total_count = 0 then Inr 0
      else
        let target = of_int total_count * q
        in case rank_from 0 target cumulative of
             None \<Rightarrow> Inr (if buckets \<noteq> [] then last buckets else 0)
           | Some rank \<Rightarrow>
               if length buckets \<le> rank then Inl IndexError
               else if rank = 0 then
                 Inr (buckets ! 0 * (target / of_int (max (cumulative ! 0) 1)))
               else
                 let lower = cumulative ! (rank - 1);
                     upper = cumulative ! rank;
                     width = buckets ! rank - buckets ! (rank - 1);
                     fraction = (target - of_int lower) / of_int (max (upper - lower) 1)
                 in Inr (py_round 4 (buckets ! (rank - 1) + fraction * width)))"

record sample =
  sm_name :: string
  sm_labels :: "(string, string) dict"
  sm_value :: real

record family =
  fa_name :: string
  fa_samples :: "sample list"

datatype le_bound = Finite real | Infinite

definition digits_value :: "string \<Rightarrow> nat" where
  "digits_value s = foldl (\<lambda>n c. 10 * n + (of_char c - 48)) 0 s"

text \<open>\<open>float(labels["le"])\<close> on the texts the client writes: "+Inf" and decimal fractions.\<close>

definition le_value :: "string \<Rightarrow> le_bound result" where
  "le_value s =
     (if s = ''+Inf'' then Inr Infinite
      else case py_split (CHR ''.'') s of
        [a, b] \<Rightarrow>
          if is_number a \<and> is_number b
          then Inr (Finite (of_nat (digits_value a) + of_nat (digits_value b) / 10 ^ length b))
          else Inl (ValueError s)
      | [a] \<Rightarrow> if is_number a then Inr (Finite (of_nat (digits_value a))) else Inl (ValueError s)
      | _ \<Rightarrow> Inl (ValueError s))"

definition py_int :: "real \<Rightarrow> int" where
  "py_int x = (if 0 \<le> x then \<lfloor>x\<rfloor> else \<lceil>x\<rceil>)"

type_synonym label_key = "string \<times> string"

record grouped =
  gr_buckets :: "(label_key, (le_bound, int) dict) dict"
  gr_sums :: "(label_key, real) dict"
  gr_counts :: "(label_key, int) dict"

definition group_sample :: "sample \<Rightarrow> grouped \<Rightarrow> grouped result" where
  "group_sample sm g =
     (let labels = sm_labels sm;
          key = (dict_get_or labels ''provider'' [], dict_get_or labels ''operation'' [])
      in case dict_get labels ''le'' of
           Some le \<Rightarrow>
             (case le_value le of Inl e \<Rightarrow> Inl e
              | Inr b \<Rightarrow> Inr (g\<lparr>gr_buckets :=
                  dict_set key (dict_set b (py_int (sm_value sm)) (dict_get_or (gr_buckets g) key [])) (gr_buckets g)\<rparr>))
         | None \<Rightarrow>
             Inr (if suffix ''_sum'' (sm_name sm) then g\<lparr>gr_sums := dict_set key (sm_value sm) (gr_sums g)\<rparr>
                  else if suffix ''_count'' (sm_name sm)
                  then g\<lparr>gr_counts := dict_set key (py_int (sm_value sm)) (gr_counts g)\<rparr>
                  else g))"

fun group_samples :: "sample list \<Rightarrow> grouped \<Rightarrow> grouped result" where
  "group_samples [] g = Inr g"
| "group_samples (sm # sms) g =
     (case group_sample sm g of Inl e \<Rightarrow> Inl e | Inr g1 \<Rightarrow> group_samples sms g1)"

definition upper_bounds :: "real list" where
  "upper_bounds = [1/100, 5/100, 1/10, 1/4, 1/2, 1, 5/2, 5, 10, 30]"

text \<open>"Build cumulative counts from per-bucket counts".\<close>

fun running_sums :: "int \<Rightarrow> int list \<Rightarrow> int list" where
  "running_sums r [] = []"
| "running_sums r (x # xs) = (r + x) # running_sums (r + x) xs"

definition cumulative_counts :: "(le_bound, int) dict \<Rightarrow> int list" where
  "cumulative_counts buckets = running_sums 0 (map (\<lambda>ub. dict_get_or buckets (Finite ub) 0) upper_bounds)"

record latency =
  la_p50 :: real
  la_p95 :: real
  la_p99 :: real
  la_count :: int
  la_sum :: real

definition summarize :: "grouped \<Rightarrow> label_key \<Rightarrow> (le_bound, int) dict \<Rightarrow> latency result" where
  "summarize g key buckets =
     (let cumulative = cumulative_counts buckets;
          total_count = (if cumulative \<noteq> [] then last cumulative else 0)
      in case quantile upper_bounds cumulative total_count (50/100) of Inl e \<Rightarrow> Inl e | Inr p50 \<Rightarrow>
         (case quantile upper_bounds cumulative total_count (95/100) of Inl e \<Rightarrow> Inl e | Inr p95 \<Rightarrow>
         (case quantile upper_bounds cumulative total_count (99/100) of Inl e \<Rightarrow> Inl e | Inr p99 \<Rightarrow>
            Inr \<lparr>la_p50 = p50, la_p95 = p95, la_p99 = p99, la_count = dict_get_or (gr_counts g) key 0,
                 la_sum = py_round 4 (dict_get_or (gr_sums g) key 0)\<rparr>)))"

fun summarize_all ::
  "grouped \<Rightarrow> (label_key \<times> (le_bound, int) dict) list \<Rightarrow> (string, latency) dict \<Rightarrow> (string, latency) dict result" where
  "summarize_all g [] res = Inr res"
| "summarize_all g ((key, buckets) # bs) res =
     (case summarize g key buckets of Inl e \<Rightarrow> Inl e
      | Inr l \<Rightarrow> summarize_all g bs (dict_set (fst key @ '':'' @ snd key) l res))"

fun latency_quantiles_from ::
  "family list \<Rightarrow> (string, latency) dict \<Rightarrow> (string, latency) dict result" where
  "latency_quantiles_from [] res = Inr res"
| "latency_quantiles_from (f # fs) res =
     (if fa_name f \<noteq> ''provider_request_duration_seconds'' then latency_quantiles_from fs res
      else case group_samples (fa_samples f) \<lparr>gr_buckets = [], gr_sums = [], gr_counts = []\<rparr> of
        Inl e \<Rightarrow> Inl e
      | Inr g \<Rightarrow> (case summarize_all g (gr_buckets g) res of Inl e \<Rightarrow> Inl e
                 | Inr res1 \<Rightarrow> latency_quantiles_from fs res1))"

definition provider_latency_quantiles :: "family list \<Rightarrow> (string, latency) dict result" where
  "provider_latency_quantiles families = latency_quantiles_from families []"

definition add_error :: "sample \<Rightarrow> (string, (string, real) dict) dict \<Rightarrow> (string, (string, real) dict) dict" where
  "add_error sm res =
     (let provider = dict_get_or (sm_labels sm) ''provider'' [];
          err_type = dict_get_or (sm_labels sm) ''error_type'' ''unknown'';
          errs = dict_get_or res provider []
      in dict_set provider (dict_set err_type (dict_get_or errs err_type 0 + sm_value sm) errs) res)"

definition error_counts_by_provider :: "family list \<Rightarrow> (string, (string, real) dict) dict" where
  "error_counts_by_provider families =
     fold (\<lambda>f res. if fa_name f \<noteq> ''provider_errors_total'' then res else fold add_error (fa_samples f) res)
       families []"

definition add_rate_limit :: "sample \<Rightarrow> (string, real) dict \<Rightarrow> (string, real) dict" where
  "add_rate_limit sm res =
     (let provider = dict_get_or (sm_labels sm) ''provider'' []
      in dict_set provider (dict_get_or res provider 0 + sm_value sm) res)"

definition rate_limits_by_provider :: "family list \<Rightarrow> (string, real) dict" where
  "rate_limits_by_provider families =
     fold (\<lambda>f res. if fa_name f \<noteq> ''rate_limit_hits_total'' then res else fold add_rate_limit (fa_samples f) res)
       families []"

section \<open>The summary\<close>

record provider_summary =
  ps_latency :: latency
  ps_errors :: "(string, real) dict"
  ps_rate_limits :: real

record metrics_summary =
  su_providers :: "(string, provider_summary) dict"
  su_current :: int
  su_history :: "health_check list"
  su_uptime :: real

definition default_latency :: latency where
  "default_latency = \<lparr>la_p50 = 0, la_p95 = 0, la_p99 = 0, la_count = 0, la_sum = 0\<rparr>"

definition provider_summary_of ::
  "(string, latency) dict \<Rightarrow> (string, (string, real) dict) dict \<Rightarrow> (string, real) dict \<Rightarrow> string \<Rightarrow> provider_summary" where
  "provider_summary_of latencies errors limits pk =
     \<lparr>ps_latency = (case find (\<lambda>k. prefix (pk @ '':'') k) (dict_keys latencies) of
          None \<Rightarrow> default_latency | Some k \<Rightarrow> dict_get_or latencies k default_latency),
      ps_errors = dict_get_or errors pk [], ps_rate_limits = dict_get_or limits pk 0\<rparr>"

definition metrics_json ::
  "family list \<Rightarrow> health_check list \<Rightarrow> real \<Rightarrow> metrics_summary result" where
  "metrics_json families hist now =
     (case provider_latency_quantiles families of Inl e \<Rightarrow> Inl e
      | Inr latencies \<Rightarrow>
          let errors = error_counts_by_provider families;
              limits = rate_limits_by_provider families;
              history = get_health_history 20 hist;
              providers = sort (remdups (map (\<lambda>k. hd (py_split (CHR '':'') k)) (dict_keys latencies) @
                            dict_keys errors @ dict_keys limits))
          in Inr \<lparr>su_providers = map (\<lambda>pk. (pk, provider_summary_of latencies errors limits pk)) providers,
                  su_current = (if history = [] then 1 else if hc_overall (last history) then 1 else 0),
                  su_history = history, su_uptime = now\<rparr>)"

section \<open>Quantiles are ordered\<close>

text \<open>Bucket bounds as the code has them: increasing multiples of 1/10000.\<close>

definition bucket_grid :: "real list \<Rightarrow> bool" where
  "bucket_grid bs \<longleftrightarrow> sorted bs \<and> list_all (\<lambda>b. 0 \<le> b \<and> py_round 4 b = b) bs"

definition count_column :: "int list \<Rightarrow> int \<Rightarrow> bool" where
  "count_column cs n \<longleftrightarrow> sorted cs \<and> list_all (\<lambda>c. 0 \<le> c) cs \<and> cs \<noteq> [] \<and> last cs = n"

lemma rank_from_Some:
  "rank_from i x cs = Some k \<Longrightarrow>
     \<exists>d. k = i + d \<and> d < length cs \<and> x \<le> of_int (cs ! d) \<and> (\<forall>j<d. of_int (cs ! j) < x)"
proof (induction cs arbitrary: i)
  case (Cons c cs)
  show ?case
  proof (cases "x \<le> of_int c")
    case True
    with Cons.prems show ?thesis by (intro exI [of _ 0]) simp
  next
    case False
    with Cons.prems have "rank_from (Suc i) x cs = Some k" by simp
    from Cons.IH [OF this] obtain d where d: "k = Suc i + d" "d < length cs" "x \<le> of_int (cs ! d)"
      "\<forall>j<d. of_int (cs ! j) < x" by blast
    have "of_int ((c # cs) ! j) < x" if "j < Suc d" for j
      using that False d(4) by (cases j) auto
    with d show ?thesis by (intro exI [of _ "Suc d"]) simp
  qed
qed simp

lemma rank_from_ex: "cs \<noteq> [] \<Longrightarrow> x \<le> of_int (last cs) \<Longrightarrow> \<exists>k. rank_from i x cs = Some k"
  by (induction cs arbitrary: i) (auto split: if_splits)

lemma rank_mono:
  assumes "rank_from 0 x cs = Some k" and "rank_from 0 y cs = Some l" and "x \<le> y"
  shows "k \<le> l"
proof (rule ccontr)
  assume "\<not> k \<le> l"
  with rank_from_Some [OF assms(1)] have "of_int (cs ! l) < x" by auto
  moreover have "y \<le> of_int (cs ! l)" using rank_from_Some [OF assms(2)] by auto
  ultimately show False using assms(3) by linarith
qed

definition interpolated :: "real list \<Rightarrow> int list \<Rightarrow> nat \<Rightarrow> real \<Rightarrow> real" where
  "interpolated bs cs r x =
     (if r = 0 then bs ! 0 * (x / of_int (max (cs ! 0) 1))
      else py_round 4 (bs ! (r - 1) + (x - of_int (cs ! (r - 1))) / of_int (max (cs ! r - cs ! (r - 1)) 1) *
             (bs ! r - bs ! (r - 1))))"

lemma quantile_interpolated:
  assumes "count_column cs n" and "length cs = length bs" and "n \<noteq> 0" and "0 \<le> q" and "q \<le> 1"
  obtains r where "rank_from 0 (of_int n * q) cs = Some r" and "r < length bs"
    and "quantile bs cs n q = Inr (interpolated bs cs r (of_int n * q))"
proof -
  have n: "0 \<le> n" and cs: "cs \<noteq> []" "last cs = n"
    using assms(1) last_in_set [of cs] by (auto simp: count_column_def list_all_iff)
  have "of_int n * q \<le> of_int (last cs)" using n assms(5) cs by (simp add: mult_left_le)
  then obtain r where r: "rank_from 0 (of_int n * q) cs = Some r" using rank_from_ex [OF cs(1)] by blast
  moreover have "r < length bs" using rank_from_Some [OF r] assms(2) by auto
  ultimately show ?thesis using that assms(3)
    by (simp add: quantile_def interpolated_def Let_def)
qed

lemma interpolated_bounds:
  assumes "bucket_grid bs" and "count_column cs n" and "length cs = length bs" and "0 \<le> x"
    and "rank_from 0 x cs = Some r"
  shows "interpolated bs cs r x \<le> bs ! r" and "(if r = 0 then 0 else bs ! (r - 1)) \<le> interpolated bs cs r x"
proof -
  obtain le: "x \<le> of_int (cs ! r)" and lt: "\<forall>j<r. of_int (cs ! j) < x" and r: "r < length cs"
    using rank_from_Some [OF assms(5)] by auto
  have b: "py_round 4 (bs ! j) = bs ! j" "0 \<le> bs ! j" if "j \<le> r" for j
    using assms(1,3) r that by (auto simp: bucket_grid_def list_all_iff)
  have "interpolated bs cs r x \<le> bs ! r \<and> (if r = 0 then 0 else bs ! (r - 1)) \<le> interpolated bs cs r x"
  proof (cases r)
    case 0
    define f where "f = x / of_int (max (cs ! 0) 1)"
    have "f \<le> 1" using le by (simp add: f_def 0)
    moreover have "0 \<le> f" using assms(4) by (simp add: f_def)
    ultimately have "0 \<le> bs ! 0 * f \<and> bs ! 0 * f \<le> bs ! 0" using b(2) [of 0] by (simp add: mult_left_le)
    then show ?thesis by (simp add: 0 interpolated_def f_def)
  next
    case (Suc p)
    define w f where "w = bs ! r - bs ! p" and "f = (x - of_int (cs ! p)) / of_int (cs ! r - cs ! p)"
    have "of_int (cs ! p) < x" using lt Suc by auto
    then have pos: "0 < x - of_int (cs ! p)" "1 \<le> cs ! r - cs ! p" using le by linarith+
    have f: "0 \<le> f" "f \<le> 1" using pos le by (auto simp: f_def field_simps)
    have w: "0 \<le> w"
      using assms(1,3) r Suc sorted_nth_mono [of bs p r] by (auto simp: bucket_grid_def w_def)
    have i: "interpolated bs cs r x = py_round 4 (bs ! p + f * w)"
      using pos by (simp add: interpolated_def Suc f_def w_def max_def)
    have "py_round 4 (bs ! p + f * w) \<le> py_round 4 (bs ! p + w)"
      using f w by (intro py_round_mono) (simp add: mult_left_le_one_le)
    moreover have "py_round 4 (bs ! p) \<le> py_round 4 (bs ! p + f * w)"
      using f w by (intro py_round_mono) simp
    ultimately show ?thesis using b [of p] b [of r] unfolding i by (simp add: Suc w_def)
  qed
  then show "interpolated bs cs r x \<le> bs ! r" and "(if r = 0 then 0 else bs ! (r - 1)) \<le> interpolated bs cs r x"
    by blast+
qed

lemma interpolated_mono:
  assumes "bucket_grid bs" and "count_column cs n" and "length cs = length bs" and "0 \<le> x" and "x \<le> y"
    and "rank_from 0 x cs = Some r" and "rank_from 0 y cs = Some l"
  shows "interpolated bs cs r x \<le> interpolated bs cs l y"
proof (cases "r = l")
  case True
  have r: "r < length cs" using rank_from_Some [OF assms(6)] by auto
  show ?thesis
  proof (cases r)
    case 0
    have "0 \<le> bs ! 0" using assms(1,3) r 0 by (auto simp: bucket_grid_def list_all_iff)
    then show ?thesis using assms(5) True 0
      by (auto simp: interpolated_def intro!: mult_left_mono divide_right_mono)
  next
    case (Suc p)
    have "bs ! p \<le> bs ! r"
      using assms(1,3) r Suc sorted_nth_mono [of bs p r] by (auto simp: bucket_grid_def)
    then show ?thesis using assms(5) True Suc
      by (auto simp: interpolated_def intro!: py_round_mono mult_right_mono divide_right_mono)
  qed
next
  case False
  with rank_mono [OF assms(6,7,5)] have l: "r < l" by simp
  have "l < length bs" using rank_from_Some [OF assms(7)] assms(3) by auto
  then have "bs ! r \<le> bs ! (l - 1)"
    using l assms(1) sorted_nth_mono [of bs r "l - 1"] by (auto simp: bucket_grid_def)
  moreover have "0 \<le> y" using assms(4,5) by linarith
  note interpolated_bounds(1) [OF assms(1-4,6)] interpolated_bounds(2) [OF assms(1-3) this assms(7)]
  ultimately show ?thesis using l by auto
qed

text \<open>
  C29. On the counts of a histogram with increasing bounds the quantile is defined, lies
  between zero and the last bound, and grows with the quantile asked for; so the percentiles
  of a summary are always in order.
\<close>

theorem quantile_ordered:
  assumes "bucket_grid bs" and "count_column cs n" and "length cs = length bs"
    and "0 \<le> q" and "q \<le> q'" and "q' \<le> 1"
  shows "\<exists>x y. quantile bs cs n q = Inr x \<and> quantile bs cs n q' = Inr y \<and> 0 \<le> x \<and> x \<le> y \<and> y \<le> last bs"
proof (cases "n = 0")
  case True
  have "bs \<noteq> []" using assms(2,3) by (auto simp: count_column_def)
  then have "0 \<le> last bs" using assms(1) by (auto simp: bucket_grid_def list_all_iff)
  with True show ?thesis by (simp add: quantile_def)
next
  case False
  have n: "0 \<le> n" using assms(2) last_in_set [of cs] by (auto simp: count_column_def list_all_iff)
  let ?x = "of_int n * q" and ?y = "of_int n * q'"
  obtain r where r: "rank_from 0 ?x cs = Some r" "quantile bs cs n q = Inr (interpolated bs cs r ?x)"
    using quantile_interpolated [OF assms(2,3) False assms(4)] assms(5,6) by (metis order_trans)
  obtain l where l: "rank_from 0 ?y cs = Some l" "l < length bs"
    "quantile bs cs n q' = Inr (interpolated bs cs l ?y)"
    using quantile_interpolated [OF assms(2,3) False _ assms(6)] assms(4,5) by (metis order_trans)
  have x: "0 \<le> ?x" "?x \<le> ?y" using n assms(4,5) by (simp_all add: mult_left_mono)
  have "0 \<le> (if r = 0 then 0 else bs ! (r - 1))"
    using assms(1,3) rank_from_Some [OF r(1)] by (auto simp: bucket_grid_def list_all_iff)
  then have "0 \<le> interpolated bs cs r ?x" using interpolated_bounds(2) [OF assms(1-3) x(1) r(1)] by linarith
  moreover have "interpolated bs cs r ?x \<le> interpolated bs cs l ?y"
    by (rule interpolated_mono [OF assms(1-3) x r(1) l(1)])
  moreover have "interpolated bs cs l ?y \<le> bs ! l"
    using interpolated_bounds(1) [OF assms(1-3) _ l(1)] x by linarith
  moreover have "bs ! l \<le> last bs"
    using l(2) assms(1) sorted_nth_mono [of bs l "length bs - 1"]
    by (cases bs rule: rev_cases) (auto simp: bucket_grid_def nth_append)
  ultimately show ?thesis using r(2) l(3) by (metis order_trans)
qed

lemma upper_bounds_grid: "bucket_grid upper_bounds"
proof -
  define ks :: "int list" where "ks = [100, 500, 1000, 2500, 5000, 10000, 25000, 50000, 100000, 300000]"
  have "py_round 4 (of_int k / 10000) = of_int k / 10000" for k
    by (simp add: py_round_def)
  moreover have "list_all (\<lambda>k. 0 \<le> k) ks" by (simp add: ks_def)
  ultimately have "list_all (\<lambda>b. 0 \<le> b \<and> py_round 4 b = b) (map (\<lambda>k. of_int k / 10000) ks)"
    by (simp add: list_all_iff)
  moreover have "map (\<lambda>k. of_int k / 10000) ks = upper_bounds"
    by (simp add: upper_bounds_def ks_def)
  ultimately have "list_all (\<lambda>b. 0 \<le> b \<and> py_round 4 b = b) upper_bounds" by simp
  then show ?thesis by (simp add: bucket_grid_def upper_bounds_def)
qed

theorem quantile_ordered_witness:
  "\<exists>x y. quantile upper_bounds [0, 2, 3, 4, 5, 6, 7, 8, 9, 10] 10 (50/100) = Inr x \<and>
     quantile upper_bounds [0, 2, 3, 4, 5, 6, 7, 8, 9, 10] 10 (95/100) = Inr y \<and> x \<le> y \<and> y \<le> 30"
  using quantile_ordered [OF upper_bounds_grid, of "[0, 2, 3, 4, 5, 6, 7, 8, 9, 10]" 10 "50/100" "95/100"]
  by (auto simp: count_column_def upper_bounds_def)

section \<open>The buckets are summed twice\<close>

text \<open>
  The samples the client exports for a histogram after \<open>n\<close> observations of at most ten
  milliseconds: the value of a bucket is the number of observations up to its bound.
\<close>

definition bound_texts :: "string list" where
  "bound_texts = [''0.01'', ''0.05'', ''0.1'', ''0.25'', ''0.5'', ''1.0'', ''2.5'', ''5.0'', ''10.0'', ''30.0'', ''+Inf'']"

definition fast_family :: "string \<Rightarrow> string \<Rightarrow> nat \<Rightarrow> real \<Rightarrow> family" where
  "fast_family provider op n secs =
     \<lparr>fa_name = ''provider_request_duration_seconds'',
      fa_samples = map (\<lambda>le. \<lparr>sm_name = ''provider_request_duration_seconds_bucket'',
          sm_labels = [(''provider'', provider), (''operation'', op), (''le'', le)], sm_value = of_nat n\<rparr>) bound_texts @
        [\<lparr>sm_name = ''provider_request_duration_seconds_count'',
          sm_labels = [(''provider'', provider), (''operation'', op)], sm_value = of_nat n\<rparr>,
         \<lparr>sm_name = ''provider_request_duration_seconds_sum'',
          sm_labels = [(''provider'', provider), (''operation'', op)], sm_value = secs\<rparr>]\<rparr>"

lemma group_bucket_samples:
  assumes "list_all2 (\<lambda>le b. le_value le = Inr b) les bs"
  shows "group_samples (map (\<lambda>le. \<lparr>sm_name = nm,
      sm_labels = [(''provider'', provider), (''operation'', op), (''le'', le)], sm_value = of_nat n\<rparr>) les @ rest) g =
    group_samples rest (if bs = [] then g else g\<lparr>gr_buckets :=
      dict_set (provider, op)
        (fold (\<lambda>b. dict_set b (int n)) bs (dict_get_or (gr_buckets g) (provider, op) [])) (gr_buckets g)\<rparr>)"
  using assms
proof (induction les bs arbitrary: g rule: list_all2_induct)
  case (Cons le les b bs)
  let ?labels = "[(''provider'', provider), (''operation'', op), (''le'', le)]"
  have labels: "dict_get ?labels ''provider'' = Some provider" "dict_get ?labels ''operation'' = Some op"
    "dict_get ?labels ''le'' = Some le"
    by (simp_all add: dict_get_def)
  have twice: "dict_set k v (dict_set k v' d) = dict_set k v d" for k :: label_key and v v' d
    by (simp add: dict_set_def)
  show ?case
    using Cons by (simp add: group_sample_def Let_def dict_get_or_def labels py_int_def twice)
qed simp

lemma bound_bounds: "list_all2 (\<lambda>le b. le_value le = Inr b) bound_texts (map Finite upper_bounds @ [Infinite])"
  by (simp add: bound_texts_def upper_bounds_def le_value_def is_number_def is_digit_def digits_value_def)

lemma fold_same_get:
  "dict_get (fold (\<lambda>b. dict_set b v) bs d) k = (if k \<in> set bs then Some v else dict_get d k)"
  by (induction bs arbitrary: d) auto

definition fast_column :: "nat \<Rightarrow> int list" where
  "fast_column n = map (\<lambda>k. k * int n) [1, 2, 3, 4, 5, 6, 7, 8, 9, 10]"

lemma fast_counts:
  "cumulative_counts (fold (\<lambda>b. dict_set b (int n)) (map Finite upper_bounds @ [Infinite]) []) = fast_column n"
proof -
  have "map (\<lambda>ub. dict_get_or (fold (\<lambda>b. dict_set b (int n)) (map Finite upper_bounds @ [Infinite]) []) (Finite ub) 0)
      upper_bounds = map (\<lambda>_. int n) upper_bounds"
    by (simp add: dict_get_or_def fold_same_get image_iff)
  then show ?thesis by (simp add: cumulative_counts_def upper_bounds_def fast_column_def)
qed

lemma last_fast_column: "last (fast_column n) = 10 * int n" "fast_column n \<noteq> []"
  by (simp_all add: fast_column_def)

lemma fast_quantile:
  assumes "1 \<le> n" and "rank_from 0 (of_int (10 * int n) * q) (fast_column n) = Some (Suc r)"
    and "Suc r < 10"
  shows "quantile upper_bounds (fast_column n) (10 * int n) q = Inr (py_round 4 (upper_bounds ! r +
    (10 * q - of_nat (Suc r)) * (upper_bounds ! Suc r - upper_bounds ! r)))"
proof -
  have n: "0 < real n" "1 \<le> int n" using assms(1) by simp_all
  have col: "fast_column n ! k = int (Suc k) * int n" if "k < 10" for k
    using that by (auto simp: fast_column_def less_Suc_eq numeral_eq_Suc)
  have frac: "(of_int (10 * int n) * q - of_int (int (Suc r) * int n)) / of_int (int n) = 10 * q - of_nat (Suc r)"
    using n by (simp add: field_simps)
  have step: "max (int (Suc (Suc r)) * int n - int (Suc r) * int n) 1 = int n"
    using n by (simp add: algebra_simps)
  have cols: "fast_column n ! (Suc r - 1) = int (Suc r) * int n" "fast_column n ! Suc r = int (Suc (Suc r)) * int n"
    using assms(3) by (simp_all only: diff_Suc_1 col)
  have "length upper_bounds = 10" by (simp add: upper_bounds_def)
  then have "quantile upper_bounds (fast_column n) (10 * int n) q = Inr (py_round 4 (upper_bounds ! (Suc r - 1) +
      (of_int (10 * int n) * q - of_int (int (Suc r) * int n)) / of_int (int n) *
      (upper_bounds ! Suc r - upper_bounds ! (Suc r - 1))))"
    unfolding quantile_def Let_def assms(2) option.case cols step using assms(3) n by simp
  then show ?thesis unfolding frac by simp
qed

lemma fast_ranks:
  assumes "1 \<le> n"
  shows "rank_from 0 (of_int (10 * int n) * (50/100)) (fast_column n) = Some (Suc 3)"
    and "rank_from 0 (of_int (10 * int n) * (95/100)) (fast_column n) = Some (Suc 8)"
    and "rank_from 0 (of_int (10 * int n) * (99/100)) (fast_column n) = Some (Suc 8)"
  using assms by (simp_all add: fast_column_def)

lemma fast_quantiles:
  assumes "1 \<le> n"
  shows "quantile upper_bounds (fast_column n) (10 * int n) (50/100) = Inr (1/2)"
    and "quantile upper_bounds (fast_column n) (10 * int n) (95/100) = Inr 20"
    and "quantile upper_bounds (fast_column n) (10 * int n) (99/100) = Inr 28"
proof -
  have round: "py_round 4 (1/2) = 1/2" "py_round 4 20 = 20" "py_round 4 28 = 28"
    using round_half_even_int [of 5000] round_half_even_int [of 200000] round_half_even_int [of 280000]
    by (simp_all add: py_round_def)
  note at = fast_quantile [OF assms]
  show "quantile upper_bounds (fast_column n) (10 * int n) (50/100) = Inr (1/2)"
    by (subst at [OF fast_ranks(1) [OF assms]]) (simp_all add: upper_bounds_def round)
  show "quantile upper_bounds (fast_column n) (10 * int n) (95/100) = Inr 20"
    by (subst at [OF fast_ranks(2) [OF assms]]) (simp_all add: upper_bounds_def round)
  show "quantile upper_bounds (fast_column n) (10 * int n) (99/100) = Inr 28"
    by (subst at [OF fast_ranks(3) [OF assms]]) (simp_all add: upper_bounds_def round)
qed

text \<open>
  The code adds the values of the buckets up although they are cumulative already. However
  many requests a provider has answered, all of them within ten milliseconds, the summary
  shows a median of half a second, a 95th percentile of 20 and a 99th of 28 seconds.
\<close>

theorem fast_requests_look_slow:
  assumes "1 \<le> n"
  shows "provider_latency_quantiles [fast_family provider op n secs] =
    Inr [(provider @ '':'' @ op, \<lparr>la_p50 = 1/2, la_p95 = 20, la_p99 = 28, la_count = int n,
            la_sum = py_round 4 secs\<rparr>)]"
proof -
  have labels: "dict_get [(''provider'', provider), (''operation'', op)] ''provider'' = Some provider"
    "dict_get [(''provider'', provider), (''operation'', op)] ''operation'' = Some op"
    "dict_get [(''provider'', provider), (''operation'', op)] ''le'' = None"
    by (simp_all add: dict_get_def)
  define B where "B = fold (\<lambda>b. dict_set b (int n)) (map Finite upper_bounds @ [Infinite]) []"
  define G where "G = \<lparr>gr_buckets = [((provider, op), B)], gr_sums = [((provider, op), secs)],
    gr_counts = [((provider, op), int n)]\<rparr>"
  have "group_samples (fa_samples (fast_family provider op n secs)) \<lparr>gr_buckets = [], gr_sums = [], gr_counts = []\<rparr> = Inr G"
    unfolding fast_family_def family.select_convs group_bucket_samples [OF bound_bounds]
    by (simp add: group_sample_def Let_def dict_get_or_def labels suffix_def py_int_def G_def B_def dict_set_def)
  moreover have "summarize G (provider, op) B = Inr \<lparr>la_p50 = 1/2, la_p95 = 20, la_p99 = 28, la_count = int n,
      la_sum = py_round 4 secs\<rparr>"
    unfolding summarize_def Let_def B_def fast_counts
    using fast_quantiles [OF assms] last_fast_column [of n]
    by (simp add: G_def dict_get_or_def dict_get_def)
  ultimately show ?thesis
    by (simp add: provider_latency_quantiles_def fast_family_def G_def dict_set_def)
qed

theorem fast_requests_look_slow_witness:
  "provider_latency_quantiles [fast_family ''groq'' ''chat'' 1 0] =
     Inr [(''groq:chat'', \<lparr>la_p50 = 1/2, la_p95 = 20, la_p99 = 28, la_count = 1, la_sum = 0\<rparr>)]"
  using fast_requests_look_slow [of 1 "''groq''" "''chat''" 0] by simp

text \<open>
  The Prometheus client gives a counter family the name of the counter without its suffix
  "_total"; the code compares with the full name. So the summary never shows an error or a
  rate limit hit.
\<close>

theorem counters_never_found:
  assumes "\<forall>f\<in>set families. \<not> suffix ''_total'' (fa_name f)"
  shows "error_counts_by_provider families = [] \<and> rate_limits_by_provider families = []"
proof -
  have total: "suffix ''_total'' ''provider_errors_total''" "suffix ''_total'' ''rate_limit_hits_total''"
    by (simp_all add: suffix_def)
  have "fa_name f \<noteq> ''provider_errors_total'' \<and> fa_name f \<noteq> ''rate_limit_hits_total''" if "f \<in> set families" for f
    using that assms total by metis
  then show ?thesis
    unfolding error_counts_by_provider_def rate_limits_by_provider_def
    by (induction families) auto
qed

theorem counters_never_found_witness:
  "error_counts_by_provider [\<lparr>fa_name = ''provider_errors'', fa_samples = [\<lparr>sm_name = ''provider_errors_total'',
     sm_labels = [(''provider'', ''groq''), (''error_type'', ''timeout'')], sm_value = 3\<rparr>]\<rparr>] = []"
  using counters_never_found [of "[\<lparr>fa_name = ''provider_errors'', fa_samples = [\<lparr>sm_name = ''provider_errors_total'',
     sm_labels = [(''provider'', ''groq''), (''error_type'', ''timeout'')], sm_value = 3\<rparr>]\<rparr>]"]
  by (simp add: suffix_def)

section \<open>The middleware\<close>

text \<open>
  A request that ends in an exception leaves no trace: it is in no counter and in no
  histogram, and its exception is replaced by the UnboundLocalError of the unset variable. A
  request that is answered is counted once, under its normalised path, and either way the
  gauge of requests in flight returns to what it was.
\<close>

theorem failed_requests_uncounted:
  assumes "path \<notin> set METRICS_SKIP_PATHS"
    and "call_next (s\<lparr>mc_in_flight := dict_set meth (dict_get_or (mc_in_flight s) meth 0 + 1) (mc_in_flight s)\<rparr>) = (r, s1)"
    and "metrics_dispatch path meth secs call_next s = (r', s')"
  shows "(case r of
      Inl e \<Rightarrow> r' = Inl UnboundLocalError \<and> mc_requests s' = mc_requests s1 \<and> mc_durations s' = mc_durations s1
    | Inr status \<Rightarrow> r' = Inr status \<and>
        mc_requests s' = mc_requests s1 @ [(meth, normalize_path path, status)] \<and>
        mc_durations s' = mc_durations s1 @ [(meth, normalize_path path, secs)]) \<and>
    dict_get_or (mc_in_flight s') meth 0 = dict_get_or (mc_in_flight s1) meth 0 - 1"
  using assms by (auto simp: metrics_dispatch_def Let_def dict_get_or_def split: sum.split)

theorem failed_requests_uncounted_witness:
  "metrics_dispatch ''/api/v1/agents'' ''GET'' 1 (\<lambda>s. (Inl OtherError, s))
     \<lparr>mc_in_flight = [], mc_requests = [], mc_durations = []\<rparr> =
   (Inl UnboundLocalError, \<lparr>mc_in_flight = [(''GET'', 0)], mc_requests = [], mc_durations = []\<rparr>)"
proof -
  obtain r' s' where d: "metrics_dispatch ''/api/v1/agents'' ''GET'' 1 (\<lambda>s. (Inl OtherError, s))
     \<lparr>mc_in_flight = [], mc_requests = [], mc_durations = []\<rparr> = (r', s')" by fastforce
  have "''/api/v1/agents'' \<notin> set METRICS_SKIP_PATHS" by (simp add: METRICS_SKIP_PATHS_def)
  from failed_requests_uncounted [OF this refl d] have "r' = Inl UnboundLocalError" "mc_requests s' = []"
    "mc_durations s' = []"
    by (simp_all add: sum.case)
  moreover have "mc_in_flight s' = [(''GET'', 0)]"
    using d by (auto simp: metrics_dispatch_def METRICS_SKIP_PATHS_def Let_def dict_get_or_def dict_get_def dict_set_def)
  ultimately show ?thesis unfolding d by simp
qed

section \<open>Endpoint labels\<close>

lemma py_split_join:
  "ws \<noteq> [] \<Longrightarrow> \<forall>w\<in>set ws. c \<notin> set w \<Longrightarrow> py_split c (py_join [c] ws) = ws"
proof (induction "[c]" ws rule: py_join.induct)
  case (3 x y ys)
  have plain: "py_split c w = [w]" if "c \<notin> set w" for w
    using that by (induction w) auto
  have append: "py_split c (w @ c # v) = w # py_split c v" if "c \<notin> set w" for w v
    using that by (induction w) (auto split: list.split)
  from 3 show ?case by (simp add: append)
next
  case (2 x)
  have "py_split c w = [w]" if "c \<notin> set w" for w
    using that by (induction w) auto
  with 2 show ?case by simp
qed simp

lemma py_split_chars: "w \<in> set (py_split c s) \<Longrightarrow> c \<notin> set w"
  by (induction c s arbitrary: w rule: py_split.induct) (auto split: if_splits list.splits)

lemma placeholders: "\<not> is_uuid ''{uuid}''" "\<not> is_number ''{uuid}''" "\<not> is_uuid ''{id}''" "\<not> is_number ''{id}''"
  by (simp_all add: is_uuid_def is_number_def is_digit_def Let_def)

lemma normal_segment_idem [simp]: "normal_segment (normal_segment w) = normal_segment w"
  using placeholders by (simp add: normal_segment_def)

lemma normal_segment_empty [simp]: "normal_segment w = [] \<longleftrightarrow> w = []"
  by (auto simp: normal_segment_def is_uuid_def is_number_def Let_def)

lemma normal_segment_slash: "CHR ''/'' \<notin> set w \<Longrightarrow> CHR ''/'' \<notin> set (normal_segment w)"
  by (simp add: normal_segment_def)


text \<open>Texts without a slash at either edge; the joined segments are one when the outer segments are not empty.\<close>

definition no_edge_slash :: "string \<Rightarrow> bool" where
  "no_edge_slash s \<longleftrightarrow> s = [] \<or> hd s \<noteq> CHR ''/'' \<and> last s \<noteq> CHR ''/''"

lemma slash_strip_no_edge: "no_edge_slash (slash_strip s)"
proof -
  let ?P = "\<lambda>c. c = CHR ''/''"
  define t where "t = dropWhile ?P s"
  have t: "t = [] \<or> hd t \<noteq> CHR ''/''" using hd_dropWhile [of ?P s] by (auto simp: t_def)
  have eq: "slash_strip s = rev (dropWhile ?P (rev t))" by (simp add: slash_strip_def t_def)
  obtain zs where zs: "t = slash_strip s @ zs"
    using suffix_dropWhile [of ?P "rev t"] by (auto simp: eq suffix_to_prefix prefix_def)
  moreover have "slash_strip s = [] \<or> last (slash_strip s) \<noteq> CHR ''/''"
    using hd_dropWhile [of ?P "rev t"] by (auto simp: eq last_rev)
  ultimately show ?thesis using t zs unfolding no_edge_slash_def
    by (cases "slash_strip s") auto
qed

lemma slash_strip_Cons: "no_edge_slash s \<Longrightarrow> slash_strip (CHR ''/'' # s) = s"
proof -
  assume "no_edge_slash s"
  then consider "s = []" | "s \<noteq> []" "hd s \<noteq> CHR ''/''" "last s \<noteq> CHR ''/''"
    by (auto simp: no_edge_slash_def)
  then show ?thesis
  proof cases
    case 2
    then have "dropWhile (\<lambda>c. c = CHR ''/'') s = s" by (cases s) auto
    moreover have "dropWhile (\<lambda>c. c = CHR ''/'') (rev s) = rev s"
      using 2 by (cases s rule: rev_cases) auto
    ultimately show ?thesis by (simp add: slash_strip_def)
  qed (simp add: slash_strip_def)
qed

lemma no_edge_join:
  assumes "ws \<noteq> []" and "\<forall>w\<in>set ws. CHR ''/'' \<notin> set w"
  shows "no_edge_slash (py_join ''/'' ws) \<longleftrightarrow> ws = [[]] \<or> hd ws \<noteq> [] \<and> last ws \<noteq> []"
proof (cases "tl ws = []")
  case True
  with assms obtain w where w: "ws = [w]" "CHR ''/'' \<notin> set w" by (cases ws) auto
  have "w \<noteq> [] \<Longrightarrow> hd w \<noteq> CHR ''/'' \<and> last w \<noteq> CHR ''/''"
    using w(2) by (metis hd_in_set last_in_set)
  then show ?thesis by (auto simp: no_edge_slash_def w(1))
next
  case False
  then obtain a b ys where ws: "ws = a # b # ys" by (cases ws; cases "tl ws") auto
  have ends: "w \<noteq> [] \<Longrightarrow> hd w \<noteq> CHR ''/'' \<and> last w \<noteq> CHR ''/''" if "w \<in> set ws" for w
    using that assms(2) by (metis hd_in_set last_in_set)
  have first: "hd (py_join ''/'' ws) = (if hd ws = [] then CHR ''/'' else hd (hd ws))" "py_join ''/'' ws \<noteq> []"
    by (simp_all add: ws)
  have lst: "last (py_join ''/'' (v # vs)) = (if last (v # vs) = [] then CHR ''/'' else last (last (v # vs)))"
    if "vs \<noteq> []" for v :: string and vs
    using that
  proof (induction vs arbitrary: v)
    case (Cons u us)
    then show ?case by (cases us) auto
  qed simp
  moreover have "last (py_join ''/'' ws) = (if last ws = [] then CHR ''/'' else last (last ws))"
    using lst [of "b # ys" a] by (simp only: ws) simp
  moreover have "hd ws \<in> set ws" "last ws \<in> set ws" "ws \<noteq> [[]]" by (auto simp: ws)
  ultimately show ?thesis
    using first ends [of "hd ws"] ends [of "last ws"] by (simp add: no_edge_slash_def)
qed

lemma normalize_segments:
  defines "segs p \<equiv> py_split (CHR ''/'') (slash_strip p)"
  shows "segs (normalize_path p) = map normal_segment (segs p)"
proof -
  let ?ws = "segs p"
  have plain: "\<forall>w\<in>set ?ws. CHR ''/'' \<notin> set w" "?ws \<noteq> []"
    unfolding segs_def by (auto dest: py_split_chars)
  then have plain': "\<forall>w\<in>set (map normal_segment ?ws). CHR ''/'' \<notin> set w" "map normal_segment ?ws \<noteq> []"
    using normal_segment_slash by auto
  have "no_edge_slash (py_join ''/'' ?ws)"
    unfolding segs_def py_join_split by (rule slash_strip_no_edge)
  then have "no_edge_slash (py_join ''/'' (map normal_segment ?ws))"
    unfolding no_edge_join [OF plain(2) plain(1)] no_edge_join [OF plain'(2) plain'(1)]
    using plain(2) by (auto simp: hd_map last_map)
  then show ?thesis
    using py_split_join [OF plain'(2) plain'(1)]
    by (simp add: segs_def normalize_path_def slash_strip_Cons)
qed

text \<open>
  The label of a path is a fixed point: normalising it again changes nothing, none of its
  segments is a UUID or a number, and it has as many segments as the path.
\<close>

theorem normalized_label:
  "normalize_path (normalize_path p) = normalize_path p \<and>
   list_all (\<lambda>w. \<not> is_uuid w \<and> \<not> is_number w) (py_split (CHR ''/'') (slash_strip (normalize_path p))) \<and>
   length (py_split (CHR ''/'') (slash_strip (normalize_path p))) = length (py_split (CHR ''/'') (slash_strip p))"
proof -
  have "\<not> is_uuid (normal_segment w) \<and> \<not> is_number (normal_segment w)" for w
    using placeholders by (simp add: normal_segment_def)
  then show ?thesis
    using normalize_segments [of p]
    by (simp add: normalize_path_def [of "normalize_path p"] list_all_iff comp_def)
       (simp add: normalize_path_def)
qed

section \<open>The history of health checks\<close>

text \<open>A check as it is made: the outcome and duration of the ping, the total time and the clock.\<close>

type_synonym probe = "bool \<times> real \<times> real \<times> string \<times> real"

definition probe_entry :: "probe \<Rightarrow> health_check" where
  "probe_entry p = (case p of (ok, _, elapsed, now_text, _) \<Rightarrow>
     \<lparr>hc_timestamp = now_text, hc_overall = ok, hc_checks = [(''database'', ok)],
      hc_duration = py_round 1 elapsed\<rparr>)"

definition run_probe :: "health_check list \<Rightarrow> probe \<Rightarrow> health_check list" where
  "run_probe hist p = (case p of (ok, ms, elapsed, now_text, now_secs) \<Rightarrow>
     fst (snd (health_check_endpoint ok ms elapsed now_text now_secs hist)))"

lemma run_probe_eq: "run_probe hist p = drop (length hist - 99) hist @ [probe_entry p]"
  by (simp add: run_probe_def health_check_endpoint_def check_database_def record_health_check_def
      probe_entry_def Let_def split: prod.split)

lemma probes_history: "foldl run_probe [] ps = drop (length ps - 100) (map probe_entry ps)"
proof (induction ps rule: rev_induct)
  case (snoc p ps)
  let ?m = "map probe_entry ps"
  have "drop (length (drop (length ps - 100) ?m) - 99) (drop (length ps - 100) ?m) = drop (length ps - 99) ?m"
    by (auto simp: min_def intro: arg_cong2 [where f = drop])
  moreover have "foldl run_probe [] (ps @ [p]) = drop (length (foldl run_probe [] ps) - 99) (foldl run_probe [] ps) @ [probe_entry p]"
    by (simp only: foldl_append foldl_Cons foldl_Nil run_probe_eq [of "foldl run_probe [] ps"])
  ultimately show ?case by (simp only: snoc) simp
qed simp

text \<open>
  After any number of health checks the history endpoint returns the last \<open>limit\<close> of them, or
  all when there were fewer, oldest first, each with the outcome of its ping.
\<close>

theorem health_history_last:
  assumes "1 \<le> limit" and "limit \<le> 100"
  shows "health_history limit (foldl run_probe [] ps) =
    Inr (drop (length ps - nat limit) (map probe_entry ps))"
proof -
  have "length ps - 100 + (length ps - (length ps - 100) - nat limit) = length ps - nat limit"
    using assms by linarith
  then show ?thesis
    using assms by (simp add: health_history_def get_health_history_def probes_history add.commute)
qed

theorem health_history_last_witness:
  "health_history 1 (foldl run_probe [] [(True, 1, 1, ''a'', 0), (False, 1, 1, ''b'', 0)]) =
     Inr [\<lparr>hc_timestamp = ''b'', hc_overall = False, hc_checks = [(''database'', False)], hc_duration = 1\<rparr>]"
  using health_history_last [of 1 "[(True, 1, 1, ''a'', 0), (False, 1, 1, ''b'', 0)]"]
  by (simp add: probe_entry_def)

end
