(* ===== verification/Events.thy ===== *)
theory Events
  imports Prelude
begin

text \<open>
  The activity feed of the backend: \<open>EventBus\<close>, the in-memory publish/subscribe bus, and
  \<open>EventService\<close>, which records an event in the database and publishes it
  (backend/app/services/event_service.py).

  A queue is an object that several subscriber lists may share, so the bus holds a heap of
  queues (\<open>bus_queues\<close>) and the subscriber lists hold references to it. The rows of the
  \<open>activity_events\<close> table are a list in the order of insertion. A flush fills the column
  defaults: the n-th flush of an event takes its identifier from \<open>es_uuid\<close> and its time
  stamp from \<open>es_clock\<close>. A flush that the columns of the table refuse raises, before anything is
  published.
\<close>

section \<open>Data\<close>

record activity_event =
  ev_id :: uuid
  ev_company :: uuid
  ev_type :: string
  ev_source :: string
  ev_source_id :: "string option"
  ev_title :: string
  ev_description :: "string option"
  ev_meta :: "(string, json) dict"
  ev_created :: int

text \<open>An \<open>asyncio.Queue\<close>; a \<open>maxsize\<close> of 0 is no bound.\<close>

record aqueue =
  q_max :: nat
  q_items :: "activity_event list"

record event_bus =
  bus_subs :: "(string, nat list) dict"
  bus_queues :: "(nat, aqueue) dict"

definition TASK_TRANSITION :: string where "TASK_TRANSITION = ''task_transition''"
definition AGENT_ACTION :: string where "AGENT_ACTION = ''agent_action''"
definition ERROR_EVENT :: string where "ERROR_EVENT = ''error''"
definition WORKFLOW_EVENT :: string where "WORKFLOW_EVENT = ''workflow_event''"

definition EVENT_TYPES :: "string list" where
  "EVENT_TYPES = [TASK_TRANSITION, AGENT_ACTION, ERROR_EVENT, WORKFLOW_EVENT]"

section \<open>The bus\<close>

text \<open>\<open>put_nowait\<close>: \<open>None\<close> is the exception \<open>QueueFull\<close>.\<close>

definition put_nowait :: "activity_event \<Rightarrow> aqueue \<Rightarrow> aqueue option" where
  "put_nowait e a =
     (if q_max a \<noteq> 0 \<and> q_max a \<le> length (q_items a) then None
      else Some (a\<lparr>q_items := q_items a @ [e]\<rparr>))"

definition subscribe :: "string \<Rightarrow> nat \<Rightarrow> event_bus \<Rightarrow> event_bus" where
  "subscribe company q b =
     b\<lparr>bus_subs := dict_set company (dict_get_or (bus_subs b) company [] @ [q]) (bus_subs b)\<rparr>"

definition unsubscribe :: "string \<Rightarrow> nat \<Rightarrow> event_bus \<Rightarrow> event_bus" where
  "unsubscribe company q b =
     (let queues = dict_get_or (bus_subs b) company []
      in if q \<in> set queues
         then b\<lparr>bus_subs := dict_set company (remove1 q queues) (bus_subs b)\<rparr> else b)"

text \<open>One iteration of a loop of \<open>publish\<close>: a full queue drops the event.\<close>

definition offer :: "activity_event \<Rightarrow> event_bus \<Rightarrow> nat \<Rightarrow> event_bus" where
  "offer e b q =
     (case dict_get (bus_queues b) q of
        None \<Rightarrow> b
      | Some a \<Rightarrow>
          (case put_nowait e a of
             None \<Rightarrow> b
           | Some a' \<Rightarrow> b\<lparr>bus_queues := dict_set q a' (bus_queues b)\<rparr>))"

definition publish :: "activity_event \<Rightarrow> event_bus \<Rightarrow> event_bus" where
  "publish e b =
     (let b1 = foldl (offer e) b (dict_get_or (bus_subs b) (ev_company e) [])
      in foldl (offer e) b1 (dict_get_or (bus_subs b1) ''*'' []))"

text \<open>A subscriber takes the oldest event of its queue (\<open>queue.get\<close>).\<close>

definition take_event :: "nat \<Rightarrow> event_bus \<Rightarrow> event_bus" where
  "take_event q b =
     (case dict_get (bus_queues b) q of
        None \<Rightarrow> b
      | Some a \<Rightarrow> b\<lparr>bus_queues := dict_set q (a\<lparr>q_items := tl (q_items a)\<rparr>) (bus_queues b)\<rparr>)"

subsection \<open>What a publication does to each queue\<close>

lemma offer_subs [simp]: "bus_subs (offer e b q) = bus_subs b"
  by (simp add: offer_def split: option.split)

lemma offers_subs [simp]: "bus_subs (foldl (offer e) b qs) = bus_subs b"
  by (induction qs arbitrary: b) simp_all

text \<open>How many copies of an event a queue still takes.\<close>

definition room :: "aqueue \<Rightarrow> nat \<Rightarrow> nat" where
  "room a n = (if q_max a = 0 then n else min n (q_max a - length (q_items a)))"

definition add_copies :: "activity_event \<Rightarrow> nat \<Rightarrow> aqueue \<Rightarrow> aqueue" where
  "add_copies e n a = a\<lparr>q_items := q_items a @ replicate (room a n) e\<rparr>"

lemma add_copies_0 [simp]: "add_copies e 0 a = a"
  by (simp add: add_copies_def room_def)

lemma add_copies_add: "add_copies e m (add_copies e n a) = add_copies e (n + m) a"
  by (auto simp: add_copies_def room_def min_def replicate_add [symmetric] intro!: arg_cong2 [where f = replicate])

lemma offer_get:
  "dict_get (bus_queues (offer e b q)) q' =
     (if q' = q then map_option (add_copies e 1) (dict_get (bus_queues b) q)
      else dict_get (bus_queues b) q')"
  by (auto simp: offer_def put_nowait_def add_copies_def room_def split: option.splits)

lemma offers_get:
  "dict_get (bus_queues (foldl (offer e) b qs)) q =
     map_option (add_copies e (count_list qs q)) (dict_get (bus_queues b) q)"
proof (induction qs arbitrary: b)
  case Nil
  show ?case by (cases "dict_get (bus_queues b) q") simp_all
next
  case (Cons x qs)
  show ?case
    by (simp add: Cons.IH offer_get option.map_comp comp_def add_copies_add)
qed

definition subscriptions :: "event_bus \<Rightarrow> string \<Rightarrow> nat \<Rightarrow> nat" where
  "subscriptions b company q = count_list (dict_get_or (bus_subs b) company []) q"

lemma publish_subs [simp]: "bus_subs (publish e b) = bus_subs b"
  by (simp add: publish_def Let_def)

lemma publish_get:
  "dict_get (bus_queues (publish e b)) q =
     map_option (add_copies e (subscriptions b (ev_company e) q + subscriptions b ''*'' q))
       (dict_get (bus_queues b) q)"
  by (simp add: publish_def Let_def offers_get subscriptions_def option.map_comp comp_def
      add_copies_add)

subsection \<open>The operations keep the queues within their bounds\<close>

definition queue_ok :: "aqueue \<Rightarrow> bool" where
  "queue_ok a \<longleftrightarrow> q_max a = 0 \<or> length (q_items a) \<le> q_max a"

definition bus_ok :: "event_bus \<Rightarrow> bool" where
  "bus_ok b \<longleftrightarrow>
     (\<forall>q a. dict_get (bus_queues b) q = Some a \<longrightarrow> queue_ok a) \<and>
     (\<forall>c q. q \<in> set (dict_get_or (bus_subs b) c []) \<longrightarrow> dict_get (bus_queues b) q \<noteq> None)"

datatype bus_op =
    NewQueue nat nat
  | Subscribe string nat
  | Unsubscribe string nat
  | Publish activity_event
  | TakeEvent nat

text \<open>
  A run of the bus. A queue is created with a fresh reference, and only an existing queue
  is subscribed.
\<close>

fun bus_exec :: "event_bus \<Rightarrow> bus_op \<Rightarrow> event_bus" where
  "bus_exec b (NewQueue q cap) =
     (if dict_get (bus_queues b) q = None
      then b\<lparr>bus_queues := dict_set q \<lparr>q_max = cap, q_items = []\<rparr> (bus_queues b)\<rparr> else b)"
| "bus_exec b (Subscribe c q) =
     (if dict_get (bus_queues b) q = None then b else subscribe c q b)"
| "bus_exec b (Unsubscribe c q) = unsubscribe c q b"
| "bus_exec b (Publish e) = publish e b"
| "bus_exec b (TakeEvent q) = take_event q b"

lemma queue_ok_add_copies: "queue_ok a \<Longrightarrow> queue_ok (add_copies e n a)"
  by (auto simp: queue_ok_def add_copies_def room_def)

lemma dict_get_or_set [simp]:
  "dict_get_or (dict_set k v d) k' x = (if k' = k then v else dict_get_or d k' x)"
  by (simp add: dict_get_or_def)

lemma bus_okI:
  assumes "\<And>q a. dict_get (bus_queues b) q = Some a \<Longrightarrow> queue_ok a"
    and "\<And>c q. q \<in> set (dict_get_or (bus_subs b) c []) \<Longrightarrow> \<exists>a. dict_get (bus_queues b) q = Some a"
  shows "bus_ok b"
  using assms by (auto simp: bus_ok_def)

lemma bus_ok_queue: "bus_ok b \<Longrightarrow> dict_get (bus_queues b) q = Some a \<Longrightarrow> queue_ok a"
  by (simp add: bus_ok_def)

lemma bus_ok_sub:
  "bus_ok b \<Longrightarrow> q \<in> set (dict_get_or (bus_subs b) c []) \<Longrightarrow>
     \<exists>a. dict_get (bus_queues b) q = Some a"
  by (auto simp: bus_ok_def)

lemma publish_ok: "bus_ok b \<Longrightarrow> bus_ok (publish e b)"
  by (rule bus_okI) (auto simp: publish_get queue_ok_add_copies dest: bus_ok_queue bus_ok_sub)

lemma take_event_ok:
  assumes "bus_ok b"
  shows "bus_ok (take_event q b)"
proof (cases "dict_get (bus_queues b) q")
  case None
  with assms show ?thesis by (simp add: take_event_def)
next
  case (Some a)
  with bus_ok_queue [OF assms Some] show ?thesis
    by (intro bus_okI)
      (auto simp: take_event_def queue_ok_def split: if_splits
        dest: bus_ok_queue [OF assms] bus_ok_sub [OF assms])
qed

lemma subscribe_ok:
  assumes "bus_ok b" and "dict_get (bus_queues b) q = Some a"
  shows "bus_ok (subscribe c q b)"
  using assms(2)
  by (intro bus_okI)
    (auto simp: subscribe_def split: if_splits
      dest: bus_ok_queue [OF assms(1)] bus_ok_sub [OF assms(1)])

lemma unsubscribe_ok:
  assumes "bus_ok b"
  shows "bus_ok (unsubscribe c q b)"
  by (intro bus_okI)
    (auto simp: unsubscribe_def Let_def split: if_splits
      dest: bus_ok_queue [OF assms] bus_ok_sub [OF assms] notin_set_remove1
        set_remove1_subset [THEN subsetD])

lemma new_queue_ok:
  assumes "bus_ok b"
  shows "bus_ok (b\<lparr>bus_queues := dict_set q \<lparr>q_max = cap, q_items = []\<rparr> (bus_queues b)\<rparr>)"
  by (intro bus_okI)
    (auto simp: queue_ok_def split: if_splits dest: bus_ok_queue [OF assms] bus_ok_sub [OF assms])

lemma bus_exec_ok: "bus_ok b \<Longrightarrow> bus_ok (bus_exec b oper)"
  by (cases oper) (auto simp: publish_ok take_event_ok subscribe_ok unsubscribe_ok new_queue_ok)

interpretation bus: op_system bus_exec "\<lambda>_. True" bus_ok
  by unfold_locales (simp add: bus_exec_ok)

definition empty_bus :: event_bus where
  "empty_bus = \<lparr>bus_subs = [], bus_queues = []\<rparr>"

lemma empty_bus_ok: "bus_ok empty_bus"
  by (simp add: bus_ok_def empty_bus_def dict_get_or_def)

lemma bus_run_ok: "bus_ok (foldl bus_exec empty_bus ops)"
  by (rule bus.run_inv [OF empty_bus_ok]) (simp add: list_all_iff)

text \<open>
  C19. After any run of the bus from a bus without queues, every queue holds at most
  \<open>maxsize\<close> events, and a publication appends to it as many copies of the event as the
  queue is subscribed to the event's company or to the wildcard, up to that bound. It
  changes no other queue, no bound and no subscription.
\<close>

theorem publish_delivery:
  assumes "b = foldl bus_exec empty_bus ops" and "dict_get (bus_queues b) q = Some a"
  shows "(q_max a = 0 \<or> length (q_items a) \<le> q_max a) \<and>
    bus_subs (publish e b) = bus_subs b \<and>
    (let n = subscriptions b (ev_company e) q + subscriptions b ''*'' q;
         k = (if q_max a = 0 then n else min n (q_max a - length (q_items a)))
     in dict_get (bus_queues (publish e b)) q =
          Some (a\<lparr>q_items := q_items a @ replicate k e\<rparr>))"
proof -
  have "queue_ok a"
    using bus_ok_queue [OF bus_run_ok] assms by blast
  with assms(2) show ?thesis
    by (simp add: publish_get add_copies_def room_def Let_def queue_ok_def)
qed

definition sample_event :: activity_event where
  "sample_event = \<lparr>ev_id = ''e'', ev_company = ''c'', ev_type = AGENT_ACTION, ev_source = ''s'',
     ev_source_id = None, ev_title = ''t'', ev_description = None, ev_meta = [], ev_created = 1\<rparr>"

theorem publish_delivery_witness:
  "dict_get (bus_queues (publish sample_event
       (foldl bus_exec empty_bus [NewQueue 0 1, Subscribe ''c'' 0, Subscribe ''*'' 0]))) 0 =
     Some \<lparr>q_max = 1, q_items = [sample_event]\<rparr>"
proof -
  let ?b = "foldl bus_exec empty_bus [NewQueue 0 1, Subscribe ''c'' 0, Subscribe ''*'' 0]"
  have get: "dict_get (bus_queues ?b) 0 = Some \<lparr>q_max = 1, q_items = []\<rparr>"
    and subs: "dict_get_or (bus_subs ?b) ''c'' [] = [0]" "dict_get_or (bus_subs ?b) ''*'' [] = [0]"
    by (simp_all add: empty_bus_def subscribe_def dict_get_or_def)
  show ?thesis
    using publish_delivery [OF refl get, of sample_event] subs
    by (simp add: subscriptions_def sample_event_def Let_def del: foldl_Cons)
qed

subsection \<open>Unsubscribing undoes subscribing\<close>

lemma remove1_snoc: "q \<notin> set qs \<Longrightarrow> remove1 q (qs @ [q]) = qs"
  by (simp add: remove1_append)

text \<open>
  Unsubscribing a queue that was not subscribed to the company before it was
  subscribed restores the subscriptions of every company.
\<close>

lemma subscribe_unsubscribe:
  assumes "q \<notin> set (dict_get_or (bus_subs b) c [])"
  shows "dict_get_or (bus_subs (unsubscribe c q (subscribe c q b))) c' [] =
      dict_get_or (bus_subs b) c' [] \<and>
    bus_queues (unsubscribe c q (subscribe c q b)) = bus_queues b"
  using assms by (simp add: subscribe_def unsubscribe_def Let_def remove1_snoc)

section \<open>The event service\<close>

text \<open>
  A row of the \<open>companies\<close> table (models/company.py): the foreign key of
  \<open>activity_events.company_id\<close> refers to it.
\<close>

record company =
  co_id :: uuid
  co_name :: string
  co_slug :: string
  co_description :: "string option"
  co_industry :: "string option"
  co_size :: "string option"
  co_vision :: "string option"
  co_models :: "(string, json) dict option"
  co_integrations :: "(string, json) dict option"
  co_completed :: bool
  co_created :: int

record session =
  si_companies :: "company list"
  es_rows :: "activity_event list"
  es_bus :: event_bus
  es_uuid :: "nat \<Rightarrow> uuid"
  es_clock :: "nat \<Rightarrow> int"
  es_tick :: nat

text \<open>The row of an event: the flush fills the defaults of \<open>id\<close> and \<open>created_at\<close>.\<close>

definition event_row ::
    "uuid \<Rightarrow> string \<Rightarrow> string \<Rightarrow> string \<Rightarrow> string option \<Rightarrow> string option \<Rightarrow>
     (string, json) dict \<Rightarrow> 'a session_scheme \<Rightarrow> activity_event" where
  "event_row company ty source title source_id description meta s =
     \<lparr>ev_id = es_uuid s (es_tick s), ev_company = company, ev_type = ty, ev_source = source,
      ev_source_id = source_id, ev_title = title, ev_description = description,
      ev_meta = meta, ev_created = es_clock s (es_tick s)\<rparr>"

text \<open>
  The columns of \<open>activity_events\<close>: \<open>type\<close> String(50), \<open>source\<close> String(100), \<open>source_id\<close>
  String(255), \<open>title\<close> String(500), and \<open>company_id\<close> a foreign key to \<open>companies\<close>. The database
  checks the lengths while it builds the row and the foreign key at the end of the statement.
  A row keeps the excess spaces that the database cuts off.
\<close>

definition event_fits :: "string \<Rightarrow> string \<Rightarrow> string \<Rightarrow> string option \<Rightarrow> bool" where
  "event_fits ty source title source_id \<longleftrightarrow>
     fits_column 50 ty \<and> fits_column 100 source \<and> fits_column 500 title \<and>
     (case source_id of None \<Rightarrow> True | Some i \<Rightarrow> fits_column 255 i)"

definition company_known :: "uuid \<Rightarrow> 'a session_scheme \<Rightarrow> bool" where
  "company_known company s \<longleftrightarrow> list_ex (\<lambda>c. co_id c = company) (si_companies s)"

definition event_error ::
    "uuid \<Rightarrow> string \<Rightarrow> string \<Rightarrow> string \<Rightarrow> string option \<Rightarrow> 'a session_scheme \<Rightarrow> exc option" where
  "event_error company ty source title source_id s =
     (if \<not> event_fits ty source title source_id then Some DataError
      else if \<not> company_known company s then Some IntegrityError
      else None)"

text \<open>
  \<open>record_event\<close>: the flush writes the row or raises, and the bus gets the event only after the
  flush. The state after a refused row is the one in which the exception leaves the method: its
  session can only be closed.
\<close>

definition record_event ::
    "uuid \<Rightarrow> string \<Rightarrow> string \<Rightarrow> string \<Rightarrow> string option \<Rightarrow> string option \<Rightarrow>
     (string, json) dict option \<Rightarrow> 'a session_scheme \<Rightarrow>
     activity_event result \<times> 'a session_scheme" where
  "record_event company ty source title source_id description metadata s =
     (let event = event_row company ty source title source_id description
                    (case metadata of None \<Rightarrow> [] | Some m \<Rightarrow> m) s;
          s1 = s\<lparr>es_tick := Suc (es_tick s)\<rparr>
      in case event_error company ty source title source_id s of
           Some e \<Rightarrow> (Inl e, s1)
         | None \<Rightarrow>
             (Inr event, s1\<lparr>es_rows := es_rows s @ [event], es_bus := publish event (es_bus s)\<rparr>))"

text \<open>
  The services record an event only when they were built with an event service, and return
  \<open>x\<close> afterwards: \<open>if self.events: await ...; return x\<close>.
\<close>

definition after_event ::
    "bool \<Rightarrow> 'r \<Rightarrow> ('s \<Rightarrow> activity_event result \<times> 's) \<Rightarrow> 's \<Rightarrow> 'r result \<times> 's" where
  "after_event ev x record s =
     (if ev then (case record s of (Inl e, s1) \<Rightarrow> (Inl e, s1) | (Inr _, s1) \<Rightarrow> (Inr x, s1))
      else (Inr x, s))"

text \<open>The display \<open>{k: v, ..., **(metadata or {})}\<close>.\<close>

definition with_meta ::
    "(string \<times> json) list \<Rightarrow> (string, json) dict option \<Rightarrow> (string, json) dict" where
  "with_meta base metadata = dict_of (base @ (case metadata of None \<Rightarrow> [] | Some m \<Rightarrow> m))"

definition task_transition ::
    "uuid \<Rightarrow> string \<Rightarrow> string \<Rightarrow> string \<Rightarrow> string \<Rightarrow> string option \<Rightarrow> string option \<Rightarrow>
     (string, json) dict option \<Rightarrow> 'a session_scheme \<Rightarrow>
     activity_event result \<times> 'a session_scheme" where
  "task_transition company task_title old_status new_status source source_id description metadata =
     record_event company TASK_TRANSITION source
       (''Task \"'' @ task_title @ ''\" '' @ right_arrow @ '' '' @ new_status)
       source_id
       (Some (str_or description (''Status changed from '' @ old_status @ '' to '' @ new_status)))
       (Some (with_meta [(''old_status'', JStr old_status), (''new_status'', JStr new_status)] metadata))"

definition agent_action ::
    "uuid \<Rightarrow> string \<Rightarrow> string \<Rightarrow> string option \<Rightarrow> string option \<Rightarrow>
     (string, json) dict option \<Rightarrow> 'a session_scheme \<Rightarrow>
     activity_event result \<times> 'a session_scheme" where
  "agent_action company agent_name action source_id description metadata =
     record_event company AGENT_ACTION agent_name action source_id description metadata"

definition error_event ::
    "uuid \<Rightarrow> string \<Rightarrow> string \<Rightarrow> string option \<Rightarrow> string option \<Rightarrow>
     (string, json) dict option \<Rightarrow> 'a session_scheme \<Rightarrow>
     activity_event result \<times> 'a session_scheme" where
  "error_event company source error_title source_id description metadata =
     record_event company ERROR_EVENT source error_title source_id description metadata"

definition workflow_event ::
    "uuid \<Rightarrow> string \<Rightarrow> string \<Rightarrow> string option \<Rightarrow> string option \<Rightarrow>
     (string, json) dict option \<Rightarrow> 'a session_scheme \<Rightarrow>
     activity_event result \<times> 'a session_scheme" where
  "workflow_event company workflow_name event source_id description metadata =
     record_event company WORKFLOW_EVENT ''workflow''
       (''Workflow \"'' @ workflow_name @ ''\" '' @ em_dash @ '' '' @ event) source_id description
       (Some (with_meta [(''workflow_name'', JStr workflow_name)] metadata))"

text \<open>
  The query of \<open>get_events\<close>: \<open>WHERE\<close>, then \<open>ORDER BY created_at DESC\<close>, then \<open>LIMIT\<close>.
  The rows are an arbitrary list, so rows with the same time come in any order.
\<close>

definition event_matches ::
    "uuid \<Rightarrow> string list option \<Rightarrow> string option \<Rightarrow> int option \<Rightarrow> int option \<Rightarrow>
     activity_event \<Rightarrow> bool" where
  "event_matches company types source since before e \<longleftrightarrow>
     ev_company e = company \<and>
     (case types of None \<Rightarrow> True | Some ts \<Rightarrow> ts = [] \<or> ev_type e \<in> set ts) \<and>
     (case source of None \<Rightarrow> True | Some x \<Rightarrow> x = [] \<or> ev_source e = x) \<and>
     (case since of None \<Rightarrow> True | Some t \<Rightarrow> t \<le> ev_created e) \<and>
     (case before of None \<Rightarrow> True | Some t \<Rightarrow> ev_created e \<le> t)"

definition get_events ::
    "uuid \<Rightarrow> string list option \<Rightarrow> string option \<Rightarrow> int option \<Rightarrow> int option \<Rightarrow> nat \<Rightarrow>
     'a session_scheme \<Rightarrow> activity_event list" where
  "get_events company types source since before limit s =
     take limit (sort_key (\<lambda>e. - ev_created e)
       (filter (event_matches company types source since before) (es_rows s)))"

definition get_event_by_id :: "uuid \<Rightarrow> 'a session_scheme \<Rightarrow> activity_event option" where
  "get_event_by_id event_id s = find (\<lambda>e. ev_id e = event_id) (es_rows s)"

subsection \<open>Recording and querying\<close>

lemma snd_record_event [simp]:
  "es_tick (snd (record_event c ty src t sid d m s)) = Suc (es_tick s)"
  "es_uuid (snd (record_event c ty src t sid d m s)) = es_uuid s"
  "es_clock (snd (record_event c ty src t sid d m s)) = es_clock s"
  "si_companies (snd (record_event c ty src t sid d m s)) = si_companies s"
  by (simp_all add: record_event_def Let_def split: option.split)

lemma fst_record_event:
  "fst (record_event c ty src t sid d m s) =
     (case event_error c ty src t sid s of
        Some e \<Rightarrow> Inl e
      | None \<Rightarrow> Inr (event_row c ty src t sid d (case m of None \<Rightarrow> [] | Some x \<Rightarrow> x) s))"
  by (simp add: record_event_def Let_def split: option.split)

lemma snd_after_event [simp]: "snd (after_event ev x r s) = (if ev then snd (r s) else s)"
  by (auto simp: after_event_def split: prod.split sum.split)

lemma fst_after_event:
  "fst (after_event ev x r s) = (if ev then map_sum id (\<lambda>_. x) (fst (r s)) else Inr x)"
  by (auto simp: after_event_def split: prod.split sum.split)

lemma after_event_Inr: "fst (after_event ev x r s) = Inr y \<Longrightarrow> y = x"
  by (cases "fst (r s)") (auto simp: fst_after_event split: if_splits)

text \<open>
  A recorded event is stored once and offered to the bus; a refused one is neither stored nor
  published.
\<close>

lemma record_event_effect:
  "case fst (record_event c ty src t sid d m s) of
     Inl e \<Rightarrow> (e = DataError \<and> \<not> event_fits ty src t sid \<or>
         e = IntegrityError \<and> event_fits ty src t sid \<and> \<not> company_known c s) \<and>
       es_rows (snd (record_event c ty src t sid d m s)) = es_rows s \<and>
       es_bus (snd (record_event c ty src t sid d m s)) = es_bus s
   | Inr x \<Rightarrow> event_fits ty src t sid \<and> company_known c s \<and>
       es_rows (snd (record_event c ty src t sid d m s)) = es_rows s @ [x] \<and>
       es_bus (snd (record_event c ty src t sid d m s)) = publish x (es_bus s)"
  by (simp add: record_event_def Let_def event_error_def)

lemmas event_shortcuts = task_transition_def agent_action_def error_event_def workflow_event_def

text \<open>
  \<open>get_events\<close> returns at most \<open>limit\<close> events, newest first, each of them a recorded
  event of the company that passes the filters; an event it leaves out either fails them or
  is no newer than any event returned, and nothing is left out while the limit is not
  reached.
\<close>

theorem get_events_newest:
  assumes "evs = get_events company types source since before limit s"
  shows "length evs \<le> limit \<and> sorted (map (\<lambda>e. - ev_created e) evs) \<and>
    mset evs \<subseteq># mset (es_rows s) \<and>
    (\<forall>e\<in>set evs. event_matches company types source since before e) \<and>
    (\<forall>e\<in>set (es_rows s). event_matches company types source since before e \<longrightarrow>
       e \<notin> set evs \<longrightarrow> length evs = limit \<and> (\<forall>e'\<in>set evs. ev_created e \<le> ev_created e'))"
proof -
  let ?P = "event_matches company types source since before"
  define q where "q = sort_key (\<lambda>e. - ev_created e) (filter ?P (es_rows s))"
  have evs: "evs = take limit q" by (simp add: assms get_events_def q_def)
  have q: "set q = set (filter ?P (es_rows s))" "sorted (map (\<lambda>e. - ev_created e) q)"
    by (simp_all add: q_def)
  have "mset evs \<subseteq># mset q"
    by (metis append_take_drop_id evs mset_append mset_subset_eq_add_left)
  then have sub: "mset evs \<subseteq># mset (es_rows s)"
    by (metis mset_filter mset_sort multiset_filter_subset q_def subset_mset.order_trans)
  have left: "length evs = limit \<and> (\<forall>e'\<in>set evs. ev_created e \<le> ev_created e')"
    if "e \<in> set (es_rows s)" "?P e" "e \<notin> set evs" for e
  proof -
    have "e \<in> set q" using that q(1) by simp
    with that(3) evs have e: "e \<in> set (drop limit q)"
      by (metis Un_iff append_take_drop_id set_append)
    then have "length evs = limit"
      using evs by (cases "limit \<le> length q") auto
    moreover have "sorted (map (\<lambda>e. - ev_created e) (take limit q @ drop limit q))"
      using q(2) by simp
    then have "\<forall>e'\<in>set evs. ev_created e \<le> ev_created e'"
      using e evs unfolding map_append sorted_append by fastforce
    ultimately show ?thesis by blast
  qed
  have "sorted (map (\<lambda>e. - ev_created e) evs)"
    using q(2) by (simp add: evs take_map [symmetric] sorted_wrt_take)
  with sub left show ?thesis
    using set_take_subset [of limit q] q(1) by (auto simp: evs)
qed

definition sample_session :: session where
  "sample_session = \<lparr>si_companies = [], es_rows = [], es_bus = empty_bus, es_uuid = (\<lambda>n. ''id'' @ show_nat n),
     es_clock = (\<lambda>n. int n), es_tick = 0\<rparr>"

theorem get_events_newest_witness:
  "length (get_events ''c'' None None None None 1
     (sample_session\<lparr>es_rows := [sample_event, sample_event]\<rparr>)) \<le> 1"
  using get_events_newest [OF refl, of "''c''" None None None None 1
      "sample_session\<lparr>es_rows := [sample_event, sample_event]\<rparr>"]
  by blast

end
