(* ===== verification/Registry.thy ===== *)
theory Registry
  imports Events
begin

text \<open>
  The agent registry of the backend (backend/app/services/agent_registry_service.py and the
  schemas of backend/app/models/agent.py): registration with the defaults of the role,
  lookup, update, deletion, seeding of the standard team, heartbeats and the load counter.

  The \<open>agents\<close> table is the list \<open>bk_agents\<close> in an arbitrary order; the time stamp columns
  are not modelled. \<open>ev\<close> says whether the service was built with an event service. A write of
  \<open>None\<close> to a column that the class \<open>Agent\<close> declares as not nullable is the exception of
  the flush (the migration 003 creates some of these columns as nullable; the model follows
  the class). Integer columns are not bounded, and the foreign key of \<open>tasks\<close> to \<open>agents\<close> is not
  modelled.
\<close>

section \<open>Data\<close>

record agent =
  ag_id :: uuid
  ag_company :: uuid
  ag_role :: string
  ag_name :: string
  ag_description :: "string option"
  ag_status :: string
  ag_caps :: "(string, real) dict option"
  ag_cost :: real
  ag_max :: int
  ag_load :: int
  ag_meta :: "(string, json) dict option"

record backend = session +
  bk_agents :: "agent list"

record agent_register =
  reg_role :: string
  reg_name :: string
  reg_description :: "string option"
  reg_caps :: "(string, real) dict option"
  reg_cost :: real
  reg_max :: int
  reg_meta :: "(string, json) dict option"

text \<open>One field of \<open>AgentUpdate.model_dump(exclude_unset=True)\<close>: \<open>None\<close> is an explicit null.\<close>

datatype agent_field =
    FName "string option"
  | FDescription "string option"
  | FStatus "string option"
  | FCapabilities "(string, real) dict option"
  | FCost "real option"
  | FMax "int option"
  | FMetadata "(string, json) dict option"

definition ROLE_CAPABILITIES :: "(string, (string, real) dict) dict" where
  "ROLE_CAPABILITIES =
    [(''ceo'',
       [(''business'', 1),
        (''strategy'', 1),
        (''governance'', 9/10),
        (''communication'', 9/10),
        (''leadership'', 1)]),
     (''cto'',
       [(''backend'', 9/10),
        (''architecture'', 1),
        (''infrastructure'', 9/10),
        (''security'', 4/5),
        (''code_review'', 9/10)]),
     (''pm'',
       [(''product'', 1),
        (''planning'', 1),
        (''communication'', 9/10),
        (''analytics'', 7/10),
        (''stakeholder'', 9/10)]),
     (''frontend_dev'',
       [(''frontend'', 1),
        (''ui'', 1),
        (''design'', 7/10),
        (''accessibility'', 7/10),
        (''frontend_testing'', 4/5)]),
     (''backend_dev'',
       [(''backend'', 1),
        (''api'', 1),
        (''database'', 9/10),
        (''security'', 3/5),
        (''backend_testing'', 4/5)]),
     (''ai_dev'',
       [(''ai_ml'', 1),
        (''nlp'', 9/10),
        (''prompt_engineering'', 1),
        (''data_science'', 4/5),
        (''model_deployment'', 4/5)]),
     (''devops'',
       [(''infrastructure'', 1),
        (''ci_cd'', 1),
        (''cloud'', 1),
        (''monitoring'', 4/5),
        (''security'', 7/10)]),
     (''qa'',
       [(''testing'', 1),
        (''automation'', 9/10),
        (''security_testing'', 3/5),
        (''performance'', 7/10),
        (''documentation'', 3/5)]),
     (''designer'',
       [(''design'', 1),
        (''ui'', 1),
        (''ux'', 1),
        (''accessibility'', 4/5),
        (''prototyping'', 9/10)]),
     (''marketing'',
       [(''content_creation'', 1),
        (''campaign_management'', 1),
        (''analytics'', 9/10),
        (''seo'', 4/5),
        (''social_media'', 9/10),
        (''email_marketing'', 4/5),
        (''brand_strategy'', 9/10),
        (''market_research'', 7/10)])]"

definition ROLE_COST :: "(string, real) dict" where
  "ROLE_COST =
    [(''ceo'', 3), (''cto'', 5/2), (''pm'', 2), (''frontend_dev'', 1), (''backend_dev'', 1), (''ai_dev'', 3/2), (''devops'', 3/2), (''qa'', 4/5), (''designer'', 6/5), (''marketing'', 6/5)]"

section \<open>Operations\<close>

definition find_agent :: "uuid \<Rightarrow> 'a backend_scheme \<Rightarrow> agent option" where
  "find_agent i s = find (\<lambda>a. ag_id a = i) (bk_agents s)"

definition store_agent :: "agent \<Rightarrow> 'a backend_scheme \<Rightarrow> 'a backend_scheme" where
  "store_agent a s =
     s\<lparr>bk_agents := map (\<lambda>x. if ag_id x = ag_id a then a else x) (bk_agents s)\<rparr>"

text \<open>
  The columns of \<open>agents\<close>: \<open>role\<close> String(100), \<open>name\<close> String(255), \<open>description\<close>
  String(1000) and \<open>status\<close> String(50). A flush of a row that does not fit raises.
\<close>

definition agent_fits :: "agent \<Rightarrow> bool" where
  "agent_fits a \<longleftrightarrow> fits_column 100 (ag_role a) \<and> fits_column 255 (ag_name a) \<and>
     (case ag_description a of None \<Rightarrow> True | Some d \<Rightarrow> fits_column 1000 d) \<and>
     fits_column 50 (ag_status a)"

definition new_agent :: "uuid \<Rightarrow> agent_register \<Rightarrow> 'a backend_scheme \<Rightarrow> agent" where
  "new_agent company p s =
     \<lparr>ag_id = es_uuid s (es_tick s), ag_company = company, ag_role = reg_role p,
      ag_name = reg_name p, ag_description = reg_description p, ag_status = ''idle'',
      ag_caps = Some (case reg_caps p of
          None \<Rightarrow> dict_get_or ROLE_CAPABILITIES (reg_role p) []
        | Some c \<Rightarrow> if c = [] then dict_get_or ROLE_CAPABILITIES (reg_role p) [] else c),
      ag_cost = (if reg_cost p \<noteq> 1 then reg_cost p else dict_get_or ROLE_COST (reg_role p) 1),
      ag_max = reg_max p, ag_load = 0, ag_meta = reg_meta p\<rparr>"

definition register_agent ::
    "bool \<Rightarrow> uuid \<Rightarrow> agent_register \<Rightarrow> 'a backend_scheme \<Rightarrow> agent result \<times> 'a backend_scheme" where
  "register_agent ev company p s =
     (let a = new_agent company p s; s1 = s\<lparr>es_tick := Suc (es_tick s)\<rparr>
      in if \<not> agent_fits a then (Inl DataError, s1)
         else after_event ev a
           (agent_action company (ag_name a) (''Agent '' @ ag_name a @ '' registered'')
              (Some (ag_id a))
              (Some (ag_role a @ '' agent registered with '' @
                     show_nat (case ag_caps a of None \<Rightarrow> 0 | Some c \<Rightarrow> length c) @ '' capabilities''))
              None)
           (s1\<lparr>bk_agents := bk_agents s @ [a]\<rparr>))"

fun set_field :: "agent_field \<Rightarrow> agent \<Rightarrow> agent option" where
  "set_field (FName v) a = map_option (\<lambda>x. a\<lparr>ag_name := x\<rparr>) v"
| "set_field (FDescription v) a = Some (a\<lparr>ag_description := v\<rparr>)"
| "set_field (FStatus v) a = map_option (\<lambda>x. a\<lparr>ag_status := x\<rparr>) v"
| "set_field (FCapabilities v) a = Some (a\<lparr>ag_caps := v\<rparr>)"
| "set_field (FCost v) a = map_option (\<lambda>x. a\<lparr>ag_cost := x\<rparr>) v"
| "set_field (FMax v) a = map_option (\<lambda>x. a\<lparr>ag_max := x\<rparr>) v"
  \<comment> \<open>the attribute is called \<open>meta\<close>: \<open>setattr\<close> of \<open>metadata\<close> writes to no column\<close>
| "set_field (FMetadata v) a = Some a"

fun set_fields :: "agent_field list \<Rightarrow> agent \<Rightarrow> agent option" where
  "set_fields [] a = Some a"
| "set_fields (f # fs) a = (case set_field f a of None \<Rightarrow> None | Some a' \<Rightarrow> set_fields fs a')"

definition update_agent ::
    "uuid \<Rightarrow> agent_field list \<Rightarrow> 'a backend_scheme \<Rightarrow> (agent option \<times> 'a backend_scheme) result" where
  "update_agent i upd s =
     (case find_agent i s of
        None \<Rightarrow> Inr (None, s)
      | Some a \<Rightarrow>
          (case set_fields upd a of
             None \<Rightarrow> Inl OtherError
           | Some a' \<Rightarrow> if agent_fits a' then Inr (Some a', store_agent a' s) else Inl DataError))"

definition list_agents ::
    "uuid \<Rightarrow> string option \<Rightarrow> string option \<Rightarrow> 'a backend_scheme \<Rightarrow> agent list" where
  "list_agents company role status s =
     sort_key ag_role
       (filter (\<lambda>a. ag_company a = company \<and>
                  (case role of None \<Rightarrow> True | Some r \<Rightarrow> r = [] \<or> ag_role a = r) \<and>
                  (case status of None \<Rightarrow> True | Some x \<Rightarrow> x = [] \<or> ag_status a = x))
          (bk_agents s))"

definition delete_agent :: "uuid \<Rightarrow> 'a backend_scheme \<Rightarrow> bool \<times> 'a backend_scheme" where
  "delete_agent i s =
     (case find_agent i s of
        None \<Rightarrow> (False, s)
      | Some a \<Rightarrow> (True, s\<lparr>bk_agents := filter (\<lambda>x. ag_id x \<noteq> i) (bk_agents s)\<rparr>))"

definition default_register :: "string \<Rightarrow> string \<Rightarrow> string \<Rightarrow> agent_register" where
  "default_register role name description =
     \<lparr>reg_role = role, reg_name = name, reg_description = Some description, reg_caps = None,
      reg_cost = 1, reg_max = 3, reg_meta = None\<rparr>"

definition DEFAULT_TEAM :: "agent_register list" where
  "DEFAULT_TEAM =
     [default_register ''ceo'' ''CEO Agent''
        ''Strategic direction, governance, and team orchestration.'',
      default_register ''cto'' ''CTO Agent''
        ''Technical architecture, engineering leadership, and code review.'',
      default_register ''pm'' ''PM Agent''
        ''Product vision, roadmap, priorities, and stakeholder alignment.'',
      default_register ''frontend_dev'' ''Frontend Agent''
        ''UI/UX implementation with Next.js and Tailwind.'',
      default_register ''backend_dev'' ''Backend Agent''
        ''API and server development with FastAPI.'',
      default_register ''ai_dev'' ''AI Agent''
        ''LLM integration, prompt engineering, and AI features.'',
      default_register ''devops'' ''DevOps Agent''
        ''Infrastructure, CI/CD, Docker, and Kubernetes.'',
      default_register ''qa'' ''QA Agent''
        ''Testing, quality assurance, and validation.'',
      default_register ''designer'' ''Designer Agent''
        ''UX design, interface design, and prototyping.'',
      default_register ''marketing'' ''Marketing Agent''
        ''Content generation, campaign management, and performance analytics.'']"

fun register_all ::
    "bool \<Rightarrow> uuid \<Rightarrow> agent_register list \<Rightarrow> 'a backend_scheme \<Rightarrow>
     agent list result \<times> 'a backend_scheme" where
  "register_all ev company [] s = (Inr [], s)"
| "register_all ev company (p # ps) s =
     (case register_agent ev company p s of
        (Inl e, s1) \<Rightarrow> (Inl e, s1)
      | (Inr a, s1) \<Rightarrow>
          (let (rest, s2) = register_all ev company ps s1 in (map_sum id (Cons a) rest, s2)))"

definition seed_default_agents ::
    "bool \<Rightarrow> uuid \<Rightarrow> 'a backend_scheme \<Rightarrow> agent list result \<times> 'a backend_scheme" where
  "seed_default_agents ev company s =
     (let existing = list_agents company None None s
      in if existing \<noteq> [] then (Inr existing, s) else register_all ev company DEFAULT_TEAM s)"

definition update_heartbeat ::
    "uuid \<Rightarrow> int \<Rightarrow> string \<Rightarrow> (string, json) dict option \<Rightarrow> 'a backend_scheme \<Rightarrow>
     agent option result \<times> 'a backend_scheme" where
  "update_heartbeat i load status metadata s =
     (case find_agent i s of
        None \<Rightarrow> (Inr None, s)
      | Some a \<Rightarrow>
          (let a1 = a\<lparr>ag_load := load, ag_status := status\<rparr>;
               a2 = (case metadata of
                       None \<Rightarrow> a1
                     | Some m \<Rightarrow> if m = [] then a1
                         else a1\<lparr>ag_meta := Some (dict_of
                                (case ag_meta a of None \<Rightarrow> m | Some old \<Rightarrow> old @ m))\<rparr>)
           in if agent_fits a2 then (Inr (Some a2), store_agent a2 s) else (Inl DataError, s)))"

definition load_text :: "agent \<Rightarrow> string" where
  "load_text a = '' (load: '' @ show_int (ag_load a) @ ''/'' @ show_int (ag_max a) @ '')''"

definition assign_task ::
    "bool \<Rightarrow> uuid \<Rightarrow> string option \<Rightarrow> 'a backend_scheme \<Rightarrow>
     agent option result \<times> 'a backend_scheme" where
  "assign_task ev i title s =
     (case find_agent i s of
        None \<Rightarrow> (Inr None, s)
      | Some a \<Rightarrow>
          (let a1 = a\<lparr>ag_load := ag_load a + 1\<rparr>;
               a2 = (if ag_max a1 \<le> ag_load a1 then a1\<lparr>ag_status := ''busy''\<rparr> else a1);
               s1 = store_agent a2 s
           in after_event ev (Some a2)
                (task_transition (ag_company a2)
                   (str_or title (''Task assigned to '' @ ag_name a2))
                   ''pending'' ''assigned'' (ag_role a2) (Some i)
                   (Some (''Assigned to '' @ ag_name a2 @ load_text a2))
                   (Some [(''agent_role'', JStr (ag_role a2)), (''agent_load'', JInt (ag_load a2))]))
                s1))"

definition complete_task ::
    "bool \<Rightarrow> uuid \<Rightarrow> string option \<Rightarrow> 'a backend_scheme \<Rightarrow>
     agent option result \<times> 'a backend_scheme" where
  "complete_task ev i title s =
     (case find_agent i s of
        None \<Rightarrow> (Inr None, s)
      | Some a \<Rightarrow>
          (let a1 = a\<lparr>ag_load := max 0 (ag_load a - 1)\<rparr>;
               a2 = (if ag_load a1 < ag_max a1 then a1\<lparr>ag_status := ''idle''\<rparr> else a1);
               s1 = store_agent a2 s
           in after_event ev (Some a2)
                (task_transition (ag_company a2)
                   (str_or title (''Task completed by '' @ ag_name a2))
                   ''assigned'' ''completed'' (ag_role a2) (Some i)
                   (Some (''Completed by '' @ ag_name a2 @ load_text a2))
                   (Some [(''agent_role'', JStr (ag_role a2)), (''agent_load'', JInt (ag_load a2))]))
                s1))"

section \<open>The table after each operation\<close>

lemma bk_agents_record_event [simp]:
  "bk_agents (snd (record_event c ty src t sid d m s)) = bk_agents s"
  by (simp add: record_event_def Let_def split: option.split)

lemma es_store_agent [simp]:
  "es_uuid (store_agent a s) = es_uuid s" "es_tick (store_agent a s) = es_tick s"
  "es_rows (store_agent a s) = es_rows s" "es_bus (store_agent a s) = es_bus s"
  by (simp_all add: store_agent_def)

lemma find_agent_record_event [simp]:
  "find_agent i (snd (record_event c ty src t sid d m s)) = find_agent i s"
  by (simp add: find_agent_def)

lemma find_agent_Some_id: "find_agent i s = Some a \<Longrightarrow> ag_id a = i"
  by (auto simp: find_agent_def find_Some_iff)

lemma find_agent_Some_mem: "find_agent i s = Some a \<Longrightarrow> a \<in> set (bk_agents s)"
  by (auto simp: find_agent_def find_Some_iff)

lemma find_map_same_key:
  "find (\<lambda>a. ag_id a = j) (map (\<lambda>x. if ag_id x = ag_id a then a else x) xs) =
     (if j = ag_id a then map_option (\<lambda>_. a) (find (\<lambda>x. ag_id x = j) xs)
      else find (\<lambda>x. ag_id x = j) xs)"
  by (induction xs) auto

lemma find_agent_store:
  "find_agent j (store_agent a s) =
     (if j = ag_id a then map_option (\<lambda>_. a) (find_agent j s) else find_agent j s)"
  by (simp add: find_agent_def store_agent_def find_map_same_key)

lemma bk_agents_store: "bk_agents (store_agent a s) =
    map (\<lambda>x. if ag_id x = ag_id a then a else x) (bk_agents s)"
  by (simp add: store_agent_def)

lemma set_field_id: "set_field f a = Some a' \<Longrightarrow>
    ag_id a' = ag_id a \<and> ag_company a' = ag_company a \<and> ag_role a' = ag_role a \<and>
    ag_load a' = ag_load a \<and> ag_meta a' = ag_meta a"
  by (cases f) auto

lemma set_fields_id: "set_fields fs a = Some a' \<Longrightarrow>
    ag_id a' = ag_id a \<and> ag_company a' = ag_company a \<and> ag_role a' = ag_role a \<and>
    ag_load a' = ag_load a \<and> ag_meta a' = ag_meta a"
  by (induction fs arbitrary: a) (auto split: option.splits dest!: set_field_id)

text \<open>
  \<open>update_agent\<close> never changes an agent's metadata: a \<open>metadata\<close> in the payload is
  accepted and dropped, whatever else the payload holds.
\<close>

theorem update_agent_keeps_meta:
  assumes "find_agent i s = Some a"
    and "update_agent i (fs @ FMetadata (Some m) # gs) s = Inr (res, s')"
  shows "\<exists>a'. res = Some a' \<and> find_agent i s' = Some a' \<and> ag_meta a' = ag_meta a"
proof -
  obtain a' where set: "set_fields (fs @ FMetadata (Some m) # gs) a = Some a'"
    and res: "res = Some a'" "s' = store_agent a' s"
    using assms by (auto simp: update_agent_def split: option.splits if_splits)
  from set_fields_id [OF set] find_agent_Some_id [OF assms(1)]
  show ?thesis by (simp add: res find_agent_store assms(1))
qed

section \<open>The load counter\<close>

text \<open>What \<open>assign_task\<close> and \<open>complete_task\<close> do to the agent itself.\<close>

definition assigned :: "agent \<Rightarrow> agent" where
  "assigned a =
     (let a1 = a\<lparr>ag_load := ag_load a + 1\<rparr>
      in if ag_max a1 \<le> ag_load a1 then a1\<lparr>ag_status := ''busy''\<rparr> else a1)"

definition completed :: "agent \<Rightarrow> agent" where
  "completed a =
     (let a1 = a\<lparr>ag_load := max 0 (ag_load a - 1)\<rparr>
      in if ag_load a1 < ag_max a1 then a1\<lparr>ag_status := ''idle''\<rparr> else a1)"

lemma ag_assigned [simp]:
  "ag_id (assigned a) = ag_id a" "ag_load (assigned a) = ag_load a + 1"
  "ag_max (assigned a) = ag_max a"
  "ag_id (completed a) = ag_id a" "ag_load (completed a) = max 0 (ag_load a - 1)"
  "ag_max (completed a) = ag_max a"
  by (simp_all add: assigned_def completed_def Let_def)

lemma bk_agents_assign:
  "bk_agents (snd (assign_task ev i t s)) =
     (case find_agent i s of None \<Rightarrow> bk_agents s | Some a \<Rightarrow> bk_agents (store_agent (assigned a) s))"
  by (simp add: assign_task_def assigned_def Let_def event_shortcuts split: option.split)

lemma bk_agents_complete:
  "bk_agents (snd (complete_task ev i t s)) =
     (case find_agent i s of None \<Rightarrow> bk_agents s | Some a \<Rightarrow> bk_agents (store_agent (completed a) s))"
  by (simp add: complete_task_def completed_def Let_def event_shortcuts split: option.split)

lemma find_agent_assign:
  "find_agent j (snd (assign_task ev i t s)) =
     (if j = i then map_option assigned (find_agent i s) else find_agent j s)"
  using find_agent_store [of j "assigned (the (find_agent i s))" s]
  by (auto simp: find_agent_def [of _ "snd _"] bk_agents_assign simp flip: find_agent_def
      split: option.split dest: find_agent_Some_id)

lemma find_agent_complete:
  "find_agent j (snd (complete_task ev i t s)) =
     (if j = i then map_option completed (find_agent i s) else find_agent j s)"
  using find_agent_store [of j "completed (the (find_agent i s))" s]
  by (auto simp: find_agent_def [of _ "snd _"] bk_agents_complete simp flip: find_agent_def
      split: option.split dest: find_agent_Some_id)

datatype load_op = Assign uuid | Complete uuid

fun load_exec :: "bool \<Rightarrow> 'a backend_scheme \<Rightarrow> load_op \<Rightarrow> 'a backend_scheme" where
  "load_exec ev s (Assign i) = snd (assign_task ev i None s)"
| "load_exec ev s (Complete i) = snd (complete_task ev i None s)"

text \<open>No completion of \<open>i\<close> comes while its counter is 0.\<close>

fun never_under :: "uuid \<Rightarrow> int \<Rightarrow> load_op list \<Rightarrow> bool" where
  "never_under i n [] \<longleftrightarrow> True"
| "never_under i n (Assign j # ops) \<longleftrightarrow> never_under i (if j = i then n + 1 else n) ops"
| "never_under i n (Complete j # ops) \<longleftrightarrow>
     (j = i \<longrightarrow> 0 < n) \<and> never_under i (if j = i then n - 1 else n) ops"


definition sample_agent :: agent where
  "sample_agent = \<lparr>ag_id = ''a'', ag_company = ''c'', ag_role = ''qa'', ag_name = ''QA Agent'',
     ag_description = None, ag_status = ''idle'', ag_caps = Some [(''testing'', 1)],
     ag_cost = 4/5, ag_max = 2, ag_load = 0, ag_meta = None\<rparr>"

definition sample_backend :: backend where
  "sample_backend = \<lparr>si_companies = [], es_rows = [], es_bus = empty_bus, es_uuid = (\<lambda>n. ''id'' @ show_nat n),
     es_clock = (\<lambda>n. int n), es_tick = 0, bk_agents = [sample_agent]\<rparr>"

theorem update_agent_keeps_meta_witness:
  "find_agent ''a'' (store_agent (sample_agent\<lparr>ag_name := ''B''\<rparr>) sample_backend) =
     Some (sample_agent\<lparr>ag_name := ''B''\<rparr>)"
proof -
  have "find_agent ''a'' sample_backend = Some sample_agent"
    by (simp add: find_agent_def sample_backend_def sample_agent_def)
  moreover from this have "update_agent ''a'' ([FName (Some ''B'')] @ FMetadata (Some []) # []) sample_backend =
      Inr (Some (sample_agent\<lparr>ag_name := ''B''\<rparr>),
           store_agent (sample_agent\<lparr>ag_name := ''B''\<rparr>) sample_backend)"
    by (simp add: update_agent_def agent_fits_def short_fits sample_agent_def)
  ultimately show ?thesis
    using update_agent_keeps_meta by blast
qed


section \<open>Registration and the standard team\<close>

lemma new_agent_columns [simp]:
  "ag_id (new_agent company p s) = es_uuid s (es_tick s)" "ag_company (new_agent company p s) = company"
  "ag_role (new_agent company p s) = reg_role p" "ag_name (new_agent company p s) = reg_name p"
  "ag_description (new_agent company p s) = reg_description p"
  "ag_status (new_agent company p s) = ''idle''" "ag_load (new_agent company p s) = 0"
  by (simp_all add: new_agent_def)

lemma register_agent_state:
  "es_uuid (snd (register_agent ev company p s)) = es_uuid s \<and>
   si_companies (snd (register_agent ev company p s)) = si_companies s \<and>
   (fst (register_agent ev company p s) = Inr a \<longrightarrow>
      a = new_agent company p s \<and> bk_agents (snd (register_agent ev company p s)) = bk_agents s @ [a])"
  by (auto simp: register_agent_def Let_def event_shortcuts split: if_splits dest: after_event_Inr)

text \<open>When a registration is refused: the row of the agent or the event does not fit.\<close>

lemma register_agent_runs:
  assumes "agent_fits (new_agent company p s)"
    and "ev \<Longrightarrow> fits_column 100 (reg_name p) \<and> fits_column 500 (''Agent '' @ reg_name p @ '' registered'') \<and>
      fits_column 255 (es_uuid s (es_tick s)) \<and> company_known company s"
  shows "fst (register_agent ev company p s) = Inr (new_agent company p s)"
  using assms
  by (simp add: register_agent_def Let_def event_shortcuts fst_after_event fst_record_event event_error_def
      event_fits_def AGENT_ACTION_def short_fits company_known_def)

lemma register_all_state:
  assumes "fst (register_all ev company ps s) = Inr team"
  shows "bk_agents (snd (register_all ev company ps s)) = bk_agents s @ team \<and>
   map ag_role team = map reg_role ps \<and>
   (\<forall>a\<in>set team. ag_company a = company \<and> ag_status a = ''idle'' \<and> ag_load a = 0)"
  using assms
proof (induction ps arbitrary: s team)
  case (Cons p ps)
  obtain r s1 where reg: "register_agent ev company p s = (r, s1)" by fastforce
  obtain rest s2 where all: "register_all ev company ps s1 = (rest, s2)" by fastforce
  from Cons.prems reg all obtain a as where "r = Inr a" "rest = Inr as" "team = a # as"
    by (cases r; cases rest) auto
  with Cons.IH [of s1 as] register_agent_state [of ev company p s a] reg all show ?case
    by simp
qed simp

text \<open>The standard team always fits its columns.\<close>

definition short_register :: "agent_register \<Rightarrow> bool" where
  "short_register p \<longleftrightarrow> length (reg_role p) \<le> 100 \<and> length (reg_name p) \<le> 100 \<and>
     (case reg_description p of None \<Rightarrow> True | Some d \<Rightarrow> length d \<le> 1000)"

lemma team_short: "list_all short_register DEFAULT_TEAM"
  by (simp add: DEFAULT_TEAM_def default_register_def short_register_def)

lemma short_register_runs:
  assumes "short_register p" and "ev \<Longrightarrow> company_known company s"
    and "fits_column 255 (es_uuid s (es_tick s))"
  shows "fst (register_agent ev company p s) = Inr (new_agent company p s)"
  using assms
  by (intro register_agent_runs)
    (auto simp: agent_fits_def short_register_def short_fits split: option.splits)

lemma register_all_runs:
  assumes "list_all short_register ps" and "ev \<Longrightarrow> company_known company s"
    and "\<And>n. fits_column 255 (es_uuid s n)"
  shows "\<exists>team. fst (register_all ev company ps s) = Inr team"
  using assms
proof (induction ps arbitrary: s)
  case (Cons p ps)
  obtain r s1 where reg: "register_agent ev company p s = (r, s1)" by fastforce
  have "r = Inr (new_agent company p s)"
    using short_register_runs [of p ev company s] Cons.prems reg by simp
  moreover have "es_uuid s1 = es_uuid s" "si_companies s1 = si_companies s"
    using register_agent_state [of ev company p s] reg by simp_all
  ultimately show ?case
    using Cons.IH [of s1] Cons.prems reg
    by (auto simp: company_known_def split_beta)
qed simp

lemma list_agents_set:
  "set (list_agents company None None s) = {a \<in> set (bk_agents s). ag_company a = company}"
  by (auto simp: list_agents_def)

text \<open>
  Seeding a company that has no agent adds exactly the ten agents of the standard team,
  in its order of roles, idle and without load, and changes no other row; seeding a company
  that has agents changes nothing, so a second seeding has no effect.
\<close>

theorem seed_default_agents_once:
  assumes "seed_default_agents ev company s = (Inr team, s')"
  shows "(list_agents company None None s = [] \<longrightarrow>
      bk_agents s' = bk_agents s @ team \<and> length team = 10 \<and>
      map ag_role team = [''ceo'', ''cto'', ''pm'', ''frontend_dev'', ''backend_dev'',
        ''ai_dev'', ''devops'', ''qa'', ''designer'', ''marketing''] \<and>
      (\<forall>a\<in>set team. ag_company a = company \<and> ag_status a = ''idle'' \<and> ag_load a = 0)) \<and>
    (list_agents company None None s \<noteq> [] \<longrightarrow> s' = s) \<and>
    snd (seed_default_agents ev company s') = s'"
proof (cases "list_agents company None None s = []")
  case True
  have roles: "map reg_role DEFAULT_TEAM = [''ceo'', ''cto'', ''pm'', ''frontend_dev'',
      ''backend_dev'', ''ai_dev'', ''devops'', ''qa'', ''designer'', ''marketing'']"
    by (simp add: DEFAULT_TEAM_def default_register_def)
  have run: "register_all ev company DEFAULT_TEAM s = (Inr team, s')"
    using assms by (simp add: seed_default_agents_def True)
  note state = register_all_state [of ev company DEFAULT_TEAM s team, unfolded run fst_conv snd_conv roles, OF refl]
  have len: "length team = 10"
    using arg_cong [where f = length, OF state [THEN conjunct2, THEN conjunct1]] by simp
  then obtain a where "a \<in> set team"
    by (cases team) auto
  with state have "a \<in> set (list_agents company None None s')"
    by (simp add: list_agents_set)
  then have "list_agents company None None s' \<noteq> []"
    by auto
  with len show ?thesis
    using state True by (simp add: seed_default_agents_def)
next
  case False
  then show ?thesis using assms by (auto simp: seed_default_agents_def)
qed

text \<open>Seeding a company that has a row never fails.\<close>

lemma seed_default_agents_runs:
  assumes "ev \<Longrightarrow> company_known company s" and "\<And>n. fits_column 255 (es_uuid s n)"
  shows "\<exists>team. fst (seed_default_agents ev company s) = Inr team"
  using register_all_runs [of DEFAULT_TEAM ev company s] team_short assms
  by (simp add: seed_default_agents_def Let_def)

theorem seed_default_agents_once_witness:
  "\<exists>team s. seed_default_agents False ''d'' (sample_backend\<lparr>es_uuid := \<lambda>n. ''id''\<rparr>) = (Inr team, s) \<and>
     length team = 10"
proof -
  let ?s = "sample_backend\<lparr>es_uuid := \<lambda>n. ''id''\<rparr>"
  obtain team s where run: "seed_default_agents False ''d'' ?s = (Inr team, s)"
    using seed_default_agents_runs [of False "''d''" ?s, simplified, OF short_fits]
    by (auto intro: prod.collapse [symmetric] simp: prod_eq_iff)
  with seed_default_agents_once [OF run] show ?thesis
    by (simp add: list_agents_def sample_backend_def sample_agent_def)
qed

end
