(* ===== verification/Roadmap.thy ===== *)
theory Roadmap
  imports Prelude
begin

text \<open>
  The roadmap generator of the onboarding pipeline
  (backend/app/services/roadmap_service.py): the six phases, and the milestones, timeline
  and priorities derived from them. A phase is a JSON object with fixed keys, here a record.
\<close>

record phase =
  ph_name :: string
  ph_order :: int
  ph_weeks :: int
  ph_objective :: string
  ph_deliverables :: "string list"
  ph_assignments :: "(string, string list) dict"

record milestone =
  ms_name :: string
  ms_phase :: string
  ms_week :: int
  ms_criteria :: string

record timeline =
  tl_total_weeks :: int
  tl_total_months :: real
  tl_start_phase :: string
  tl_current_phase :: string
  tl_phases_in_order :: "string list"

record roadmap =
  rm_phases :: "(string, phase) dict"
  rm_milestones :: "(string, milestone) dict"
  rm_timeline :: timeline
  rm_priorities :: "(string, string list) dict"

definition generate_phases :: "(string, phase) dict" where
  "generate_phases =
    [(''phase_1_foundation'',
      \<lparr>ph_name = ''Foundation'', ph_order = 1, ph_weeks = 4,
       ph_objective = ''Core platform, auth, database, and basic UI scaffold.'',
       ph_deliverables =
         [''User authentication (signup/login)'', ''Company creation flow'',
          ''Database schema and migrations'', ''Core API framework'',
          ''Basic UI shell with navigation''],
       ph_assignments =
         [(''cto'', [''architecture design'', ''database schema'']),
          (''frontend_dev'', [''UI shell'', ''auth pages'']),
          (''backend_dev'', [''API framework'', ''auth endpoints'']),
          (''devops'', [''CI/CD pipeline'', ''staging environment''])]\<rparr>),
     (''phase_2_onboarding'',
      \<lparr>ph_name = ''Onboarding Engine'', ph_order = 2, ph_weeks = 3,
       ph_objective = ''Strategic onboarding interview, knowledge graph generation, and company constitution.'',
       ph_deliverables =
         [''Multi-step onboarding interview'', ''Vision-to-knowledge-graph pipeline'',
          ''Constitution generation'', ''Roadmap generation'', ''Initial task creation''],
       ph_assignments =
         [(''pm'', [''onboarding flow design'']),
          (''frontend_dev'', [''onboarding UI'', ''dashboard'']),
          (''backend_dev'', [''knowledge graph service'', ''generation pipeline'']),
          (''ai_dev'', [''vision analysis'', ''generation models''])]\<rparr>),
     (''phase_3_agent_system'',
      \<lparr>ph_name = ''Agent Operating System'', ph_order = 3, ph_weeks = 4,
       ph_objective = ''Specialized AI agents with heartbeat scheduling and task orchestration.'',
       ph_deliverables =
         [''Agent definitions (CEO, CTO, PM, Dev, QA)'',
          ''Heartbeat scheduling system'', ''Task orchestration engine'',
          ''Agent-to-agent communication'', ''Execution worker runtime''],
       ph_assignments =
         [(''cto'', [''agent architecture'', ''orchestration design'']),
          (''backend_dev'', [''task engine'', ''heartbeat system'']),
          (''ai_dev'', [''agent personalities'', ''prompt engineering'']),
          (''devops'', [''execution container runtime''])]\<rparr>),
     (''phase_4_memory'',
      \<lparr>ph_name = ''Memory & Knowledge'', ph_order = 4, ph_weeks = 3,
       ph_objective = ''Multi-layer memory system with PostgreSQL, Qdrant vector store, and Neo4j graph.'',
       ph_deliverables =
         [''Founder memory layer'', ''Company constitution store'',
          ''Project memory (PostgreSQL + Qdrant)'', ''Agent episodic memory'',
          ''Memory retrieval and search''],
       ph_assignments =
         [(''cto'', [''memory architecture'']),
          (''backend_dev'', [''memory APIs'', ''storage layer'']),
          (''ai_dev'', [''vector embeddings'', ''semantic search'']),
          (''devops'', [''Neo4j deployment'', ''Qdrant setup''])]\<rparr>),
     (''phase_5_execution'',
      \<lparr>ph_name = ''Execution & Deployment'', ph_order = 5, ph_weeks = 4,
       ph_objective = ''Browser automation, code generation, deployment pipelines, and monitoring.'',
       ph_deliverables =
         [''Browser automation infrastructure'', ''Code generation pipeline'',
          ''Deployment pipeline (Vercel/Railway)'', ''Monitoring and observability'',
          ''Human approval dashboard''],
       ph_assignments =
         [(''cto'', [''deployment architecture'', ''monitoring design'']),
          (''frontend_dev'', [''approval dashboard'', ''monitoring UI'']),
          (''backend_dev'', [''deployment API'', ''pipeline integration'']),
          (''devops'', [''Playwright infrastructure'', ''CI/CD'', ''monitoring'']),
          (''qa'', [''test automation'', ''validation pipelines''])]\<rparr>),
     (''phase_6_launch'',
      \<lparr>ph_name = ''Launch & Scale'', ph_order = 6, ph_weeks = 3,
       ph_objective = ''Production hardening, billing integration, marketplace templates, and public launch.'',
       ph_deliverables =
         [''Billing and credits system'', ''Subscription management'',
          ''Company templates marketplace'', ''Production security audit'',
          ''Public launch''],
       ph_assignments =
         [(''pm'', [''launch planning'', ''marketplace design'']),
          (''frontend_dev'', [''billing UI'', ''marketplace'']),
          (''backend_dev'', [''billing integration'', ''templates API'']),
          (''devops'', [''production hardening'', ''security audit'']),
          (''qa'', [''end-to-end testing'', ''load testing''])]\<rparr>)]"

definition generate_milestones :: "(string, phase) dict \<Rightarrow> (string, milestone) dict" where
  "generate_milestones phases =
     dict_of (map (\<lambda>(key, p).
       (''milestone_'' @ show_int (ph_order p),
        \<lparr>ms_name = ''Complete '' @ ph_name p, ms_phase = key,
         ms_week = ph_order p * ph_weeks p,
         ms_criteria = ''All '' @ ph_name p @ '' deliverables deployed and verified.''\<rparr>)) phases)"

definition generate_timeline :: "(string, phase) dict \<Rightarrow> timeline" where
  "generate_timeline phases =
     (let total = sum_list (map (ph_weeks \<circ> snd) phases)
      in \<lparr>tl_total_weeks = total, tl_total_months = py_round 1 (of_int total / (433/100)),
          tl_start_phase = ''phase_1_foundation'', tl_current_phase = ''phase_1_foundation'',
          tl_phases_in_order = dict_keys phases\<rparr>)"

definition determine_priorities :: "(string, string list) dict" where
  "determine_priorities =
     [(''now'', [''phase_1_foundation'']),
      (''next'', [''phase_2_onboarding'']),
      (''later'', [''phase_3_agent_system'', ''phase_4_memory'', ''phase_5_execution'']),
      (''future'', [''phase_6_launch''])]"

definition generate_roadmap :: roadmap where
  "generate_roadmap =
     (let phases = generate_phases
      in \<lparr>rm_phases = phases, rm_milestones = generate_milestones phases,
          rm_timeline = generate_timeline phases, rm_priorities = determine_priorities\<rparr>)"

text \<open>The week in which each phase really ends when the phases follow one another.\<close>

fun phase_ends :: "int \<Rightarrow> phase list \<Rightarrow> int list" where
  "phase_ends w [] = []"
| "phase_ends w (p # ps) = (w + ph_weeks p) # phase_ends (w + ph_weeks p) ps"

lemma show_nat_digit [simp]: "n < 10 \<Longrightarrow> show_nat n = [''0123456789'' ! n]"
  by (simp add: show_nat.simps)

text \<open>
  The milestones of the roadmap carry the weeks 4, 6, 12, 12, 20 and 18, the product of
  the phase's order and its own duration, while the phases end in the weeks 4, 7, 11, 14, 18
  and 21: the sixth milestone lies before the fifth, and three weeks before the end of the
  timeline.
\<close>

theorem roadmap_milestone_weeks:
  "map (\<lambda>k. map_option ms_week (dict_get (rm_milestones generate_roadmap) k))
     [''milestone_1'', ''milestone_2'', ''milestone_3'', ''milestone_4'', ''milestone_5'',
      ''milestone_6''] = map Some [4, 6, 12, 12, 20, 18] \<and>
   phase_ends 0 (map snd (rm_phases generate_roadmap)) = [4, 7, 11, 14, 18, 21] \<and>
   tl_total_weeks (rm_timeline generate_roadmap) = 21"
  by (simp add: Let_def generate_roadmap_def generate_milestones_def generate_timeline_def
      generate_phases_def dict_get_dict_of show_int_def)

end
