(* ===== verification/TaskGen.thy ===== *)
theory TaskGen
  imports Registry Roadmap
begin

text \<open>
  The generation of the first tasks and workflows of a company from its roadmap
  (backend/app/services/task_generation_service.py).

  A task object that was not flushed has no identifier yet: \<open>tk_id\<close> is \<open>None\<close> until the
  flush fills the column default. The lists of tasks of one phase hold references to the
  task objects, here their positions in the list of all tasks.
\<close>

section \<open>Data\<close>

record task =
  tk_id :: "uuid option"
  tk_company :: uuid
  tk_title :: string
  tk_description :: "string option"
  tk_status :: string
  tk_priority :: string
  tk_assignee :: "string option"
  tk_agent :: "uuid option"
  tk_deps :: "(string, json) dict option"
  tk_meta :: "(string, json) dict"

record workflow =
  wf_id :: "uuid option"
  wf_company :: uuid
  wf_name :: string
  wf_description :: "string option"
  wf_trigger :: "(string, string) dict"
  wf_steps :: "(nat \<times> string \<times> string) list"
  wf_agents :: "(string, bool) dict"

record store = backend +
  st_tasks :: "task list"
  st_workflows :: "workflow list"

section \<open>The assignee of a deliverable\<close>

definition any_in :: "string list \<Rightarrow> string \<Rightarrow> bool" where
  "any_in ws s \<longleftrightarrow> list_ex (\<lambda>w. py_in w s) ws"

definition infer_assignee :: "string \<Rightarrow> string" where
  "infer_assignee deliverable =
     (let dl = py_lower deliverable
      in if any_in [''ui'', ''frontend'', ''page'', ''dashboard'', ''design''] dl then ''frontend_dev''
         else if any_in [''api'', ''backend'', ''endpoint'', ''database'', ''schema''] dl then ''backend_dev''
         else if any_in [''ai'', ''model'', ''generation'', ''prompt'', ''agent personality''] dl then ''ai_dev''
         else if any_in [''deploy'', ''ci/cd'', ''infrastructure'', ''docker'', ''kubernetes'', ''playwright''] dl
           then ''devops''
         else if any_in [''test'', ''qa'', ''validation'', ''testing''] dl then ''qa''
         else if any_in [''architecture'', ''design system''] dl then ''cto''
         else if any_in [''planning'', ''roadmap'', ''marketplace''] dl then ''pm''
         else ''backend_dev'')"

section \<open>Dependencies\<close>

definition id_text :: "uuid option \<Rightarrow> string" where
  "id_text i = (case i of None \<Rightarrow> ''None'' | Some x \<Rightarrow> x)"

definition depends_on :: "string \<Rightarrow> (string, json) dict" where
  "depends_on i = [(''depends_on'', JArr [JStr i]), (''type'', JStr ''sequential'')]"

definition phase_of :: "task \<Rightarrow> json option" where
  "phase_of t = dict_get (tk_meta t) ''phase''"

definition deliverable_index :: "task \<Rightarrow> int" where
  "deliverable_index t =
     (case dict_get_or (tk_meta t) ''deliverable_index'' (JInt 0) of JInt i \<Rightarrow> i | _ \<Rightarrow> 0)"

definition group_by_phase :: "task list \<Rightarrow> nat list \<Rightarrow> (json option, nat list) dict" where
  "group_by_phase ts js =
     foldl (\<lambda>d j. let k = phase_of (ts ! j) in dict_set k (dict_get_or d k [] @ [j]) d) [] js"

fun link_chain :: "nat list \<Rightarrow> task list \<Rightarrow> task list" where
  "link_chain (i # j # js) ts =
     link_chain (j # js)
       (ts[j := (ts ! j)\<lparr>tk_deps := Some (depends_on (id_text (tk_id (ts ! i))))\<rparr>])"
| "link_chain _ ts = ts"

definition link_dependencies :: "task list \<Rightarrow> task list" where
  "link_dependencies ts =
     foldl (\<lambda>ts g. link_chain (sort_key (\<lambda>j. deliverable_index (ts ! j)) g) ts) ts
       (map snd (group_by_phase ts [0..<length ts]))"

section \<open>Generation\<close>

definition phase_task :: "uuid \<Rightarrow> string \<Rightarrow> phase \<Rightarrow> nat \<Rightarrow> string \<Rightarrow> task" where
  "phase_task company key p i deliverable =
     \<lparr>tk_id = None, tk_company = company,
      tk_title = ''['' @ ph_name p @ ''] '' @ deliverable,
      tk_description = Some (''Deliverable for '' @ ph_name p @ '' phase: '' @ deliverable),
      tk_status = ''todo'',
      tk_priority = (if ph_order p \<le> 2 then ''high'' else ''medium''),
      tk_assignee = Some (infer_assignee deliverable), tk_agent = None, tk_deps = None,
      tk_meta = [(''phase'', JStr key), (''phase_order'', JInt (ph_order p)),
                 (''deliverable_index'', JInt (int i))]\<rparr>"

definition phase_tasks :: "uuid \<Rightarrow> string \<times> phase \<Rightarrow> task list" where
  "phase_tasks company kp =
     map (\<lambda>(i, d). phase_task company (fst kp) (snd kp) i d)
       (enumerate 0 (ph_deliverables (snd kp)))"

text \<open>The flush gives the pending rows their identifiers, in the order of their addition.\<close>

fun flush_tasks :: "task list \<Rightarrow> 'a store_scheme \<Rightarrow> task list \<times> 'a store_scheme" where
  "flush_tasks [] s = ([], s)"
| "flush_tasks (t # ts) s =
     (let t' = t\<lparr>tk_id := Some (es_uuid s (es_tick s))\<rparr>;
          (rest, s') = flush_tasks ts (s\<lparr>st_tasks := st_tasks s @ [t'], es_tick := Suc (es_tick s)\<rparr>)
      in (t' # rest, s'))"

definition generate_tasks ::
    "uuid \<Rightarrow> (string, phase) dict option \<Rightarrow> 'a store_scheme \<Rightarrow> task list \<times> 'a store_scheme" where
  "generate_tasks company phases s =
     (case phases of
        None \<Rightarrow> ([], s)
      | Some ps \<Rightarrow>
          if ps = [] then ([], s)
          else flush_tasks (link_dependencies (concat (map (phase_tasks company) ps))) s)"

fun flush_workflows :: "workflow list \<Rightarrow> 'a store_scheme \<Rightarrow> workflow list \<times> 'a store_scheme" where
  "flush_workflows [] s = ([], s)"
| "flush_workflows (w # ws) s =
     (let w' = w\<lparr>wf_id := Some (es_uuid s (es_tick s))\<rparr>;
          (rest, s') = flush_workflows ws
             (s\<lparr>st_workflows := st_workflows s @ [w'], es_tick := Suc (es_tick s)\<rparr>)
      in (w' # rest, s'))"

definition initial_workflows :: "uuid \<Rightarrow> workflow list" where
  "initial_workflows company =
     [\<lparr>wf_id = None, wf_company = company, wf_name = ''Daily Heartbeat'',
       wf_description = Some
         ''Daily agent heartbeat: scan tasks, detect failures, reprioritize, execute.'',
       wf_trigger = [(''type'', ''schedule''), (''cron'', ''*/5 * * * *'')],
       wf_steps = [(1, ''scan_pending_tasks'', ''ceo''), (2, ''prioritize_by_dependencies'', ''pm''),
         (3, ''assign_to_agents'', ''cto''), (4, ''execute_tasks'', ''all''),
         (5, ''report_status'', ''ceo'')],
       wf_agents = [(''ceo'', True), (''cto'', True), (''pm'', True)]\<rparr>,
      \<lparr>wf_id = None, wf_company = company, wf_name = ''Code Review Pipeline'',
       wf_description = Some (''AI self-review '' @ right_arrow @ '' peer agent review '' @
         right_arrow @ '' CTO review '' @ right_arrow @ '' deploy.''),
       wf_trigger = [(''type'', ''event''), (''event'', ''code_generated'')],
       wf_steps = [(1, ''self_review'', ''author''), (2, ''peer_review'', ''peer''),
         (3, ''cto_review'', ''cto''), (4, ''sandbox_deploy'', ''devops''),
         (5, ''qa_validation'', ''qa''), (6, ''request_approval'', ''cto''),
         (7, ''production_deploy'', ''devops'')],
       wf_agents = [(''cto'', True), (''qa'', True), (''devops'', True)]\<rparr>,
      \<lparr>wf_id = None, wf_company = company, wf_name = ''Onboarding Pipeline'',
       wf_description = Some (''New company onboarding: interview '' @ right_arrow @
         '' knowledge graph '' @ right_arrow @ '' constitution '' @ right_arrow @ '' roadmap '' @
         right_arrow @ '' tasks.''),
       wf_trigger = [(''type'', ''event''), (''event'', ''company_created'')],
       wf_steps = [(1, ''conduct_onboarding_interview'', ''pm''), (2, ''analyze_vision'', ''ai_dev''),
         (3, ''generate_knowledge_graph'', ''ai_dev''), (4, ''generate_constitution'', ''ceo''),
         (5, ''generate_roadmap'', ''pm''), (6, ''generate_architecture'', ''cto''),
         (7, ''generate_initial_tasks'', ''pm''), (8, ''present_dashboard'', ''ceo'')],
       wf_agents = [(''ceo'', True), (''cto'', True), (''pm'', True), (''ai_dev'', True)]\<rparr>]"

definition generate_workflows ::
    "uuid \<Rightarrow> task list \<Rightarrow> 'a store_scheme \<Rightarrow> workflow list \<times> 'a store_scheme" where
  "generate_workflows company ts s = flush_workflows (initial_workflows company) s"

section \<open>The groups and the chains\<close>

lemma group_by_phase_snoc:
  "group_by_phase ts (js @ [j]) =
     dict_set (phase_of (ts ! j)) (dict_get_or (group_by_phase ts js) (phase_of (ts ! j)) [] @ [j])
       (group_by_phase ts js)"
  by (simp add: group_by_phase_def Let_def)

lemma group_by_phase_get:
  "dict_get_or (group_by_phase ts js) k [] = filter (\<lambda>j. phase_of (ts ! j) = k) js"
proof (induction js rule: rev_induct)
  case Nil
  show ?case by (simp add: group_by_phase_def dict_get_or_def)
next
  case (snoc j js)
  then show ?case by (auto simp: group_by_phase_snoc)
qed

lemma group_by_phase_wf: "dict_wf (group_by_phase ts js)"
  by (induction js rule: rev_induct) (simp_all add: group_by_phase_snoc, simp add: group_by_phase_def)

lemma group_by_phase_dom:
  "dict_get (group_by_phase ts js) k \<noteq> None \<longleftrightarrow> (\<exists>j\<in>set js. phase_of (ts ! j) = k)"
proof (induction js rule: rev_induct)
  case Nil
  show ?case by (simp add: group_by_phase_def)
next
  case (snoc j js)
  then show ?case by (auto simp: group_by_phase_snoc)
qed

lemma groups_set:
  "g \<in> set (map snd (group_by_phase ts js)) \<longleftrightarrow>
     (\<exists>j\<in>set js. g = filter (\<lambda>i. phase_of (ts ! i) = phase_of (ts ! j)) js)"
proof -
  have "(k, g) \<in> set (group_by_phase ts js) \<longleftrightarrow> dict_get (group_by_phase ts js) k = Some g" for k
    using dict_get_mem [OF group_by_phase_wf] dict_get_Some_mem by metis
  then have "g \<in> set (map snd (group_by_phase ts js)) \<longleftrightarrow>
      (\<exists>k. dict_get (group_by_phase ts js) k = Some g)"
    by (force simp: image_iff)
  also have "\<dots> \<longleftrightarrow> (\<exists>k. dict_get (group_by_phase ts js) k \<noteq> None \<and>
      g = dict_get_or (group_by_phase ts js) k [])"
    by (auto simp: dict_get_or_def)
  finally show ?thesis
    unfolding group_by_phase_dom group_by_phase_get by blast
qed

text \<open>Linking changes no column but \<open>dependencies\<close>.\<close>

definition undep :: "task \<Rightarrow> task" where
  "undep t = t\<lparr>tk_deps := None\<rparr>"

lemma undep_eqD:
  assumes "undep t = undep u"
  shows "tk_id t = tk_id u \<and> tk_meta t = tk_meta u \<and> phase_of t = phase_of u \<and>
    deliverable_index t = deliverable_index u"
proof -
  have "tk_id (undep t) = tk_id (undep u)" "tk_meta (undep t) = tk_meta (undep u)"
    using assms by simp_all
  then show ?thesis by (simp add: undep_def phase_of_def deliverable_index_def)
qed

lemma map_undep_update: "map undep (ts[j := (ts ! j)\<lparr>tk_deps := d\<rparr>]) = map undep ts"
  by (cases "j < length ts") (simp_all add: map_update undep_def list_update_same_conv list_update_beyond)

lemma link_chain_undep [simp]: "map undep (link_chain js ts) = map undep ts"
  by (induction js ts rule: link_chain.induct) (simp_all add: map_undep_update)

lemma link_chain_length [simp]: "length (link_chain js ts) = length ts"
  by (metis length_map link_chain_undep)

lemma map_undep_nth: "map undep ts = map undep us \<Longrightarrow> j < length us \<Longrightarrow> undep (ts ! j) = undep (us ! j)"
  by (metis length_map nth_map)

text \<open>While no task has an identifier, every task of a chain but the first depends on \<open>None\<close>.\<close>

lemma link_chain_deps:
  assumes "\<forall>t\<in>set ts. tk_id t = None" and "distinct js" and "set js \<subseteq> {..<length ts}"
    and "k < length ts"
  shows "tk_deps (link_chain js ts ! k) =
    (if k \<in> set (tl js) then Some (depends_on ''None'') else tk_deps (ts ! k))"
  using assms
proof (induction js ts rule: link_chain.induct)
  case (1 i j js ts)
  let ?ts = "ts[j := (ts ! j)\<lparr>tk_deps := Some (depends_on ''None'')\<rparr>]"
  have i: "id_text (tk_id (ts ! i)) = ''None''"
    using "1.prems" by (simp add: id_text_def)
  have "tk_id t = None" if "t \<in> set ?ts" for t
    using set_update_subset_insert [THEN subsetD, OF that] "1.prems" by auto
  then have "\<forall>t\<in>set ?ts. tk_id t = None" by blast
  with "1.IH" [unfolded i] "1.prems" have "tk_deps (link_chain (j # js) ?ts ! k) =
      (if k \<in> set js then Some (depends_on ''None'') else tk_deps (?ts ! k))"
    by simp
  then show ?case
    using "1.prems"(4) by (simp only: link_chain.simps i) (simp add: nth_list_update)
qed simp_all

lemma groups_undep:
  "map undep (foldl (\<lambda>ts g. link_chain (sort_key (\<lambda>j. deliverable_index (ts ! j)) g) ts) ts gs) =
     map undep ts"
  by (induction gs arbitrary: ts) simp_all

lemma link_groups_deps:
  assumes "\<forall>t\<in>set us. tk_id t = None" and "map undep ts = map undep us"
    and "\<forall>g\<in>set gs. distinct g \<and> set g \<subseteq> {..<length us}" and "k < length us"
  shows "tk_deps (foldl (\<lambda>ts g. link_chain (sort_key (\<lambda>j. deliverable_index (ts ! j)) g) ts) ts gs ! k) =
    (if \<exists>g\<in>set gs. k \<in> set (tl (sort_key (\<lambda>j. deliverable_index (us ! j)) g))
     then Some (depends_on ''None'') else tk_deps (ts ! k))"
  using assms(2,3)
proof (induction gs arbitrary: ts)
  case (Cons g gs)
  have len: "length ts = length us"
    using Cons.prems(1) by (metis length_map)
  note und = map_undep_nth [OF Cons.prems(1), THEN undep_eqD]
  have ids: "\<forall>t\<in>set ts. tk_id t = None"
    using assms(1) und by (metis in_set_conv_nth len)
  have key: "sort_key (\<lambda>j. deliverable_index (ts ! j)) g = sort_key (\<lambda>j. deliverable_index (us ! j)) g"
    using Cons.prems(2) und by (intro sort_key_cong) auto
  let ?g = "sort_key (\<lambda>j. deliverable_index (us ! j)) g"
  have "distinct ?g" "set ?g \<subseteq> {..<length ts}"
    using Cons.prems(2) by (simp_all add: len)
  note step = link_chain_deps [OF ids this, of k]
  show ?case
    using Cons.IH [of "link_chain ?g ts"] Cons.prems step assms(4) by (simp add: key len)
qed simp

text \<open>The tasks of a roadmap: within each phase the indices are distinct and start with 0.\<close>

definition well_indexed :: "task list \<Rightarrow> bool" where
  "well_indexed ts \<longleftrightarrow> distinct (map (\<lambda>t. (phase_of t, deliverable_index t)) ts) \<and>
     (\<forall>t\<in>set ts. 0 \<le> deliverable_index t \<and>
        (\<exists>t0\<in>set ts. phase_of t0 = phase_of t \<and> deliverable_index t0 = 0))"

lemma link_dependencies_deps:
  assumes "well_indexed ts" and ids: "\<forall>t\<in>set ts. tk_id t = None" and k: "k < length ts"
  shows "tk_deps (link_dependencies ts ! k) =
    (if deliverable_index (ts ! k) = 0 then tk_deps (ts ! k) else Some (depends_on ''None''))"
proof -
  let ?idx = "\<lambda>j. deliverable_index (ts ! j)" and ?ph = "\<lambda>j. phase_of (ts ! j)"
  let ?gs = "map snd (group_by_phase ts [0..<length ts])"
  have tail: "k \<in> set (tl (sort_key ?idx g)) \<longleftrightarrow> ?ph k = ?ph j \<and> ?idx k \<noteq> 0"
    if g: "g = filter (\<lambda>i. ?ph i = ?ph j) [0..<length ts]" and j: "j < length ts" for g j
  proof -
    have "g \<noteq> []" using j by (auto simp: g filter_empty_conv)
    then obtain h hs where eq: "sort_key ?idx g = h # hs"
      by (metis list.exhaust sort_key_eq_Nil)
    have dist: "distinct (h # hs)" by (metis distinct_filter distinct_sort distinct_upt eq g)
    have mem: "set (h # hs) = {i. i < length ts \<and> ?ph i = ?ph j}"
      using arg_cong [where f = set, OF eq] by (auto simp: g)
    obtain z where z: "z < length ts" "?ph z = ?ph j" "?idx z = 0"
      using assms(1) j unfolding well_indexed_def by (metis in_set_conv_nth)
    have h: "h < length ts" "?ph h = ?ph j" using mem by auto
    have "?idx h \<le> ?idx z"
      using z by (intro sort_key_Cons_least [OF eq]) (simp add: g)
    moreover have "0 \<le> ?idx h" using assms(1) h by (simp add: well_indexed_def)
    ultimately have h0: "?idx h = 0" using z by simp
    have inj: "i = h" if "i < length ts" "?ph i = ?ph j" "?idx i = 0" for i
      using assms(1) that h h0 unfolding well_indexed_def distinct_conv_nth length_map
      by (metis (no_types, lifting) nth_map)
    have "k \<in> set (h # hs) \<longleftrightarrow> ?ph k = ?ph j" using k unfolding mem by simp
    with dist inj [OF k] h0 show ?thesis by (auto simp: eq)
  qed
  have "(\<exists>g\<in>set ?gs. k \<in> set (tl (sort_key ?idx g))) \<longleftrightarrow> ?idx k \<noteq> 0"
  proof -
    have "(\<exists>g\<in>set ?gs. k \<in> set (tl (sort_key ?idx g))) \<longleftrightarrow>
        (\<exists>j<length ts. k \<in> set (tl (sort_key ?idx (filter (\<lambda>i. ?ph i = ?ph j) [0..<length ts]))))"
      unfolding Bex_def groups_set by auto
    then show ?thesis using tail [OF refl] k by auto
  qed
  moreover have "\<forall>g\<in>set ?gs. distinct g \<and> set g \<subseteq> {..<length ts}"
    unfolding Ball_def groups_set by auto
  ultimately show ?thesis
    using link_groups_deps [OF ids refl _ k, of ?gs] by (simp add: link_dependencies_def)
qed

section \<open>The generated tasks\<close>

lemma phase_task_simps [simp]:
  "tk_id (phase_task c k p i d) = None" "tk_deps (phase_task c k p i d) = None"
  "phase_of (phase_task c k p i d) = Some (JStr k)"
  "deliverable_index (phase_task c k p i d) = int i"
  by (simp_all add: phase_task_def phase_of_def deliverable_index_def dict_get_or_def dict_get_def)

lemma phase_tasks_keys:
  "map (\<lambda>t. (phase_of t, deliverable_index t)) (phase_tasks c (k, p)) =
     map (\<lambda>i. (Some (JStr k), int i)) [0..<length (ph_deliverables p)]"
proof -
  have "map (\<lambda>t. (phase_of t, deliverable_index t)) (phase_tasks c (k, p)) =
      map (\<lambda>i. (Some (JStr k), int i)) (map fst (enumerate 0 (ph_deliverables p)))"
    unfolding map_map by (simp add: phase_tasks_def comp_def split_beta)
  then show ?thesis by (simp only: map_fst_enumerate) simp
qed

lemma roadmap_well_indexed:
  assumes "dict_wf ps"
  shows "well_indexed (concat (map (phase_tasks c) ps))"
proof -
  let ?key = "\<lambda>t. (phase_of t, deliverable_index t)"
  have "distinct (concat (map (\<lambda>(k, p). map (\<lambda>i. (Some (JStr k), int i)) [0..<length (ph_deliverables p)]) ps))"
    using assms by (induction ps) (force simp: dict_wf_def distinct_map inj_on_def)+
  moreover have "map ?key (concat (map (phase_tasks c) ps)) =
      concat (map (\<lambda>(k, p). map (\<lambda>i. (Some (JStr k), int i)) [0..<length (ph_deliverables p)]) ps)"
    by (auto simp: map_concat phase_tasks_keys intro!: arg_cong [where f = concat])
  ultimately have "distinct (map ?key (concat (map (phase_tasks c) ps)))" by simp
  moreover have "\<exists>t0\<in>set (phase_tasks c kp). phase_of t0 = phase_of t \<and> deliverable_index t0 = 0"
    if "t \<in> set (phase_tasks c kp)" for t kp
  proof -
    from that obtain i d where t: "t = phase_task c (fst kp) (snd kp) i d"
      and "(i, d) \<in> set (enumerate 0 (ph_deliverables (snd kp)))"
      by (auto simp: phase_tasks_def)
    then obtain d0 ds where ds: "ph_deliverables (snd kp) = d0 # ds"
      by (cases "ph_deliverables (snd kp)") auto
    show ?thesis
      by (rule bexI [of _ "phase_task c (fst kp) (snd kp) 0 d0"]) (simp_all add: t phase_tasks_def ds)
  qed
  moreover have "0 \<le> deliverable_index t" if "t \<in> set (phase_tasks c kp)" for t kp
    using that by (auto simp: phase_tasks_def)
  ultimately show ?thesis unfolding well_indexed_def by fastforce
qed

lemma flush_tasks_ids:
  "map tk_id (fst (flush_tasks ts s)) = map (\<lambda>n. Some (es_uuid s n)) [es_tick s..<es_tick s + length ts]"
proof (induction ts s rule: flush_tasks.induct)
  case (2 t ts s)
  have "[es_tick s..<es_tick s + length (t # ts)] =
      es_tick s # [Suc (es_tick s)..<Suc (es_tick s) + length ts]"
    by (simp add: upt_conv_Cons del: upt_Suc)
  with "2.IH" [OF refl] show ?case by (simp add: split_beta Let_def del: upt_Suc)
qed simp

text \<open>Columns that the flush or the linking does not touch.\<close>

lemma flush_column:
  "(\<And>t i. f (t\<lparr>tk_id := i\<rparr>) = f t) \<Longrightarrow> map f (fst (flush_tasks ts s)) = map f ts"
  by (induction ts s rule: flush_tasks.induct) (simp_all add: split_beta Let_def)

lemma link_column:
  assumes "\<And>t. f (undep t) = f t"
  shows "map f (link_dependencies ts) = map f ts"
proof -
  have "map undep (link_dependencies ts) = map undep ts"
    by (simp add: link_dependencies_def groups_undep)
  then have "map (f \<circ> undep) (link_dependencies ts) = map (f \<circ> undep) ts"
    by (metis map_map)
  then show ?thesis by (simp add: comp_def assms)
qed

lemma task_columns:
  "tk_title (undep t) = tk_title t" "deliverable_index (undep t) = deliverable_index t"
  "deliverable_index (t\<lparr>tk_id := i\<rparr>) = deliverable_index t"
  by (simp_all add: undep_def deliverable_index_def)

lemma link_deps_column:
  assumes "well_indexed ts" and "\<forall>t\<in>set ts. tk_id t = None \<and> tk_deps t = None"
  shows "map (\<lambda>t. (deliverable_index t, tk_deps t)) (link_dependencies ts) =
    map (\<lambda>t. (deliverable_index t,
       if deliverable_index t = 0 then None else Some (depends_on ''None''))) ts"
proof -
  have idx: "map deliverable_index (link_dependencies ts) = map deliverable_index ts"
    by (rule link_column) (simp add: task_columns)
  then have len: "length (link_dependencies ts) = length ts" by (metis length_map)
  have "deliverable_index (link_dependencies ts ! k) = deliverable_index (ts ! k)"
    if "k < length ts" for k
    using idx that len by (metis nth_map)
  with assms show ?thesis
    by (intro nth_equalityI) (simp_all add: len link_dependencies_deps)
qed

text \<open>
  C17. The tasks of a roadmap are one task for each deliverable of each phase, in order, and
  the flush gives each a fresh identifier. But the dependencies were linked before the
  flush: every task that is not the first of its phase depends on the text "None" and on no
  task at all.
\<close>

theorem generate_tasks_dependencies:
  assumes "dict_wf ps"
  shows "let ts = fst (generate_tasks company (Some ps) s)
    in map (\<lambda>t. (tk_title t, deliverable_index t)) ts =
         concat (map (\<lambda>(k, p). map (\<lambda>(i, d). (''['' @ ph_name p @ ''] '' @ d, int i))
           (enumerate 0 (ph_deliverables p))) ps) \<and>
       map tk_id ts = map (\<lambda>n. Some (es_uuid s n)) [es_tick s..<es_tick s + length ts] \<and>
       (\<forall>t\<in>set ts. tk_deps t =
          (if deliverable_index t = 0 then None
           else Some [(''depends_on'', JArr [JStr ''None'']), (''type'', JStr ''sequential'')]))"
proof -
  define raw where "raw = concat (map (phase_tasks company) ps)"
  define ts where "ts = fst (flush_tasks (link_dependencies raw) s)"
  have gen: "fst (generate_tasks company (Some ps) s) = ts"
    by (simp add: generate_tasks_def ts_def raw_def link_dependencies_def group_by_phase_def)
  let ?row = "\<lambda>t. (tk_title t, deliverable_index t)"
  have "map ?row ts = map ?row raw"
    by (simp add: ts_def flush_column link_column task_columns)
  also have "\<dots> = concat (map (\<lambda>(k, p). map (\<lambda>(i, d). (''['' @ ph_name p @ ''] '' @ d, int i))
           (enumerate 0 (ph_deliverables p))) ps)"
    by (auto simp: raw_def map_concat phase_tasks_def phase_task_def deliverable_index_def
        dict_get_or_def dict_get_def intro!: arg_cong [where f = concat])
  finally have rows: "map ?row ts = \<dots>" .
  have "length ts = length (link_dependencies raw)"
    using flush_column [of "\<lambda>_. ()" "link_dependencies raw" s] by (metis length_map ts_def)
  then have ids: "map tk_id ts = map (\<lambda>n. Some (es_uuid s n)) [es_tick s..<es_tick s + length ts]"
    by (simp add: flush_tasks_ids ts_def)
  have "\<forall>t\<in>set raw. tk_id t = None \<and> tk_deps t = None"
    by (auto simp: raw_def phase_tasks_def)
  note col = link_deps_column [OF roadmap_well_indexed [OF assms, of company, folded raw_def] this]
  have "map (\<lambda>t. (deliverable_index t, tk_deps t)) ts =
      map (\<lambda>t. (deliverable_index t, tk_deps t)) (link_dependencies raw)"
    by (simp add: ts_def flush_column task_columns)
  then have mem: "(deliverable_index t, tk_deps t) \<in> set (map (\<lambda>t. (deliverable_index t,
       if deliverable_index t = 0 then None else Some (depends_on ''None''))) raw)"
    if "t \<in> set ts" for t
    using that by (metis (no_types, lifting) col image_eqI list.set_map)
  have "\<forall>t\<in>set ts. tk_deps t =
      (if deliverable_index t = 0 then None else Some (depends_on ''None''))"
  proof
    fix t assume "t \<in> set ts"
    from mem [OF this] show "tk_deps t =
        (if deliverable_index t = 0 then None else Some (depends_on ''None''))" by auto
  qed
  with rows ids show ?thesis
    by (simp only: gen Let_def depends_on_def)
qed

definition sample_phase :: phase where
  "sample_phase = \<lparr>ph_name = ''P'', ph_order = 1, ph_weeks = 1, ph_objective = [],
     ph_deliverables = [''a'', ''b''], ph_assignments = []\<rparr>"

definition sample_store :: store where
  "sample_store = \<lparr>si_companies = [], es_rows = [], es_bus = empty_bus, es_uuid = (\<lambda>n. ''id'' @ show_nat n),
     es_clock = (\<lambda>n. int n), es_tick = 0, bk_agents = [sample_agent], st_tasks = [],
     st_workflows = []\<rparr>"

theorem generate_tasks_dependencies_witness:
  "map (\<lambda>t. (tk_title t, deliverable_index t))
     (fst (generate_tasks ''c'' (Some [(''k'', sample_phase)]) sample_store)) =
     [(''[P] a'', 0), (''[P] b'', 1)]"
  using generate_tasks_dependencies [of "[(''k'', sample_phase)]" "''c''" sample_store]
  by (simp add: sample_phase_def dict_wf_def Let_def)

end
