(* ===== verification/Knowledge.thy ===== *)
theory Knowledge
  imports TaskGen
begin

text \<open>
  The knowledge graph of the onboarding pipeline
  (backend/app/services/knowledge_graph_service.py): the domains and capabilities whose
  keywords a vision contains, the nodes of the graph and the edges between them. The text is
  lowered by \<open>py_lower\<close> and searched for substrings, as in the code. The operations that write the
  graph to the database are in \<open>Onboarding\<close>.
\<close>

section \<open>Keywords\<close>

record kg_domain =
  dm_name :: string
  dm_relevance :: real
  dm_keywords :: "string list"

record kg_capability =
  kc_name :: string
  kc_required :: bool
  kc_patterns :: "string list"

definition domain_keywords :: "(string, string list) dict" where
  "domain_keywords =
    [(''product'', [''product'', ''app'', ''platform'', ''saas'', ''software'', ''tool'']),
     (''ai_ml'', [''ai'', ''ml'', ''machine learning'', ''model'', ''neural'', ''nlp'', ''llm'']),
     (''data'', [''data'', ''analytics'', ''pipeline'', ''warehouse'', ''lake'']),
     (''infrastructure'', [''cloud'', ''deploy'', ''infra'', ''kubernetes'', ''docker'', ''server'']),
     (''security'', [''security'', ''auth'', ''encrypt'', ''compliance'', ''privacy'']),
     (''user_experience'', [''ui'', ''ux'', ''design'', ''mobile'', ''web'', ''interface'']),
     (''business'', [''revenue'', ''market'', ''customer'', ''sales'', ''growth'', ''billing'']),
     (''integration'', [''api'', ''integration'', ''connect'', ''webhook'', ''sync'']),
     (''automation'', [''automate'', ''workflow'', ''pipeline'', ''ci/cd'', ''orchestrate''])]"

definition capability_patterns :: "(string, string list) dict" where
  "capability_patterns =
    [(''web_application'', [''web app'', ''website'', ''browser'', ''frontend'', ''react'', ''next.js'']),
     (''api_backend'', [''api'', ''backend'', ''server'', ''endpoint'', ''rest'', ''graphql'']),
     (''database_management'', [''database'', ''postgres'', ''sql'', ''nosql'', ''storage'']),
     (''ai_inference'', [''model inference'', ''prediction'', ''generate'', ''classify'']),
     (''user_authentication'', [''login'', ''signup'', ''auth'', ''user account'', ''profile'']),
     (''payment_processing'', [''payment'', ''billing'', ''subscription'', ''stripe'', ''checkout'']),
     (''real_time'', [''real-time'', ''websocket'', ''live'', ''streaming'', ''instant'']),
     (''mobile'', [''mobile'', ''ios'', ''android'', ''app store'', ''native'']),
     (''analytics'', [''analytics'', ''dashboard'', ''report'', ''metrics'', ''tracking'']),
     (''file_storage'', [''upload'', ''file'', ''storage'', ''image'', ''document'', ''media'']),
     (''notification'', [''email'', ''notification'', ''alert'', ''sms'', ''push'']),
     (''search'', [''search'', ''index'', ''full-text'', ''elastic''])]"

definition matched_in :: "string \<Rightarrow> string list \<Rightarrow> string list" where
  "matched_in text_lower keywords = filter (\<lambda>kw. py_in kw text_lower) keywords"

text \<open>\<open>key.replace("_", " ").title()\<close>\<close>

definition title_of_key :: "string \<Rightarrow> string" where
  "title_of_key key = py_title (py_replace (CHR ''_'') '' '' key)"

definition extract_domains :: "string \<Rightarrow> (string, kg_domain) dict" where
  "extract_domains vision =
     (let vision_lower = py_lower vision
      in fold (\<lambda>(dom, keywords) matched.
           let score = length (matched_in vision_lower keywords)
           in if 0 < score
              then dict_set dom
                \<lparr>dm_name = title_of_key dom,
                 dm_relevance = min (of_nat score / of_nat (length keywords)) 1,
                 dm_keywords = matched_in vision_lower keywords\<rparr> matched
              else matched) domain_keywords [])"

definition extract_capabilities :: "string \<Rightarrow> (string, kg_capability) dict" where
  "extract_capabilities vision =
     (let vision_lower = py_lower vision
      in fold (\<lambda>(cap, patterns) capabilities.
           let matched = matched_in vision_lower patterns
           in if matched \<noteq> []
              then dict_set cap
                \<lparr>kc_name = title_of_key cap, kc_required = True, kc_patterns = matched\<rparr> capabilities
              else capabilities) capability_patterns [])"

section \<open>Nodes and edges\<close>

record kg_node =
  nd_id :: string
  nd_type :: string
  nd_label :: string
  nd_properties :: "(string, json) dict"

record kg_edge =
  ed_source :: string
  ed_target :: string
  ed_type :: string
  ed_label :: string

definition agent_roles :: "(string \<times> string \<times> string) list" where
  "agent_roles =
    [(''ceo'', ''CEO'', ''Strategic direction and governance''),
     (''cto'', ''CTO'', ''Technical architecture and engineering leadership''),
     (''pm'', ''Product Manager'', ''Product vision and roadmap ownership''),
     (''frontend_dev'', ''Frontend Developer'', ''UI/UX implementation''),
     (''backend_dev'', ''Backend Developer'', ''API and server development''),
     (''ai_dev'', ''AI/ML Developer'', ''Model integration and AI features''),
     (''devops'', ''DevOps Engineer'', ''Infrastructure and deployment''),
     (''qa'', ''QA Engineer'', ''Testing and quality assurance''),
     (''designer'', ''UX Designer'', ''User experience and interface design'')]"

definition build_nodes ::
  "(string, kg_domain) dict \<Rightarrow> (string, kg_capability) dict \<Rightarrow> (string, kg_node) dict" where
  "build_nodes domains capabilities =
     (let nodes1 = fold (\<lambda>(domain_key, d) nodes.
            let node_id = ''domain:'' @ domain_key
            in dict_set node_id
                 \<lparr>nd_id = node_id, nd_type = ''domain'', nd_label = dm_name d,
                  nd_properties = [(''relevance'', JNum (dm_relevance d))]\<rparr> nodes) domains [];
          nodes2 = fold (\<lambda>(cap_key, c) nodes.
            let node_id = ''capability:'' @ cap_key
            in dict_set node_id
                 \<lparr>nd_id = node_id, nd_type = ''capability'', nd_label = kc_name c,
                  nd_properties = [(''required'', JBool True)]\<rparr> nodes) capabilities nodes1
      in fold (\<lambda>(role_key, role_name, role_desc) nodes.
            let node_id = ''agent:'' @ role_key
            in dict_set node_id
                 \<lparr>nd_id = node_id, nd_type = ''agent_role'', nd_label = role_name,
                  nd_properties = [(''description'', JStr role_desc)]\<rparr> nodes) agent_roles nodes2)"

definition capability_to_domain :: "(string, string) dict" where
  "capability_to_domain =
    [(''web_application'', ''product''),
     (''api_backend'', ''product''),
     (''database_management'', ''data''),
     (''ai_inference'', ''ai_ml''),
     (''user_authentication'', ''security''),
     (''payment_processing'', ''business''),
     (''real_time'', ''infrastructure''),
     (''analytics'', ''data''),
     (''file_storage'', ''infrastructure''),
     (''notification'', ''user_experience''),
     (''search'', ''data''),
     (''mobile'', ''product'')]"

definition agent_to_domain :: "(string, string) dict" where
  "agent_to_domain =
    [(''ceo'', ''business''),
     (''cto'', ''infrastructure''),
     (''pm'', ''product''),
     (''frontend_dev'', ''user_experience''),
     (''backend_dev'', ''product''),
     (''ai_dev'', ''ai_ml''),
     (''devops'', ''infrastructure''),
     (''qa'', ''product''),
     (''designer'', ''user_experience'')]"

text \<open>The body of the two loops of \<open>_build_edges\<close>; the state is the edges and the next index.\<close>

definition add_edge ::
  "string \<Rightarrow> string \<Rightarrow> string \<Rightarrow> (string, kg_node) dict \<Rightarrow> string \<times> string \<Rightarrow>
   (string, kg_edge) dict \<times> nat \<Rightarrow> (string, kg_edge) dict \<times> nat" where
  "add_edge kind ty label nodes pair st =
     (case (pair, st) of ((key, domain_key), (edges, edge_idx)) \<Rightarrow>
        let source_id = kind @ key; domain_id = ''domain:'' @ domain_key
        in if dict_get nodes source_id \<noteq> None \<and> dict_get nodes domain_id \<noteq> None
           then (dict_set (show_nat edge_idx)
                   \<lparr>ed_source = source_id, ed_target = domain_id, ed_type = ty, ed_label = label\<rparr> edges,
                 Suc edge_idx)
           else (edges, edge_idx))"

definition build_edges :: "(string, kg_node) dict \<Rightarrow> (string, kg_edge) dict" where
  "build_edges nodes =
     fst (fold (add_edge ''agent:'' ''specializes_in'' ''specializes in'' nodes) agent_to_domain
       (fold (add_edge ''capability:'' ''belongs_to'' ''belongs to'' nodes) capability_to_domain ([], 0)))"

record kg_analysis =
  an_domains :: "(string, kg_domain) dict"
  an_capabilities :: "(string, kg_capability) dict"
  an_nodes :: "(string, kg_node) dict"
  an_edges :: "(string, kg_edge) dict"

definition analyze_vision :: "string \<Rightarrow> kg_analysis" where
  "analyze_vision vision =
     (let domains = extract_domains vision;
          capabilities = extract_capabilities vision;
          nodes = build_nodes domains capabilities
      in \<lparr>an_domains = domains, an_capabilities = capabilities, an_nodes = nodes,
          an_edges = build_edges nodes\<rparr>)"

section \<open>Which keywords are found\<close>

text \<open>A loop over a table of keywords that keeps the entries with a match.\<close>

lemma fold_matched:
  assumes "distinct (map fst tab)"
  shows "dict_get (fold (\<lambda>(k, kws) d. if P kws then dict_set k (f k kws) d else d) tab d) k =
    (case map_of tab k of None \<Rightarrow> dict_get d k
     | Some kws \<Rightarrow> if P kws then Some (f k kws) else dict_get d k)"
  using assms
proof (induction tab arbitrary: d)
  case (Cons e tab)
  then have "map_of tab (fst e) = None" by (simp add: map_of_eq_None_iff)
  with Cons show ?case by (cases e) (auto split: option.split)
qed simp

lemma fold_matched_dom:
  "set (dict_keys (fold (\<lambda>(k, kws) d. if P kws then dict_set k (f k kws) d else d) tab d)) \<subseteq>
     set (dict_keys d) \<union> set (map fst tab)"
proof (induction tab arbitrary: d)
  case (Cons e tab)
  show ?case using Cons.IH [of "case e of (k, kws) \<Rightarrow> if P kws then dict_set k (f k kws) d else d"]
    by (cases e) (auto split: if_splits)
qed simp

lemma distinct_domains: "distinct (map fst domain_keywords)"
  by (simp add: domain_keywords_def)

definition domain_entry :: "string \<Rightarrow> string \<Rightarrow> string list \<Rightarrow> kg_domain" where
  "domain_entry text_lower key keywords =
     \<lparr>dm_name = title_of_key key,
      dm_relevance = min (of_nat (length (matched_in text_lower keywords)) / of_nat (length keywords)) 1,
      dm_keywords = matched_in text_lower keywords\<rparr>"

lemma extract_domains_get:
  "dict_get (extract_domains vision) d =
     (case map_of domain_keywords d of None \<Rightarrow> None
      | Some kws \<Rightarrow> if matched_in (py_lower vision) kws \<noteq> []
                   then Some (domain_entry (py_lower vision) d kws) else None)"
proof -
  have "extract_domains vision = fold (\<lambda>(k, kws) d. if matched_in (py_lower vision) kws \<noteq> []
      then dict_set k (domain_entry (py_lower vision) k kws) d else d) domain_keywords []"
    unfolding extract_domains_def domain_entry_def Let_def by simp
  then show ?thesis
    unfolding fold_matched [OF distinct_domains] by (simp add: fold_matched [OF distinct_domains] split: option.split)
qed

lemma matched_in_mono:
  assumes "py_in v w"
  shows "set (matched_in (py_lower v) kws) \<subseteq> set (matched_in (py_lower w) kws)"
    and "length (matched_in (py_lower v) kws) \<le> length (matched_in (py_lower w) kws)"
proof -
  have low: "py_in (py_lower v) (py_lower w)"
    using assms by (simp add: py_in_iff_sublist py_lower_def map_mono_sublist)
  then show "set (matched_in (py_lower v) kws) \<subseteq> set (matched_in (py_lower w) kws)"
    by (auto simp: matched_in_def intro: py_in_trans)
  show "length (matched_in (py_lower v) kws) \<le> length (matched_in (py_lower w) kws)"
    unfolding matched_in_def using py_in_trans [OF _ low] by (induction kws) auto
qed

text \<open>
  A domain is recognised exactly when one of its keywords occurs in the vision, in lower
  case and as a part of any word. Its relevance is the share of its keywords that occur,
  positive and at most 1. A longer vision recognises every domain of its parts, with at least
  the relevance and all the keywords.
\<close>

theorem domains_exact_and_monotone:
  assumes "py_in v w" and "dict_get (extract_domains v) d = Some x"
  shows "(\<exists>kws. (d, kws) \<in> set domain_keywords \<and> dm_keywords x = matched_in (py_lower v) kws \<and>
        dm_keywords x \<noteq> [] \<and> dm_relevance x = of_nat (length (dm_keywords x)) / of_nat (length kws)) \<and>
    0 < dm_relevance x \<and>
    (\<exists>y. dict_get (extract_domains w) d = Some y \<and> dm_relevance x \<le> dm_relevance y \<and>
       dm_relevance y \<le> 1 \<and> set (dm_keywords x) \<subseteq> set (dm_keywords y))"
proof -
  obtain kws where kws: "map_of domain_keywords d = Some kws" "matched_in (py_lower v) kws \<noteq> []"
    and x: "x = domain_entry (py_lower v) d kws"
    using assms(2) by (auto simp: extract_domains_get split: option.splits if_splits)
  have "kws \<noteq> []" using kws(2) by (auto simp: matched_in_def)
  moreover have "length (matched_in t kws) \<le> length kws" for t by (simp add: matched_in_def)
  ultimately have share: "dm_relevance (domain_entry t d kws) = of_nat (length (matched_in t kws)) / of_nat (length kws)"
    "dm_relevance (domain_entry t d kws) \<le> 1" for t
    by (simp_all add: domain_entry_def)
  have "matched_in (py_lower w) kws \<noteq> []"
    using matched_in_mono(2) [OF assms(1), of kws] kws(2) by auto
  then have y: "dict_get (extract_domains w) d = Some (domain_entry (py_lower w) d kws)"
    by (simp add: extract_domains_get kws(1))
  have "dm_relevance x \<le> dm_relevance (domain_entry (py_lower w) d kws)"
    unfolding x share using matched_in_mono(2) [OF assms(1), of kws] by (simp add: divide_right_mono)
  moreover have "0 < dm_relevance x" using kws(2) \<open>kws \<noteq> []\<close> by (simp add: x share)
  moreover have "set (dm_keywords x) \<subseteq> set (dm_keywords (domain_entry (py_lower w) d kws))"
    using matched_in_mono(1) [OF assms(1)] by (simp add: x domain_entry_def)
  moreover have "(d, kws) \<in> set domain_keywords" by (rule map_of_SomeD [OF kws(1)])
  ultimately show ?thesis
    using y kws(2) share by (auto simp: x domain_entry_def)
qed

theorem domains_exact_and_monotone_witness:
  "\<exists>y. dict_get (extract_domains ''We build houses'') ''user_experience'' = Some y \<and> 1/6 \<le> dm_relevance y"
proof -
  have "map_of domain_keywords ''user_experience'' = Some [''ui'', ''ux'', ''design'', ''mobile'', ''web'', ''interface'']"
    by (simp add: domain_keywords_def)
  then have "dict_get (extract_domains ''build'') ''user_experience'' =
      Some \<lparr>dm_name = title_of_key ''user_experience'', dm_relevance = 1/6, dm_keywords = [''ui'']\<rparr>"
    by (simp add: extract_domains_get matched_in_def domain_entry_def py_lower_def lower_char_def)
  from domains_exact_and_monotone [OF _ this, of "''We build houses''"] show ?thesis by auto
qed

section \<open>The graph is well formed\<close>

lemma fold_put_dom:
  "dict_get (fold (\<lambda>(k, v) d. dict_set (p @ k) (f k v) d) xs d) n \<noteq> None \<longleftrightarrow>
     dict_get d n \<noteq> None \<or> n \<in> (@) p ` set (map fst xs)"
  by (induction xs arbitrary: d) (auto split: if_splits)

lemma build_nodes_dom:
  "dict_get (build_nodes ds cs) n \<noteq> None \<longleftrightarrow>
     n \<in> (@) ''domain:'' ` set (dict_keys ds) \<or> n \<in> (@) ''capability:'' ` set (dict_keys cs) \<or>
     n \<in> (@) ''agent:'' ` set (map fst agent_roles)"
proof -
  have roles: "fold (\<lambda>(k, l, e) d. dict_set (''agent:'' @ k) (f k l e) d) xs d =
      fold (\<lambda>(k, v) d. dict_set (''agent:'' @ k) (f k (fst v) (snd v)) d) xs d" for f :: "_ \<Rightarrow> _ \<Rightarrow> _ \<Rightarrow> kg_node" and xs d
    by (induction xs arbitrary: d) auto
  show ?thesis
    unfolding build_nodes_def Let_def roles fold_put_dom dict_keys_def by simp
qed

text \<open>What one of the two loops appends, with the next indices as keys.\<close>

definition linked ::
  "string \<Rightarrow> string \<Rightarrow> string \<Rightarrow> (string, kg_node) dict \<Rightarrow> (string \<times> string) list \<Rightarrow> kg_edge list" where
  "linked kind ty label nodes pairs =
     map (\<lambda>(key, d). \<lparr>ed_source = kind @ key, ed_target = ''domain:'' @ d, ed_type = ty, ed_label = label\<rparr>)
       (filter (\<lambda>(key, d). dict_get nodes (kind @ key) \<noteq> None \<and> dict_get nodes (''domain:'' @ d) \<noteq> None) pairs)"

definition numbered :: "'a list \<Rightarrow> (string, 'a) dict" where
  "numbered xs = zip (map show_nat [0..<length xs]) xs"

lemma numbered_snoc: "dict_set (show_nat (length xs)) x (numbered xs) = numbered (xs @ [x])"
proof -
  have "dict_get (numbered xs) (show_nat (length xs)) = None"
    unfolding dict_get_def map_of_eq_None_iff numbered_def
    by (auto simp: show_nat_inject dest!: set_zip_leftD)
  then show ?thesis by (simp add: dict_set_fresh) (simp add: numbered_def)
qed

lemma add_edges:
  "fold (add_edge kind ty label nodes) pairs (numbered es, length es) =
     (numbered (es @ linked kind ty label nodes pairs), length (es @ linked kind ty label nodes pairs))"
proof (induction pairs arbitrary: es)
  case (Cons pair pairs)
  show ?case
  proof (cases pair)
    case (Pair key d)
    show ?thesis
      using Cons.IH [of es] Cons.IH [of "es @ [\<lparr>ed_source = kind @ key, ed_target = ''domain:'' @ d,
          ed_type = ty, ed_label = label\<rparr>]"]
      by (simp add: Pair add_edge_def Let_def linked_def numbered_snoc)
  qed
qed (simp add: linked_def)

lemma build_edges_numbered:
  "build_edges nodes = numbered (linked ''capability:'' ''belongs_to'' ''belongs to'' nodes capability_to_domain @
     linked ''agent:'' ''specializes_in'' ''specializes in'' nodes agent_to_domain)"
proof -
  have start: "([] :: (string, kg_edge) dict, 0 :: nat) = (numbered [], length ([] :: kg_edge list))"
    by (simp add: numbered_def)
  show ?thesis unfolding build_edges_def start add_edges by simp
qed

lemma numbered_keys: "dict_keys (numbered xs) = map show_nat [0..<length xs]"
  by (simp add: dict_keys_def numbered_def)

lemma numbered_values: "map snd (numbered xs) = xs" "length (numbered xs) = length xs"
  by (simp_all add: numbered_def)

lemma linked_mem:
  "e \<in> set (linked kind ty label nodes pairs) \<longleftrightarrow>
     (\<exists>k d. (k, d) \<in> set pairs \<and> dict_get nodes (kind @ k) \<noteq> None \<and> dict_get nodes (''domain:'' @ d) \<noteq> None \<and>
        e = \<lparr>ed_source = kind @ k, ed_target = ''domain:'' @ d, ed_type = ty, ed_label = label\<rparr>)"
  by (auto simp: linked_def)

text \<open>
  C35. The graph of a vision is well formed: the keys of its edges are the numbers from 0 in
  order, the ends of every edge are nodes, and the edges are exactly these: a capability that
  was found belongs to its domain, and an agent role specialises in its domain, whenever that
  domain was found.
\<close>

theorem graph_edges_exact:
  fixes vision :: string
  defines "a \<equiv> analyze_vision vision"
  shows "dict_keys (an_edges a) = map show_nat [0..<length (an_edges a)] \<and>
    (\<forall>e. e \<in> set (map snd (an_edges a)) \<longleftrightarrow>
      dict_get (an_nodes a) (ed_target e) \<noteq> None \<and> dict_get (an_nodes a) (ed_source e) \<noteq> None \<and>
      ((\<exists>c d. (c, d) \<in> set capability_to_domain \<and> dict_get (an_capabilities a) c \<noteq> None \<and>
          dict_get (an_domains a) d \<noteq> None \<and>
          e = \<lparr>ed_source = ''capability:'' @ c, ed_target = ''domain:'' @ d, ed_type = ''belongs_to'',
               ed_label = ''belongs to''\<rparr>) \<or>
       (\<exists>r d. (r, d) \<in> set agent_to_domain \<and> dict_get (an_domains a) d \<noteq> None \<and>
          e = \<lparr>ed_source = ''agent:'' @ r, ed_target = ''domain:'' @ d, ed_type = ''specializes_in'',
               ed_label = ''specializes in''\<rparr>)))"
proof -
  let ?D = "an_domains a" and ?C = "an_capabilities a"
  have nodes: "an_nodes a = build_nodes ?D ?C" and edges: "an_edges a = build_edges (an_nodes a)"
    by (simp_all add: a_def analyze_vision_def Let_def)
  have dom: "dict_get (an_nodes a) (''domain:'' @ d) \<noteq> None \<longleftrightarrow> dict_get ?D d \<noteq> None"
    "dict_get (an_nodes a) (''capability:'' @ c) \<noteq> None \<longleftrightarrow> dict_get ?C c \<noteq> None"
    "dict_get (an_nodes a) (''agent:'' @ r) \<noteq> None \<longleftrightarrow> r \<in> set (map fst agent_roles)" for c d r
    unfolding nodes build_nodes_dom by (auto simp: alist.keys_get)
  have roles: "r \<in> set (map fst agent_roles)" if "(r, d) \<in> set agent_to_domain" for r d
  proof -
    have "set (map fst agent_to_domain) \<subseteq> set (map fst agent_roles)"
      by (simp add: agent_to_domain_def agent_roles_def)
    with that show ?thesis by force
  qed
  have cap: "e \<in> set (linked ''capability:'' ty l (an_nodes a) capability_to_domain) \<longleftrightarrow>
      (\<exists>c d. (c, d) \<in> set capability_to_domain \<and> dict_get ?C c \<noteq> None \<and> dict_get ?D d \<noteq> None \<and>
        e = \<lparr>ed_source = ''capability:'' @ c, ed_target = ''domain:'' @ d, ed_type = ty, ed_label = l\<rparr>)" for e ty l
    unfolding linked_mem dom ..
  have agent: "e \<in> set (linked ''agent:'' ty l (an_nodes a) agent_to_domain) \<longleftrightarrow>
      (\<exists>r d. (r, d) \<in> set agent_to_domain \<and> dict_get ?D d \<noteq> None \<and>
        e = \<lparr>ed_source = ''agent:'' @ r, ed_target = ''domain:'' @ d, ed_type = ty, ed_label = l\<rparr>)" for e ty l
    unfolding linked_mem dom using roles by blast
  have ends: "dict_get (an_nodes a) (ed_target e) \<noteq> None \<and> dict_get (an_nodes a) (ed_source e) \<noteq> None"
    if "e \<in> set (linked kind ty l (an_nodes a) pairs)" for e kind ty l pairs
    using that by (auto simp: linked_mem)
  define es where "es = linked ''capability:'' ''belongs_to'' ''belongs to'' (an_nodes a) capability_to_domain @
    linked ''agent:'' ''specializes_in'' ''specializes in'' (an_nodes a) agent_to_domain"
  have ends': "dict_get (an_nodes a) (ed_target e) \<noteq> None \<and> dict_get (an_nodes a) (ed_source e) \<noteq> None"
    if "e \<in> set es" for e
    using that ends unfolding es_def set_append Un_iff by metis
  have es: "an_edges a = numbered es" by (simp only: edges build_edges_numbered es_def)
  show ?thesis
    unfolding es numbered_keys numbered_values
  proof (intro conjI allI refl)
    fix e
    note mem = cap [of e "''belongs_to''" "''belongs to''"] agent [of e "''specializes_in''" "''specializes in''"]
    show "e \<in> set es \<longleftrightarrow> dict_get (an_nodes a) (ed_target e) \<noteq> None \<and>
      dict_get (an_nodes a) (ed_source e) \<noteq> None \<and>
      ((\<exists>c d. (c, d) \<in> set capability_to_domain \<and> dict_get ?C c \<noteq> None \<and> dict_get ?D d \<noteq> None \<and>
          e = \<lparr>ed_source = ''capability:'' @ c, ed_target = ''domain:'' @ d, ed_type = ''belongs_to'',
               ed_label = ''belongs to''\<rparr>) \<or>
       (\<exists>r d. (r, d) \<in> set agent_to_domain \<and> dict_get ?D d \<noteq> None \<and>
          e = \<lparr>ed_source = ''agent:'' @ r, ed_target = ''domain:'' @ d, ed_type = ''specializes_in'',
               ed_label = ''specializes in''\<rparr>))"
      using ends' [of e] unfolding mem [symmetric] unfolding es_def set_append Un_iff by argo
  qed
qed

end
