(* ===== verification/Constitution.thy ===== *)
theory Constitution
  imports Knowledge
begin

text \<open>
  The constitution of a company (backend/app/services/constitution_service.py): the mission cut
  out of the vision, the values whose indicators it contains, the fixed principles, governance
  and rules, and the text. \<open>Onboarding\<close> writes it to the database.
\<close>

section \<open>The mission\<close>

definition derive_mission :: "string \<Rightarrow> string" where
  "derive_mission vision =
     (let first_sentence = py_strip (hd (py_split (CHR ''.'') vision))
      in if char_count first_sentence < 500 then first_sentence
         else py_strip (rsplit_first (CHR ''.'') (take_chars 500 vision)) @ ''.'')"

section \<open>Values, principles, governance, rules\<close>

record company_value =
  va_name :: string
  va_indicators :: "string list"

definition value_indicators :: "(string, string list) dict" where
  "value_indicators =
    [(''innovation'', [''innovate'', ''breakthrough'', ''novel'', ''cutting-edge'', ''disrupt'']),
     (''quality'', [''quality'', ''excellence'', ''best'', ''premium'', ''reliable'']),
     (''speed'', [''fast'', ''speed'', ''rapid'', ''quick'', ''agile'', ''velocity'']),
     (''customer_focus'', [''customer'', ''user'', ''client'', ''customer-centric'']),
     (''transparency'', [''transparent'', ''open'', ''honest'', ''clear'']),
     (''automation'', [''automate'', ''autonomous'', ''ai-driven'', ''agent'']),
     (''scalability'', [''scale'', ''scalable'', ''growth'', ''expand'']),
     (''security'', [''secure'', ''privacy'', ''protect'', ''safe'', ''compliance'']),
     (''simplicity'', [''simple'', ''easy'', ''intuitive'', ''seamless'']),
     (''collaboration'', [''collaborate'', ''team'', ''together'', ''community''])]"

definition derive_values :: "string \<Rightarrow> (string, company_value) dict" where
  "derive_values vision =
     (let vision_lower = py_lower vision
      in fold (\<lambda>(val, indicators) values.
           let matched = matched_in vision_lower indicators
           in if matched \<noteq> []
              then dict_set val \<lparr>va_name = title_of_key val, va_indicators = matched\<rparr> values
              else values) value_indicators [])"

definition derive_principles :: "(string, json) dict" where
  "derive_principles =
    [(''ai_first'', JObj [(''title'', JStr ''AI-First Development''),
        (''description'', JStr ''Autonomous AI agents are the primary builders. Humans govern, agents execute.'')]),
     (''infrastructure_abstraction'', JObj [(''title'', JStr ''Zero Infrastructure Knowledge''),
        (''description'', JStr ''Users never touch VPS, Docker, Kubernetes, or terminals. The platform abstracts all infrastructure.'')]),
     (''continuous_delivery'', JObj [(''title'', JStr ''Continuous Autonomous Delivery''),
        (''description'', JStr ''Agents build, test, review, and deploy continuously with human approval gates at critical junctures.'')]),
     (''memory_consistency'', JObj [(''title'', JStr ''Persistent Operational Memory''),
        (''description'', JStr ''Every decision, action, and outcome is recorded in the company memory graph for consistent context.'')]),
     (''governed_autonomy'', JObj [(''title'', JStr ''Governed Autonomy''),
        (''description'', JStr ''Agents operate autonomously within constitutional boundaries. Humans approve high-risk decisions.'')]),
     (''quality_by_default'', JObj [(''title'', JStr ''Quality by Default''),
        (''description'', JStr ''AI self-review, QA validation, and sandbox deployment before any production change.'')])]"

definition derive_governance :: "(string, json) dict" where
  "derive_governance =
    [(''decision_framework'', JObj [(''autonomous_decisions'', JArr [JStr ''code generation'', JStr ''testing'', JStr ''bug fixes'', JStr ''documentation'', JStr ''monitoring'']),
        (''approval_required'', JArr [JStr ''deployments'', JStr ''billing changes'', JStr ''security policy'', JStr ''new integrations'', JStr ''architecture changes'']),
        (''approval_threshold'', JStr ''medium_confidence_and_above'')]),
     (''roles'', JObj [(''founder'', JObj [(''title'', JStr ''Founder''),
          (''responsibilities'', JArr [JStr ''vision'', JStr ''strategy'', JStr ''final approval''])]),
        (''ceo_agent'', JObj [(''title'', JStr ''CEO Agent''),
          (''responsibilities'', JArr [JStr ''strategic planning'', JStr ''resource allocation'', JStr ''team orchestration''])]),
        (''cto_agent'', JObj [(''title'', JStr ''CTO Agent''),
          (''responsibilities'', JArr [JStr ''architecture'', JStr ''technical decisions'', JStr ''code review''])]),
        (''pm_agent'', JObj [(''title'', JStr ''PM Agent''),
          (''responsibilities'', JArr [JStr ''roadmap'', JStr ''prioritization'', JStr ''stakeholder alignment''])])]),
     (''escalation_path'', JArr [JStr ''agent_self_review'', JStr ''peer_agent_review'', JStr ''cto_review'', JStr ''founder_review''])]"

definition derive_operational_rules :: "(string, json) dict" where
  "derive_operational_rules =
    [(''code_generation'', JStr ''All code must be generated in isolated execution environments.''),
     (''testing'', JStr ''Every change requires automated tests before review.''),
     (''deployment'', JStr ''Production deployments require human approval.''),
     (''secrets'', JStr ''Never expose API keys or secrets to agents or logs.''),
     (''monitoring'', JStr ''All production services must have active monitoring and alerts.''),
     (''rollback'', JStr ''Every deployment must support automated rollback.''),
     (''documentation'', JStr ''All architectural decisions must be documented in the knowledge graph.'')]"

definition constitution_text :: "string \<Rightarrow> string" where
  "constitution_text vision = py_join newline
     [''# Company Constitution'',
      [],
      ''## Preamble'',
      ''This constitution governs the autonomous operation of this AI-native company. It is derived from the founder's vision and serves as the supreme operational framework for all agents and workflows.'',
      [],
      ''## Mission'',
      derive_mission vision,
      [],
      ''## Core Values'',
      ''The company operates on the principles of AI-first development, governed autonomy, and continuous delivery. All agents are bound by these values in every decision and action.'',
      [],
      ''## Governance'',
      ''Agents operate autonomously within defined boundaries. High-risk decisions '' @ em_dash @ '' including deployments, billing changes, and security policy modifications '' @ em_dash @ '' require human approval. The escalation path ensures quality at every stage.'',
      [],
      ''## Operational Rules'',
      ''All agents must follow the operational rules defined herein. Violations trigger automatic review and correction workflows.'',
      []]"

record constitution =
  cn_mission :: string
  cn_values :: "(string, company_value) dict"
  cn_principles :: "(string, json) dict"
  cn_governance :: "(string, json) dict"
  cn_rules :: "(string, json) dict"
  cn_text :: string

definition generate_constitution :: "string \<Rightarrow> constitution" where
  "generate_constitution vision =
     \<lparr>cn_mission = derive_mission vision, cn_values = derive_values vision,
      cn_principles = derive_principles, cn_governance = derive_governance,
      cn_rules = derive_operational_rules, cn_text = constitution_text vision\<rparr>"

section \<open>How a long mission is cut\<close>

lemma hd_py_split: "hd (py_split c s) = takeWhile (\<lambda>x. x \<noteq> c) s"
proof (induction s)
  case (Cons x s)
  obtain w ws where "py_split c s = w # ws" by (cases "py_split c s") auto
  with Cons show ?case by simp
qed simp

lemma char_count_sublist: "sublist s t \<Longrightarrow> char_count s \<le> char_count t"
  by (auto simp: sublist_def)

lemma sublist_py_strip: "sublist (py_strip s) s"
proof -
  let ?t = "dropWhile is_space s"
  have "suffix (dropWhile is_space (rev ?t)) (rev ?t)" by (rule suffix_dropWhile)
  then have "prefix (py_strip s) ?t" by (simp add: py_strip_def suffix_to_prefix)
  then show ?thesis
    by (metis prefix_imp_sublist suffix_dropWhile suffix_imp_sublist sublist_order.order_trans)
qed

lemma char_count_take: "char_count (take_chars n s) \<le> n"
  by (induction n s rule: take_chars.induct) (auto simp: char_count_def split: nat.split)

lemma take_chars_within:
  "n \<le> char_count s \<Longrightarrow> t = [] \<or> \<not> continuation (hd t) \<Longrightarrow> set (take_chars n (s @ t)) \<subseteq> set s"
proof (induction s arbitrary: n)
  case Nil
  then show ?case by (cases t) (simp_all add: char_count_def)
next
  case (Cons c s)
  show ?case
  proof (cases "continuation c")
    case True
    with Cons.prems have "n \<le> char_count s" by (simp add: char_count_def)
    from Cons.IH [OF this Cons.prems(2)] True show ?thesis by auto
  next
    case False
    show ?thesis
    proof (cases n)
      case (Suc k)
      with False Cons.prems have "k \<le> char_count s" by (simp add: char_count_def)
      from Cons.IH [OF this Cons.prems(2)] False Suc show ?thesis by auto
    qed (simp add: False)
  qed
qed

text \<open>
  The mission is the first sentence when it has fewer than 500 characters. A longer one is
  cut after 500 characters wherever that is, and closed with a full stop: the search for an
  earlier full stop never finds one, since none precedes the end of the first sentence. The
  mission has at most 501 characters.
\<close>

theorem mission_cut:
  "derive_mission vision =
     (let first = py_strip (takeWhile (\<lambda>c. c \<noteq> CHR ''.'') vision)
      in if char_count first < 500 then first else py_strip (take_chars 500 vision) @ ''.'') \<and>
   char_count (derive_mission vision) \<le> 501"
proof -
  let ?first = "takeWhile (\<lambda>c. c \<noteq> CHR ''.'') vision" and ?rest = "dropWhile (\<lambda>c. c \<noteq> CHR ''.'') vision"
  have count: "char_count (py_strip s) \<le> char_count s" for s
    by (rule char_count_sublist [OF sublist_py_strip])
  have whole: "rsplit_first (CHR ''.'') (take_chars 500 vision) = take_chars 500 vision"
    if "\<not> char_count (py_strip ?first) < 500"
  proof -
    have "?rest = [] \<or> hd ?rest = CHR ''.''" by (metis (mono_tags, lifting) hd_dropWhile)
    then have "set (take_chars 500 (?first @ ?rest)) \<subseteq> set ?first"
      using that count [of ?first] by (intro take_chars_within) (auto simp: continuation_def)
    moreover have "CHR ''.'' \<notin> set ?first" by (auto dest: set_takeWhileD)
    ultimately show ?thesis by (auto simp: rsplit_first_def)
  qed
  have dot: "char_count ''.'' = 1" by (simp add: char_count_def continuation_def)
  have "char_count (py_strip (take_chars 500 vision)) \<le> 500"
    using count [of "take_chars 500 vision"] char_count_take [of 500 vision] by linarith
  then show ?thesis
    using whole dot unfolding derive_mission_def Let_def hd_py_split by auto
qed

end
