(* ===== verification/Architecture.thy ===== *)
theory Architecture
  imports TaskGen
begin

text \<open>
  The architecture plan of a company (backend/app/services/architecture_service.py): the
  technology stack chosen from the words of the vision and the selected models, the fixed
  designs, and the text, which joins the names of the models. \<open>Onboarding\<close> writes it to the
  database.
\<close>

section \<open>The plan\<close>

record tech_stack =
  ts_frontend :: "(string, string) dict"
  ts_backend :: "(string, string) dict"
  ts_database :: "(string, string) dict"
  ts_ai_models :: "(string, json) dict"
  ts_infrastructure :: "(string, string) dict"
  ts_browser :: "(string, string) dict"

text \<open>\<open>models if models else ...\<close>: \<open>None\<close> and the empty dictionary are falsy.\<close>

definition recommend_tech_stack :: "string \<Rightarrow> (string, json) dict option \<Rightarrow> tech_stack" where
  "recommend_tech_stack vision models =
     (let vision_lower = py_lower vision;
          frontend = (if any_in [''mobile'', ''ios'', ''android'', ''react native''] vision_lower
                      then ''next.js + react native'' else ''next.js'');
          backend = (if any_in [''real-time'', ''websocket'', ''streaming''] vision_lower
                     then ''fastapi (python) + websockets'' else ''fastapi (python)'')
      in \<lparr>ts_frontend = [(''framework'', frontend), (''language'', ''typescript''), (''styling'', ''tailwind css''),
            (''state_management'', ''react context + server components''), (''testing'', ''vitest + playwright'')],
          ts_backend = [(''framework'', backend), (''language'', ''python 3.12+''),
            (''api_style'', ''rest + websocket''), (''testing'', ''pytest'')],
          ts_database = [(''primary'', ''postgresql 16''), (''vector'', ''qdrant''), (''graph'', ''neo4j 5''),
            (''cache'', ''redis 7'')],
          ts_ai_models = (case models of None \<Rightarrow> [(''default'', JStr ''deepseek-chat'')]
            | Some ms \<Rightarrow> if ms = [] then [(''default'', JStr ''deepseek-chat'')] else ms),
          ts_infrastructure = [(''containers'', ''docker''), (''orchestration'', ''kubernetes (managed)''),
            (''ci_cd'', ''github actions''), (''hosting'', ''vercel (frontend) + railway (backend)''),
            (''monitoring'', ''grafana + langfuse + opentelemetry'')],
          ts_browser = [(''framework'', ''playwright''), (''infrastructure'', ''browserless''),
            (''ai_enhancement'', ''stagehand'')]\<rparr>)"

definition design_system :: "(string, json) dict" where
  "design_system =
    [(''layers'', JArr [JObj [(''name'', JStr ''Presentation Layer''),
         (''components'', JArr [JStr ''Next.js SSR/SSG'', JStr ''React Server Components'', JStr ''Tailwind CSS'', JStr ''Dashboard UI'']),
         (''responsibility'', JStr ''User interface and experience'')],
        JObj [(''name'', JStr ''API Gateway Layer''),
         (''components'', JArr [JStr ''FastAPI REST'', JStr ''WebSocket handlers'', JStr ''Authentication middleware'', JStr ''Rate limiting'']),
         (''responsibility'', JStr ''Request routing, auth, rate limiting'')],
        JObj [(''name'', JStr ''Service Layer''),
         (''components'', JArr [JStr ''Onboarding Service'', JStr ''Knowledge Graph Service'', JStr ''Agent Orchestrator'', JStr ''Task Engine'', JStr ''Deployment Service'']),
         (''responsibility'', JStr ''Business logic and orchestration'')],
        JObj [(''name'', JStr ''AI Layer''),
         (''components'', JArr [JStr ''Model Router (LiteLLM)'', JStr ''Prompt Manager'', JStr ''Vision Analyzer'', JStr ''Code Generator'']),
         (''responsibility'', JStr ''AI model management and inference'')],
        JObj [(''name'', JStr ''Memory Layer''),
         (''components'', JArr [JStr ''PostgreSQL (relational)'', JStr ''Qdrant (vector)'', JStr ''Neo4j (graph)'', JStr ''Redis (cache)'']),
         (''responsibility'', JStr ''Multi-modal persistent memory'')],
        JObj [(''name'', JStr ''Execution Layer''),
         (''components'', JArr [JStr ''Docker containers'', JStr ''Browser sessions'', JStr ''Code sandboxes'', JStr ''Deployment workers'']),
         (''responsibility'', JStr ''Isolated execution environments'')],
        JObj [(''name'', JStr ''Infrastructure Layer''),
         (''components'', JArr [JStr ''Kubernetes'', JStr ''GitHub Actions'', JStr ''Vercel'', JStr ''Railway'', JStr ''Grafana'']),
         (''responsibility'', JStr ''Deployment, scaling, monitoring'')]]),
     (''communication_patterns'', JObj [(''sync'', JStr ''REST API for request-response''),
        (''async'', JStr ''Redis queues for task orchestration''),
        (''realtime'', JStr ''WebSocket for live updates and agent heartbeats''),
        (''events'', JStr ''Internal event bus for cross-service communication'')])]"

definition design_data_models :: "(string, json) dict" where
  "design_data_models =
    [(''core_entities'', JArr [JObj [(''name'', JStr ''Company''),
         (''description'', JStr ''Top-level tenant entity with configuration and state'')],
        JObj [(''name'', JStr ''User''),
         (''description'', JStr ''Human collaborator with role-based access'')],
        JObj [(''name'', JStr ''Agent''),
         (''description'', JStr ''AI agent with role, capabilities, and personality'')],
        JObj [(''name'', JStr ''Task''),
         (''description'', JStr ''Work unit with priority, dependencies, and approval state'')],
        JObj [(''name'', JStr ''Workflow''),
         (''description'', JStr ''Automated multi-step process with triggers and agents'')],
        JObj [(''name'', JStr ''Memory''),
         (''description'', JStr ''Multi-layer memory record (founder, project, agent, episodic)'')],
        JObj [(''name'', JStr ''Deployment''),
         (''description'', JStr ''Code deployment with version, environment, and status'')],
        JObj [(''name'', JStr ''KnowledgeNode''),
         (''description'', JStr ''Graph node in company knowledge graph'')],
        JObj [(''name'', JStr ''BillingRecord''),
         (''description'', JStr ''Usage tracking and billing event'')]]),
     (''database_per_concern'', JObj [(''relational'', JStr (''PostgreSQL '' @ em_dash @ '' users, companies, tasks, workflows, billing'')),
        (''vector'', JStr (''Qdrant '' @ em_dash @ '' semantic memory, knowledge embeddings, search'')),
        (''graph'', JStr (''Neo4j '' @ em_dash @ '' knowledge graph, agent relationships, dependencies'')),
        (''cache'', JStr (''Redis '' @ em_dash @ '' session state, task queues, real-time data''))])]"

definition design_api :: "(string, json) dict" where
  "design_api =
    [(''rest_endpoints'', JObj [(''/api/v1/auth'', JArr [JStr ''POST /signup'', JStr ''POST /login'', JStr ''POST /logout'']),
        (''/api/v1/companies'', JArr [JStr ''POST /'', JStr ''GET /{id}'', JStr ''PATCH /{id}'', JStr ''GET /{id}/dashboard'']),
        (''/api/v1/onboarding'', JArr [JStr ''POST /start'', JStr ''POST /{id}/step'', JStr ''POST /{id}/vision'', JStr ''POST /{id}/process'']),
        (''/api/v1/tasks'', JArr [JStr ''GET /'', JStr ''POST /'', JStr ''PATCH /{id}'', JStr ''POST /{id}/approve'']),
        (''/api/v1/agents'', JArr [JStr ''GET /'', JStr ''GET /{id}'', JStr ''PATCH /{id}/config'']),
        (''/api/v1/memory'', JArr [JStr ''GET /search'', JStr ''POST /'', JStr ''GET /graph'']),
        (''/api/v1/deployments'', JArr [JStr ''POST /'', JStr ''GET /{id}'', JStr ''POST /{id}/rollback'']),
        (''/api/v1/billing'', JArr [JStr ''GET /usage'', JStr ''GET /invoices'', JStr ''POST /credits/add''])]),
     (''websocket_channels'', JObj [(''/ws/agent-heartbeat'', JStr ''Agent status and health updates''),
        (''/ws/task-updates'', JStr ''Real-time task status changes''),
        (''/ws/deployment-logs'', JStr ''Live deployment log streaming'')])]"

definition design_infrastructure :: "(string, json) dict" where
  "design_infrastructure =
    [(''environments'', JArr [JObj [(''name'', JStr ''development''),
         (''purpose'', JStr ''Local agent development and testing'')],
        JObj [(''name'', JStr ''staging''),
         (''purpose'', JStr ''Pre-production validation and QA'')],
        JObj [(''name'', JStr ''production''),
         (''purpose'', JStr ''Live customer-facing deployment'')]]),
     (''scaling'', JObj [(''frontend'', JStr ''Vercel auto-scaling''),
        (''backend'', JStr ''Railway horizontal scaling''),
        (''database'', JStr ''Managed PostgreSQL with read replicas''),
        (''cache'', JStr ''Redis cluster'')]),
     (''security'', JObj [(''secrets'', JStr ''Encrypted at rest, never exposed to agents''),
        (''execution'', JStr ''Isolated Docker containers per agent run''),
        (''network'', JStr ''VPC with least-privilege access''),
        (''auth'', JStr ''JWT with short-lived tokens, refresh rotation'')])]"

text \<open>\<open>sep.join(values)\<close> of a list that must hold texts only.\<close>

fun join_texts :: "json list \<Rightarrow> string list result" where
  "join_texts [] = Inr []"
| "join_texts (JStr s # vs) = (case join_texts vs of Inl e \<Rightarrow> Inl e | Inr ss \<Rightarrow> Inr (s # ss))"
| "join_texts (v # vs) = Inl TypeError"

definition model_names :: "tech_stack \<Rightarrow> string result" where
  "model_names tech =
     (if ts_ai_models tech \<noteq> []
      then case join_texts (map snd (ts_ai_models tech)) of
             Inl e \<Rightarrow> Inl e | Inr names \<Rightarrow> Inr (py_join '', '' names)
      else Inr ''DeepSeek Chat'')"

definition architecture_text :: "tech_stack \<Rightarrow> string result" where
  "architecture_text tech =
     (case model_names tech of Inl e \<Rightarrow> Inl e
      | Inr names \<Rightarrow> Inr (py_join newline
     [''# Architecture Plan'',
      [],
      ''## Technology Stack'',
      ''- **Frontend**: '' @ dict_get_or (ts_frontend tech) ''framework'' [] @ '' ('' @ dict_get_or (ts_frontend tech) ''language'' [] @ '')'',
      ''- **Backend**: '' @ dict_get_or (ts_backend tech) ''framework'' [],
      ''- **Database**: '' @ dict_get_or (ts_database tech) ''primary'' [] @ '' + Qdrant (vector) + Neo4j (graph)'',
      ''- **Infrastructure**: Docker, Kubernetes, Vercel, Railway'',
      ''- **AI Models**: '' @ names,
      [],
      ''## System Design'',
      ''A 7-layer architecture: Presentation '' @ right_arrow @ '' API Gateway '' @ right_arrow @ '' Services '' @ right_arrow @ '' AI '' @ right_arrow @ '' Memory '' @ right_arrow @ '' Execution '' @ right_arrow @ '' Infrastructure.'',
      ''Communication via REST (sync), Redis queues (async), WebSocket (realtime), and internal events.'',
      [],
      ''## Data Architecture'',
      ''PostgreSQL for relational data, Qdrant for semantic memory and search, Neo4j for the knowledge graph, and Redis for caching and queues.'',
      [],
      ''## API Design'',
      ''RESTful API at /api/v1/ with WebSocket channels for real-time agent heartbeats, task updates, and deployment logs.'',
      [],
      ''## Infrastructure'',
      ''Three environments (dev, staging, production) with auto-scaling, isolated execution containers, and encrypted secrets management.'',
      []]))"

record architecture =
  ar_tech_stack :: tech_stack
  ar_system_design :: "(string, json) dict"
  ar_data_models :: "(string, json) dict"
  ar_api_spec :: "(string, json) dict"
  ar_infrastructure :: "(string, json) dict"
  ar_text :: string

definition generate_architecture :: "string \<Rightarrow> (string, json) dict option \<Rightarrow> architecture result" where
  "generate_architecture vision selected_models =
     (let tech = recommend_tech_stack vision selected_models
      in case architecture_text tech of Inl e \<Rightarrow> Inl e
         | Inr txt \<Rightarrow> Inr \<lparr>ar_tech_stack = tech, ar_system_design = design_system,
             ar_data_models = design_data_models, ar_api_spec = design_api,
             ar_infrastructure = design_infrastructure, ar_text = txt\<rparr>)"

section \<open>When there is a plan\<close>

lemma join_texts_Inr: "(\<exists>ss. join_texts vs = Inr ss) \<longleftrightarrow> list_all (\<lambda>v. \<exists>s. v = JStr s) vs"
  by (induction vs rule: join_texts.induct) (auto split: sum.split)

lemma join_texts_Inl: "join_texts vs = Inl e \<Longrightarrow> e = TypeError"
  by (induction vs rule: join_texts.induct) (auto split: sum.splits)

definition text_models :: "(string, json) dict option \<Rightarrow> bool" where
  "text_models models \<longleftrightarrow>
     list_all (\<lambda>v. \<exists>s. v = JStr s) (map snd (case models of None \<Rightarrow> [] | Some ms \<Rightarrow> ms))"

text \<open>
  There is an architecture plan exactly when every selected model is given by a text, as in the
  default; otherwise the join of the model names is a TypeError.
\<close>

lemma architecture_cases:
  "case generate_architecture vision models of
     Inl e \<Rightarrow> e = TypeError \<and> \<not> text_models models
   | Inr plan \<Rightarrow> ar_tech_stack plan = recommend_tech_stack vision models \<and> text_models models"
proof -
  define vs where "vs = map snd (ts_ai_models (recommend_tech_stack vision models))"
  have names: "model_names (recommend_tech_stack vision models) =
      (case join_texts vs of Inl e \<Rightarrow> Inl e | Inr names \<Rightarrow> Inr (py_join '', '' names))"
    by (auto simp: model_names_def vs_def recommend_tech_stack_def Let_def split: option.splits if_splits)
  have texts: "text_models models \<longleftrightarrow> list_all (\<lambda>v. \<exists>s. v = JStr s) vs"
    by (simp add: text_models_def vs_def recommend_tech_stack_def Let_def split: option.split)
  show ?thesis
    unfolding texts
    unfolding join_texts_Inr [symmetric] generate_architecture_def Let_def architecture_text_def names
    by (cases "join_texts vs") (auto dest: join_texts_Inl)
qed

end
