(* ===== verification/Orchestrator.thy ===== *)
theory Orchestrator
  imports TaskGen
begin

text \<open>
  The task orchestrator of the backend (backend/app/services/task_orchestrator_service.py):
  the scoring of agents, the routing of one task, the coordinated routing of a batch and the
  assignment of task rows. The route request is a pydantic model, so its construction checks
  its bounds (\<open>make_request\<close>). Scores are reals. Logging is left out.
\<close>

section \<open>Data\<close>

record route_request =
  rq_title :: string
  rq_description :: "string option"
  rq_domains :: "string list"
  rq_complexity :: real
  rq_priority :: string

record route_result =
  rr_agent :: uuid
  rr_role :: string
  rr_name :: string
  rr_score :: real
  rr_breakdown :: "(string, real) dict"
  rr_reason :: string
  rr_title :: "string option"

record batch_response =
  br_assignments :: "route_result list"
  br_unassigned :: "string list"

record task_assignment =
  as_task :: string
  as_title :: string
  as_agent :: "string option"
  as_role :: "string option"
  as_name :: "string option"
  as_score :: real

definition W_CAPABILITY :: real where "W_CAPABILITY = 60/100"
definition W_LOAD :: real where "W_LOAD = 25/100"
definition W_COST :: real where "W_COST = 15/100"

definition HEALTHY_STATUSES :: "string list" where
  "HEALTHY_STATUSES = [''idle'', ''busy'']"

definition make_request ::
    "string \<Rightarrow> string option \<Rightarrow> string list \<Rightarrow> real \<Rightarrow> string \<Rightarrow> route_request result" where
  "make_request title description domains complexity priority =
     (if char_count title \<le> 500 \<and> 1/10 \<le> complexity \<and> complexity \<le> 10
      then Inr \<lparr>rq_title = title, rq_description = description, rq_domains = domains,
                rq_complexity = complexity, rq_priority = priority\<rparr>
      else Inl ValidationError)"

section \<open>Scores\<close>

definition score_domain :: "(string, real) dict \<Rightarrow> string \<Rightarrow> real" where
  "score_domain caps domain =
     (let prof = dict_get_or caps domain 0
      in if prof = 0
         then foldl (\<lambda>p (k, v). if py_in domain k \<or> py_in k domain then max p (v * (8/10)) else p)
                prof caps
         else prof)"

definition score_capability :: "agent \<Rightarrow> string list \<Rightarrow> real" where
  "score_capability a domains =
     (if domains = [] then 8/10
      else let caps = (case ag_caps a of None \<Rightarrow> [] | Some c \<Rightarrow> c)
           in if caps = [] then 3/10
              else min (sum_list (map (score_domain caps) domains) / real (length domains)) 1)"

definition score_load :: "agent \<Rightarrow> real" where
  "score_load a =
     (if ag_max a \<le> 0 then 0
      else let ratio = real_of_int (ag_load a) / real_of_int (ag_max a)
           in if 1 \<le> ratio then 0 else 1 - ratio)"

definition score_cost :: "agent \<Rightarrow> route_request \<Rightarrow> real" where
  "score_cost a req = max 0 (1 - (ag_cost a * sqrt (rq_complexity req)) / 5)"

definition total_score :: "agent \<Rightarrow> route_request \<Rightarrow> real" where
  "total_score a req = W_CAPABILITY * score_capability a (rq_domains req) +
     W_LOAD * score_load a + W_COST * score_cost a req"

definition breakdown :: "agent \<Rightarrow> route_request \<Rightarrow> (string, real) dict" where
  "breakdown a req = [(''capability'', py_round 4 (score_capability a (rq_domains req))),
     (''load'', py_round 4 (score_load a)), (''cost'', py_round 4 (score_cost a req))]"

definition score_all :: "agent list \<Rightarrow> route_request \<Rightarrow> (real \<times> (string, real) dict \<times> agent) list" where
  "score_all candidates req = map (\<lambda>a. (total_score a req, breakdown a req, a)) candidates"

definition build_reason :: "agent \<Rightarrow> (string, real) dict \<Rightarrow> string" where
  "build_reason a bd =
     (let cap = dict_get_or bd ''capability'' 0; load = dict_get_or bd ''load'' 0;
          cost = dict_get_or bd ''cost'' 0;
          parts =
            [if cap \<ge> 7/10 then ''strong capability match''
             else if cap \<ge> 4/10 then ''moderate capability match'' else ''weak capability match''] @
            (if load \<ge> 7/10 then [''low load''] else if load \<ge> 4/10 then [''moderate load''] else []) @
            (if cost \<ge> 7/10 then [''cost-effective''] else [])
      in ''Selected '' @ ag_role a @ '' ('' @ ag_name a @ ''): '' @ py_join '', '' parts)"

definition make_result :: "real \<times> (string, real) dict \<times> agent \<Rightarrow> route_result" where
  "make_result t =
     (case t of (tot, bd, a) \<Rightarrow>
        \<lparr>rr_agent = ag_id a, rr_role = ag_role a, rr_name = ag_name a, rr_score = py_round 4 tot,
         rr_breakdown = bd, rr_reason = build_reason a bd, rr_title = None\<rparr>)"

section \<open>Selection\<close>

definition select_best :: "route_request \<Rightarrow> agent list \<Rightarrow> route_result result" where
  "select_best req candidates =
     (case sort_key (\<lambda>(tot, bd, a). (- tot, ag_load a)) (score_all candidates req) of
        [] \<Rightarrow> Inl (RuntimeError ''No eligible agents available for routing'')
      | best # _ \<Rightarrow> Inr (make_result best))"

definition virtual :: "(uuid, int) dict \<Rightarrow> agent \<Rightarrow> int" where
  "virtual vl a = dict_get_or vl (ag_id a) (ag_load a)"

definition saturated :: "(uuid, int) dict \<Rightarrow> agent \<Rightarrow> bool" where
  "saturated vl a \<longleftrightarrow> 0 < ag_max a \<and> ag_max a \<le> virtual vl a"

text \<open>The load is patched for the scores and restored.\<close>

definition patched :: "(uuid, int) dict \<Rightarrow> agent \<Rightarrow> agent" where
  "patched vl a = a\<lparr>ag_load := virtual vl a\<rparr>"

definition select_best_with_load ::
    "route_request \<Rightarrow> agent list \<Rightarrow> (uuid, int) dict \<Rightarrow> route_result option" where
  "select_best_with_load req candidates vl =
     (let scored = map (\<lambda>a. (total_score (patched vl a) req, breakdown (patched vl a) req, a))
                     (filter (\<lambda>a. \<not> saturated vl a) candidates)
      in case sort_key (\<lambda>(tot, bd, a). (- tot, virtual vl a)) scored of
           [] \<Rightarrow> None
         | best # _ \<Rightarrow> Some (make_result best))"

section \<open>Routing\<close>

definition healthy_candidates :: "uuid \<Rightarrow> string option \<Rightarrow> 'a backend_scheme \<Rightarrow> agent list" where
  "healthy_candidates company role s =
     filter (\<lambda>a. ag_status a \<in> set HEALTHY_STATUSES) (list_agents company role None s)"

definition route_task ::
    "bool \<Rightarrow> uuid \<Rightarrow> route_request \<Rightarrow> 'a backend_scheme \<Rightarrow> route_result result \<times> 'a backend_scheme" where
  "route_task ev company req s =
     (case select_best req (healthy_candidates company None s) of
        Inl e \<Rightarrow> (Inl e, s)
      | Inr r \<Rightarrow>
          after_event ev r
            (agent_action company (rr_name r) (''Task routed: '' @ rq_title req)
               (Some (rr_agent r))
               (Some (''Routed to '' @ rr_role r @ '' with score '' @ fmt_fixed 2 (rr_score r)))
               (Some [(''agent_role'', JStr (rr_role r)), (''score'', JNum (rr_score r)),
                      (''breakdown'', JObj (map (\<lambda>(k, v). (k, JNum v)) (rr_breakdown r)))]))
            s)"

definition route_task_to_role ::
    "bool \<Rightarrow> uuid \<Rightarrow> route_request \<Rightarrow> string \<Rightarrow> 'a backend_scheme \<Rightarrow>
     route_result result \<times> 'a backend_scheme" where
  "route_task_to_role ev company req role s =
     (let candidates = healthy_candidates company (Some role) s
      in if candidates = [] then route_task ev company req s
         else (select_best req candidates, s))"

definition ACTION_DOMAINS :: "(string, string list) dict" where
  "ACTION_DOMAINS =
     [(''scan_pending_tasks'', [''planning'', ''analytics'']),
      (''prioritize_by_dependencies'', [''planning'', ''product'']),
      (''assign_to_agents'', [''governance'', ''leadership'']),
      (''execute_tasks'', [''backend'', ''frontend'']),
      (''report_status'', [''communication'', ''analytics'']),
      (''self_review'', [''code_review'', ''testing'']),
      (''peer_review'', [''code_review'', ''communication'']),
      (''cto_review'', [''architecture'', ''code_review'']),
      (''sandbox_deploy'', [''infrastructure'', ''ci_cd'']),
      (''qa_validation'', [''testing'', ''automation'']),
      (''request_approval'', [''governance'', ''communication'']),
      (''production_deploy'', [''infrastructure'', ''cloud'']),
      (''conduct_onboarding_interview'', [''product'', ''communication'']),
      (''analyze_vision'', [''ai_ml'', ''nlp'']),
      (''generate_knowledge_graph'', [''ai_ml'', ''data_science'']),
      (''generate_constitution'', [''strategy'', ''governance'']),
      (''generate_roadmap'', [''planning'', ''product'']),
      (''generate_architecture'', [''architecture'', ''backend'']),
      (''generate_initial_tasks'', [''planning'', ''product'']),
      (''present_dashboard'', [''communication'', ''ui'']),
      (''generate_content'', [''content_creation'', ''seo'']),
      (''create_campaign'', [''campaign_management'', ''brand_strategy'']),
      (''analyze_campaign_performance'', [''analytics'', ''campaign_management'']),
      (''create_social_media_post'', [''content_creation'', ''social_media'']),
      (''create_email_campaign'', [''email_marketing'', ''content_creation'']),
      (''analyze_market_trends'', [''market_research'', ''analytics'']),
      (''track_campaign_metrics'', [''analytics'', ''campaign_management''])]"

definition domains_for_action :: "string \<Rightarrow> string \<Rightarrow> string list" where
  "domains_for_action action role = dict_get_or ACTION_DOMAINS action [role]"

text \<open>The argument \<open>available_agents\<close> of the method is not used by it.\<close>

definition route_workflow_step ::
    "bool \<Rightarrow> uuid \<Rightarrow> (string, string) dict \<Rightarrow> (string, bool) dict \<Rightarrow> 'a backend_scheme \<Rightarrow>
     route_result result \<times> 'a backend_scheme" where
  "route_workflow_step ev company wstep available s =
     (let role = dict_get_or wstep ''agent'' ''backend_dev'';
          action = dict_get_or wstep ''action'' ''unknown''
      in case make_request action (Some (''Workflow step: '' @ action))
                (domains_for_action action role) 1 ''medium'' of
           Inl e \<Rightarrow> (Inl e, s)
         | Inr req \<Rightarrow> route_task_to_role ev company req role s)"

section \<open>The batch\<close>

definition priority_rank :: "route_request \<Rightarrow> int" where
  "priority_rank r = dict_get_or [(''high'', 0), (''medium'', 1), (''low'', 2)] (rq_priority r) 1"

text \<open>The state of the loop: the virtual loads, the assignments and the titles left over.\<close>

type_synonym batch_state = "(uuid, int) dict \<times> route_result list \<times> string list"

definition batch_step :: "agent list \<Rightarrow> batch_state \<Rightarrow> route_request \<Rightarrow> batch_state" where
  "batch_step candidates st req =
     (case st of (vl, placed, left) \<Rightarrow>
        (case select_best_with_load req candidates vl of
           None \<Rightarrow> (vl, placed, left @ [rq_title req])
         | Some best \<Rightarrow>
             (dict_set (rr_agent best) (dict_get_or vl (rr_agent best) 0 + 1) vl,
              placed @ [best\<lparr>rr_title := Some (rq_title req)\<rparr>], left)))"

definition initial_loads :: "agent list \<Rightarrow> (uuid, int) dict" where
  "initial_loads candidates = dict_of (map (\<lambda>a. (ag_id a, ag_load a)) candidates)"

definition batch_route_tasks ::
    "bool \<Rightarrow> uuid \<Rightarrow> route_request list \<Rightarrow> 'a backend_scheme \<Rightarrow>
     batch_response result \<times> 'a backend_scheme" where
  "batch_route_tasks ev company requests s =
     (let candidates = healthy_candidates company None s
      in if candidates = []
         then (Inr \<lparr>br_assignments = [], br_unassigned = map rq_title requests\<rparr>, s)
         else
           let (vl, placed, left) =
                 foldl (batch_step candidates) (initial_loads candidates, [], [])
                   (sort_key priority_rank requests)
           in after_event ev \<lparr>br_assignments = placed, br_unassigned = left\<rparr>
                (agent_action company ''orchestrator''
                   (''Batch routed '' @ show_nat (length placed) @ '' tasks'')
                   (Some ''batch_route'')
                   (Some (show_nat (length placed) @ '' assigned, '' @
                          show_nat (length left) @ '' unassigned''))
                   (Some [(''total'', JInt (int (length requests))),
                          (''assigned'', JInt (int (length placed))),
                          (''unassigned'', JInt (int (length left))),
                          (''unassigned_titles'', JArr (map JStr left))]))
                s)"

section \<open>Assignment of task rows\<close>

text \<open>The registry's load counter is changed by these two only.\<close>

definition assign_subtask ::
    "bool \<Rightarrow> string \<Rightarrow> uuid \<Rightarrow> string option \<Rightarrow> 'a backend_scheme \<Rightarrow> unit result \<times> 'a backend_scheme" where
  "assign_subtask ev task_id i title s = apfst (map_sum id (\<lambda>_. ())) (assign_task ev i title s)"

definition complete_subtask ::
    "bool \<Rightarrow> string \<Rightarrow> uuid \<Rightarrow> string option \<Rightarrow> 'a backend_scheme \<Rightarrow> unit result \<times> 'a backend_scheme" where
  "complete_subtask ev task_id i title s = apfst (map_sum id (\<lambda>_. ())) (complete_task ev i title s)"

fun json_strings :: "json list \<Rightarrow> string list option" where
  "json_strings [] = Some []"
| "json_strings (JStr x # js) = map_option (Cons x) (json_strings js)"
| "json_strings _ = None"

definition task_request :: "task \<Rightarrow> route_request result" where
  "task_request t =
     (let domains = (case dict_get (tk_meta t) ''required_domains'' of
                       None \<Rightarrow> Some []
                     | Some (JArr js) \<Rightarrow> json_strings js
                     | Some _ \<Rightarrow> None)
      in case domains of
           None \<Rightarrow> Inl ValidationError
         | Some ds \<Rightarrow>
             make_request (tk_title t) (Some (str_or (tk_description t) [])) ds 1
               (str_or (Some (tk_priority t)) ''medium''))"

fun task_requests :: "task list \<Rightarrow> route_request list result" where
  "task_requests [] = Inr []"
| "task_requests (t # ts) =
     (case task_request t of
        Inl e \<Rightarrow> Inl e
      | Inr r \<Rightarrow> (case task_requests ts of Inl e \<Rightarrow> Inl e | Inr rs \<Rightarrow> Inr (r # rs)))"

definition set_task_agent :: "task \<Rightarrow> uuid \<Rightarrow> 'a store_scheme \<Rightarrow> 'a store_scheme" where
  "set_task_agent t i s =
     s\<lparr>st_tasks := map (\<lambda>x. if tk_id x = tk_id t then x\<lparr>tk_agent := Some i\<rparr> else x) (st_tasks s)\<rparr>"

definition assigned_entry :: "task \<Rightarrow> route_result \<Rightarrow> task_assignment" where
  "assigned_entry t r =
     \<lparr>as_task = id_text (tk_id t), as_title = tk_title t, as_agent = Some (rr_agent r),
      as_role = Some (rr_role r), as_name = Some (rr_name r), as_score = rr_score r\<rparr>"

definition unassigned_entry :: "task \<Rightarrow> task_assignment" where
  "unassigned_entry t =
     \<lparr>as_task = id_text (tk_id t), as_title = tk_title t, as_agent = None, as_role = None,
      as_name = None, as_score = 0\<rparr>"

definition task_map :: "task list \<Rightarrow> (string, task) dict" where
  "task_map ts = dict_of (map (\<lambda>t. (tk_title t, t)) ts)"

fun write_assignments ::
    "(string, task) dict \<Rightarrow> route_result list \<Rightarrow> 'a store_scheme \<Rightarrow>
     task_assignment list \<times> 'a store_scheme" where
  "write_assignments tm [] s = ([], s)"
| "write_assignments tm (r # rs) s =
     (case Option.bind (rr_title r) (dict_get tm) of
        None \<Rightarrow> write_assignments tm rs s
      | Some t \<Rightarrow>
          (let (es, s') = write_assignments tm rs (set_task_agent t (rr_agent r) s)
           in (assigned_entry t r # es, s')))"

definition assign_batch ::
    "bool \<Rightarrow> uuid \<Rightarrow> task list \<Rightarrow> 'a store_scheme \<Rightarrow> task_assignment list result \<times> 'a store_scheme" where
  "assign_batch ev company ts s =
     (case task_requests ts of
        Inl e \<Rightarrow> (Inl e, s)
      | Inr requests \<Rightarrow>
          if requests = [] then (Inr [], s)
          else
            (case batch_route_tasks ev company requests s of
               (Inl e, s1) \<Rightarrow> (Inl e, s1)
             | (Inr resp, s1) \<Rightarrow>
                 (let (entries, s2) = write_assignments (task_map ts) (br_assignments resp) s1
                  in (Inr (entries @ map unassigned_entry
                            (List.map_filter (dict_get (task_map ts)) (br_unassigned resp))), s2))))"

text \<open>Without the batch only a \<open>RuntimeError\<close> is caught.\<close>

fun assign_each ::
    "bool \<Rightarrow> uuid \<Rightarrow> task list \<Rightarrow> 'a store_scheme \<Rightarrow> task_assignment list result \<times> 'a store_scheme" where
  "assign_each ev company [] s = (Inr [], s)"
| "assign_each ev company (t # ts) s =
     (case task_request t of
        Inl e \<Rightarrow> (Inl e, s)
      | Inr req \<Rightarrow>
          (case route_task_to_role ev company req (str_or (tk_assignee t) ''backend_dev'') s of
             (Inr r, s1) \<Rightarrow>
               (let (res, s2) = assign_each ev company ts (set_task_agent t (rr_agent r) s1)
                in (case res of Inl e \<Rightarrow> (Inl e, s2) | Inr es \<Rightarrow> (Inr (assigned_entry t r # es), s2)))
           | (Inl (RuntimeError msg), s1) \<Rightarrow>
               (let (res, s2) = assign_each ev company ts s1
                in (case res of Inl e \<Rightarrow> (Inl e, s2) | Inr es \<Rightarrow> (Inr (unassigned_entry t # es), s2)))
           | (Inl e, s1) \<Rightarrow> (Inl e, s1)))"

definition assign_tasks ::
    "bool \<Rightarrow> uuid \<Rightarrow> task list \<Rightarrow> bool \<Rightarrow> 'a store_scheme \<Rightarrow>
     task_assignment list result \<times> 'a store_scheme" where
  "assign_tasks ev company ts batch s =
     (if batch then assign_batch ev company ts s else assign_each ev company ts s)"

end
