(* ===== verification/Routing.thy ===== *)
theory Routing
  imports Orchestrator
begin

text \<open>
  What the orchestrator guarantees: the scores are in the unit interval, the selected agent
  is the best one, and the batch keeps every agent within its capacity, accounts for every
  task and leaves a task over only when all agents are saturated.
\<close>

section \<open>Scores in the unit interval\<close>

locale unit_score =
  fixes score :: "'x \<Rightarrow> real" and ok :: "'x \<Rightarrow> bool"
  assumes unit: "ok x \<Longrightarrow> 0 \<le> score x \<and> score x \<le> 1"
begin

lemma rounded: "ok x \<Longrightarrow> 0 \<le> py_round n (score x) \<and> py_round n (score x) \<le> 1"
  using unit by (simp add: py_round_unit)

lemma weighted: "ok x \<Longrightarrow> 0 \<le> w \<Longrightarrow> 0 \<le> w * score x \<and> w * score x \<le> w"
  using unit [of x] by (simp add: mult_left_le)

end

text \<open>The bounds that the schemas document but do not enforce on every path.\<close>

definition well_scored :: "agent \<Rightarrow> bool" where
  "well_scored a \<longleftrightarrow> list_all (\<lambda>(k, v). 0 \<le> v \<and> v \<le> 1) (case ag_caps a of None \<Rightarrow> [] | Some c \<Rightarrow> c) \<and>
     0 \<le> ag_cost a \<and> 0 \<le> ag_load a"

lemma fold_max_unit:
  "list_all (\<lambda>(k, v). 0 \<le> v \<and> v \<le> 1) caps \<Longrightarrow> 0 \<le> p \<Longrightarrow> p \<le> (1::real) \<Longrightarrow>
     0 \<le> foldl (\<lambda>p (k, v). if Q k then max p (v * (8/10)) else p) p caps \<and>
     foldl (\<lambda>p (k, v). if Q k then max p (v * (8/10)) else p) p caps \<le> 1"
proof (induction caps arbitrary: p)
  case (Cons kv caps)
  obtain k v where kv: "kv = (k, v)" by (cases kv)
  have "0 \<le> max p (v * (8/10)) \<and> max p (v * (8/10)) \<le> 1"
    using Cons.prems by (auto simp: kv)
  with Cons show ?case by (simp add: kv)
qed simp

lemma score_domain_unit:
  assumes "list_all (\<lambda>(k, v). 0 \<le> v \<and> v \<le> 1) caps"
  shows "0 \<le> score_domain caps d \<and> score_domain caps d \<le> 1"
proof -
  have "0 \<le> dict_get_or caps d 0 \<and> dict_get_or caps d 0 \<le> 1"
    using assms
    by (auto simp: dict_get_or_def list_all_iff dest!: dict_get_Some_mem split: option.split)
  then show ?thesis
    using fold_max_unit [OF assms, of 0 "\<lambda>k. py_in d k \<or> py_in k d"]
    by (simp add: score_domain_def Let_def)
qed

lemma sum_list_unit:
  "(\<And>x. x \<in> set xs \<Longrightarrow> 0 \<le> f x \<and> f x \<le> (1::real)) \<Longrightarrow>
     0 \<le> sum_list (map f xs) \<and> sum_list (map f xs) \<le> real (length xs)"
  by (induction xs) (fastforce simp: add_mono)+

lemma capability_unit: "well_scored a \<Longrightarrow> 0 \<le> score_capability a ds \<and> score_capability a ds \<le> 1"
proof -
  assume "well_scored a"
  then have "list_all (\<lambda>(k, v). 0 \<le> v \<and> v \<le> 1) (case ag_caps a of None \<Rightarrow> [] | Some c \<Rightarrow> c)"
    by (simp add: well_scored_def)
  from sum_list_unit [of ds "score_domain _", OF score_domain_unit [OF this]] show ?thesis
    by (auto simp: score_capability_def Let_def)
qed

lemma load_unit: "well_scored a \<Longrightarrow> 0 \<le> score_load a \<and> score_load a \<le> 1"
  by (auto simp: score_load_def Let_def well_scored_def)

lemma cost_unit: "well_scored a \<Longrightarrow> 0 \<le> rq_complexity r \<Longrightarrow> 0 \<le> score_cost a r \<and> score_cost a r \<le> 1"
  by (simp add: score_cost_def well_scored_def)

interpretation cap: unit_score "\<lambda>(a, r). score_capability a (rq_domains r)"
    "\<lambda>(a, r). well_scored a \<and> 0 \<le> rq_complexity r"
  by unfold_locales (auto simp: capability_unit)

interpretation load: unit_score "\<lambda>(a, r). score_load a"
    "\<lambda>(a, r). well_scored a \<and> 0 \<le> rq_complexity r"
  by unfold_locales (auto simp: load_unit)

interpretation cost: unit_score "\<lambda>(a, r). score_cost a r"
    "\<lambda>(a, r). well_scored a \<and> 0 \<le> rq_complexity r"
  by unfold_locales (auto simp: cost_unit)

lemma total_unit: "well_scored a \<Longrightarrow> 0 \<le> rq_complexity r \<Longrightarrow>
    0 \<le> total_score a r \<and> total_score a r \<le> 1"
  using cap.weighted [of "(a, r)" W_CAPABILITY] load.weighted [of "(a, r)" W_LOAD]
    cost.weighted [of "(a, r)" W_COST]
  by (simp add: total_score_def W_CAPABILITY_def W_LOAD_def W_COST_def)

interpretation tot: unit_score "\<lambda>(a, r). total_score a r"
    "\<lambda>(a, r). well_scored a \<and> 0 \<le> rq_complexity r"
  by unfold_locales (auto simp: total_unit)

section \<open>The selection\<close>

lemma select_best_Inr:
  assumes "select_best req cands = Inr r"
  shows "\<exists>a\<in>set cands. r = make_result (total_score a req, breakdown a req, a) \<and>
    (\<forall>b\<in>set cands. total_score b req < total_score a req \<or>
       total_score b req = total_score a req \<and> ag_load a \<le> ag_load b)"
proof -
  let ?key = "\<lambda>(tot, bd, a). (- tot, ag_load a)"
  obtain best rest where sorted: "sort_key ?key (score_all cands req) = best # rest"
    and r: "r = make_result best"
    using assms by (auto simp: select_best_def split: list.splits)
  from sort_key_Cons_mem [OF sorted] obtain a where a: "a \<in> set cands"
    and best: "best = (total_score a req, breakdown a req, a)"
    by (auto simp: score_all_def)
  have "?key best \<le> ?key (total_score b req, breakdown b req, b)" if "b \<in> set cands" for b
    using that by (intro sort_key_Cons_least [OF sorted]) (simp add: score_all_def)
  then have "total_score b req < total_score a req \<or>
      total_score b req = total_score a req \<and> ag_load a \<le> ag_load b" if "b \<in> set cands" for b
    using that by (fastforce simp: best less_eq_prod_def)
  with a r show ?thesis by (auto simp: best)
qed

lemma select_best_Inl:
  "select_best req cands = Inl e \<longleftrightarrow>
     cands = [] \<and> e = RuntimeError ''No eligible agents available for routing''"
  by (auto simp: select_best_def score_all_def split: list.splits dest: arg_cong [where f = set])

lemma make_result_columns [simp]:
  "rr_agent (make_result (tot, bd, a)) = ag_id a"
  "rr_role (make_result (tot, bd, a)) = ag_role a"
  "rr_name (make_result (tot, bd, a)) = ag_name a"
  "rr_score (make_result (tot, bd, a)) = py_round 4 tot"
  "rr_breakdown (make_result (tot, bd, a)) = bd"
  by (simp_all add: make_result_def)

lemma healthy_candidates_set:
  "a \<in> set (healthy_candidates company role s) \<longleftrightarrow>
     a \<in> set (bk_agents s) \<and> ag_company a = company \<and> ag_status a \<in> {''idle'', ''busy''} \<and>
     (case role of None \<Rightarrow> True | Some r \<Rightarrow> r = [] \<or> ag_role a = r)"
  by (auto simp: healthy_candidates_def list_agents_def HEALTHY_STATUSES_def)

lemma fst_route_task:
  "fst (route_task ev c req s) =
     (case select_best req (healthy_candidates c None s) of
        Inl e \<Rightarrow> Inl e
      | Inr r \<Rightarrow>
          (case event_error c AGENT_ACTION (rr_name r) (''Task routed: '' @ rq_title req) (Some (rr_agent r)) s of
             None \<Rightarrow> Inr r
           | Some e \<Rightarrow> if ev then Inl e else Inr r))"
  by (simp add: route_task_def event_shortcuts fst_after_event fst_record_event split: sum.split option.split)

lemma routed_Inr:
  "fst (route_task ev c req s) = Inr r \<Longrightarrow> select_best req (healthy_candidates c None s) = Inr r"
  by (auto simp: fst_route_task split: sum.splits option.splits if_splits)

lemma routed_event_error:
  "event_error c AGENT_ACTION name title (Some i) s =
     (if \<not> (fits_column 100 name \<and> fits_column 500 title \<and> fits_column 255 i) then Some DataError
      else if \<not> company_known c s then Some IntegrityError else None)"
  by (simp add: event_error_def event_fits_def AGENT_ACTION_def short_fits)

text \<open>
  C5. Routing a task selects an idle or busy agent of the company such that no other one has
  a higher total score and, among those with the same total, none has a lower load; the
  reported score is the rounded total. It fails in two cases only: when the company has no such
  agent, and, if events are recorded, when the row of its event is refused. The refusal is a
  DataError for an agent's name of more than 100 characters or a title that is longer than 500
  characters with its prefix (excess spaces do not count), and an IntegrityError for a company
  without a row.
\<close>

theorem route_task_best:
  fixes s :: "'a backend_scheme" and company :: uuid and req :: route_request
  defines "eligible \<equiv> {a \<in> set (bk_agents s). ag_company a = company \<and> ag_status a \<in> {''idle'', ''busy''}}"
    and "best \<equiv> \<lambda>a e. \<forall>b\<in>e. total_score b req < total_score a req \<or>
      total_score b req = total_score a req \<and> ag_load a \<le> ag_load b"
    and "fits \<equiv> \<lambda>a. fits_column 100 (ag_name a) \<and> fits_column 500 (''Task routed: '' @ rq_title req) \<and>
      fits_column 255 (ag_id a)"
  shows "case fst (route_task ev company req s) of
      Inl e \<Rightarrow> eligible = {} \<and> e = RuntimeError ''No eligible agents available for routing'' \<or>
        ev \<and> (\<exists>a\<in>eligible. best a eligible \<and>
          (\<not> fits a \<and> e = DataError \<or> fits a \<and> \<not> company_known company s \<and> e = IntegrityError))
    | Inr r \<Rightarrow> \<exists>a\<in>eligible. best a eligible \<and> rr_agent r = ag_id a \<and>
        rr_score r = py_round 4 (total_score a req) \<and> (ev \<longrightarrow> fits a \<and> company_known company s)"
proof -
  have eligible: "eligible = set (healthy_candidates company None s)"
    by (auto simp: eligible_def healthy_candidates_set)
  show ?thesis
  proof (cases "select_best req (healthy_candidates company None s)")
    case (Inl e)
    then show ?thesis by (simp add: fst_route_task eligible) (simp add: select_best_Inl)
  next
    case (Inr r)
    from select_best_Inr [OF this] obtain a where a: "a \<in> eligible" "best a eligible"
      and r: "r = make_result (total_score a req, breakdown a req, a)"
      unfolding eligible best_def by blast
    then show ?thesis
      by (auto simp: fst_route_task Inr routed_event_error fits_def split: if_splits)
  qed
qed

text \<open>
  Routing to a preferred role never stalls when no events are recorded: while the company has
  an idle or busy agent, a task is routed, and to the preferred role when an idle or busy agent
  has that role.
\<close>

theorem route_to_role_never_stalls:
  assumes "a \<in> set (bk_agents s)" and "ag_company a = company" and "ag_status a \<in> {''idle'', ''busy''}"
  shows "\<exists>r. fst (route_task_to_role False company req role s) = Inr r \<and>
    (ag_role a = role \<and> role \<noteq> [] \<longrightarrow> rr_role r = role)"
proof (cases "healthy_candidates company (Some role) s = []")
  case True
  have "healthy_candidates company None s \<noteq> []"
    using assms healthy_candidates_set [of a company None s] by auto
  moreover have "ag_role a \<noteq> role"
    using assms True healthy_candidates_set [of a company "Some role" s] by auto
  ultimately show ?thesis
    by (cases "select_best req (healthy_candidates company None s)")
      (simp_all add: route_task_to_role_def True fst_route_task select_best_Inl split: option.split)
next
  case False
  then obtain r where r: "select_best req (healthy_candidates company (Some role) s) = Inr r"
    using select_best_Inl by (metis sum.exhaust)
  with select_best_Inr [OF r] False show ?thesis
    by (auto simp: route_task_to_role_def healthy_candidates_set)
qed

text \<open>
  When capabilities are proficiencies, and costs, loads and complexity are not negative,
  the score of a routed task and each part of its breakdown lie between 0 and 1.
\<close>

theorem route_scores_unit:
  assumes "fst (route_task ev company req s) = Inr r"
    and "\<forall>a\<in>set (bk_agents s). well_scored a" and "0 \<le> rq_complexity req"
  shows "0 \<le> rr_score r \<and> rr_score r \<le> 1 \<and>
    (\<forall>k v. dict_get (rr_breakdown r) k = Some v \<longrightarrow> 0 \<le> v \<and> v \<le> 1)"
proof -
  obtain a where a: "a \<in> set (healthy_candidates company None s)"
    and r: "r = make_result (total_score a req, breakdown a req, a)"
    using select_best_Inr [OF routed_Inr [OF assms(1)]] by blast
  have ok: "well_scored a" using a assms(2) by (simp add: healthy_candidates_set)
  have "0 \<le> v \<and> v \<le> 1" if "(k, v) \<in> set (breakdown a req)" for k v
    using that cap.rounded [of "(a, req)" 4] load.rounded [of "(a, req)" 4]
      cost.rounded [of "(a, req)" 4] ok assms(3)
    by (auto simp: breakdown_def)
  with tot.rounded [of "(a, req)" 4] ok assms(3) show ?thesis
    by (auto simp: r dest: dict_get_Some_mem)
qed

definition sample_request :: route_request where
  "sample_request = \<lparr>rq_title = ''t'', rq_description = None, rq_domains = [], rq_complexity = 1,
     rq_priority = ''high''\<rparr>"

lemma sample_route:
  "fst (route_task False ''c'' sample_request sample_backend) =
     Inr (make_result (total_score sample_agent sample_request, breakdown sample_agent sample_request,
        sample_agent))"
  by (simp add: fst_route_task select_best_def score_all_def healthy_candidates_def list_agents_def
      sample_backend_def sample_agent_def HEALTHY_STATUSES_def split: option.split)

theorem route_task_best_witness:
  "\<exists>r. fst (route_task False ''c'' sample_request sample_backend) = Inr r \<and> rr_agent r = ''a''"
  using route_task_best [where s = sample_backend and company = "''c''" and ev = False and req = sample_request]
  by (auto simp: sample_route) (simp_all add: sample_agent_def)

theorem route_to_role_never_stalls_witness:
  "\<exists>r. fst (route_task_to_role False ''c'' sample_request ''qa'' sample_backend) = Inr r \<and> rr_role r = ''qa''"
  using route_to_role_never_stalls [of sample_agent sample_backend "''c''" sample_request "''qa''"]
  by (simp add: sample_backend_def sample_agent_def)

theorem route_scores_unit_witness:
  "0 \<le> py_round 4 (total_score sample_agent sample_request)"
  using route_scores_unit [OF sample_route]
  by (simp add: sample_backend_def sample_agent_def well_scored_def sample_request_def)


section \<open>The batch\<close>

text \<open>
  The interface between the selection under virtual loads and the greedy loop: the selection
  picks a member that is under its limit, and picks none only if every member is at its
  limit. The lemmas hold for every loop over such a selection. \<open>c\<close> is the context (the
  candidates), \<open>tag\<close> turns a picked result into an assignment.
\<close>

locale load_aware =
  fixes ok :: "'c \<Rightarrow> bool"
    and members :: "'c \<Rightarrow> uuid set"
    and limit :: "'c \<Rightarrow> uuid \<Rightarrow> int option"
    and pick :: "'c \<Rightarrow> 'q \<Rightarrow> (uuid, int) dict \<Rightarrow> 'r option"
    and target :: "'r \<Rightarrow> uuid"
    and label :: "'r \<Rightarrow> 't option"
    and title :: "'q \<Rightarrow> 't"
    and tag :: "'q \<Rightarrow> 'r \<Rightarrow> 'r"
    and step :: "'c \<Rightarrow> (uuid, int) dict \<times> 'r list \<times> 't list \<Rightarrow> 'q \<Rightarrow>
          (uuid, int) dict \<times> 'r list \<times> 't list"
  assumes step_def: "step c (vl, rs, left) q = (case pick c q vl of
      None \<Rightarrow> (vl, rs, left @ [title q])
    | Some r \<Rightarrow> (dict_set (target r) (dict_get_or vl (target r) 0 + 1) vl, rs @ [tag q r], left))"
    and tag_target: "target (tag q r) = target r"
    and tag_label: "label (tag q r) = Some (title q)"
    and pick_Some: "ok c \<Longrightarrow> members c \<subseteq> set (dict_keys vl) \<Longrightarrow> pick c q vl = Some r \<Longrightarrow>
      target r \<in> members c \<and> (\<forall>m. limit c (target r) = Some m \<longrightarrow> dict_get_or vl (target r) 0 < m)"
    and pick_None: "ok c \<Longrightarrow> members c \<subseteq> set (dict_keys vl) \<Longrightarrow> pick c q vl = None \<Longrightarrow>
      i \<in> members c \<Longrightarrow> \<exists>m. limit c i = Some m \<and> m \<le> dict_get_or vl i 0"
begin

lemma run_loads:
  "foldl (step c) (vl0, [], []) qs = (vl, rs, left) \<Longrightarrow>
     dict_get_or vl i 0 = dict_get_or vl0 i 0 + int (count_list (map target rs) i) \<and>
     set (dict_keys vl0) \<subseteq> set (dict_keys vl)"
proof (induction qs arbitrary: vl rs left rule: rev_induct)
  case (snoc q qs)
  obtain vl' rs' left' where "foldl (step c) (vl0, [], []) qs = (vl', rs', left')"
    by (metis prod_cases3)
  with snoc show ?case
    by (fastforce simp: step_def tag_target split: option.splits)
qed simp

lemma run_bounds:
  assumes "ok c" and "members c \<subseteq> set (dict_keys vl0)"
  shows "foldl (step c) (vl0, [], []) qs = (vl, rs, left) \<Longrightarrow>
    set (map target rs) \<subseteq> members c \<and>
    (\<forall>m. limit c i = Some m \<longrightarrow> dict_get_or vl i 0 \<le> max m (dict_get_or vl0 i 0)) \<and>
    (left \<noteq> [] \<longrightarrow> (\<forall>i\<in>members c. \<exists>m. limit c i = Some m \<and> m \<le> dict_get_or vl i 0))"
proof (induction qs arbitrary: vl rs left rule: rev_induct)
  case (snoc q qs)
  obtain vl' rs' left' where run: "foldl (step c) (vl0, [], []) qs = (vl', rs', left')"
    by (metis prod_cases3)
  have keys: "members c \<subseteq> set (dict_keys vl')"
    using run_loads [OF run] assms(2) by blast
  show ?case
  proof (cases "pick c q vl'")
    case None
    from pick_None [OF assms(1) keys None] snoc.IH [OF run] snoc.prems show ?thesis
      by (auto simp: run None step_def)
  next
    case (Some r)
    from pick_Some [OF assms(1) keys Some] snoc.IH [OF run] snoc.prems show ?thesis
      by (fastforce simp: run Some step_def tag_target)
  qed
qed auto

lemma run_titles:
  "foldl (step c) (vl0, [], []) qs = (vl, rs, left) \<Longrightarrow>
     mset (map label rs) + mset (map Some left) = mset (map (Some \<circ> title) qs) \<and>
     subseq (map label rs) (map (Some \<circ> title) qs) \<and> subseq left (map title qs)"
proof (induction qs arbitrary: vl rs left rule: rev_induct)
  case (snoc q qs)
  obtain vl' rs' left' where "foldl (step c) (vl0, [], []) qs = (vl', rs', left')"
    by (metis prod_cases3)
  with snoc show ?case
    by (auto simp: step_def tag_label split: option.splits intro: list_emb_append2)
qed simp

end

definition agent_limit :: "agent list \<Rightarrow> uuid \<Rightarrow> int option" where
  "agent_limit cands i =
     (case find (\<lambda>a. ag_id a = i) cands of
        None \<Rightarrow> None
      | Some a \<Rightarrow> if 0 < ag_max a then Some (ag_max a) else None)"

lemma find_distinct: "distinct (map f xs) \<Longrightarrow> x \<in> set xs \<Longrightarrow> find (\<lambda>y. f y = f x) xs = Some x"
  by (induction xs) (auto simp: rev_image_eqI)

lemma select_best_with_load_Some:
  assumes "select_best_with_load req cands vl = Some r"
  shows "\<exists>a\<in>set cands. \<not> saturated vl a \<and>
    r = make_result (total_score (patched vl a) req, breakdown (patched vl a) req, a) \<and>
    (\<forall>b\<in>set cands. \<not> saturated vl b \<longrightarrow>
       total_score (patched vl b) req < total_score (patched vl a) req \<or>
       total_score (patched vl b) req = total_score (patched vl a) req \<and> virtual vl a \<le> virtual vl b)"
proof -
  let ?key = "\<lambda>(tot, bd, a). (- tot, virtual vl a)"
  let ?row = "\<lambda>a. (total_score (patched vl a) req, breakdown (patched vl a) req, a)"
  obtain best rest where sorted:
      "sort_key ?key (map ?row (filter (\<lambda>a. \<not> saturated vl a) cands)) = best # rest"
    and r: "r = make_result best"
    using assms by (auto simp: select_best_with_load_def Let_def split: list.splits)
  from sort_key_Cons_mem [OF sorted] obtain a where a: "a \<in> set cands" "\<not> saturated vl a"
    and best: "best = ?row a"
    by auto
  have "?key best \<le> ?key (?row b)" if "b \<in> set cands" "\<not> saturated vl b" for b
    using that by (intro sort_key_Cons_least [OF sorted]) simp
  then have "total_score (patched vl b) req < total_score (patched vl a) req \<or>
       total_score (patched vl b) req = total_score (patched vl a) req \<and> virtual vl a \<le> virtual vl b"
    if "b \<in> set cands" "\<not> saturated vl b" for b
    using that by (fastforce simp: best less_eq_prod_def)
  with a r show ?thesis by (auto simp: best)
qed

lemma first_None: "(case xs of [] \<Rightarrow> None | x # _ \<Rightarrow> Some (f x)) = None \<longleftrightarrow> xs = []"
  by (cases xs) simp_all

lemma select_best_with_load_None:
  "select_best_with_load req cands vl = None \<longleftrightarrow> (\<forall>a\<in>set cands. saturated vl a)"
  by (simp add: select_best_with_load_def Let_def first_None filter_empty_conv)

lemma virtual_key: "ag_id a \<in> set (dict_keys vl) \<Longrightarrow> virtual vl a = dict_get_or vl (ag_id a) 0"
  by (auto simp: virtual_def dict_get_or_def alist.keys_get)

lemma agent_limit_member:
  "distinct (map ag_id cands) \<Longrightarrow> a \<in> set cands \<Longrightarrow>
     agent_limit cands (ag_id a) = (if 0 < ag_max a then Some (ag_max a) else None)"
  by (simp add: agent_limit_def find_distinct)

interpretation batch: load_aware "\<lambda>cands. distinct (map ag_id cands)" "\<lambda>cands. ag_id ` set cands"
    agent_limit "\<lambda>cands req vl. select_best_with_load req cands vl" rr_agent rr_title rq_title
    "\<lambda>req r. r\<lparr>rr_title := Some (rq_title req)\<rparr>" batch_step
proof unfold_locales
  fix cands :: "agent list" and vl :: "(uuid, int) dict" and q :: route_request and r and i
  assume dist: "distinct (map ag_id cands)" and keys: "ag_id ` set cands \<subseteq> set (dict_keys vl)"
  {
    assume "select_best_with_load q cands vl = Some r"
    from select_best_with_load_Some [OF this] obtain a where a: "a \<in> set cands" "\<not> saturated vl a"
      "rr_agent r = ag_id a" by auto
    with keys virtual_key [of a vl] agent_limit_member [OF dist] show
      "rr_agent r \<in> ag_id ` set cands \<and>
       (\<forall>m. agent_limit cands (rr_agent r) = Some m \<longrightarrow> dict_get_or vl (rr_agent r) 0 < m)"
      by (auto simp: saturated_def split: if_splits)
  }
  assume "select_best_with_load q cands vl = None" and "i \<in> ag_id ` set cands"
  with keys virtual_key [of _ vl] agent_limit_member [OF dist] show
    "\<exists>m. agent_limit cands i = Some m \<and> m \<le> dict_get_or vl i 0"
    by (force simp: select_best_with_load_None saturated_def)
qed (simp_all add: batch_step_def split: option.split)


subsection \<open>The batch of the orchestrator\<close>

lemma distinct_healthy:
  assumes "distinct (map ag_id (bk_agents s))"
  shows "distinct (map ag_id (healthy_candidates company role s))"
proof -
  let ?P = "\<lambda>a. ag_company a = company \<and> (case role of None \<Rightarrow> True | Some r \<Rightarrow> r = [] \<or> ag_role a = r)"
  have "distinct (map ag_id (filter ?P (bk_agents s)))"
    using assms by (rule distinct_map_filter)
  moreover have "mset (map ag_id (sort_key ag_role (filter ?P (bk_agents s)))) =
      mset (map ag_id (filter ?P (bk_agents s)))"
    by (simp del: mset_map add: mset_map)
  ultimately have "distinct (map ag_id (sort_key ag_role (filter ?P (bk_agents s))))"
    using mset_eq_imp_distinct_iff by blast
  then show ?thesis
    by (simp add: healthy_candidates_def list_agents_def distinct_map_filter)
qed

lemma initial_loads_keys: "set (dict_keys (initial_loads cands)) = ag_id ` set cands"
proof -
  have "i \<in> set (dict_keys (dict_of ps)) \<longleftrightarrow> i \<in> fst ` set ps" for i and ps :: "(uuid \<times> int) list"
    by (auto simp: alist.keys_get dict_get_dict_of map_of_eq_None_iff)
  then show ?thesis by (force simp: initial_loads_def image_image)
qed

lemma initial_loads_get:
  assumes "distinct (map ag_id cands)" and "a \<in> set cands"
  shows "dict_get_or (initial_loads cands) (ag_id a) 0 = ag_load a"
proof -
  let ?ps = "rev (map (\<lambda>a. (ag_id a, ag_load a)) cands)"
  have "distinct (map fst ?ps)"
    using assms(1) by (simp add: rev_map comp_def flip: rev_map)
  then have "map_of ?ps (ag_id a) = Some (ag_load a)"
    using assms(2) by (intro map_of_is_SomeI) auto
  then show ?thesis by (simp add: initial_loads_def dict_get_or_def dict_get_dict_of)
qed

text \<open>The response of a batch is the result of the greedy loop.\<close>

lemma batch_run:
  assumes "healthy_candidates company None s \<noteq> []"
    and "fst (batch_route_tasks ev company reqs s) = Inr resp"
  shows "\<exists>vl. foldl (batch_step (healthy_candidates company None s))
      (initial_loads (healthy_candidates company None s), [], []) (sort_key priority_rank reqs) =
    (vl, br_assignments resp, br_unassigned resp)"
  using assms by (auto simp: batch_route_tasks_def Let_def split: prod.splits dest!: after_event_Inr)

lemma batch_no_agent:
  "healthy_candidates company None s = [] \<Longrightarrow> fst (batch_route_tasks ev company reqs s) =
     Inr \<lparr>br_assignments = [], br_unassigned = map rq_title reqs\<rparr>"
  by (simp add: batch_route_tasks_def)

text \<open>
  A batch can fail only because the event that it records is refused: its title holds the number
  of the assigned tasks.
\<close>

lemma batch_Inl:
  assumes "fst (batch_route_tasks ev company reqs s) = Inl e"
  shows "ev \<and> healthy_candidates company None s \<noteq> [] \<and>
    (e = DataError \<and> 400 < length reqs \<or> e = IntegrityError \<and> \<not> company_known company s)"
proof -
  let ?cands = "healthy_candidates company None s"
  have some: "?cands \<noteq> []" using assms batch_no_agent [of company s] by (cases "?cands = []") simp_all
  obtain vl rs left where run:
    "foldl (batch_step ?cands) (initial_loads ?cands, [], []) (sort_key priority_rank reqs) = (vl, rs, left)"
    by (metis prod_cases3)
  have "length rs + length left = length reqs"
    using arg_cong [where f = size, OF batch.run_titles [OF run, THEN conjunct1]] by simp
  then have "length (show_nat (length rs)) \<le> Suc (length reqs)"
    using show_nat_length [of "length rs"] by simp
  then have "400 < length reqs \<or> fits_column 500 (''Batch routed '' @ show_nat (length rs) @ '' tasks'')"
    by (cases "400 < length reqs") (simp_all add: short_fits)
  with assms some run show ?thesis
    by (auto simp: batch_route_tasks_def Let_def fst_after_event event_shortcuts fst_record_event
        routed_event_error short_fits split: if_splits option.splits)
qed

lemma batch_silent: "\<exists>resp. fst (batch_route_tasks False company reqs s) = Inr resp"
  using batch_Inl [of False company reqs s] by (cases "fst (batch_route_tasks False company reqs s)") auto

abbreviation given :: "batch_response \<Rightarrow> uuid \<Rightarrow> int" where
  "given resp i \<equiv> int (count_list (map rr_agent (br_assignments resp)) i)"

text \<open>
  C1. A batch never overcommits an agent: the tasks it gives to an agent with a positive
  limit, added to the agent's load, stay within the limit (or within the load the agent had,
  if that was higher, and then it gets none). Tasks go to idle or busy agents of the company
  only.
\<close>

theorem batch_within_capacity:
  assumes "distinct (map ag_id (bk_agents s))" and "a \<in> set (bk_agents s)"
    and "fst (batch_route_tasks ev company reqs s) = Inr resp"
  shows "(0 < ag_max a \<longrightarrow>
      ag_load a + int (count_list (map rr_agent (br_assignments resp)) (ag_id a)) \<le>
        max (ag_max a) (ag_load a)) \<and>
    (ag_company a \<noteq> company \<or> ag_status a \<notin> {''idle'', ''busy''} \<longrightarrow>
      count_list (map rr_agent (br_assignments resp)) (ag_id a) = 0)"
proof (cases "healthy_candidates company None s = []")
  case True
  then have "br_assignments resp = []" using assms(3) batch_no_agent [OF True, of ev reqs] by auto
  then show ?thesis by simp
next
  case False
  let ?cands = "healthy_candidates company None s"
  note dist = distinct_healthy [OF assms(1), of company None]
  have keys: "ag_id ` set ?cands \<subseteq> set (dict_keys (initial_loads ?cands))"
    by (simp add: initial_loads_keys)
  from batch_run [OF False assms(3)] obtain vl where run:
    "foldl (batch_step ?cands) (initial_loads ?cands, [], []) (sort_key priority_rank reqs) =
      (vl, br_assignments resp, br_unassigned resp)" by blast
  note loads = batch.run_loads [OF run, of "ag_id a", THEN conjunct1]
    and bounds = batch.run_bounds [OF dist keys run, of "ag_id a"]
  have same: "b = a" if "b \<in> set ?cands" "ag_id b = ag_id a" for b
    using that assms(1,2) by (simp add: distinct_map healthy_candidates_set inj_on_def)
  show ?thesis
  proof (cases "a \<in> set ?cands")
    case True
    then have "ag_company a = company \<and> ag_status a \<in> {''idle'', ''busy''}"
      by (simp add: healthy_candidates_set)
    moreover have "dict_get_or vl (ag_id a) 0 \<le> max (ag_max a) (ag_load a)" if "0 < ag_max a"
      using bounds that by (simp add: agent_limit_member [OF dist True] initial_loads_get [OF dist True])
    ultimately show ?thesis
      using loads by (simp add: initial_loads_get [OF dist True])
  next
    case False
    then have "ag_id a \<notin> ag_id ` set ?cands"
      using same by (metis (no_types, lifting) imageE)
    then have "ag_id a \<notin> set (map rr_agent (br_assignments resp))"
      using bounds [THEN conjunct1] by blast
    then have "count_list (map rr_agent (br_assignments resp)) (ag_id a) = 0"
      by (simp add: count_list_0_iff)
    then show ?thesis by simp
  qed
qed

text \<open>
  C2. A batch loses no task: the assigned and the unassigned titles of its response are together
  the titles of the requests, with their multiplicities. When the company has an idle or busy
  agent, both come in the order of priority (high, then medium and unknown, then low, and the
  given order within a priority); when it has none, nothing is assigned and all titles are
  returned in the order of the requests. There is a response unless the event of the batch is
  refused: for a company without a row, or for more than 400 requests (the route allows 100).
\<close>

theorem batch_accounts_for_every_task:
  "case fst (batch_route_tasks ev company reqs s) of
     Inl e \<Rightarrow> ev \<and> healthy_candidates company None s \<noteq> [] \<and>
       (e = DataError \<and> 400 < length reqs \<or> e = IntegrityError \<and> \<not> company_known company s)
   | Inr resp \<Rightarrow>
       mset (map rr_title (br_assignments resp)) + mset (map Some (br_unassigned resp)) =
         mset (map (Some \<circ> rq_title) reqs) \<and>
       (if healthy_candidates company None s = []
        then br_assignments resp = [] \<and> br_unassigned resp = map rq_title reqs
        else subseq (map rr_title (br_assignments resp)) (map (Some \<circ> rq_title) (sort_key priority_rank reqs)) \<and>
          subseq (br_unassigned resp) (map rq_title (sort_key priority_rank reqs)))"
proof (cases "fst (batch_route_tasks ev company reqs s)")
  case (Inl e)
  with batch_Inl [OF this] show ?thesis by simp
next
  case (Inr resp)
  show ?thesis
  proof (cases "healthy_candidates company None s = []")
    case True
    with Inr batch_no_agent [OF True, of ev reqs] show ?thesis by (auto simp: multiset.map_comp)
  next
    case False
    from batch_run [OF False Inr] obtain vl where
      "foldl (batch_step (healthy_candidates company None s))
         (initial_loads (healthy_candidates company None s), [], []) (sort_key priority_rank reqs) =
        (vl, br_assignments resp, br_unassigned resp)" by blast
    from batch.run_titles [OF this] Inr False show ?thesis by simp
  qed
qed

text \<open>
  C3. A batch leaves a task over only when every idle or busy agent of the company has a
  positive limit and is filled up to it. So an agent whose limit is zero or negative takes
  any number of tasks.
\<close>

theorem batch_unassigned_saturated:
  assumes "distinct (map ag_id (bk_agents s))" and "a \<in> set (bk_agents s)"
    and "ag_company a = company" and "ag_status a \<in> {''idle'', ''busy''}"
    and "fst (batch_route_tasks ev company reqs s) = Inr resp" and "br_unassigned resp \<noteq> []"
  shows "0 < ag_max a \<and>
    ag_max a \<le> ag_load a + int (count_list (map rr_agent (br_assignments resp)) (ag_id a))"
proof -
  let ?cands = "healthy_candidates company None s"
  note dist = distinct_healthy [OF assms(1), of company None]
  have a: "a \<in> set ?cands" using assms(2-4) by (simp add: healthy_candidates_set)
  then have "?cands \<noteq> []" by auto
  from batch_run [OF this assms(5)] obtain vl where run:
    "foldl (batch_step ?cands) (initial_loads ?cands, [], []) (sort_key priority_rank reqs) =
      (vl, br_assignments resp, br_unassigned resp)" by blast
  have keys: "ag_id ` set ?cands \<subseteq> set (dict_keys (initial_loads ?cands))"
    by (simp add: initial_loads_keys)
  from batch.run_bounds [OF dist keys run] a assms(6) obtain m where
    "agent_limit ?cands (ag_id a) = Some m" "m \<le> dict_get_or vl (ag_id a) 0"
    by blast
  with batch.run_loads [OF run, of "ag_id a"] agent_limit_member [OF dist a]
    initial_loads_get [OF dist a] show ?thesis
    by (auto split: if_splits)
qed

lemma sample_batch_agents: "distinct (map ag_id (bk_agents sample_backend))"
    "sample_agent \<in> set (bk_agents sample_backend)"
  by (simp_all add: sample_backend_def)

theorem batch_within_capacity_witness:
  "\<exists>resp. fst (batch_route_tasks False ''c'' (replicate 5 sample_request) sample_backend) = Inr resp \<and>
     int (count_list (map rr_agent (br_assignments resp)) ''a'') \<le> 2"
proof -
  obtain resp where run: "fst (batch_route_tasks False ''c'' (replicate 5 sample_request) sample_backend) = Inr resp"
    using batch_silent by blast
  from batch_within_capacity [OF sample_batch_agents run] run show ?thesis by (auto simp: sample_agent_def)
qed

text \<open>A batch of one request of a known company, with its event.\<close>

definition routed_backend :: backend where
  "routed_backend = sample_backend\<lparr>si_companies := [\<lparr>co_id = ''c'', co_name = ''Acme'', co_slug = ''acme'',
     co_description = None, co_industry = None, co_size = None, co_vision = None, co_models = None,
     co_integrations = None, co_completed = False, co_created = 0\<rparr>]\<rparr>"

theorem batch_accounts_for_every_task_witness:
  "\<exists>resp. fst (batch_route_tasks True ''c'' [sample_request] routed_backend) = Inr resp \<and>
     mset (map rr_title (br_assignments resp)) + mset (map Some (br_unassigned resp)) = {#Some ''t''#}"
proof -
  have "company_known ''c'' routed_backend" by (simp add: company_known_def routed_backend_def)
  with batch_accounts_for_every_task
      [where ev = True and company = "''c''" and reqs = "[sample_request]" and s = routed_backend]
  obtain resp where run: "fst (batch_route_tasks True ''c'' [sample_request] routed_backend) = Inr resp"
    by (cases "fst (batch_route_tasks True ''c'' [sample_request] routed_backend)") auto
  with batch_accounts_for_every_task
      [where ev = True and company = "''c''" and reqs = "[sample_request]" and s = routed_backend] show ?thesis
    by (auto simp: sample_request_def split: if_splits)
qed

text \<open>An agent without room: the batch leaves the task over.\<close>

definition full_backend :: backend where
  "full_backend = sample_backend\<lparr>bk_agents := [sample_agent\<lparr>ag_load := 2\<rparr>]\<rparr>"

lemma full_batch:
  "fst (batch_route_tasks False ''c'' [sample_request] full_backend) =
     Inr \<lparr>br_assignments = [], br_unassigned = [''t'']\<rparr>"
proof -
  have "healthy_candidates ''c'' None full_backend = [sample_agent\<lparr>ag_load := 2\<rparr>]"
    by (simp add: full_backend_def healthy_candidates_def list_agents_def HEALTHY_STATUSES_def
        sample_backend_def sample_agent_def)
  moreover have "select_best_with_load sample_request [sample_agent\<lparr>ag_load := 2\<rparr>]
      (initial_loads [sample_agent\<lparr>ag_load := 2\<rparr>]) = None"
    by (simp add: select_best_with_load_None saturated_def virtual_def initial_loads_def
        dict_get_or_def dict_get_dict_of sample_agent_def)
  ultimately show ?thesis
    by (simp add: batch_route_tasks_def batch_step_def fst_after_event) (simp add: sample_request_def)
qed

theorem batch_unassigned_saturated_witness:
  "\<exists>resp. fst (batch_route_tasks False ''c'' [sample_request] full_backend) = Inr resp \<and>
     br_unassigned resp = [''t''] \<and>
     ag_max sample_agent \<le> 2 + int (count_list (map rr_agent (br_assignments resp)) ''a'')"
  using batch_unassigned_saturated [of full_backend "sample_agent\<lparr>ag_load := 2\<rparr>", OF _ _ _ _ full_batch]
  by (simp add: full_batch) (simp add: full_backend_def sample_agent_def)

end
