(* ===== verification/Assignment.thy ===== *)
theory Assignment
  imports Routing
begin

text \<open>
  What the assignment of task rows (\<open>assign_tasks\<close>) does to the agents and to the rows.
\<close>

section \<open>The agents after routing\<close>

lemma bk_agents_action [simp]:
  "bk_agents (snd (agent_action c n act i d m s)) = bk_agents s"
  by (simp add: event_shortcuts)

lemma bk_agents_route_task [simp]: "bk_agents (snd (route_task ev c req s)) = bk_agents s"
  by (simp add: route_task_def split: sum.split)

lemma bk_agents_route_to_role [simp]:
  "bk_agents (snd (route_task_to_role ev c req role s)) = bk_agents s"
  by (simp add: route_task_to_role_def Let_def)

lemma bk_agents_batch_route [simp]: "bk_agents (snd (batch_route_tasks ev c reqs s)) = bk_agents s"
  by (simp add: batch_route_tasks_def Let_def split_beta)

lemma bk_agents_set_task_agent [simp]: "bk_agents (set_task_agent t i s) = bk_agents s"
  by (simp add: set_task_agent_def)

lemma bk_agents_write_assignments [simp]: "bk_agents (snd (write_assignments tm rs s)) = bk_agents s"
  by (induction tm rs s rule: write_assignments.induct) (simp_all add: split_beta Let_def split: option.split)

lemma bk_agents_assign_each: "bk_agents (snd (assign_each ev c ts s)) = bk_agents s"
proof (induction ts arbitrary: s)
  case (Cons t ts)
  show ?case
  proof (cases "task_request t")
    case (Inl e)
    then show ?thesis by simp
  next
    case (Inr req)
    obtain res s1 where route:
      "route_task_to_role ev c req (str_or (tk_assignee t) ''backend_dev'') s = (res, s1)"
      by fastforce
    then have "bk_agents s1 = bk_agents s"
      by (metis bk_agents_route_to_role snd_conv)
    with Cons.IH [of s1] Cons.IH [of "set_task_agent t _ s1"] Inr route show ?thesis
      by (auto simp: split_beta Let_def split: sum.splits exc.splits)
  qed
qed simp

lemma bk_agents_assign_batch: "bk_agents (snd (assign_batch ev c ts s)) = bk_agents s"
proof (cases "task_requests ts")
  case (Inr requests)
  obtain r s1 where batch: "batch_route_tasks ev c requests s = (r, s1)" by fastforce
  then have "bk_agents s1 = bk_agents s" by (metis bk_agents_batch_route snd_conv)
  with Inr batch show ?thesis
    by (simp add: assign_batch_def split_beta Let_def split: sum.split)
qed (simp add: assign_batch_def)

text \<open>
  \<open>assign_tasks\<close> changes no agent: neither the load nor the status of the selected agents
  is updated, with or without the batch.
\<close>

theorem assign_tasks_keeps_agents:
  "bk_agents (snd (assign_tasks ev company ts batch s)) = bk_agents s"
  by (simp add: assign_tasks_def bk_agents_assign_batch bk_agents_assign_each)

text \<open>A batch of valid requests is assigned unless its event is refused.\<close>

lemma assign_batch_Inr:
  assumes "task_requests ts = Inr rs" and "fst (batch_route_tasks ev c rs s) = Inr resp"
  shows "\<exists>es. fst (assign_batch ev c ts s) = Inr es"
  using assms by (cases "batch_route_tasks ev c rs s") (simp add: assign_batch_def split_beta Let_def)

section \<open>Tasks with equal titles\<close>

text \<open>The title map keeps the last task of a title.\<close>

lemma task_map_get:
  assumes "dict_get (task_map ts) k = Some t"
  shows "\<exists>xs zs. ts = xs @ t # zs \<and> tk_title t = k \<and> (\<forall>u\<in>set zs. tk_title u \<noteq> k)"
  using assms
proof (induction ts rule: rev_induct)
  case Nil
  then show ?case by (simp add: task_map_def dict_of_def)
next
  case (snoc u ts)
  then show ?case
  proof (cases "tk_title u = k")
    case True
    with snoc.prems show ?thesis
      by (intro exI [of _ ts] exI [of _ "[]"]) (simp add: task_map_def dict_of_snoc)
  next
    case False
    with snoc.prems have "dict_get (task_map ts) k = Some t"
      by (simp add: task_map_def dict_of_snoc split: if_splits)
    from snoc.IH [OF this] obtain xs zs where
      "ts = xs @ t # zs" "tk_title t = k" "\<forall>u\<in>set zs. tk_title u \<noteq> k" by blast
    with False show ?thesis
      by (intro exI [of _ xs] exI [of _ "zs @ [u]"]) simp
  qed
qed

lemma write_assignments_entries:
  "e \<in> set (fst (write_assignments tm rs s)) \<Longrightarrow>
     \<exists>k t. dict_get tm k = Some t \<and> as_task e = id_text (tk_id t)"
proof (induction tm rs s rule: write_assignments.induct)
  case (2 tm r rs s)
  show ?case
  proof (cases "Option.bind (rr_title r) (dict_get tm)")
    case None
    with "2.IH"(1) "2.prems" show ?thesis by simp
  next
    case (Some t)
    then obtain k where k: "dict_get tm k = Some t"
      by (cases "rr_title r") auto
    from Some "2.prems" consider "e = assigned_entry t r"
      | "e \<in> set (fst (write_assignments tm rs (set_task_agent t (rr_agent r) s)))"
      by (auto simp: split_beta Let_def)
    then show ?thesis
    proof cases
      case 1
      with k show ?thesis by (auto simp: assigned_entry_def)
    next
      case 2
      with "2.IH"(2) [OF Some] show ?thesis by blast
    qed
  qed
qed simp

lemma assign_batch_entries:
  assumes "fst (assign_batch ev c ts s) = Inr es" and "e \<in> set es"
  shows "\<exists>k t. dict_get (task_map ts) k = Some t \<and> as_task e = id_text (tk_id t)"
proof -
  obtain requests where req: "task_requests ts = Inr requests" and ne: "requests \<noteq> []"
    using assms by (auto simp: assign_batch_def split: sum.splits if_splits)
  obtain r s1 where batch: "batch_route_tasks ev c requests s = (r, s1)" by fastforce
  with assms(1) req ne obtain resp where r: "r = Inr resp"
    by (cases r) (simp_all add: assign_batch_def)
  have "es = fst (write_assignments (task_map ts) (br_assignments resp) s1) @
      map unassigned_entry (List.map_filter (dict_get (task_map ts)) (br_unassigned resp))"
    using assms(1) req ne batch r by (simp add: assign_batch_def Let_def split_beta)
  with assms(2) consider
      "e \<in> set (fst (write_assignments (task_map ts) (br_assignments resp) s1))"
    | "e \<in> set (map unassigned_entry (List.map_filter (dict_get (task_map ts)) (br_unassigned resp)))"
    by auto
  then show ?thesis
  proof cases
    case 1
    then show ?thesis by (rule write_assignments_entries)
  next
    case 2
    then obtain k t where "dict_get (task_map ts) k = Some t" and "e = unassigned_entry t"
      by (auto simp: List.map_filter_def)
    then show ?thesis by (intro exI [of _ k] exI [of _ t]) (simp add: unassigned_entry_def)
  qed
qed

text \<open>
  C39. Of the tasks with the same title only the last one is assigned by a batch: when a later
  task of the list has the title of a task, the result has no entry for that task, neither
  an assignment nor a note that it could not be routed, although the documentation promises
  one entry per task.
\<close>

theorem assign_batch_drops_equal_titles:
  assumes "fst (assign_tasks ev company (xs @ t # ys @ u # zs) True s) = Inr es"
    and "tk_title t = tk_title u"
    and "\<forall>v\<in>set (xs @ ys @ u # zs). id_text (tk_id v) \<noteq> id_text (tk_id t)"
  shows "\<forall>e\<in>set es. as_task e \<noteq> id_text (tk_id t)"
proof
  fix e assume e: "e \<in> set es"
  let ?ts = "xs @ t # ys @ u # zs"
  from assign_batch_entries assms(1) e obtain k t' where
    get: "dict_get (task_map ?ts) k = Some t'" and id: "as_task e = id_text (tk_id t')"
    unfolding assign_tasks_def by (metis (full_types))
  from task_map_get [OF get] obtain as bs where
    split: "?ts = as @ t' # bs" and k: "tk_title t' = k" and last: "\<forall>v\<in>set bs. tk_title v \<noteq> k"
    by blast
  show "as_task e \<noteq> id_text (tk_id t)"
  proof
    assume "as_task e = id_text (tk_id t)"
    then have eq: "id_text (tk_id t') = id_text (tk_id t)" by (simp add: id)
    then have "t' \<notin> set (xs @ ys @ u # zs)" using assms(3) by auto
    then have "length as = length xs"
      using split by (auto simp: append_eq_append_conv2 append_eq_Cons_conv Cons_eq_append_conv)
    with split have "bs = ys @ u # zs" "t' = t" by auto
    with last k assms(2) show False by simp
  qed
qed

definition sample_task :: "string \<Rightarrow> task" where
  "sample_task i = \<lparr>tk_id = Some i, tk_company = ''c'', tk_title = ''t'', tk_description = None,
     tk_status = ''todo'', tk_priority = ''high'', tk_assignee = None, tk_agent = None,
     tk_deps = None, tk_meta = []\<rparr>"

lemma sample_requests:
  "\<exists>rs. task_requests [sample_task ''x'', sample_task ''y''] = Inr rs"
  by (simp add: task_request_def sample_task_def make_request_def char_count_def continuation_def str_or_def)

lemma sample_assignment:
  "\<exists>es. fst (assign_tasks False ''c'' [sample_task ''x'', sample_task ''y''] True sample_store) = Inr es"
proof -
  obtain rs where rs: "task_requests [sample_task ''x'', sample_task ''y''] = Inr rs" using sample_requests by blast
  obtain resp where "fst (batch_route_tasks False ''c'' rs sample_store) = Inr resp"
    using batch_silent by blast
  from assign_batch_Inr [OF rs this] show ?thesis by (simp add: assign_tasks_def)
qed

theorem assign_batch_drops_equal_titles_witness:
  "\<exists>es. fst (assign_tasks False ''c'' [sample_task ''x'', sample_task ''y''] True sample_store) = Inr es \<and>
     (\<forall>e\<in>set es. as_task e \<noteq> ''x'')"
  using sample_assignment
    assign_batch_drops_equal_titles [of False "''c''" "[]" "sample_task ''x''" "[]" "sample_task ''y''" "[]" sample_store]
  by (auto simp: sample_task_def id_text_def)

end
