(* ===== verification/Onboarding.thy ===== *)
theory Onboarding
  imports Knowledge Constitution Architecture Assignment
begin

text \<open>
  The onboarding of a company (backend/app/services/onboarding_service.py) and the writing of
  the generated documents (the \<open>generate\<close> methods of the four generator services). The state
  adds the tables of companies, onboarding sessions and documents to the store. A flush that
  would give a company a second session or document violates the UNIQUE constraint on its
  \<open>company_id\<close> column (models/company.py) and raises an IntegrityError.
\<close>

section \<open>Tables\<close>

record onboarding_session =
  os_id :: uuid
  os_company :: uuid
  os_step :: int
  os_total :: int
  os_data :: "(string, json) dict option"
  os_vision :: "string option"
  os_analysis :: "((string, kg_domain) dict \<times> (string, kg_capability) dict) option"
  os_status :: string
  os_created :: int

text \<open>A row of \<open>knowledge_graphs\<close>, \<open>constitutions\<close>, \<open>roadmaps\<close> or \<open>architecture_plans\<close>.\<close>

record 'c document =
  dc_id :: uuid
  dc_company :: uuid
  dc_content :: 'c
  dc_created :: int

record site = store +
  si_sessions :: "onboarding_session list"
  si_graphs :: "kg_analysis document list"
  si_constitutions :: "constitution document list"
  si_roadmaps :: "roadmap document list"
  si_plans :: "architecture document list"

definition STEP_KEYS :: "string list" where
  "STEP_KEYS = [''welcome'', ''company_info'', ''vision'', ''models'', ''integrations'', ''review'',
     ''processing'', ''complete'']"

definition find_company :: "uuid \<Rightarrow> 'a site_scheme \<Rightarrow> company option" where
  "find_company i s = find (\<lambda>c. co_id c = i) (si_companies s)"

definition find_session :: "uuid \<Rightarrow> 'a site_scheme \<Rightarrow> onboarding_session option" where
  "find_session company s = find (\<lambda>x. os_company x = company) (si_sessions s)"

definition find_document :: "uuid \<Rightarrow> 'c document list \<Rightarrow> 'c document option" where
  "find_document company ds = find (\<lambda>d. dc_company d = company) ds"

definition save_company :: "company \<Rightarrow> 'a site_scheme \<Rightarrow> 'a site_scheme" where
  "save_company c s =
     s\<lparr>si_companies := map (\<lambda>x. if co_id x = co_id c then c else x) (si_companies s)\<rparr>"

definition save_session :: "onboarding_session \<Rightarrow> 'a site_scheme \<Rightarrow> 'a site_scheme" where
  "save_session x s =
     s\<lparr>si_sessions := map (\<lambda>y. if os_id y = os_id x then x else y) (si_sessions s)\<rparr>"

definition new_document :: "uuid \<Rightarrow> 'c \<Rightarrow> 'a site_scheme \<Rightarrow> 'c document" where
  "new_document company content s =
     \<lparr>dc_id = es_uuid s (es_tick s), dc_company = company, dc_content = content,
      dc_created = es_clock s (es_tick s)\<rparr>"

definition tick :: "'a site_scheme \<Rightarrow> 'a site_scheme" where
  "tick s = s\<lparr>es_tick := Suc (es_tick s)\<rparr>"

section \<open>Writing the documents\<close>

definition add_graph :: "uuid \<Rightarrow> string \<Rightarrow> 'a site_scheme \<Rightarrow> (kg_analysis document \<times> 'a site_scheme) result" where
  "add_graph company vision s =
     (if find_document company (si_graphs s) \<noteq> None then Inl IntegrityError
      else let d = new_document company (analyze_vision vision) s
           in Inr (d, tick (s\<lparr>si_graphs := si_graphs s @ [d]\<rparr>)))"

definition add_constitution :: "uuid \<Rightarrow> string \<Rightarrow> 'a site_scheme \<Rightarrow> (constitution document \<times> 'a site_scheme) result" where
  "add_constitution company vision s =
     (if find_document company (si_constitutions s) \<noteq> None then Inl IntegrityError
      else let d = new_document company (generate_constitution vision) s
           in Inr (d, tick (s\<lparr>si_constitutions := si_constitutions s @ [d]\<rparr>)))"

definition add_roadmap :: "uuid \<Rightarrow> 'a site_scheme \<Rightarrow> (roadmap document \<times> 'a site_scheme) result" where
  "add_roadmap company s =
     (if find_document company (si_roadmaps s) \<noteq> None then Inl IntegrityError
      else let d = new_document company generate_roadmap s
           in Inr (d, tick (s\<lparr>si_roadmaps := si_roadmaps s @ [d]\<rparr>)))"

definition add_architecture ::
  "uuid \<Rightarrow> string \<Rightarrow> (string, json) dict option \<Rightarrow> 'a site_scheme \<Rightarrow>
   (architecture document \<times> 'a site_scheme) result" where
  "add_architecture company vision models s =
     (case generate_architecture vision models of Inl e \<Rightarrow> Inl e
      | Inr plan \<Rightarrow>
          if find_document company (si_plans s) \<noteq> None then Inl IntegrityError
          else let d = new_document company plan s
               in Inr (d, tick (s\<lparr>si_plans := si_plans s @ [d]\<rparr>)))"

section \<open>The steps of the founder\<close>

definition new_company ::
  "string \<Rightarrow> string \<Rightarrow> string option \<Rightarrow> string option \<Rightarrow> string option \<Rightarrow> 'a site_scheme \<Rightarrow> company" where
  "new_company name slug description industry company_size s =
     \<lparr>co_id = es_uuid s (es_tick s), co_name = name, co_slug = slug, co_description = description,
      co_industry = industry, co_size = company_size, co_vision = None, co_models = None,
      co_integrations = None, co_completed = False, co_created = es_clock s (es_tick s)\<rparr>"

definition note_seeded :: "uuid \<Rightarrow> string \<Rightarrow> agent list \<Rightarrow> 'a site_scheme \<Rightarrow> 'a site_scheme" where
  "note_seeded company name agents s =
     snd (workflow_event company ''Company Setup'' ''agents_seeded'' None
       (Some (''Seeded '' @ show_nat (length agents) @ '' default agents for '' @ name)) None s)"

definition new_session :: "uuid \<Rightarrow> 'a site_scheme \<Rightarrow> onboarding_session" where
  "new_session company s =
     \<lparr>os_id = es_uuid s (es_tick s), os_company = company, os_step = 0,
      os_total = int (length STEP_KEYS), os_data = Some [], os_vision = None, os_analysis = None,
      os_status = ''in_progress'', os_created = es_clock s (es_tick s)\<rparr>"

definition note_started :: "uuid \<Rightarrow> string \<Rightarrow> 'a site_scheme \<Rightarrow> 'a site_scheme" where
  "note_started company name s =
     snd (task_transition company ''Onboarding started'' ''not_started'' ''in_progress'' ''system'' None
       (Some (''Onboarding session created for '' @ name)) None s)"

definition create_company ::
  "string \<Rightarrow> string \<Rightarrow> string option \<Rightarrow> string option \<Rightarrow> string option \<Rightarrow> 'a site_scheme \<Rightarrow>
   company result \<times> 'a site_scheme" where
  "create_company name slug description industry company_size s =
     (if slug \<in> set (map co_slug (si_companies s)) then (Inl IntegrityError, s)
      else
        let c = new_company name slug description industry company_size s;
            s1 = tick (s\<lparr>si_companies := si_companies s @ [c]\<rparr>)
        in case seed_default_agents True (co_id c) s1 of
             (Inl e, s2) \<Rightarrow> (Inl e, s2)
           | (Inr agents, s2) \<Rightarrow>
               let s3 = note_seeded (co_id c) name agents s2
               in if find_session (co_id c) s3 \<noteq> None then (Inl IntegrityError, s3)
                  else
                    let x = new_session (co_id c) s3;
                        s4 = tick (s3\<lparr>si_sessions := si_sessions s3 @ [x]\<rparr>)
                    in (Inr c, note_started (co_id c) name s4))"

fun index_of :: "string \<Rightarrow> string list \<Rightarrow> int" where
  "index_of k [] = 0"
| "index_of k (x # xs) = (if x = k then 0 else 1 + index_of k xs)"

text \<open>
  \<open>advance_step\<close>. When the loaded dictionary is not empty, the code stores into that very
  object and assigns it to its own attribute. SQLAlchemy compares the assigned value with the
  loaded one, finds the same object and writes nothing: the caller's object shows the new
  data, the row keeps the old. An empty or missing dictionary is replaced by a new one, which is
  written.
\<close>

definition step_index :: "string \<Rightarrow> onboarding_session \<Rightarrow> int" where
  "step_index step_key x =
     (if step_key \<in> set STEP_KEYS then index_of step_key STEP_KEYS else os_step x + 1)"

definition advance_step ::
  "uuid \<Rightarrow> string \<Rightarrow> (string, json) dict \<Rightarrow> 'a site_scheme \<Rightarrow> onboarding_session result \<times> 'a site_scheme" where
  "advance_step company step_key data s =
     (case find_session company s of
        None \<Rightarrow> (Inl (ValueError ''Onboarding session not found''), s)
      | Some x \<Rightarrow>
          (let loaded = os_data x;
               current_data = dict_set step_key (JObj data) (case loaded of None \<Rightarrow> [] | Some d \<Rightarrow> d);
               x1 = x\<lparr>os_step := step_index step_key x, os_data := Some current_data\<rparr>;
               fresh = (loaded = None \<or> loaded = Some []);
               row = (if fresh then x1 else x1\<lparr>os_data := loaded\<rparr>)
           in (Inr x1, save_session row s)))"

definition save_vision ::
  "uuid \<Rightarrow> string \<Rightarrow> 'a site_scheme \<Rightarrow> onboarding_session result \<times> 'a site_scheme" where
  "save_vision company vision_text s =
     (case find_session company s of
        None \<Rightarrow> (Inl (ValueError ''Onboarding session not found''), s)
      | Some x \<Rightarrow>
          (let x1 = x\<lparr>os_vision := Some vision_text\<rparr>; s1 = save_session x1 s
           in (Inr x1, case find_company company s of None \<Rightarrow> s1
                       | Some c \<Rightarrow> save_company (c\<lparr>co_vision := Some vision_text\<rparr>) s1)))"

definition save_models ::
  "uuid \<Rightarrow> (string, json) dict list \<Rightarrow> 'a site_scheme \<Rightarrow> company result \<times> 'a site_scheme" where
  "save_models company models s =
     (case find_company company s of
        None \<Rightarrow> (Inl (ValueError ''Company not found''), s)
      | Some c \<Rightarrow>
          (let c1 = c\<lparr>co_models := Some [(''providers'', JArr (map JObj models))]\<rparr>
           in (Inr c1, save_company c1 s)))"

definition save_integrations ::
  "uuid \<Rightarrow> (string, json) dict \<Rightarrow> 'a site_scheme \<Rightarrow> company result \<times> 'a site_scheme" where
  "save_integrations company integrations s =
     (case find_company company s of
        None \<Rightarrow> (Inl (ValueError ''Company not found''), s)
      | Some c \<Rightarrow>
          (let c1 = c\<lparr>co_integrations := Some integrations\<rparr> in (Inr c1, save_company c1 s)))"

section \<open>Processing\<close>

record outcome =
  oc_company :: company
  oc_graph :: "kg_analysis document"
  oc_constitution :: "constitution document"
  oc_roadmap :: "roadmap document"
  oc_plan :: "architecture document"
  oc_tasks :: "task list"
  oc_workflows :: "workflow list"

definition log_progress :: "uuid \<Rightarrow> string \<Rightarrow> string \<Rightarrow> 'a site_scheme \<Rightarrow> 'a site_scheme" where
  "log_progress company event description s =
     snd (workflow_event company ''Onboarding Processing'' event None (Some description) None s)"

text \<open>The documents, each followed by its event.\<close>

definition write_graph :: "uuid \<Rightarrow> string \<Rightarrow> 'a site_scheme \<Rightarrow> (kg_analysis document \<times> 'a site_scheme) result" where
  "write_graph company vision s =
     (case add_graph company vision s of Inl e \<Rightarrow> Inl e
      | Inr (d, s1) \<Rightarrow> Inr (d, log_progress company ''knowledge_graph_generated''
          (''Generated knowledge graph with '' @ show_nat (length (an_nodes (dc_content d))) @ '' nodes'') s1))"

definition write_constitution :: "uuid \<Rightarrow> string \<Rightarrow> 'a site_scheme \<Rightarrow> (constitution document \<times> 'a site_scheme) result" where
  "write_constitution company vision s =
     (case add_constitution company vision s of Inl e \<Rightarrow> Inl e
      | Inr (d, s1) \<Rightarrow> Inr (d, log_progress company ''constitution_generated''
          ''Company constitution generated from vision'' s1))"

definition write_roadmap :: "uuid \<Rightarrow> 'a site_scheme \<Rightarrow> (roadmap document \<times> 'a site_scheme) result" where
  "write_roadmap company s =
     (case add_roadmap company s of Inl e \<Rightarrow> Inl e
      | Inr (d, s1) \<Rightarrow> Inr (d, log_progress company ''roadmap_generated''
          (''Generated roadmap with '' @ show_nat (length (rm_phases (dc_content d))) @ '' phases'') s1))"

definition write_architecture ::
  "uuid \<Rightarrow> string \<Rightarrow> (string, json) dict option \<Rightarrow> 'a site_scheme \<Rightarrow>
   (architecture document \<times> 'a site_scheme) result" where
  "write_architecture company vision models s =
     (case add_architecture company vision models s of Inl e \<Rightarrow> Inl e
      | Inr (d, s1) \<Rightarrow> Inr (d, log_progress company ''architecture_generated''
          ''System architecture plan generated'' s1))"

text \<open>The tasks of the roadmap, routed to agents, and the workflows.\<close>

definition write_tasks ::
  "uuid \<Rightarrow> (string, phase) dict \<Rightarrow> 'a site_scheme \<Rightarrow> (task list \<times> workflow list) result \<times> 'a site_scheme" where
  "write_tasks company phases s =
     (let (tasks, s1) = generate_tasks company (Some phases) s;
          (workflows, s2) = generate_workflows company tasks s1;
          (res, s3) = assign_tasks True company tasks True s2
      in case res of Inl e \<Rightarrow> (Inl e, s3)
         | Inr route_results \<Rightarrow>
             let routed_count = length (filter (\<lambda>r. as_agent r \<noteq> None) route_results);
                 s4 = log_progress company ''tasks_routed''
                   (''Routed '' @ show_nat routed_count @ ''/'' @ show_nat (length tasks) @
                    '' tasks to agents via orchestrator'') s3;
                 s5 = log_progress company ''tasks_generated''
                   (''Generated '' @ show_nat (length tasks) @ '' tasks and '' @
                    show_nat (length workflows) @ '' workflows'') s4
             in (Inr (tasks, workflows), s5))"

definition finish_onboarding ::
  "uuid \<Rightarrow> company \<Rightarrow> onboarding_session \<Rightarrow> kg_analysis \<Rightarrow> 'a site_scheme \<Rightarrow> company \<times> 'a site_scheme" where
  "finish_onboarding company c x kg s =
     (let c1 = c\<lparr>co_completed := True\<rparr>;
          x1 = x\<lparr>os_status := ''completed'', os_analysis := Some (an_domains kg, an_capabilities kg)\<rparr>;
          s1 = save_session x1 (save_company c1 s)
      in (c1, snd (task_transition company ''Onboarding completed'' ''in_progress'' ''completed'' ''system'' None
            (Some (''Onboarding complete for '' @ co_name c)) None s1)))"

definition run_pipeline ::
  "uuid \<Rightarrow> company \<Rightarrow> onboarding_session \<Rightarrow> string \<Rightarrow> 'a site_scheme \<Rightarrow> outcome result \<times> 'a site_scheme" where
  "run_pipeline company c x vision s =
     (let s0 = log_progress company ''started'' ''Starting full vision-to-structured-output pipeline'' s
      in case write_graph company vision s0 of Inl e \<Rightarrow> (Inl e, s0)
         | Inr (kg, s1) \<Rightarrow>
        (case write_constitution company vision s1 of Inl e \<Rightarrow> (Inl e, s1)
         | Inr (con, s2) \<Rightarrow>
        (case write_roadmap company s2 of Inl e \<Rightarrow> (Inl e, s2)
         | Inr (rm, s3) \<Rightarrow>
        (case write_architecture company vision (co_models c) s3 of Inl e \<Rightarrow> (Inl e, s3)
         | Inr (plan, s4) \<Rightarrow>
        (case write_tasks company (rm_phases (dc_content rm)) s4 of
           (Inl e, s5) \<Rightarrow> (Inl e, s5)
         | (Inr (tasks, workflows), s5) \<Rightarrow>
             let (c1, s6) = finish_onboarding company c x (dc_content kg) s5
             in (Inr \<lparr>oc_company = c1, oc_graph = kg, oc_constitution = con, oc_roadmap = rm,
                      oc_plan = plan, oc_tasks = tasks, oc_workflows = workflows\<rparr>, s6))))))"

definition process_onboarding :: "uuid \<Rightarrow> 'a site_scheme \<Rightarrow> outcome result \<times> 'a site_scheme" where
  "process_onboarding company s =
     (case Option.bind (find_session company s) (\<lambda>x. map_option (Pair x) (os_vision x)) of
        None \<Rightarrow> (Inl (ValueError ''No vision text to process''), s)
      | Some (x, vision) \<Rightarrow>
          if vision = [] then (Inl (ValueError ''No vision text to process''), s)
          else case find_company company s of
            None \<Rightarrow> (Inl (ValueError ''Company not found''), s)
          | Some c \<Rightarrow> run_pipeline company c x vision s)"

section \<open>What each operation does to the tables\<close>

definition tables :: "'a site_scheme \<Rightarrow> company list \<times> onboarding_session list \<times> kg_analysis document list \<times>
    constitution document list \<times> roadmap document list \<times> architecture document list" where
  "tables s = (si_companies s, si_sessions s, si_graphs s, si_constitutions s, si_roadmaps s, si_plans s)"

lemma tables_eq:
  "tables s = tables t \<longleftrightarrow> si_companies s = si_companies t \<and> si_sessions s = si_sessions t \<and>
     si_graphs s = si_graphs t \<and> si_constitutions s = si_constitutions t \<and>
     si_roadmaps s = si_roadmaps t \<and> si_plans s = si_plans t"
  by (simp add: tables_def)

lemma tables_record_event [simp]: "tables (snd (record_event c ty src t sid d m s)) = tables s"
  by (simp add: tables_def record_event_def Let_def split: option.split)

lemma tables_shortcuts [simp]:
  "tables (snd (workflow_event c n e i d m s)) = tables s"
  "tables (snd (task_transition c n x y src i d m s)) = tables s"
  "tables (snd (agent_action c n act i d m s)) = tables s"
  by (simp_all add: event_shortcuts)

lemma tables_log_progress [simp]: "tables (log_progress c e d s) = tables s"
  by (simp add: log_progress_def)

lemma tables_tick [simp]: "tables (tick s) = tables s"
  by (simp add: tables_def tick_def)

lemma tables_flush_tasks [simp]: "tables (snd (flush_tasks ts s)) = tables s"
  by (induction ts s rule: flush_tasks.induct) (simp_all add: Let_def split_beta tables_def)

lemma tables_flush_workflows [simp]: "tables (snd (flush_workflows ws s)) = tables s"
  by (induction ws s rule: flush_workflows.induct) (simp_all add: Let_def split_beta tables_def)

lemma tables_generate [simp]:
  "tables (snd (generate_tasks c ps s)) = tables s" "tables (snd (generate_workflows c ts s)) = tables s"
  by (simp_all add: generate_tasks_def generate_workflows_def split: option.split)

lemma tables_set_task_agent [simp]: "tables (set_task_agent t i s) = tables s"
  by (simp add: tables_def set_task_agent_def)

lemma tables_batch_route [simp]: "tables (snd (batch_route_tasks ev c reqs s)) = tables s"
  by (simp add: batch_route_tasks_def Let_def split_beta)

lemma tables_write_assignments [simp]: "tables (snd (write_assignments tm rs s)) = tables s"
  by (induction tm rs s rule: write_assignments.induct) (simp_all add: split_beta Let_def split: option.split)

lemma tables_assign_batch [simp]: "tables (snd (assign_batch ev c ts s)) = tables s"
proof (cases "task_requests ts")
  case (Inr requests)
  obtain r s1 where batch: "batch_route_tasks ev c requests s = (r, s1)" by fastforce
  then have "tables s1 = tables s" by (metis snd_conv tables_batch_route)
  with Inr batch show ?thesis
    by (simp add: assign_batch_def split_beta Let_def split: sum.split)
qed (simp add: assign_batch_def)

section \<open>The events of the onboarding are always recorded\<close>

text \<open>
  The onboarding ignores what its own events return. That is faithful, because they are never
  refused: their titles are fixed and short, and the company has a row when they are recorded.
\<close>

lemma find_company_known: "company_known company s \<longleftrightarrow> find_company company s \<noteq> None"
  by (induction "si_companies s" arbitrary: s) (auto simp: company_known_def find_company_def find_None_iff list_ex_iff)

lemma short_event_recorded:
  assumes "company_known company s" and "length ty \<le> 50" and "length source \<le> 100" and "length title \<le> 500"
  shows "\<exists>x. fst (record_event company ty source title None d m s) = Inr x"
  using assms by (simp add: fst_record_event event_error_def event_fits_def short_fits)

lemma log_progress_recorded:
  assumes "company_known company s"
    and "event \<in> {''started'', ''knowledge_graph_generated'', ''constitution_generated'', ''roadmap_generated'',
      ''architecture_generated'', ''tasks_routed'', ''tasks_generated''}"
  shows "\<exists>x. fst (workflow_event company ''Onboarding Processing'' event None d m s) = Inr x"
  using assms(2) unfolding workflow_event_def
  by (intro short_event_recorded [OF assms(1)]) (auto simp: WORKFLOW_EVENT_def em_dash_def)

lemma setup_recorded:
  assumes "company_known company s"
  shows "\<exists>x. fst (workflow_event company ''Company Setup'' ''agents_seeded'' None d m s) = Inr x"
    and "\<exists>x. fst (task_transition company ''Onboarding started'' old ''in_progress'' ''system'' None d m s) = Inr x"
    and "\<exists>x. fst (task_transition company ''Onboarding completed'' old ''completed'' ''system'' None d m s) = Inr x"
  unfolding event_shortcuts
  by (intro short_event_recorded [OF assms];
      simp add: WORKFLOW_EVENT_def TASK_TRANSITION_def em_dash_def right_arrow_def)+

section \<open>The rows of the tasks and workflows\<close>

text \<open>A task up to the agent assigned to it, and up to its identifier.\<close>

definition without_agent :: "task \<Rightarrow> task" where
  "without_agent t = t\<lparr>tk_agent := None\<rparr>"

definition without_id :: "task \<Rightarrow> task" where
  "without_id t = t\<lparr>tk_id := None\<rparr>"

definition work_rows :: "'a store_scheme \<Rightarrow> task list \<times> workflow list" where
  "work_rows s = (map without_agent (st_tasks s), st_workflows s)"

lemma work_rows_record_event [simp]: "work_rows (snd (record_event c ty src t sid d m s)) = work_rows s"
  by (simp add: work_rows_def record_event_def Let_def split: option.split)

lemma work_rows_log [simp]: "work_rows (log_progress c e d s) = work_rows s"
  by (simp add: log_progress_def event_shortcuts)

lemma work_rows_tick [simp]: "work_rows (tick s) = work_rows s"
  by (simp add: tick_def work_rows_def)

lemma work_rows_batch_route [simp]: "work_rows (snd (batch_route_tasks ev c reqs s)) = work_rows s"
  by (simp add: batch_route_tasks_def Let_def split_beta event_shortcuts)

lemma work_rows_set_task_agent [simp]: "work_rows (set_task_agent t i s) = work_rows s"
  by (simp add: work_rows_def set_task_agent_def without_agent_def)

lemma work_rows_write_assignments [simp]: "work_rows (snd (write_assignments tm rs s)) = work_rows s"
  by (induction tm rs s rule: write_assignments.induct) (simp_all add: split_beta Let_def split: option.split)

lemma work_rows_assign_batch [simp]: "work_rows (snd (assign_batch ev c ts s)) = work_rows s"
proof (cases "task_requests ts")
  case (Inr requests)
  obtain r s1 where batch: "batch_route_tasks ev c requests s = (r, s1)" by fastforce
  then have "work_rows s1 = work_rows s" by (metis snd_conv work_rows_batch_route)
  with Inr batch show ?thesis
    by (simp add: assign_batch_def split_beta Let_def split: sum.split)
qed (simp add: assign_batch_def)

lemma flushed_tasks:
  "st_tasks (snd (flush_tasks ts s)) = st_tasks s @ fst (flush_tasks ts s) \<and>
   st_workflows (snd (flush_tasks ts s)) = st_workflows s"
  by (induction ts s rule: flush_tasks.induct) (simp_all add: Let_def split_beta)

lemma flushed_workflows:
  "st_workflows (snd (flush_workflows ws s)) = st_workflows s @ fst (flush_workflows ws s) \<and>
   st_tasks (snd (flush_workflows ws s)) = st_tasks s \<and>
   map (\<lambda>w. w\<lparr>wf_id := None\<rparr>) (fst (flush_workflows ws s)) = map (\<lambda>w. w\<lparr>wf_id := None\<rparr>) ws"
  by (induction ws s rule: flush_workflows.induct) (simp_all add: Let_def split_beta)

section \<open>The generated tasks are always routable\<close>

definition routable :: "string \<Rightarrow> (string, json) dict \<Rightarrow> bool" where
  "routable title meta \<longleftrightarrow> char_count title \<le> 500 \<and> dict_get meta ''required_domains'' = None"

lemma task_requests_routable:
  "list_all2 routable (map tk_title ts) (map tk_meta ts) \<Longrightarrow> \<exists>rs. task_requests ts = Inr rs \<and> length rs = length ts"
proof (induction ts)
  case (Cons t ts)
  then have "routable (tk_title t) (tk_meta t)" by simp
  then have "\<exists>r. task_request t = Inr r"
    by (simp add: task_request_def make_request_def routable_def)
  with Cons show ?case by (auto split: sum.split)
qed simp

definition short_phase :: "phase \<Rightarrow> bool" where
  "short_phase p \<longleftrightarrow> length (ph_name p) \<le> 100 \<and> list_all (\<lambda>d. length d \<le> 100) (ph_deliverables p)"

lemma phases_short: "list_all (short_phase \<circ> snd) generate_phases"
  unfolding generate_phases_def by (simp add: short_phase_def)

lemma phase_tasks_routable:
  assumes "short_phase p"
  shows "list_all2 routable (map tk_title (phase_tasks c (k, p))) (map tk_meta (phase_tasks c (k, p)))"
proof -
  have "routable (tk_title (phase_task c k p i d)) (tk_meta (phase_task c k p i d))"
    if "d \<in> set (ph_deliverables p)" for i d
  proof -
    have "length (ph_name p) \<le> 100" "length d \<le> 100"
      using assms that by (auto simp: short_phase_def list_all_iff)
    then have "char_count (tk_title (phase_task c k p i d)) \<le> 500"
      using char_count_le_length [of "tk_title (phase_task c k p i d)"] by (simp add: phase_task_def)
    then show ?thesis by (simp add: routable_def phase_task_def dict_get_def)
  qed
  moreover have "d \<in> set (ph_deliverables p)" if "(i, d) \<in> set (enumerate 0 (ph_deliverables p))" for i d
    using that by (auto simp: in_set_enumerate_eq)
  ultimately show ?thesis
    by (auto simp: phase_tasks_def list_all2_map1 list_all2_map2 list_all2_same)
qed

lemma generated_routable:
  assumes "list_all (short_phase \<circ> snd) ps"
  shows "list_all2 routable (map tk_title (concat (map (phase_tasks c) ps))) (map tk_meta (concat (map (phase_tasks c) ps)))"
  using assms by (induction ps) (auto intro!: list_all2_appendI phase_tasks_routable)

text \<open>The tasks of the roadmap and the workflows, before they have identifiers.\<close>

definition roadmap_tasks :: "uuid \<Rightarrow> task list" where
  "roadmap_tasks company =
     map without_id (link_dependencies (concat (map (phase_tasks company) (rm_phases generate_roadmap))))"

text \<open>The tasks and workflows of the roadmap are written and routed without an error.\<close>

definition work_written :: "uuid \<Rightarrow> task list \<Rightarrow> workflow list \<Rightarrow> 'a site_scheme \<Rightarrow> 'a site_scheme \<Rightarrow> bool" where
  "work_written company ts ws s s' \<longleftrightarrow>
     length ts = 30 \<and> map without_id ts = roadmap_tasks company \<and>
     map (\<lambda>w. w\<lparr>wf_id := None\<rparr>) ws = initial_workflows company \<and>
     map without_agent (st_tasks s') = map without_agent (st_tasks s @ ts) \<and>
     st_workflows s' = st_workflows s @ ws"

lemma generated_rows:
  assumes "generate_tasks company (Some generate_phases) s = (ts, s1)"
    and "generate_workflows company ts s1 = (ws, s2)" and "work_rows s3 = work_rows s2"
  shows "work_written company ts ws s s3" and "\<exists>rs. task_requests ts = Inr rs \<and> length rs = length ts"
proof -
  define raw where "raw = concat (map (phase_tasks company) generate_phases)"
  have phases: "rm_phases generate_roadmap = generate_phases" by (simp add: generate_roadmap_def Let_def)
  have "generate_phases \<noteq> []" by (simp add: generate_phases_def)
  then have gen: "flush_tasks (link_dependencies raw) s = (ts, s1)"
    using assms(1) by (simp add: generate_tasks_def raw_def)
  have titles: "map tk_title ts = map tk_title raw" "map tk_meta ts = map tk_meta raw"
    using flush_column [of tk_title "link_dependencies raw" s] flush_column [of tk_meta "link_dependencies raw" s]
      link_column [of tk_title raw] link_column [of tk_meta raw] by (simp_all add: gen undep_def)
  have "list_all2 routable (map tk_title ts) (map tk_meta ts)"
    unfolding titles raw_def by (rule generated_routable [OF phases_short])
  then show "\<exists>rs. task_requests ts = Inr rs \<and> length rs = length ts" by (rule task_requests_routable)
  have "length raw = 30"
    unfolding raw_def length_concat by (simp add: generate_phases_def phase_tasks_def)
  then have len: "length ts = 30" by (metis length_map titles(1))
  have "map without_id (fst (flush_tasks (link_dependencies raw) s)) = map without_id (link_dependencies raw)"
    by (rule flush_column) (simp add: without_id_def)
  then have ids: "map without_id ts = roadmap_tasks company"
    by (simp add: gen roadmap_tasks_def phases flip: raw_def)
  have ws: "map (\<lambda>w. w\<lparr>wf_id := None\<rparr>) ws = initial_workflows company"
    using flushed_workflows [of "initial_workflows company" s1] assms(2)
    by (simp add: generate_workflows_def) (simp add: initial_workflows_def)
  have "st_tasks s2 = st_tasks s @ ts" "st_workflows s2 = st_workflows s @ ws"
    using flushed_tasks [of "link_dependencies raw" s] flushed_workflows [of "initial_workflows company" s1] assms(2)
    by (simp_all add: gen generate_workflows_def)
  with len ids ws assms(3) show "work_written company ts ws s s3"
    by (simp add: work_written_def work_rows_def)
qed

lemma write_tasks_ok:
  assumes known: "company_known company s"
  obtains ts ws s' where "write_tasks company generate_phases s = (Inr (ts, ws), s')"
    and "tables s' = tables s" and "work_written company ts ws s s'"
proof -
  obtain ts s1 where ts: "generate_tasks company (Some generate_phases) s = (ts, s1)" by fastforce
  obtain ws s2 where ws: "generate_workflows company ts s1 = (ws, s2)" by fastforce
  obtain r s3 where assign: "assign_tasks True company ts True s2 = (r, s3)" by fastforce
  have batch: "assign_batch True company ts s2 = (r, s3)" using assign by (simp add: assign_tasks_def)
  have "tables s1 = tables s" by (metis ts snd_conv tables_generate(1))
  moreover have "tables s2 = tables s1" by (metis ws snd_conv tables_generate(2))
  moreover have "tables s3 = tables s2" by (metis batch snd_conv tables_assign_batch)
  ultimately have tab: "tables s2 = tables s" "tables s3 = tables s" by simp_all
  have rows: "work_rows s3 = work_rows s2" by (metis batch snd_conv work_rows_assign_batch)
  note gen = generated_rows [OF ts ws rows]
  obtain rs where rs: "task_requests ts = Inr rs" "length rs = 30"
    using gen(2) gen(1) [unfolded work_written_def] by auto
  have "company_known company s2"
    using known tab by (simp add: company_known_def tables_eq)
  then obtain resp where "fst (batch_route_tasks True company rs s2) = Inr resp"
    using batch_Inl [of True company rs s2] rs(2) by (cases "fst (batch_route_tasks True company rs s2)") auto
  from assign_batch_Inr [OF rs(1) this] batch obtain es where "r = Inr es" by auto
  moreover have "work_written company ts ws s (log_progress c e d (log_progress c' e' d' s3))" for c e d c' e' d'
    using generated_rows(1) [OF ts ws, of "log_progress c e d (log_progress c' e' d' s3)"] rows by simp
  ultimately show ?thesis
    using that [of ts ws] tab by (simp add: write_tasks_def ts ws assign Let_def)
qed

section \<open>Processing, step by step\<close>

text \<open>Each writer as one equation; \<open>after_...\<close> is the state it leaves.\<close>

definition graph_doc :: "uuid \<Rightarrow> string \<Rightarrow> 'a site_scheme \<Rightarrow> kg_analysis document" where
  "graph_doc company vision s = new_document company (analyze_vision vision) s"

definition after_graph :: "uuid \<Rightarrow> string \<Rightarrow> 'a site_scheme \<Rightarrow> 'a site_scheme" where
  "after_graph company vision s =
     log_progress company ''knowledge_graph_generated''
       (''Generated knowledge graph with '' @ show_nat (length (an_nodes (analyze_vision vision))) @ '' nodes'')
       (tick (s\<lparr>si_graphs := si_graphs s @ [graph_doc company vision s]\<rparr>))"

definition constitution_doc :: "uuid \<Rightarrow> string \<Rightarrow> 'a site_scheme \<Rightarrow> constitution document" where
  "constitution_doc company vision s = new_document company (generate_constitution vision) s"

definition after_constitution :: "uuid \<Rightarrow> string \<Rightarrow> 'a site_scheme \<Rightarrow> 'a site_scheme" where
  "after_constitution company vision s =
     log_progress company ''constitution_generated'' ''Company constitution generated from vision''
       (tick (s\<lparr>si_constitutions := si_constitutions s @ [constitution_doc company vision s]\<rparr>))"

definition roadmap_doc :: "uuid \<Rightarrow> 'a site_scheme \<Rightarrow> roadmap document" where
  "roadmap_doc company s = new_document company generate_roadmap s"

definition after_roadmap :: "uuid \<Rightarrow> 'a site_scheme \<Rightarrow> 'a site_scheme" where
  "after_roadmap company s =
     log_progress company ''roadmap_generated''
       (''Generated roadmap with '' @ show_nat (length (rm_phases generate_roadmap)) @ '' phases'')
       (tick (s\<lparr>si_roadmaps := si_roadmaps s @ [roadmap_doc company s]\<rparr>))"

definition plan_doc :: "uuid \<Rightarrow> string \<Rightarrow> (string, json) dict option \<Rightarrow> 'a site_scheme \<Rightarrow> architecture document" where
  "plan_doc company vision models s = new_document company (projr (generate_architecture vision models)) s"

definition after_plan :: "uuid \<Rightarrow> string \<Rightarrow> (string, json) dict option \<Rightarrow> 'a site_scheme \<Rightarrow> 'a site_scheme" where
  "after_plan company vision models s =
     log_progress company ''architecture_generated'' ''System architecture plan generated''
       (tick (s\<lparr>si_plans := si_plans s @ [plan_doc company vision models s]\<rparr>))"

lemma doc_columns [simp]:
  "dc_company (graph_doc company vision s) = company" "dc_content (graph_doc company vision s) = analyze_vision vision"
  "dc_company (constitution_doc company vision s) = company"
  "dc_content (constitution_doc company vision s) = generate_constitution vision"
  "dc_company (roadmap_doc company s) = company" "dc_content (roadmap_doc company s) = generate_roadmap"
  "dc_company (plan_doc company vision models s) = company"
  by (simp_all add: graph_doc_def constitution_doc_def roadmap_doc_def plan_doc_def new_document_def)

lemma write_graph_eq:
  "write_graph company vision s = (if find_document company (si_graphs s) \<noteq> None then Inl IntegrityError
     else Inr (graph_doc company vision s, after_graph company vision s))"
  by (simp add: write_graph_def add_graph_def Let_def after_graph_def graph_doc_def new_document_def)

lemma write_constitution_eq:
  "write_constitution company vision s =
     (if find_document company (si_constitutions s) \<noteq> None then Inl IntegrityError
      else Inr (constitution_doc company vision s, after_constitution company vision s))"
  by (simp add: write_constitution_def add_constitution_def Let_def after_constitution_def constitution_doc_def)

lemma write_roadmap_eq:
  "write_roadmap company s = (if find_document company (si_roadmaps s) \<noteq> None then Inl IntegrityError
     else Inr (roadmap_doc company s, after_roadmap company s))"
  by (simp add: write_roadmap_def add_roadmap_def Let_def after_roadmap_def roadmap_doc_def new_document_def)

lemma write_architecture_eq:
  "write_architecture company vision models s =
     (if \<not> text_models models then Inl TypeError
      else if find_document company (si_plans s) \<noteq> None then Inl IntegrityError
      else Inr (plan_doc company vision models s, after_plan company vision models s))"
proof (cases "generate_architecture vision models")
  case (Inl e)
  with architecture_cases [where vision = vision and models = models] show ?thesis
    by (simp add: write_architecture_def add_architecture_def)
next
  case (Inr plan)
  with architecture_cases [where vision = vision and models = models] show ?thesis
    by (simp add: write_architecture_def add_architecture_def Let_def after_plan_def plan_doc_def)
qed

lemma after_tables:
  "tables (after_graph company vision s) = tables (s\<lparr>si_graphs := si_graphs s @ [graph_doc company vision s]\<rparr>)"
  "tables (after_constitution company vision s) =
     tables (s\<lparr>si_constitutions := si_constitutions s @ [constitution_doc company vision s]\<rparr>)"
  "tables (after_roadmap company s) = tables (s\<lparr>si_roadmaps := si_roadmaps s @ [roadmap_doc company s]\<rparr>)"
  "tables (after_plan company vision models s) = tables (s\<lparr>si_plans := si_plans s @ [plan_doc company vision models s]\<rparr>)"
  by (simp_all add: after_graph_def after_constitution_def after_roadmap_def after_plan_def)

lemma after_work_rows [simp]:
  "work_rows (after_graph company vision s) = work_rows s"
  "work_rows (after_constitution company vision s) = work_rows s"
  "work_rows (after_roadmap company s) = work_rows s" "work_rows (after_plan company vision models s) = work_rows s"
  by (simp_all add: after_graph_def after_constitution_def after_roadmap_def after_plan_def) (simp_all add: work_rows_def)

lemmas after_columns [simp] = after_tables [unfolded tables_eq, simplified]

lemma started_columns [simp]:
  "si_companies (log_progress c e d s) = si_companies s" "si_sessions (log_progress c e d s) = si_sessions s"
  "si_graphs (log_progress c e d s) = si_graphs s" "si_constitutions (log_progress c e d s) = si_constitutions s"
  "si_roadmaps (log_progress c e d s) = si_roadmaps s" "si_plans (log_progress c e d s) = si_plans s"
  using tables_log_progress [of c e d s] by (simp_all add: tables_eq del: tables_log_progress)

lemmas writers = write_graph_eq write_constitution_eq write_roadmap_eq write_architecture_eq

lemma find_replace:
  "find (\<lambda>x. key x = k) xs = Some y \<Longrightarrow> key z = k \<Longrightarrow> ident z = ident y \<Longrightarrow>
     find (\<lambda>x. key x = k) (map (\<lambda>x. if ident x = ident z then z else x) xs) = Some z"
  by (induction xs) (auto split: if_splits)

lemma find_document_snoc:
  "find_document company ds = None \<Longrightarrow> dc_company d = company \<Longrightarrow> find_document company (ds @ [d]) = Some d"
  by (induction ds) (auto simp: find_document_def)

lemma find_session_company: "find_session company s = Some x \<Longrightarrow> os_company x = company"
  by (auto simp: find_session_def find_Some_iff)

lemma find_company_id: "find_company company s = Some c \<Longrightarrow> co_id c = company"
  by (auto simp: find_company_def find_Some_iff)

lemma finish_tables:
  assumes "find_session company s = Some x" and "find_company company s = Some c"
  obtains c1 s' where "finish_onboarding company c x kg s = (c1, s')"
    and "c1 = c\<lparr>co_completed := True\<rparr>" and "find_company company s' = Some c1"
    and "find_session company s' = Some (x\<lparr>os_status := ''completed'',
        os_analysis := Some (an_domains kg, an_capabilities kg)\<rparr>)"
    and "si_graphs s' = si_graphs s" and "si_constitutions s' = si_constitutions s"
    and "si_roadmaps s' = si_roadmaps s" and "si_plans s' = si_plans s" and "work_rows s' = work_rows s"
proof -
  let ?c = "c\<lparr>co_completed := True\<rparr>"
  let ?x = "x\<lparr>os_status := ''completed'', os_analysis := Some (an_domains kg, an_capabilities kg)\<rparr>"
  obtain s' where fin: "finish_onboarding company c x kg s = (?c, s')"
    and tab: "tables s' = tables (save_session ?x (save_company ?c s))"
    and rows: "work_rows s' = work_rows (save_session ?x (save_company ?c s))"
    by (simp add: finish_onboarding_def Let_def event_shortcuts)
  have "si_companies s' = map (\<lambda>y. if co_id y = co_id ?c then ?c else y) (si_companies s)"
    "si_sessions s' = map (\<lambda>y. if os_id y = os_id ?x then ?x else y) (si_sessions s)"
    using tab by (simp_all add: tables_eq save_session_def save_company_def)
  moreover have "si_graphs s' = si_graphs s" "si_constitutions s' = si_constitutions s"
    "si_roadmaps s' = si_roadmaps s" "si_plans s' = si_plans s"
    using tab by (simp_all add: tables_eq save_session_def save_company_def)
  moreover have "find (\<lambda>y. co_id y = company) (map (\<lambda>y. if co_id y = co_id ?c then ?c else y) (si_companies s)) = Some ?c"
    using assms(2) find_company_id [OF assms(2)]
    by (intro find_replace [where key = co_id and ident = co_id and y = c]) (simp_all add: find_company_def)
  moreover have "find (\<lambda>y. os_company y = company) (map (\<lambda>y. if os_id y = os_id ?x then ?x else y) (si_sessions s)) = Some ?x"
    using assms(1) find_session_company [OF assms(1)]
    by (intro find_replace [where key = os_company and ident = os_id and y = x]) (simp_all add: find_session_def)
  ultimately show ?thesis
    using that [OF fin] rows by (simp add: find_company_def find_session_def work_rows_def save_session_def save_company_def)
qed

text \<open>The specification: the error a run of the pipeline ends in, if any.\<close>

definition pipeline_error :: "uuid \<Rightarrow> company \<Rightarrow> 'a site_scheme \<Rightarrow> exc option" where
  "pipeline_error company c s =
     (if find_document company (si_graphs s) \<noteq> None \<or> find_document company (si_constitutions s) \<noteq> None \<or>
         find_document company (si_roadmaps s) \<noteq> None then Some IntegrityError
      else if \<not> text_models (co_models c) then Some TypeError
      else if find_document company (si_plans s) \<noteq> None then Some IntegrityError
      else None)"

definition onboarding_error :: "uuid \<Rightarrow> 'a site_scheme \<Rightarrow> exc option" where
  "onboarding_error company s =
     (case Option.bind (find_session company s) os_vision of
        None \<Rightarrow> Some (ValueError ''No vision text to process'')
      | Some vision \<Rightarrow>
          if vision = [] then Some (ValueError ''No vision text to process'')
          else case find_company company s of
            None \<Rightarrow> Some (ValueError ''Company not found'')
          | Some c \<Rightarrow> pipeline_error company c s)"

lemma run_pipeline_fails:
  "pipeline_error company c s = Some e \<Longrightarrow> fst (run_pipeline company c x vision s) = Inl e"
  by (auto simp: run_pipeline_def Let_def pipeline_error_def writers split: if_splits)

text \<open>The documents of an outcome are the ones generated from the vision, and they are stored.\<close>

definition documents_written ::
  "uuid \<Rightarrow> string \<Rightarrow> (string, json) dict option \<Rightarrow> outcome \<Rightarrow> 'a site_scheme \<Rightarrow> bool" where
  "documents_written company vision models oc s \<longleftrightarrow>
     find_document company (si_graphs s) = Some (oc_graph oc) \<and> dc_content (oc_graph oc) = analyze_vision vision \<and>
     find_document company (si_constitutions s) = Some (oc_constitution oc) \<and>
     dc_content (oc_constitution oc) = generate_constitution vision \<and>
     find_document company (si_roadmaps s) = Some (oc_roadmap oc) \<and> dc_content (oc_roadmap oc) = generate_roadmap \<and>
     find_document company (si_plans s) = Some (oc_plan oc) \<and>
     generate_architecture vision models = Inr (dc_content (oc_plan oc))"

lemma run_pipeline_runs:
  assumes fx: "find_session company s = Some x" and fc: "find_company company s = Some c"
    and ok: "pipeline_error company c s = None"
  obtains oc s' x' where "run_pipeline company c x vision s = (Inr oc, s')"
    and "documents_written company vision (co_models c) oc s'"
    and "work_written company (oc_tasks oc) (oc_workflows oc) s s'" and "oc_company oc = c\<lparr>co_completed := True\<rparr>"
    and "find_company company s' = Some (oc_company oc)" and "find_session company s' = Some x'"
    and "os_status x' = ''completed''" and "os_vision x' = os_vision x"
proof -
  have none: "find_document company (si_graphs s) = None" "find_document company (si_constitutions s) = None"
    "find_document company (si_roadmaps s) = None" "text_models (co_models c)"
    "find_document company (si_plans s) = None"
    using ok by (auto simp: pipeline_error_def split: if_splits)
  define s0 where "s0 = log_progress company ''started'' ''Starting full vision-to-structured-output pipeline'' s"
  define s1 where "s1 = after_graph company vision s0"
  define s2 where "s2 = after_constitution company vision s1"
  define s3 where "s3 = after_roadmap company s2"
  define s4 where "s4 = after_plan company vision (co_models c) s3"
  have phases: "rm_phases generate_roadmap = generate_phases" by (simp add: generate_roadmap_def Let_def)
  have steps: "write_graph company vision s0 = Inr (graph_doc company vision s0, s1)"
    "write_constitution company vision s1 = Inr (constitution_doc company vision s1, s2)"
    "write_roadmap company s2 = Inr (roadmap_doc company s2, s3)"
    "write_architecture company vision (co_models c) s3 = Inr (plan_doc company vision (co_models c) s3, s4)"
    using none by (simp_all add: writers s4_def s3_def s2_def s1_def s0_def)
  have "si_companies s4 = si_companies s" by (simp add: s4_def s3_def s2_def s1_def s0_def)
  then have "company_known company s4" using fc by (simp add: find_company_known find_company_def)
  then obtain ts ws s5 where w: "write_tasks company generate_phases s4 = (Inr (ts, ws), s5)"
    and t5: "tables s5 = tables s4" and work: "work_written company ts ws s4 s5" by (rule write_tasks_ok)
  have rows: "work_rows s4 = work_rows s" by (simp add: s4_def s3_def s2_def s1_def s0_def)
  have cols: "si_companies s5 = si_companies s" "si_sessions s5 = si_sessions s"
    "si_graphs s5 = si_graphs s @ [graph_doc company vision s0]"
    "si_constitutions s5 = si_constitutions s @ [constitution_doc company vision s1]"
    "si_roadmaps s5 = si_roadmaps s @ [roadmap_doc company s2]"
    "si_plans s5 = si_plans s @ [plan_doc company vision (co_models c) s3]"
    using t5 by (simp_all add: tables_eq s4_def s3_def s2_def s1_def s0_def)
  have "find_session company s5 = Some x" "find_company company s5 = Some c"
    using fx fc cols by (simp_all add: find_session_def find_company_def)
  then obtain c1 s6 where fin: "finish_onboarding company c x (analyze_vision vision) s5 = (c1, s6)"
    and c1: "c1 = c\<lparr>co_completed := True\<rparr>" "find_company company s6 = Some c1"
    and x1: "find_session company s6 = Some (x\<lparr>os_status := ''completed'',
        os_analysis := Some (an_domains (analyze_vision vision), an_capabilities (analyze_vision vision))\<rparr>)"
    and same: "si_graphs s6 = si_graphs s5" "si_constitutions s6 = si_constitutions s5"
      "si_roadmaps s6 = si_roadmaps s5" "si_plans s6 = si_plans s5" "work_rows s6 = work_rows s5"
    by (rule finish_tables)
  have plan: "generate_architecture vision (co_models c) = Inr (dc_content (plan_doc company vision (co_models c) s3))"
    using none(4) architecture_cases [where vision = vision and models = "co_models c"]
    by (cases "generate_architecture vision (co_models c)") (simp_all add: plan_doc_def new_document_def)
  define oc where "oc = \<lparr>oc_company = c1, oc_graph = graph_doc company vision s0,
    oc_constitution = constitution_doc company vision s1, oc_roadmap = roadmap_doc company s2,
    oc_plan = plan_doc company vision (co_models c) s3, oc_tasks = ts, oc_workflows = ws\<rparr>"
  have "run_pipeline company c x vision s = (Inr oc, s6)"
    unfolding run_pipeline_def Let_def s0_def [symmetric]
    by (simp add: steps phases w fin oc_def)
  moreover have "documents_written company vision (co_models c) oc s6"
    using none plan by (simp add: documents_written_def oc_def same cols find_document_snoc)
  moreover have "work_written company (oc_tasks oc) (oc_workflows oc) s s6"
    using work rows same(5) by (simp add: work_written_def work_rows_def oc_def)
  ultimately show ?thesis using that [of oc s6] c1 x1 by (simp add: oc_def)
qed

section \<open>The outcome of processing\<close>

lemma process_fails: "onboarding_error company s = Some e \<Longrightarrow> fst (process_onboarding company s) = Inl e"
  by (auto simp: onboarding_error_def process_onboarding_def run_pipeline_fails
      split: option.splits if_splits bind_splits)

lemma process_runs:
  assumes "onboarding_error company s = None"
  obtains x vision c oc s' x' where "process_onboarding company s = (Inr oc, s')"
    and "find_session company s = Some x" and "os_vision x = Some vision" and "vision \<noteq> []"
    and "find_company company s = Some c"
    and "documents_written company vision (co_models c) oc s'"
    and "work_written company (oc_tasks oc) (oc_workflows oc) s s'" and "oc_company oc = c\<lparr>co_completed := True\<rparr>"
    and "find_company company s' = Some (oc_company oc)" and "find_session company s' = Some x'"
    and "os_status x' = ''completed''" and "os_vision x' = Some vision"
proof -
  from assms obtain x vision c where fx: "find_session company s = Some x" and v: "os_vision x = Some vision" "vision \<noteq> []"
    and fc: "find_company company s = Some c" and ok: "pipeline_error company c s = None"
    by (auto simp: onboarding_error_def split: option.splits if_splits bind_splits)
  obtain oc s' x' where run: "run_pipeline company c x vision s = (Inr oc, s')"
    and eff: "documents_written company vision (co_models c) oc s'"
      "work_written company (oc_tasks oc) (oc_workflows oc) s s'" "oc_company oc = c\<lparr>co_completed := True\<rparr>"
      "find_company company s' = Some (oc_company oc)" "find_session company s' = Some x'"
      "os_status x' = ''completed''" "os_vision x' = os_vision x"
    using run_pipeline_runs [OF fx fc ok, of vision] by blast
  have "process_onboarding company s = (Inr oc, s')"
    using fx v fc run by (simp add: process_onboarding_def)
  then show ?thesis using that [OF _ fx v fc eff(1-6)] eff(7) v(1) by simp
qed

lemma second_run_fails:
  assumes "documents_written company vision models oc s" and "find_company company s = Some c"
    and "find_session company s = Some x" and "os_vision x = Some vision" and "vision \<noteq> []"
  shows "onboarding_error company s = Some IntegrityError"
  using assms by (simp add: onboarding_error_def pipeline_error_def documents_written_def)

text \<open>
  C4. Processing ends as specified: it fails without a vision or a company, with an
  IntegrityError when one of the four documents exists, and with a TypeError when a model is
  not given by a text; in every other state it succeeds. In particular the routing of the
  generated tasks never fails, whatever the agents are.
\<close>

theorem processing_outcome:
  "(case fst (process_onboarding company s) of Inl e \<Rightarrow> Some e | Inr oc \<Rightarrow> None) = onboarding_error company s"
proof (cases "onboarding_error company s")
  case None
  from None obtain oc s' where "process_onboarding company s = (Inr oc, s')" by (rule process_runs)
  with None show ?thesis by simp
next
  case (Some e)
  with process_fails [OF Some] show ?thesis by simp
qed


text \<open>
  A founder who has selected models can never finish: after \<open>save_models\<close>, whatever the
  selection, processing raises an error.
\<close>

theorem selected_models_block:
  assumes "save_models company models s = (Inr c, s')"
  shows "\<exists>e. fst (process_onboarding company s') = Inl e \<and>
    (onboarding_error company s = None \<longrightarrow> e = TypeError)"
proof -
  obtain c0 where c0: "find_company company s = Some c0"
    and c: "c = c0\<lparr>co_models := Some [(''providers'', JArr (map JObj models))]\<rparr>" and s': "s' = save_company c s"
    using assms by (auto simp: save_models_def Let_def split: option.splits)
  have fc: "find_company company s' = Some c"
    unfolding s' find_company_def save_company_def
    using find_company_id [OF c0] c0 find_replace [where key = co_id and ident = co_id and y = c0 and z = c]
    by (simp add: find_company_def c)
  have no: "\<not> text_models (co_models c)" by (simp add: text_models_def c)
  have same: "find_session company s' = find_session company s" "si_graphs s' = si_graphs s"
    "si_constitutions s' = si_constitutions s" "si_roadmaps s' = si_roadmaps s"
    by (simp_all add: s' save_company_def find_session_def)
  have "\<exists>e. pipeline_error company c s' = Some e \<and> (pipeline_error company c0 s = None \<longrightarrow> e = TypeError)"
    using no by (auto simp: pipeline_error_def same)
  then obtain e1 where e1: "pipeline_error company c s' = Some e1 \<and>
      (pipeline_error company c0 s = None \<longrightarrow> e1 = TypeError)" by (rule exE)
  obtain v where v: "Option.bind (find_session company s) os_vision = v" by blast
  have "onboarding_error company s' = Some e1 \<and> onboarding_error company s = pipeline_error company c0 s \<or>
    onboarding_error company s' = onboarding_error company s \<and> onboarding_error company s \<noteq> None"
  proof (cases v)
    case (Some a)
    then show ?thesis unfolding onboarding_error_def same(1) fc c0 v using e1 by (cases "a = []") simp_all
  qed (simp add: onboarding_error_def same(1) v)
  then consider (run) "onboarding_error company s' = Some e1" "onboarding_error company s = pipeline_error company c0 s"
    | (early) "onboarding_error company s' = onboarding_error company s" "onboarding_error company s \<noteq> None"
    by (elim disjE conjE)
  then have "\<exists>e. onboarding_error company s' = Some e \<and> (onboarding_error company s = None \<longrightarrow> e = TypeError)"
  proof cases
    case run
    with e1 show ?thesis by simp
  next
    case early
    then show ?thesis by (cases "onboarding_error company s") simp_all
  qed
  then obtain e where "onboarding_error company s' = Some e \<and> (onboarding_error company s = None \<longrightarrow> e = TypeError)"
    by (rule exE)
  then show ?thesis by (intro exI [of _ e] conjI process_fails) simp_all
qed

section \<open>Lost answers\<close>

lemma find_session_save:
  assumes "find_session company s = Some x" and "os_company y = company" and "os_id y = os_id x"
  shows "find_session company (save_session y s) = Some y"
  using assms find_replace [where key = os_company and ident = os_id and y = x and z = y]
  by (simp add: find_session_def save_session_def)

text \<open>
  Of the answers of a founder only the first step's is stored. Once the row holds the
  data of one step, further steps return a session that shows their data, but the row keeps
  the old data and only its step counter changes.
\<close>

theorem later_answers_lost:
  assumes "find_session company s = Some x" and "os_data x = Some d" and "d \<noteq> []"
    and "advance_step company step_key data s = (Inr y, s')"
  shows "dict_get (the (os_data y)) step_key = Some (JObj data) \<and>
    find_session company s' = Some (x\<lparr>os_step := step_index step_key x\<rparr>)"
proof -
  have y: "os_data y = Some (dict_set step_key (JObj data) d)"
    and s': "s' = save_session (x\<lparr>os_step := step_index step_key x, os_data := Some d\<rparr>) s"
    using assms by (auto simp: advance_step_def Let_def)
  have "x\<lparr>os_step := step_index step_key x, os_data := Some d\<rparr> = x\<lparr>os_step := step_index step_key x\<rparr>"
    using assms(2) by simp
  then show ?thesis
    using y s' find_session_save [OF assms(1), of "x\<lparr>os_step := step_index step_key x\<rparr>"]
      find_session_company [OF assms(1)] by simp
qed

section \<open>A new company\<close>

lemma tables_register_agent [simp]: "tables (snd (register_agent ev c p s)) = tables s"
proof -
  have "tables (s\<lparr>es_tick := n, bk_agents := as\<rparr>) = tables s" "tables (s\<lparr>es_tick := n\<rparr>) = tables s"
    for as n by (simp_all add: tables_def)
  then show ?thesis by (simp add: register_agent_def Let_def)
qed

lemma tables_register_all [simp]: "tables (snd (register_all ev c ps s)) = tables s"
proof (induction ps arbitrary: s)
  case (Cons p ps)
  obtain r s1 where reg: "register_agent ev c p s = (r, s1)" by fastforce
  then have "tables s1 = tables s" by (metis snd_conv tables_register_agent)
  with reg Cons.IH [of s1] show ?case by (simp add: split_beta split: sum.split)
qed simp

lemma tables_seed [simp]: "tables (snd (seed_default_agents ev c s)) = tables s"
  by (simp add: seed_default_agents_def Let_def)

lemma find_snoc: "find P xs = None \<Longrightarrow> P x \<Longrightarrow> find P (xs @ [x]) = Some x"
  by (induction xs) (auto split: if_splits)

lemma create_company_cases:
  assumes "find_session (es_uuid s (es_tick s)) s = None"
    and "list_agents (es_uuid s (es_tick s)) None None s = []" and uuids: "\<And>n. fits_column 255 (es_uuid s n)"
  shows "case create_company name slug d i z s of
      (Inl e, s') \<Rightarrow> e = IntegrityError \<and> slug \<in> co_slug ` set (si_companies s) \<and> s' = s
    | (Inr c, s') \<Rightarrow> slug \<notin> co_slug ` set (si_companies s) \<and> co_id c = es_uuid s (es_tick s) \<and>
        co_slug c = slug \<and> si_companies s' = si_companies s @ [c] \<and>
        (\<exists>x. si_sessions s' = si_sessions s @ [x] \<and> find_session (co_id c) s' = Some x \<and>
           os_step x = 0 \<and> os_total x = 8 \<and> os_status x = ''in_progress'') \<and>
        (\<exists>team. bk_agents s' = bk_agents s @ team \<and> map ag_role team = map reg_role DEFAULT_TEAM \<and>
           (\<forall>a\<in>set team. ag_company a = co_id c \<and> ag_load a = 0))"
proof (cases "slug \<in> set (map co_slug (si_companies s))")
  case True
  then show ?thesis by (simp add: create_company_def)
next
  case False
  define c where "c = new_company name slug d i z s"
  have id: "co_id c = es_uuid s (es_tick s)" "co_slug c = slug" by (simp_all add: c_def new_company_def)
  define s1 where "s1 = tick (s\<lparr>si_companies := si_companies s @ [c]\<rparr>)"
  have t1: "tables s1 = tables (s\<lparr>si_companies := si_companies s @ [c]\<rparr>)" by (simp add: s1_def)
  have "list_agents (co_id c) None None s1 = []"
    using assms(2) by (simp add: id s1_def tick_def list_agents_def)
  then have seed: "seed_default_agents True (co_id c) s1 = register_all True (co_id c) DEFAULT_TEAM s1"
    by (simp add: seed_default_agents_def)
  have "company_known (co_id c) s1" by (simp add: s1_def tick_def company_known_def)
  moreover have "es_uuid s1 = es_uuid s" by (simp add: s1_def tick_def)
  ultimately obtain team s2 where team: "register_all True (co_id c) DEFAULT_TEAM s1 = (Inr team, s2)"
    using register_all_runs [OF team_short, of True "co_id c" s1] uuids by (metis prod.collapse)
  have t2: "tables s2 = tables s1" using tables_register_all [of True "co_id c" DEFAULT_TEAM s1] team by (metis snd_conv)
  have ag: "bk_agents s2 = bk_agents s @ team" "map ag_role team = map reg_role DEFAULT_TEAM"
    "\<forall>a\<in>set team. ag_company a = co_id c \<and> ag_load a = 0"
    using register_all_state [of True "co_id c" DEFAULT_TEAM s1 team, unfolded team fst_conv snd_conv]
    by (simp_all add: s1_def tick_def)
  define s3 where "s3 = note_seeded (co_id c) name team s2"
  have t3: "tables s3 = tables s1" and ag3: "bk_agents s3 = bk_agents s2"
    by (simp_all add: s3_def t2 note_seeded_def) (simp add: event_shortcuts)
  have none: "find_session (co_id c) s3 = None"
    using assms(1) t3 t1 by (simp add: id tables_eq find_session_def)
  define x where "x = new_session (co_id c) s3"
  define s4 where "s4 = tick (s3\<lparr>si_sessions := si_sessions s3 @ [x]\<rparr>)"
  define s5 where "s5 = note_started (co_id c) name s4"
  have run: "create_company name slug d i z s = (Inr c, s5)"
    using False none unfolding create_company_def Let_def c_def [symmetric] s1_def [symmetric]
    by (simp add: seed team s3_def [symmetric] x_def [symmetric] s4_def [symmetric] s5_def)
  have t5: "tables s5 = tables (s3\<lparr>si_sessions := si_sessions s3 @ [x]\<rparr>)"
    by (simp add: s5_def note_started_def s4_def)
  have ag5: "bk_agents s5 = bk_agents s @ team"
    by (simp add: s5_def note_started_def event_shortcuts s4_def tick_def ag3 ag)
  have cols: "si_companies s5 = si_companies s @ [c]" "si_sessions s5 = si_sessions s @ [x]"
    using t5 t3 t1 by (simp_all add: tables_eq)
  have x: "os_company x = co_id c" "os_step x = 0" "os_total x = 8" "os_status x = ''in_progress''"
    by (simp_all add: x_def new_session_def STEP_KEYS_def)
  have "find_session (co_id c) s5 = Some x"
    using assms(1) x(1) by (simp add: find_session_def cols id find_snoc)
  then show ?thesis using False run id cols x ag ag5 by simp
qed

text \<open>
  A company with a new slug whose identifier no session and no agent uses yet is created
  with one onboarding session, at step 0 of 8 and in progress, and with the agents of the
  standard team, without load. With a slug in use nothing is created; so no slug is ever
  given twice.
\<close>

theorem company_created:
  assumes "find_session (es_uuid s (es_tick s)) s = None"
    and "list_agents (es_uuid s (es_tick s)) None None s = []" and "\<And>n. fits_column 255 (es_uuid s n)"
    and "create_company name slug d i z s = (r, s')"
  shows "(case r of
      Inl e \<Rightarrow> e = IntegrityError \<and> slug \<in> co_slug ` set (si_companies s) \<and> s' = s
    | Inr c \<Rightarrow> slug \<notin> co_slug ` set (si_companies s) \<and> si_companies s' = si_companies s @ [c] \<and>
        (\<exists>x. si_sessions s' = si_sessions s @ [x] \<and> find_session (co_id c) s' = Some x \<and>
           os_step x = 0 \<and> os_total x = 8 \<and> os_status x = ''in_progress'') \<and>
        (\<exists>team. bk_agents s' = bk_agents s @ team \<and> map ag_role team = map reg_role DEFAULT_TEAM \<and>
           (\<forall>a\<in>set team. ag_company a = co_id c \<and> ag_load a = 0))) \<and>
    fst (create_company name' slug d' i' z' s') = Inl IntegrityError"
proof -
  note cases = create_company_cases [OF assms(1-3), where name = name and slug = slug and d = d and i = i and z = z, unfolded assms(4) prod.case]
  then have "slug \<in> co_slug ` set (si_companies s')" by (cases r) auto
  then have "fst (create_company name' slug d' i' z' s') = Inl IntegrityError"
    by (simp add: create_company_def)
  with cases show ?thesis by (cases r) auto
qed

section \<open>Samples\<close>

definition sample_company :: company where
  "sample_company = \<lparr>co_id = ''c'', co_name = ''Acme'', co_slug = ''acme'', co_description = None,
     co_industry = None, co_size = None, co_vision = None, co_models = None, co_integrations = None,
     co_completed = False, co_created = 0\<rparr>"

definition sample_session :: onboarding_session where
  "sample_session = \<lparr>os_id = ''o'', os_company = ''c'', os_step = 2, os_total = 8,
     os_data = Some [(''welcome'', JObj [])], os_vision = Some ''A store.'', os_analysis = None,
     os_status = ''in_progress'', os_created = 0\<rparr>"

definition sample_site :: site where
  "sample_site = \<lparr>si_companies = [sample_company], es_rows = [], es_bus = empty_bus,
     es_uuid = (\<lambda>n. take 255 (show_nat n)), es_clock = int, es_tick = 0,
     bk_agents = [], st_tasks = [], st_workflows = [],
     si_sessions = [sample_session], si_graphs = [], si_constitutions = [], si_roadmaps = [], si_plans = []\<rparr>"

lemma sample_found:
  "find_session ''c'' sample_site = Some sample_session" "find_company ''c'' sample_site = Some sample_company"
  by (simp_all add: find_session_def find_company_def sample_site_def sample_session_def sample_company_def)

lemma sample_ready: "onboarding_error ''c'' sample_site = None"
proof -
  have "os_vision sample_session = Some ''A store.''" by (simp add: sample_session_def)
  moreover have "pipeline_error ''c'' sample_company sample_site = None"
    by (simp add: pipeline_error_def sample_site_def sample_company_def find_document_def text_models_def)
  ultimately show ?thesis by (simp add: onboarding_error_def sample_found)
qed


theorem selected_models_block_witness:
  "fst (process_onboarding ''c'' (snd (save_models ''c'' [] sample_site))) = Inl TypeError"
proof -
  define c where "c = sample_company\<lparr>co_models := Some [(''providers'', JArr [])]\<rparr>"
  have save: "save_models ''c'' [] sample_site = (Inr c, save_company c sample_site)"
    by (simp add: save_models_def sample_found c_def Let_def)
  from selected_models_block [OF save] sample_ready show ?thesis by (auto simp: save)
qed

theorem later_answers_lost_witness:
  "map_option os_data (find_session ''c'' (snd (advance_step ''c'' ''vision'' [] sample_site))) =
     Some (Some [(''welcome'', JObj [])])"
proof -
  have "\<exists>y. fst (advance_step ''c'' ''vision'' [] sample_site) = Inr y"
    by (simp add: advance_step_def sample_found Let_def)
  then obtain y s where step: "advance_step ''c'' ''vision'' [] sample_site = (Inr y, s)" by (metis prod.collapse)
  have "os_data sample_session = Some [(''welcome'', JObj [])]" by (simp add: sample_session_def)
  from later_answers_lost [OF sample_found(1) this _ step] this show ?thesis by (simp add: step)
qed

lemma sample_fresh:
  "find_session (es_uuid sample_site (es_tick sample_site)) sample_site = None"
  "list_agents (es_uuid sample_site (es_tick sample_site)) None None sample_site = []"
  "fits_column 255 (es_uuid sample_site n)"
  by (simp_all add: sample_site_def find_session_def sample_session_def list_agents_def short_fits)

theorem company_created_witness:
  "\<exists>c s. create_company ''New'' ''new'' None None None sample_site = (Inr c, s) \<and>
     fst (create_company ''Other'' ''new'' None None None s) = Inl IntegrityError"
proof -
  obtain r s where run: "create_company ''New'' ''new'' None None None sample_site = (r, s)" by fastforce
  note made = company_created [OF sample_fresh run]
  have "''new'' \<notin> co_slug ` set (si_companies sample_site)" by (simp add: sample_site_def sample_company_def)
  with made run show ?thesis by (cases r) auto
qed

end
