(* ===== verification/Migrations.thy ===== *)
theory Migrations
  imports Prelude
begin

text \<open>
  The schema of the backend's database: the operations of the migrations
  (backend/alembic/versions), the four revisions, and the tables the models declare
  (backend/app/models/company.py, backend/app/models/agent.py).

  An operation of Alembic is a function on a schema that fails where PostgreSQL refuses the
  statement it stands for. Default values are not part of the schema here, and the direction of
  an indexed column is left out.
\<close>

section \<open>Schemas\<close>

datatype col_type = UuidT | Str nat | TextT | JsonT | BoolT | IntT | FloatT | TimeT

datatype nullability = Primary | NotNull | Nullable

record column =
  cl_name :: string
  cl_type :: col_type
  cl_null :: nullability
  cl_fk :: "(string \<times> string) option"
  cl_unique :: bool
  cl_index :: bool

definition col :: "string \<Rightarrow> col_type \<Rightarrow> nullability \<Rightarrow> (string \<times> string) option \<Rightarrow> bool \<Rightarrow> bool \<Rightarrow> column" where
  "col n t k fk u i = \<lparr>cl_name = n, cl_type = t, cl_null = k, cl_fk = fk, cl_unique = u, cl_index = i\<rparr>"

text \<open>A table has its columns and the indexes that were added later, with their columns.\<close>

record table =
  tb_columns :: "column list"
  tb_indexes :: "(string \<times> string list) list"

type_synonym schema = "(string, table) dict"

datatype operation =
    CreateTable string "column list"
  | DropTable string
  | AddColumn string column
  | DropColumn string string
  | CreateIndex string string "string list"
  | DropIndex string string

definition column_names :: "table \<Rightarrow> string list" where
  "column_names tb = map cl_name (tb_columns tb)"

definition references :: "string \<Rightarrow> column \<Rightarrow> bool" where
  "references t c \<longleftrightarrow> (case cl_fk c of None \<Rightarrow> False | Some (t', c') \<Rightarrow> t' = t)"

text \<open>The target of a foreign key exists; a new table may refer to itself.\<close>

definition target_exists :: "schema \<Rightarrow> column \<Rightarrow> bool" where
  "target_exists s c \<longleftrightarrow>
     (case cl_fk c of None \<Rightarrow> True
      | Some (t, c') \<Rightarrow> (case dict_get s t of None \<Rightarrow> False | Some tb \<Rightarrow> c' \<in> set (column_names tb)))"

definition create_table :: "string \<Rightarrow> column list \<Rightarrow> schema \<Rightarrow> schema option" where
  "create_table t cs s =
     (let s1 = dict_set t \<lparr>tb_columns = cs, tb_indexes = []\<rparr> s
      in if dict_get s t = None \<and> distinct (map cl_name cs) \<and> list_all (target_exists s1) cs then Some s1 else None)"

definition drop_table :: "string \<Rightarrow> schema \<Rightarrow> schema option" where
  "drop_table t s =
     (if dict_get s t \<noteq> None \<and>
         list_all (\<lambda>(t', tb). t' = t \<or> \<not> list_ex (references t) (tb_columns tb)) s
      then Some (dict_pop t s) else None)"

definition change_table :: "string \<Rightarrow> (table \<Rightarrow> table option) \<Rightarrow> schema \<Rightarrow> schema option" where
  "change_table t f s =
     Option.bind (dict_get s t) (\<lambda>tb. map_option (\<lambda>tb1. dict_set t tb1 s) (f tb))"

definition add_column :: "string \<Rightarrow> column \<Rightarrow> schema \<Rightarrow> schema option" where
  "add_column t c s =
     (if target_exists s c
      then change_table t (\<lambda>tb. if cl_name c \<in> set (column_names tb) then None
                                else Some (tb\<lparr>tb_columns := tb_columns tb @ [c]\<rparr>)) s
      else None)"

text \<open>Dropping a column drops the indexes on it; a foreign key on it forbids that.\<close>

definition drop_column :: "string \<Rightarrow> string \<Rightarrow> schema \<Rightarrow> schema option" where
  "drop_column t n s =
     (if list_all (\<lambda>(t', tb). list_all (\<lambda>c. cl_fk c \<noteq> Some (t, n)) (tb_columns tb)) s
      then change_table t (\<lambda>tb. if n \<in> set (column_names tb)
             then Some (tb\<lparr>tb_columns := filter (\<lambda>c. cl_name c \<noteq> n) (tb_columns tb),
                           tb_indexes := filter (\<lambda>(i, cs). n \<notin> set cs) (tb_indexes tb)\<rparr>)
             else None) s
      else None)"

definition index_names :: "schema \<Rightarrow> string list" where
  "index_names s = concat (map (\<lambda>(t, tb). map fst (tb_indexes tb)) s)"

definition create_index :: "string \<Rightarrow> string \<Rightarrow> string list \<Rightarrow> schema \<Rightarrow> schema option" where
  "create_index i t cs s =
     (if i \<in> set (index_names s) then None
      else change_table t (\<lambda>tb. if set cs \<subseteq> set (column_names tb)
             then Some (tb\<lparr>tb_indexes := tb_indexes tb @ [(i, cs)]\<rparr>) else None) s)"

definition drop_index :: "string \<Rightarrow> string \<Rightarrow> schema \<Rightarrow> schema option" where
  "drop_index i t s =
     change_table t (\<lambda>tb. if i \<in> set (map fst (tb_indexes tb))
       then Some (tb\<lparr>tb_indexes := filter (\<lambda>x. fst x \<noteq> i) (tb_indexes tb)\<rparr>) else None) s"

fun apply_op :: "operation \<Rightarrow> schema \<Rightarrow> schema option" where
  "apply_op (CreateTable t cs) s = create_table t cs s"
| "apply_op (DropTable t) s = drop_table t s"
| "apply_op (AddColumn t c) s = add_column t c s"
| "apply_op (DropColumn t n) s = drop_column t n s"
| "apply_op (CreateIndex i t cs) s = create_index i t cs s"
| "apply_op (DropIndex i t) s = drop_index i t s"

fun run_ops :: "operation list \<Rightarrow> schema \<Rightarrow> schema option" where
  "run_ops [] s = Some s"
| "run_ops (x # xs) s = Option.bind (apply_op x s) (run_ops xs)"

section \<open>The revisions\<close>

record revision =
  rv_id :: string
  rv_down :: "string option"
  rv_upgrade :: "operation list"
  rv_downgrade :: "operation list"

definition companies_columns :: "column list" where
  "companies_columns =
    [col ''id'' UuidT Primary None False False,
     col ''name'' (Str 255) NotNull None False False,
     col ''slug'' (Str 255) NotNull None True False,
     col ''description'' TextT Nullable None False False,
     col ''industry'' (Str 255) Nullable None False False,
     col ''size'' (Str 50) Nullable None False False,
     col ''vision_statement'' TextT Nullable None False False,
     col ''selected_models'' JsonT Nullable None False False,
     col ''integrations'' JsonT Nullable None False False,
     col ''onboarding_completed'' BoolT Nullable None False False,
     col ''created_at'' TimeT Nullable None False False,
     col ''updated_at'' TimeT Nullable None False False]"

definition onboarding_sessions_columns :: "column list" where
  "onboarding_sessions_columns =
    [col ''id'' UuidT Primary None False False,
     col ''company_id'' UuidT Nullable (Some (''companies'', ''id'')) True False,
     col ''current_step'' IntT Nullable None False False,
     col ''total_steps'' IntT Nullable None False False,
     col ''step_data'' JsonT Nullable None False False,
     col ''vision_raw'' TextT Nullable None False False,
     col ''vision_analysis'' JsonT Nullable None False False,
     col ''status'' (Str 50) Nullable None False False,
     col ''created_at'' TimeT Nullable None False False,
     col ''updated_at'' TimeT Nullable None False False]"

definition knowledge_graphs_columns :: "column list" where
  "knowledge_graphs_columns =
    [col ''id'' UuidT Primary None False False,
     col ''company_id'' UuidT Nullable (Some (''companies'', ''id'')) True False,
     col ''nodes'' JsonT Nullable None False False,
     col ''edges'' JsonT Nullable None False False,
     col ''domains'' JsonT Nullable None False False,
     col ''capabilities'' JsonT Nullable None False False,
     col ''created_at'' TimeT Nullable None False False,
     col ''updated_at'' TimeT Nullable None False False]"

definition constitutions_columns :: "column list" where
  "constitutions_columns =
    [col ''id'' UuidT Primary None False False,
     col ''company_id'' UuidT Nullable (Some (''companies'', ''id'')) True False,
     col ''mission'' TextT Nullable None False False,
     col ''values'' JsonT Nullable None False False,
     col ''principles'' JsonT Nullable None False False,
     col ''governance'' JsonT Nullable None False False,
     col ''operational_rules'' JsonT Nullable None False False,
     col ''full_text'' TextT Nullable None False False,
     col ''created_at'' TimeT Nullable None False False]"

definition roadmaps_columns :: "column list" where
  "roadmaps_columns =
    [col ''id'' UuidT Primary None False False,
     col ''company_id'' UuidT Nullable (Some (''companies'', ''id'')) True False,
     col ''phases'' JsonT Nullable None False False,
     col ''milestones'' JsonT Nullable None False False,
     col ''timeline'' JsonT Nullable None False False,
     col ''priorities'' JsonT Nullable None False False,
     col ''created_at'' TimeT Nullable None False False]"

definition architecture_plans_columns :: "column list" where
  "architecture_plans_columns =
    [col ''id'' UuidT Primary None False False,
     col ''company_id'' UuidT Nullable (Some (''companies'', ''id'')) True False,
     col ''tech_stack'' JsonT Nullable None False False,
     col ''system_design'' JsonT Nullable None False False,
     col ''data_models'' JsonT Nullable None False False,
     col ''api_spec'' JsonT Nullable None False False,
     col ''infrastructure'' JsonT Nullable None False False,
     col ''full_text'' TextT Nullable None False False,
     col ''created_at'' TimeT Nullable None False False]"

definition tasks_columns :: "column list" where
  "tasks_columns =
    [col ''id'' UuidT Primary None False False,
     col ''company_id'' UuidT Nullable (Some (''companies'', ''id'')) False False,
     col ''title'' (Str 500) Nullable None False False,
     col ''description'' TextT Nullable None False False,
     col ''status'' (Str 50) Nullable None False False,
     col ''priority'' (Str 50) Nullable None False False,
     col ''assignee_role'' (Str 100) Nullable None False False,
     col ''parent_task_id'' UuidT Nullable (Some (''tasks'', ''id'')) False False,
     col ''dependencies'' JsonT Nullable None False False,
     col ''metadata'' JsonT Nullable None False False,
     col ''created_at'' TimeT Nullable None False False,
     col ''updated_at'' TimeT Nullable None False False]"

definition workflows_columns :: "column list" where
  "workflows_columns =
    [col ''id'' UuidT Primary None False False,
     col ''company_id'' UuidT Nullable (Some (''companies'', ''id'')) False False,
     col ''name'' (Str 255) Nullable None False False,
     col ''description'' TextT Nullable None False False,
     col ''trigger'' JsonT Nullable None False False,
     col ''steps'' JsonT Nullable None False False,
     col ''assigned_agents'' JsonT Nullable None False False,
     col ''is_active'' BoolT Nullable None False False,
     col ''created_at'' TimeT Nullable None False False]"

definition upgrade_001 :: "operation list" where
  "upgrade_001 =
    [CreateTable ''companies'' companies_columns,
     CreateTable ''onboarding_sessions'' onboarding_sessions_columns,
     CreateTable ''knowledge_graphs'' knowledge_graphs_columns,
     CreateTable ''constitutions'' constitutions_columns,
     CreateTable ''roadmaps'' roadmaps_columns,
     CreateTable ''architecture_plans'' architecture_plans_columns,
     CreateTable ''tasks'' tasks_columns,
     CreateTable ''workflows'' workflows_columns]"

definition downgrade_001 :: "operation list" where
  "downgrade_001 =
    [DropTable ''workflows'',
     DropTable ''tasks'',
     DropTable ''architecture_plans'',
     DropTable ''roadmaps'',
     DropTable ''constitutions'',
     DropTable ''knowledge_graphs'',
     DropTable ''onboarding_sessions'',
     DropTable ''companies'']"

definition activity_events_columns :: "column list" where
  "activity_events_columns =
    [col ''id'' UuidT Primary None False False,
     col ''company_id'' UuidT NotNull (Some (''companies'', ''id'')) False True,
     col ''type'' (Str 50) NotNull None False True,
     col ''source'' (Str 100) NotNull None False False,
     col ''source_id'' (Str 255) Nullable None False False,
     col ''title'' (Str 500) NotNull None False False,
     col ''description'' TextT Nullable None False False,
     col ''metadata'' JsonT Nullable None False False,
     col ''created_at'' TimeT NotNull None False True]"

definition upgrade_002 :: "operation list" where
  "upgrade_002 =
    [CreateTable ''activity_events'' activity_events_columns,
     CreateIndex ''ix_activity_events_company_created'' ''activity_events'' [''company_id'', ''created_at'']]"

definition downgrade_002 :: "operation list" where
  "downgrade_002 =
    [DropIndex ''ix_activity_events_company_created'' ''activity_events'',
     DropTable ''activity_events'']"

definition agents_columns :: "column list" where
  "agents_columns =
    [col ''id'' UuidT Primary None False False,
     col ''company_id'' UuidT NotNull None False True,
     col ''role'' (Str 100) NotNull None False False,
     col ''name'' (Str 255) NotNull None False False,
     col ''description'' (Str 1000) Nullable None False False,
     col ''status'' (Str 50) Nullable None False False,
     col ''capabilities'' JsonT Nullable None False False,
     col ''cost_per_task'' FloatT Nullable None False False,
     col ''max_concurrent_tasks'' IntT Nullable None False False,
     col ''current_load'' IntT Nullable None False False,
     col ''metadata'' JsonT Nullable None False False,
     col ''created_at'' TimeT Nullable None False False,
     col ''updated_at'' TimeT Nullable None False False]"

definition upgrade_003 :: "operation list" where
  "upgrade_003 =
    [CreateTable ''agents'' agents_columns]"

definition downgrade_003 :: "operation list" where
  "downgrade_003 =
    [DropTable ''agents'']"

definition upgrade_004 :: "operation list" where
  "upgrade_004 =
    [AddColumn ''tasks'' (col ''assignee_agent_id'' UuidT Nullable (Some (''agents'', ''id'')) False False),
     CreateIndex ''ix_tasks_assignee_agent_id'' ''tasks'' [''assignee_agent_id'']]"

definition downgrade_004 :: "operation list" where
  "downgrade_004 =
    [DropIndex ''ix_tasks_assignee_agent_id'' ''tasks'',
     DropColumn ''tasks'' ''assignee_agent_id'']"

definition revisions :: "revision list" where
  "revisions =
    [\<lparr>rv_id = ''001_initial_onboarding'', rv_down = None, rv_upgrade = upgrade_001, rv_downgrade = downgrade_001\<rparr>,
     \<lparr>rv_id = ''002_add_activity_events'', rv_down = Some ''001_initial_onboarding'', rv_upgrade = upgrade_002, rv_downgrade = downgrade_002\<rparr>,
     \<lparr>rv_id = ''003_add_agents'', rv_down = Some ''002_add_activity_events'', rv_upgrade = upgrade_003, rv_downgrade = downgrade_003\<rparr>,
     \<lparr>rv_id = ''004_add_task_assignee_agent'', rv_down = Some ''003_add_agents'', rv_upgrade = upgrade_004, rv_downgrade = downgrade_004\<rparr>]"

section \<open>The tables of the models\<close>

definition companies_model :: "column list" where
  "companies_model =
    [col ''id'' UuidT Primary None False False,
     col ''name'' (Str 255) NotNull None False False,
     col ''slug'' (Str 255) NotNull None True False,
     col ''description'' TextT Nullable None False False,
     col ''industry'' (Str 255) Nullable None False False,
     col ''size'' (Str 50) Nullable None False False,
     col ''vision_statement'' TextT Nullable None False False,
     col ''selected_models'' JsonT Nullable None False False,
     col ''integrations'' JsonT Nullable None False False,
     col ''onboarding_completed'' BoolT NotNull None False False,
     col ''created_at'' TimeT NotNull None False False,
     col ''updated_at'' TimeT NotNull None False False]"

definition onboarding_sessions_model :: "column list" where
  "onboarding_sessions_model =
    [col ''id'' UuidT Primary None False False,
     col ''company_id'' UuidT NotNull (Some (''companies'', ''id'')) True False,
     col ''current_step'' IntT NotNull None False False,
     col ''total_steps'' IntT NotNull None False False,
     col ''step_data'' JsonT Nullable None False False,
     col ''vision_raw'' TextT Nullable None False False,
     col ''vision_analysis'' JsonT Nullable None False False,
     col ''status'' (Str 50) NotNull None False False,
     col ''created_at'' TimeT NotNull None False False,
     col ''updated_at'' TimeT NotNull None False False]"

definition knowledge_graphs_model :: "column list" where
  "knowledge_graphs_model =
    [col ''id'' UuidT Primary None False False,
     col ''company_id'' UuidT NotNull (Some (''companies'', ''id'')) True False,
     col ''nodes'' JsonT Nullable None False False,
     col ''edges'' JsonT Nullable None False False,
     col ''domains'' JsonT Nullable None False False,
     col ''capabilities'' JsonT Nullable None False False,
     col ''created_at'' TimeT NotNull None False False,
     col ''updated_at'' TimeT NotNull None False False]"

definition constitutions_model :: "column list" where
  "constitutions_model =
    [col ''id'' UuidT Primary None False False,
     col ''company_id'' UuidT NotNull (Some (''companies'', ''id'')) True False,
     col ''mission'' TextT Nullable None False False,
     col ''values'' JsonT Nullable None False False,
     col ''principles'' JsonT Nullable None False False,
     col ''governance'' JsonT Nullable None False False,
     col ''operational_rules'' JsonT Nullable None False False,
     col ''full_text'' TextT Nullable None False False,
     col ''created_at'' TimeT NotNull None False False]"

definition roadmaps_model :: "column list" where
  "roadmaps_model =
    [col ''id'' UuidT Primary None False False,
     col ''company_id'' UuidT NotNull (Some (''companies'', ''id'')) True False,
     col ''phases'' JsonT Nullable None False False,
     col ''milestones'' JsonT Nullable None False False,
     col ''timeline'' JsonT Nullable None False False,
     col ''priorities'' JsonT Nullable None False False,
     col ''created_at'' TimeT NotNull None False False]"

definition architecture_plans_model :: "column list" where
  "architecture_plans_model =
    [col ''id'' UuidT Primary None False False,
     col ''company_id'' UuidT NotNull (Some (''companies'', ''id'')) True False,
     col ''tech_stack'' JsonT Nullable None False False,
     col ''system_design'' JsonT Nullable None False False,
     col ''data_models'' JsonT Nullable None False False,
     col ''api_spec'' JsonT Nullable None False False,
     col ''infrastructure'' JsonT Nullable None False False,
     col ''full_text'' TextT Nullable None False False,
     col ''created_at'' TimeT NotNull None False False]"

definition tasks_model :: "column list" where
  "tasks_model =
    [col ''id'' UuidT Primary None False False,
     col ''company_id'' UuidT NotNull (Some (''companies'', ''id'')) False False,
     col ''title'' (Str 500) NotNull None False False,
     col ''description'' TextT Nullable None False False,
     col ''status'' (Str 50) NotNull None False False,
     col ''priority'' (Str 50) NotNull None False False,
     col ''assignee_role'' (Str 100) Nullable None False False,
     col ''assignee_agent_id'' UuidT Nullable (Some (''agents'', ''id'')) False False,
     col ''parent_task_id'' UuidT Nullable (Some (''tasks'', ''id'')) False False,
     col ''dependencies'' JsonT Nullable None False False,
     col ''metadata'' JsonT Nullable None False False,
     col ''created_at'' TimeT NotNull None False False,
     col ''updated_at'' TimeT NotNull None False False]"

definition workflows_model :: "column list" where
  "workflows_model =
    [col ''id'' UuidT Primary None False False,
     col ''company_id'' UuidT NotNull (Some (''companies'', ''id'')) False False,
     col ''name'' (Str 255) NotNull None False False,
     col ''description'' TextT Nullable None False False,
     col ''trigger'' JsonT Nullable None False False,
     col ''steps'' JsonT Nullable None False False,
     col ''assigned_agents'' JsonT Nullable None False False,
     col ''is_active'' BoolT NotNull None False False,
     col ''created_at'' TimeT NotNull None False False]"

definition activity_events_model :: "column list" where
  "activity_events_model =
    [col ''id'' UuidT Primary None False False,
     col ''company_id'' UuidT NotNull (Some (''companies'', ''id'')) False True,
     col ''type'' (Str 50) NotNull None False True,
     col ''source'' (Str 100) NotNull None False False,
     col ''source_id'' (Str 255) Nullable None False False,
     col ''title'' (Str 500) NotNull None False False,
     col ''description'' TextT Nullable None False False,
     col ''metadata'' JsonT Nullable None False False,
     col ''created_at'' TimeT NotNull None False True]"

definition agents_model :: "column list" where
  "agents_model =
    [col ''id'' UuidT Primary None False False,
     col ''company_id'' UuidT NotNull None False True,
     col ''role'' (Str 100) NotNull None False False,
     col ''name'' (Str 255) NotNull None False False,
     col ''description'' (Str 1000) Nullable None False False,
     col ''status'' (Str 50) NotNull None False False,
     col ''capabilities'' JsonT Nullable None False False,
     col ''cost_per_task'' FloatT NotNull None False False,
     col ''max_concurrent_tasks'' IntT NotNull None False False,
     col ''current_load'' IntT NotNull None False False,
     col ''metadata'' JsonT Nullable None False False,
     col ''created_at'' TimeT NotNull None False False,
     col ''updated_at'' TimeT NotNull None False False]"

definition models :: "(string, column list) dict" where
  "models =
    [(''companies'', companies_model),
     (''onboarding_sessions'', onboarding_sessions_model),
     (''knowledge_graphs'', knowledge_graphs_model),
     (''constitutions'', constitutions_model),
     (''roadmaps'', roadmaps_model),
     (''architecture_plans'', architecture_plans_model),
     (''tasks'', tasks_model),
     (''workflows'', workflows_model),
     (''activity_events'', activity_events_model),
     (''agents'', agents_model)]"

section \<open>Downgrades\<close>

text \<open>A schema whose foreign keys have targets and whose indexes have columns.\<close>

definition table_ok :: "schema \<Rightarrow> table \<Rightarrow> bool" where
  "table_ok s tb \<longleftrightarrow> list_all (target_exists s) (tb_columns tb) \<and>
     list_all (\<lambda>x. set (snd x) \<subseteq> set (column_names tb)) (tb_indexes tb)"

definition schema_ok :: "schema \<Rightarrow> bool" where
  "schema_ok s \<longleftrightarrow> dict_wf s \<and> list_all (table_ok s \<circ> snd) s"

fun additive :: "operation \<Rightarrow> bool" where
  "additive (CreateTable t cs) = True"
| "additive (AddColumn t c) = True"
| "additive (CreateIndex i t cs) = True"
| "additive _ = False"

text \<open>The operation that takes back an additive one.\<close>

fun undo :: "operation \<Rightarrow> operation" where
  "undo (CreateTable t cs) = DropTable t"
| "undo (AddColumn t c) = DropColumn t (cl_name c)"
| "undo (CreateIndex i t cs) = DropIndex i t"
| "undo x = x"

lemma pop_fresh: "dict_get s t = None \<Longrightarrow> dict_pop t (s @ [(t, x)]) = s"
  by (induction s) (auto simp: dict_get_def dict_pop_def split: if_splits)

lemma set_back: "dict_get s t = Some x \<Longrightarrow> dict_set t x (dict_set t y s) = s"
  by (induction s) (auto simp: dict_get_def dict_set_def split: if_splits)

lemma set_mem: "(k, v) \<in> set (dict_set t y s) \<Longrightarrow> (k, v) \<in> set s \<or> (k = t \<and> v = y)"
  by (induction s) (auto simp: dict_set_def split: if_splits)

lemma schema_okD: "schema_ok s \<Longrightarrow> (t, tb) \<in> set s \<Longrightarrow> table_ok s tb"
  by (auto simp: schema_ok_def list_all_iff)

text \<open>A change that keeps the columns there are keeps the targets there are.\<close>

definition extends :: "schema \<Rightarrow> schema \<Rightarrow> bool" where
  "extends s s1 \<longleftrightarrow> (\<forall>t tb. dict_get s t = Some tb \<longrightarrow>
     (\<exists>tb1. dict_get s1 t = Some tb1 \<and> set (column_names tb) \<subseteq> set (column_names tb1)))"

lemma target_extends: "extends s s1 \<Longrightarrow> target_exists s c \<Longrightarrow> target_exists s1 c"
proof (cases "cl_fk c")
  case (Some x)
  assume ext: "extends s s1" and c: "target_exists s c"
  obtain t n where x: "x = (t, n)" by (cases x)
  with c Some obtain tb where tb: "dict_get s t = Some tb" "n \<in> set (column_names tb)"
    by (auto simp: target_exists_def split: option.splits)
  with ext obtain tb1 where "dict_get s1 t = Some tb1" "n \<in> set (column_names tb1)"
    unfolding extends_def by blast
  with Some x show ?thesis by (simp add: target_exists_def)
qed (simp add: target_exists_def)

lemma table_extends: "extends s s1 \<Longrightarrow> table_ok s tb \<Longrightarrow> table_ok s1 tb"
  by (auto simp: table_ok_def list_all_iff intro: target_extends)

lemma schema_ok_set:
  assumes "schema_ok s" "extends s (dict_set t tb s)" "table_ok (dict_set t tb s) tb"
  shows "schema_ok (dict_set t tb s)"
proof -
  have "table_ok (dict_set t tb s) v" if "(k, v) \<in> set (dict_set t tb s)" for k v
    using set_mem [OF that] assms schema_okD table_extends by blast
  moreover have "dict_wf (dict_set t tb s)" using assms(1) by (simp add: schema_ok_def)
  ultimately show ?thesis by (auto simp: schema_ok_def list_all_iff)
qed

lemma extends_set:
  "(\<And>tb0. dict_get s t = Some tb0 \<Longrightarrow> set (column_names tb0) \<subseteq> set (column_names tb)) \<Longrightarrow>
     extends s (dict_set t tb s)"
  by (auto simp: extends_def)

lemma undo_create_table:
  assumes ok: "schema_ok s" and run: "create_table t cs s = Some s1"
  shows "drop_table t s1 = Some s \<and> schema_ok s1"
proof
  let ?tb = "\<lparr>tb_columns = cs, tb_indexes = []\<rparr>"
  have fresh: "dict_get s t = None" and s1: "s1 = dict_set t ?tb s" and cs: "list_all (target_exists s1) cs"
    using run by (auto simp: create_table_def Let_def split: if_splits)
  have app: "s1 = s @ [(t, ?tb)]" using dict_set_fresh [OF fresh] by (simp add: s1)
  have "\<not> references t c" if "(t', tb) \<in> set s" "c \<in> set (tb_columns tb)" for t' tb c
  proof
    assume "references t c"
    moreover have "target_exists s c" using schema_okD [OF ok that(1)] that(2) by (simp add: table_ok_def list_all_iff)
    ultimately show False using fresh by (auto simp: references_def target_exists_def split: option.splits)
  qed
  then have "list_all (\<lambda>(t', tb). t' = t \<or> \<not> list_ex (references t) (tb_columns tb)) s1"
    unfolding app by (auto simp: list_all_iff list_ex_iff)
  then show "drop_table t s1 = Some s"
    using pop_fresh [OF fresh] by (simp add: drop_table_def s1) (simp add: app flip: s1)
  show "schema_ok s1" unfolding s1
    by (rule schema_ok_set [OF ok extends_set])
      (use cs fresh in \<open>simp_all add: table_ok_def flip: s1\<close>)
qed

lemma change_table_Some:
  "change_table t f s = Some s1 \<longleftrightarrow> (\<exists>tb tb1. dict_get s t = Some tb \<and> f tb = Some tb1 \<and> s1 = dict_set t tb1 s)"
  by (auto simp: change_table_def bind_eq_Some_conv)

lemma change_back:
  "dict_get s t = Some tb \<Longrightarrow> s1 = dict_set t tb1 s \<Longrightarrow> f tb1 = Some tb \<Longrightarrow> change_table t f s1 = Some s"
  by (simp add: change_table_def set_back)

lemma undo_add_column:
  assumes ok: "schema_ok s" and run: "add_column t c s = Some s1"
  shows "drop_column t (cl_name c) s1 = Some s \<and> schema_ok s1"
proof
  obtain tb where target: "target_exists s c" and tb: "dict_get s t = Some tb"
    and new: "cl_name c \<notin> set (column_names tb)"
    and s1: "s1 = dict_set t (tb\<lparr>tb_columns := tb_columns tb @ [c]\<rparr>) s"
    using run by (auto simp: add_column_def change_table_Some split: if_splits)
  let ?tb = "tb\<lparr>tb_columns := tb_columns tb @ [c]\<rparr>"
  have tbok: "table_ok s tb" using schema_okD [OF ok dict_get_Some_mem [OF tb]] .
  have ext: "extends s s1" unfolding s1 by (rule extends_set) (auto simp: tb column_names_def)
  have unreferenced: "cl_fk d \<noteq> Some (t, cl_name c)" if "target_exists s d" for d
    using that new tb by (auto simp: target_exists_def)
  have "cl_fk d \<noteq> Some (t, cl_name c)" if "(t', tb') \<in> set s1" "d \<in> set (tb_columns tb')" for t' tb' d
  proof -
    have "(t', tb') \<in> set s \<or> (t' = t \<and> tb' = ?tb)" using that(1) set_mem unfolding s1 by fast
    then have "target_exists s d"
      using that(2) schema_okD [OF ok] tbok target by (auto simp: table_ok_def list_all_iff)
    then show ?thesis by (rule unreferenced)
  qed
  then have "list_all (\<lambda>(t', tb). list_all (\<lambda>d. cl_fk d \<noteq> Some (t, cl_name c)) (tb_columns tb)) s1"
    by (auto simp: list_all_iff)
  moreover have "filter (\<lambda>d. cl_name d \<noteq> cl_name c) (tb_columns tb) = tb_columns tb"
    unfolding filter_id_conv using new by (metis column_names_def image_eqI set_map)
  moreover have "filter (\<lambda>(i, cs). cl_name c \<notin> set cs) (tb_indexes tb) = tb_indexes tb"
    unfolding filter_id_conv
  proof
    fix x assume "x \<in> set (tb_indexes tb)"
    then have "set (snd x) \<subseteq> set (column_names tb)" using tbok by (simp add: table_ok_def list_all_iff)
    with new show "case x of (i, cs) \<Rightarrow> cl_name c \<notin> set cs" by (auto split: prod.split)
  qed
  ultimately show "drop_column t (cl_name c) s1 = Some s"
    unfolding drop_column_def by (simp add: change_back [OF tb s1] column_names_def)
  show "schema_ok s1" unfolding s1
  proof (rule schema_ok_set [OF ok])
    show "extends s (dict_set t ?tb s)" using ext by (simp add: s1)
    show "table_ok (dict_set t ?tb s) ?tb"
      using tbok target target_extends [OF ext]
      by (auto simp: table_ok_def list_all_iff column_names_def simp flip: s1)
  qed
qed

lemma undo_create_index:
  assumes ok: "schema_ok s" and run: "create_index i t cs s = Some s1"
  shows "drop_index i t s1 = Some s \<and> schema_ok s1"
proof
  obtain tb where new: "i \<notin> set (index_names s)" and tb: "dict_get s t = Some tb"
    and cs: "set cs \<subseteq> set (column_names tb)"
    and s1: "s1 = dict_set t (tb\<lparr>tb_indexes := tb_indexes tb @ [(i, cs)]\<rparr>) s"
    using run by (auto simp: create_index_def change_table_Some split: if_splits)
  let ?tb = "tb\<lparr>tb_indexes := tb_indexes tb @ [(i, cs)]\<rparr>"
  have tbok: "table_ok s tb" using schema_okD [OF ok dict_get_Some_mem [OF tb]] .
  have "i \<notin> fst ` set (tb_indexes tb)"
    using new dict_get_Some_mem [OF tb] by (force simp: index_names_def)
  then have "filter (\<lambda>x. fst x \<noteq> i) (tb_indexes tb) = tb_indexes tb" by (auto simp: filter_id_conv)
  then show "drop_index i t s1 = Some s" unfolding drop_index_def by (simp add: change_back [OF tb s1])
  have ext: "extends s (dict_set t ?tb s)" by (rule extends_set) (auto simp: tb column_names_def)
  then show "schema_ok s1" unfolding s1
    by (rule schema_ok_set [OF ok]) (use tbok cs target_extends [OF ext] in \<open>auto simp: table_ok_def list_all_iff column_names_def\<close>)
qed

lemma undo_op:
  assumes ok: "schema_ok s" and "additive x" and run: "apply_op x s = Some s1"
  shows "apply_op (undo x) s1 = Some s \<and> schema_ok s1"
proof (cases x)
  case (CreateTable t cs)
  then show ?thesis using undo_create_table [OF ok, of t cs s1] run by simp
next
  case (AddColumn t c)
  then show ?thesis using undo_add_column [OF ok, of t c s1] run by simp
next
  case (CreateIndex i t cs)
  then show ?thesis using undo_create_index [OF ok, of i t cs s1] run by simp
qed (use assms(2) in simp_all)

lemma run_ops_append: "run_ops (xs @ ys) s = Option.bind (run_ops xs s) (run_ops ys)"
proof (induction xs arbitrary: s)
  case (Cons x xs)
  then show ?case by (cases "apply_op x s") simp_all
qed simp

lemma undo_ops:
  "schema_ok s \<Longrightarrow> list_all additive xs \<Longrightarrow> run_ops xs s = Some s1 \<Longrightarrow>
     run_ops (rev (map undo xs)) s1 = Some s \<and> schema_ok s1"
proof (induction xs arbitrary: s)
  case (Cons x xs)
  from Cons.prems(3) obtain s0 where x: "apply_op x s = Some s0" and xs: "run_ops xs s0 = Some s1"
    by (auto simp: bind_eq_Some_conv)
  with undo_op [OF Cons.prems(1) _ x] Cons.prems(2) have "apply_op (undo x) s0 = Some s" "schema_ok s0" by simp_all
  with Cons.IH [OF \<open>schema_ok s0\<close> _ xs] Cons.prems(2) show ?case by (simp add: run_ops_append)
qed simp

lemma revisions_undo:
  "r \<in> set revisions \<Longrightarrow> list_all additive (rv_upgrade r) \<and> rv_downgrade r = rev (map undo (rv_upgrade r))"
  by (auto simp: revisions_def upgrade_001_def upgrade_002_def upgrade_003_def upgrade_004_def
      downgrade_001_def downgrade_002_def downgrade_003_def downgrade_004_def col_def)

text \<open>
  C25. The downgrade of every revision takes back exactly its upgrade. On every schema whose
  foreign keys have targets and on which the upgrade runs, the downgrade runs after it and gives
  the schema from before, with its tables, columns and indexes in their order.
\<close>

theorem downgrade_inverts_upgrade:
  assumes "r \<in> set revisions" and "schema_ok s" and "run_ops (rv_upgrade r) s = Some s1"
  shows "run_ops (rv_downgrade r) s1 = Some s \<and> schema_ok s1"
  using undo_ops [OF assms(2) _ assms(3)] revisions_undo [OF assms(1)] by simp

definition migrate :: "revision list \<Rightarrow> schema option" where
  "migrate rs = run_ops (concat (map rv_upgrade rs)) []"

text \<open>How a column of the database serves a column of a model: the model may be stricter.\<close>

definition serves :: "column \<Rightarrow> column \<Rightarrow> bool" where
  "serves c m \<longleftrightarrow> cl_name c = cl_name m \<and> cl_type c = cl_type m \<and> cl_fk c = cl_fk m \<and>
     cl_unique c = cl_unique m \<and> cl_index c = cl_index m \<and>
     (cl_null m = Primary \<longleftrightarrow> cl_null c = Primary) \<and> (cl_null m = Nullable \<longrightarrow> cl_null c = Nullable)"

text \<open>
  Tables and columns as the models declare them. The indexes that are created by an operation
  of their own are not compared: no model declares the two that the migrations create so
  (ix_activity_events_company_created and ix_tasks_assignee_agent_id).
\<close>

definition fits_models :: "schema \<Rightarrow> bool" where
  "fits_models s \<longleftrightarrow> set (dict_keys s) = set (dict_keys models) \<and>
     list_all (\<lambda>(t, ms). case dict_get s t of None \<Rightarrow> False
       | Some tb \<Rightarrow> length (tb_columns tb) = length ms \<and> list_all (\<lambda>m. list_ex (\<lambda>c. serves c m) (tb_columns tb)) ms) models"

text \<open>The columns that a model declares NOT NULL and the database does not.\<close>

definition lenient_columns :: "schema \<Rightarrow> (string \<times> string) list" where
  "lenient_columns s =
     [(t, cl_name m). (t, ms) \<leftarrow> models, m \<leftarrow> ms, cl_null m = NotNull,
        case dict_get s t of None \<Rightarrow> False
        | Some tb \<Rightarrow> list_ex (\<lambda>c. cl_name c = cl_name m \<and> cl_null c = Nullable) (tb_columns tb)]"

text \<open>
  The four revisions, run on an empty database, give every table and every column that a
  model declares and no other one, with the declared type, key, uniqueness, index of the column and
  foreign key, and every foreign key has its target. Only NOT NULL is lost: 34 columns that the
  models require can be NULL in the database, the company of a task among them.
\<close>

lemma migrations_serve_models:
  "map_option (\<lambda>s. (schema_ok s, fits_models s, length (lenient_columns s),
       (''tasks'', ''company_id'') \<in> set (lenient_columns s))) (migrate revisions) = Some (True, True, 34, True)"
  by code_simp

lemma first_upgrade: "run_ops upgrade_001 [] \<noteq> None"
  by code_simp

theorem downgrade_inverts_upgrade_witness:
  "\<exists>s1. run_ops upgrade_001 [] = Some s1 \<and> run_ops downgrade_001 s1 = Some [] \<and> schema_ok s1"
proof -
  obtain s1 where up: "run_ops upgrade_001 [] = Some s1" using first_upgrade by blast
  have "schema_ok []" by (simp add: schema_ok_def dict_wf_def)
  from downgrade_inverts_upgrade [of "hd revisions", OF _ this] up show ?thesis
    by (auto simp: revisions_def)
qed

end
