(* ===== verification/Schemas.thy ===== *)
theory Schemas
  imports Onboarding Migrations
begin

text \<open>
  The schemas of the requests and responses of the backend (backend/app/models/onboarding.py,
  backend/app/models/agent.py, backend/app/api/events.py), the attributes of the stored rows, and
  the validation of a row against the schema of a response, as pydantic does it with
  \<open>from_attributes\<close>: every field is looked up as an attribute and must have the type of its
  annotation.

  Conversions of pydantic (a text of digits for an integer, say) are left out: the attributes of a
  row have the Python types of its columns, for which there is nothing to convert.
\<close>

section \<open>Annotations and fields\<close>

datatype annotation =
    PUuid
  | PText
  | PInt
  | PFloat
  | PBool
  | PDict
  | PScores
  | PTime
  | POpt annotation
  | PList annotation
  | PModel string

datatype limit_check = MaxLength nat | MinLength nat | AtLeast real | AtMost real

record model_field =
  fd_name :: string
  fd_type :: annotation
  fd_default :: "json option"
  fd_checks :: "limit_check list"

definition required_field :: "string \<Rightarrow> annotation \<Rightarrow> limit_check list \<Rightarrow> model_field" where
  "required_field n a cs = \<lparr>fd_name = n, fd_type = a, fd_default = None, fd_checks = cs\<rparr>"

definition default_field :: "string \<Rightarrow> annotation \<Rightarrow> json \<Rightarrow> limit_check list \<Rightarrow> model_field" where
  "default_field n a d cs = \<lparr>fd_name = n, fd_type = a, fd_default = Some d, fd_checks = cs\<rparr>"

section \<open>The schemas\<close>

definition company_create_schema :: "model_field list" where
  "company_create_schema =
    [required_field ''name'' PText [MaxLength 255],
     required_field ''slug'' PText [MaxLength 255],
     default_field ''description'' (POpt PText) JNull [],
     default_field ''industry'' (POpt PText) JNull [],
     default_field ''size'' (POpt PText) JNull []]"

definition company_update_schema :: "model_field list" where
  "company_update_schema =
    [default_field ''name'' (POpt PText) JNull [MaxLength 255],
     default_field ''description'' (POpt PText) JNull [],
     default_field ''industry'' (POpt PText) JNull [],
     default_field ''size'' (POpt PText) JNull []]"

definition company_response_schema :: "model_field list" where
  "company_response_schema =
    [required_field ''id'' PUuid [],
     required_field ''name'' PText [],
     required_field ''slug'' PText [],
     required_field ''description'' (POpt PText) [],
     required_field ''industry'' (POpt PText) [],
     required_field ''size'' (POpt PText) [],
     required_field ''vision_statement'' (POpt PText) [],
     required_field ''selected_models'' (POpt PDict) [],
     required_field ''integrations'' (POpt PDict) [],
     required_field ''onboarding_completed'' PBool [],
     required_field ''created_at'' PTime [],
     required_field ''updated_at'' PTime []]"

definition onboarding_step_data_schema :: "model_field list" where
  "onboarding_step_data_schema =
    [required_field ''step'' PInt [],
     required_field ''step_key'' PText [],
     default_field ''data'' PDict (JObj []) []]"

definition onboarding_session_response_schema :: "model_field list" where
  "onboarding_session_response_schema =
    [required_field ''id'' PUuid [],
     required_field ''company_id'' PUuid [],
     required_field ''current_step'' PInt [],
     required_field ''total_steps'' PInt [],
     required_field ''step_data'' (POpt PDict) [],
     required_field ''status'' PText [],
     required_field ''created_at'' PTime []]"

definition vision_upload_schema :: "model_field list" where
  "vision_upload_schema =
    [required_field ''vision_text'' PText [],
     default_field ''format'' PText (JStr ''text'') []]"

definition knowledge_graph_response_schema :: "model_field list" where
  "knowledge_graph_response_schema =
    [required_field ''id'' PUuid [],
     required_field ''company_id'' PUuid [],
     required_field ''nodes'' (POpt PDict) [],
     required_field ''edges'' (POpt PDict) [],
     required_field ''domains'' (POpt PDict) [],
     required_field ''capabilities'' (POpt PDict) []]"

definition constitution_response_schema :: "model_field list" where
  "constitution_response_schema =
    [required_field ''id'' PUuid [],
     required_field ''company_id'' PUuid [],
     required_field ''mission'' (POpt PText) [],
     required_field ''values'' (POpt PDict) [],
     required_field ''principles'' (POpt PDict) [],
     required_field ''governance'' (POpt PDict) [],
     required_field ''operational_rules'' (POpt PDict) [],
     required_field ''full_text'' (POpt PText) []]"

definition roadmap_response_schema :: "model_field list" where
  "roadmap_response_schema =
    [required_field ''id'' PUuid [],
     required_field ''company_id'' PUuid [],
     required_field ''phases'' (POpt PDict) [],
     required_field ''milestones'' (POpt PDict) [],
     required_field ''timeline'' (POpt PDict) [],
     required_field ''priorities'' (POpt PDict) []]"

definition architecture_plan_response_schema :: "model_field list" where
  "architecture_plan_response_schema =
    [required_field ''id'' PUuid [],
     required_field ''company_id'' PUuid [],
     required_field ''tech_stack'' (POpt PDict) [],
     required_field ''system_design'' (POpt PDict) [],
     required_field ''data_models'' (POpt PDict) [],
     required_field ''api_spec'' (POpt PDict) [],
     required_field ''infrastructure'' (POpt PDict) [],
     required_field ''full_text'' (POpt PText) []]"

definition task_response_schema :: "model_field list" where
  "task_response_schema =
    [required_field ''id'' PUuid [],
     required_field ''company_id'' PUuid [],
     required_field ''title'' PText [],
     required_field ''description'' (POpt PText) [],
     required_field ''status'' PText [],
     required_field ''priority'' PText [],
     required_field ''assignee_role'' (POpt PText) [],
     required_field ''parent_task_id'' (POpt PUuid) [],
     required_field ''dependencies'' (POpt PDict) [],
     required_field ''metadata'' (POpt PDict) []]"

definition workflow_response_schema :: "model_field list" where
  "workflow_response_schema =
    [required_field ''id'' PUuid [],
     required_field ''company_id'' PUuid [],
     required_field ''name'' PText [],
     required_field ''description'' (POpt PText) [],
     required_field ''trigger'' (POpt PDict) [],
     required_field ''steps'' (POpt PDict) [],
     required_field ''assigned_agents'' (POpt PDict) [],
     required_field ''is_active'' PBool []]"

definition activity_event_response_schema :: "model_field list" where
  "activity_event_response_schema =
    [required_field ''id'' PUuid [],
     required_field ''company_id'' PUuid [],
     required_field ''type'' PText [],
     required_field ''source'' PText [],
     required_field ''source_id'' (POpt PText) [],
     required_field ''title'' PText [],
     required_field ''description'' (POpt PText) [],
     required_field ''metadata'' (POpt PDict) [],
     required_field ''created_at'' PTime []]"

definition activity_event_filter_schema :: "model_field list" where
  "activity_event_filter_schema =
    [default_field ''types'' (POpt (PList PText)) JNull [],
     default_field ''source'' (POpt PText) JNull [],
     default_field ''since'' (POpt PTime) JNull [],
     default_field ''before'' (POpt PTime) JNull [],
     default_field ''limit'' PInt (JInt 50) []]"

definition onboarding_complete_response_schema :: "model_field list" where
  "onboarding_complete_response_schema =
    [required_field ''company'' (PModel ''CompanyResponse'') [],
     required_field ''knowledge_graph'' (POpt (PModel ''KnowledgeGraphResponse'')) [],
     required_field ''constitution'' (POpt (PModel ''ConstitutionResponse'')) [],
     required_field ''roadmap'' (POpt (PModel ''RoadmapResponse'')) [],
     required_field ''architecture_plan'' (POpt (PModel ''ArchitecturePlanResponse'')) [],
     required_field ''tasks'' (PList (PModel ''TaskResponse'')) [],
     required_field ''workflows'' (PList (PModel ''WorkflowResponse'')) []]"

definition agent_register_schema :: "model_field list" where
  "agent_register_schema =
    [required_field ''role'' PText [MaxLength 100],
     required_field ''name'' PText [MaxLength 255],
     default_field ''description'' (POpt PText) JNull [],
     default_field ''capabilities'' (POpt PScores) JNull [],
     default_field ''cost_per_task'' PFloat (JNum 1) [AtLeast 0],
     default_field ''max_concurrent_tasks'' PInt (JInt 3) [AtLeast 1],
     default_field ''metadata'' (POpt PDict) JNull []]"

definition agent_update_schema :: "model_field list" where
  "agent_update_schema =
    [default_field ''name'' (POpt PText) JNull [],
     default_field ''description'' (POpt PText) JNull [],
     default_field ''status'' (POpt PText) JNull [],
     default_field ''capabilities'' (POpt PScores) JNull [],
     default_field ''cost_per_task'' (POpt PFloat) JNull [],
     default_field ''max_concurrent_tasks'' (POpt PInt) JNull [],
     default_field ''metadata'' (POpt PDict) JNull []]"

definition agent_response_schema :: "model_field list" where
  "agent_response_schema =
    [required_field ''id'' PUuid [],
     required_field ''company_id'' PUuid [],
     required_field ''role'' PText [],
     required_field ''name'' PText [],
     required_field ''description'' (POpt PText) [],
     required_field ''status'' PText [],
     required_field ''capabilities'' (POpt PDict) [],
     required_field ''cost_per_task'' PFloat [],
     required_field ''max_concurrent_tasks'' PInt [],
     required_field ''current_load'' PInt [],
     required_field ''metadata'' (POpt PDict) [],
     required_field ''created_at'' PTime [],
     required_field ''updated_at'' PTime []]"

definition agent_route_request_schema :: "model_field list" where
  "agent_route_request_schema =
    [required_field ''task_title'' PText [MaxLength 500],
     default_field ''task_description'' (POpt PText) JNull [],
     default_field ''required_domains'' (PList PText) (JArr []) [],
     default_field ''estimated_complexity'' PFloat (JNum 1) [AtLeast (1 / 10), AtMost 10],
     default_field ''priority'' PText (JStr ''medium'') []]"

definition agent_route_result_schema :: "model_field list" where
  "agent_route_result_schema =
    [required_field ''agent_id'' PUuid [],
     required_field ''agent_role'' PText [],
     required_field ''agent_name'' PText [],
     required_field ''score'' PFloat [],
     default_field ''breakdown'' PScores (JObj []) [],
     default_field ''reason'' PText (JStr []) [],
     default_field ''task_title'' (POpt PText) JNull []]"

definition agent_heartbeat_schema :: "model_field list" where
  "agent_heartbeat_schema =
    [required_field ''agent_id'' PUuid [],
     required_field ''company_id'' PUuid [],
     required_field ''current_load'' PInt [],
     required_field ''status'' PText [],
     default_field ''metadata'' (POpt PDict) JNull []]"

definition batch_route_request_schema :: "model_field list" where
  "batch_route_request_schema =
    [required_field ''tasks'' (PList (PModel ''AgentRouteRequest'')) [MinLength 1, MaxLength 100]]"

definition batch_route_response_schema :: "model_field list" where
  "batch_route_response_schema =
    [required_field ''assignments'' (PList (PModel ''AgentRouteResult'')) [],
     default_field ''unassigned'' (PList PText) (JArr []) []]"

definition emit_event_schema :: "model_field list" where
  "emit_event_schema =
    [required_field ''company_id'' PText [],
     required_field ''type'' PText [],
     required_field ''source'' PText [],
     required_field ''title'' PText [],
     default_field ''source_id'' (POpt PText) JNull [],
     default_field ''description'' (POpt PText) JNull [],
     default_field ''metadata'' (POpt PDict) JNull []]"

definition schemas :: "(string, model_field list) dict" where
  "schemas =
    [(''CompanyCreate'', company_create_schema),
     (''CompanyUpdate'', company_update_schema),
     (''CompanyResponse'', company_response_schema),
     (''OnboardingStepData'', onboarding_step_data_schema),
     (''OnboardingSessionResponse'', onboarding_session_response_schema),
     (''VisionUpload'', vision_upload_schema),
     (''KnowledgeGraphResponse'', knowledge_graph_response_schema),
     (''ConstitutionResponse'', constitution_response_schema),
     (''RoadmapResponse'', roadmap_response_schema),
     (''ArchitecturePlanResponse'', architecture_plan_response_schema),
     (''TaskResponse'', task_response_schema),
     (''WorkflowResponse'', workflow_response_schema),
     (''ActivityEventResponse'', activity_event_response_schema),
     (''ActivityEventFilter'', activity_event_filter_schema),
     (''OnboardingCompleteResponse'', onboarding_complete_response_schema),
     (''AgentRegister'', agent_register_schema),
     (''AgentUpdate'', agent_update_schema),
     (''AgentResponse'', agent_response_schema),
     (''AgentRouteRequest'', agent_route_request_schema),
     (''AgentRouteResult'', agent_route_result_schema),
     (''AgentHeartbeat'', agent_heartbeat_schema),
     (''BatchRouteRequest'', batch_route_request_schema),
     (''BatchRouteResponse'', batch_route_response_schema),
     (''EmitEventRequest'', emit_event_schema)]"

section \<open>The attributes of a row\<close>

text \<open>
  The value of an attribute: a JSON value, a UUID, a datetime (whichever), a validated instance of
  another schema, a list, or the \<open>MetaData\<close> object of the declarative base class.
\<close>

datatype attribute =
    Value json
  | UuidObj uuid
  | TimeObj
  | Instance string
  | Objects "attribute list"
  | MetaData

text \<open>
  The schemas with a field \<open>metadata\<close> read the attribute of that name. The column "metadata" is the
  attribute \<open>meta\<close> of the classes Agent, Task and ActivityEvent; their attribute \<open>metadata\<close> is the
  MetaData object of the base class.
\<close>

definition text_or_none :: "string option \<Rightarrow> attribute" where
  "text_or_none x = Value (case x of None \<Rightarrow> JNull | Some s \<Rightarrow> JStr s)"

definition dict_or_none :: "(string, json) dict option \<Rightarrow> attribute" where
  "dict_or_none x = Value (case x of None \<Rightarrow> JNull | Some d \<Rightarrow> JObj d)"

definition uuid_or_none :: "uuid option \<Rightarrow> attribute" where
  "uuid_or_none x = (case x of None \<Rightarrow> Value JNull | Some i \<Rightarrow> UuidObj i)"

definition json_texts :: "string list \<Rightarrow> json" where
  "json_texts xs = JArr (map JStr xs)"

definition json_dict :: "('v \<Rightarrow> json) \<Rightarrow> (string, 'v) dict \<Rightarrow> json" where
  "json_dict f d = JObj (map (\<lambda>(k, v). (k, f v)) d)"

subsection \<open>The documents as JSON\<close>

definition domain_json :: "kg_domain \<Rightarrow> json" where
  "domain_json d = JObj [(''name'', JStr (dm_name d)), (''relevance_score'', JNum (dm_relevance d)),
     (''keywords_matched'', json_texts (dm_keywords d))]"

definition capability_json :: "kg_capability \<Rightarrow> json" where
  "capability_json c = JObj [(''name'', JStr (kc_name c)), (''required'', JBool (kc_required c)),
     (''patterns_matched'', json_texts (kc_patterns c))]"

definition node_json :: "kg_node \<Rightarrow> json" where
  "node_json n = JObj [(''id'', JStr (nd_id n)), (''type'', JStr (nd_type n)), (''label'', JStr (nd_label n)),
     (''properties'', JObj (nd_properties n))]"

definition edge_json :: "kg_edge \<Rightarrow> json" where
  "edge_json e = JObj [(''source'', JStr (ed_source e)), (''target'', JStr (ed_target e)),
     (''type'', JStr (ed_type e)), (''label'', JStr (ed_label e))]"

definition value_json :: "company_value \<Rightarrow> json" where
  "value_json v = JObj [(''name'', JStr (va_name v)), (''indicators'', json_texts (va_indicators v))]"

definition phase_json :: "phase \<Rightarrow> json" where
  "phase_json p = JObj [(''name'', JStr (ph_name p)), (''order'', JInt (ph_order p)),
     (''duration_weeks'', JInt (ph_weeks p)), (''objective'', JStr (ph_objective p)),
     (''deliverables'', json_texts (ph_deliverables p)),
     (''agent_assignments'', json_dict json_texts (ph_assignments p))]"

definition milestone_json :: "milestone \<Rightarrow> json" where
  "milestone_json m = JObj [(''name'', JStr (ms_name m)), (''phase'', JStr (ms_phase m)),
     (''week'', JInt (ms_week m)), (''success_criteria'', JStr (ms_criteria m))]"

definition timeline_json :: "timeline \<Rightarrow> json" where
  "timeline_json t = JObj [(''total_weeks'', JInt (tl_total_weeks t)), (''total_months'', JNum (tl_total_months t)),
     (''start_phase'', JStr (tl_start_phase t)), (''current_phase'', JStr (tl_current_phase t)),
     (''phases_in_order'', json_texts (tl_phases_in_order t))]"

definition tech_stack_json :: "tech_stack \<Rightarrow> json" where
  "tech_stack_json t = JObj [(''frontend'', json_dict JStr (ts_frontend t)), (''backend'', json_dict JStr (ts_backend t)),
     (''database'', json_dict JStr (ts_database t)), (''ai_models'', JObj (ts_ai_models t)),
     (''infrastructure'', json_dict JStr (ts_infrastructure t)), (''browser_automation'', json_dict JStr (ts_browser t))]"

definition step_json :: "nat \<times> string \<times> string \<Rightarrow> json" where
  "step_json s = (case s of (n, act, ag) \<Rightarrow>
     JObj [(''order'', JInt (int n)), (''action'', JStr act), (''agent'', JStr ag)])"

subsection \<open>The rows\<close>

definition company_attributes :: "company \<Rightarrow> (string, attribute) dict" where
  "company_attributes c =
     [(''id'', UuidObj (co_id c)), (''name'', Value (JStr (co_name c))), (''slug'', Value (JStr (co_slug c))),
      (''description'', text_or_none (co_description c)), (''industry'', text_or_none (co_industry c)),
      (''size'', text_or_none (co_size c)), (''vision_statement'', text_or_none (co_vision c)),
      (''selected_models'', dict_or_none (co_models c)), (''integrations'', dict_or_none (co_integrations c)),
      (''onboarding_completed'', Value (JBool (co_completed c))), (''created_at'', TimeObj), (''updated_at'', TimeObj)]"

definition session_attributes :: "onboarding_session \<Rightarrow> (string, attribute) dict" where
  "session_attributes x =
     [(''id'', UuidObj (os_id x)), (''company_id'', UuidObj (os_company x)), (''current_step'', Value (JInt (os_step x))),
      (''total_steps'', Value (JInt (os_total x))), (''step_data'', dict_or_none (os_data x)),
      (''status'', Value (JStr (os_status x))), (''created_at'', TimeObj)]"

definition graph_attributes :: "kg_analysis document \<Rightarrow> (string, attribute) dict" where
  "graph_attributes d =
     [(''id'', UuidObj (dc_id d)), (''company_id'', UuidObj (dc_company d)),
      (''nodes'', Value (json_dict node_json (an_nodes (dc_content d)))),
      (''edges'', Value (json_dict edge_json (an_edges (dc_content d)))),
      (''domains'', Value (json_dict domain_json (an_domains (dc_content d)))),
      (''capabilities'', Value (json_dict capability_json (an_capabilities (dc_content d)))), (''created_at'', TimeObj)]"

definition constitution_attributes :: "constitution document \<Rightarrow> (string, attribute) dict" where
  "constitution_attributes d =
     [(''id'', UuidObj (dc_id d)), (''company_id'', UuidObj (dc_company d)),
      (''mission'', Value (JStr (cn_mission (dc_content d)))),
      (''values'', Value (json_dict value_json (cn_values (dc_content d)))),
      (''principles'', Value (JObj (cn_principles (dc_content d)))),
      (''governance'', Value (JObj (cn_governance (dc_content d)))),
      (''operational_rules'', Value (JObj (cn_rules (dc_content d)))),
      (''full_text'', Value (JStr (cn_text (dc_content d)))), (''created_at'', TimeObj)]"

definition roadmap_attributes :: "roadmap document \<Rightarrow> (string, attribute) dict" where
  "roadmap_attributes d =
     [(''id'', UuidObj (dc_id d)), (''company_id'', UuidObj (dc_company d)),
      (''phases'', Value (json_dict phase_json (rm_phases (dc_content d)))),
      (''milestones'', Value (json_dict milestone_json (rm_milestones (dc_content d)))),
      (''timeline'', Value (timeline_json (rm_timeline (dc_content d)))),
      (''priorities'', Value (json_dict json_texts (rm_priorities (dc_content d)))), (''created_at'', TimeObj)]"

definition plan_attributes :: "architecture document \<Rightarrow> (string, attribute) dict" where
  "plan_attributes d =
     [(''id'', UuidObj (dc_id d)), (''company_id'', UuidObj (dc_company d)),
      (''tech_stack'', Value (tech_stack_json (ar_tech_stack (dc_content d)))),
      (''system_design'', Value (JObj (ar_system_design (dc_content d)))),
      (''data_models'', Value (JObj (ar_data_models (dc_content d)))),
      (''api_spec'', Value (JObj (ar_api_spec (dc_content d)))),
      (''infrastructure'', Value (JObj (ar_infrastructure (dc_content d)))),
      (''full_text'', Value (JStr (ar_text (dc_content d)))), (''created_at'', TimeObj)]"

text \<open>No code writes \<open>parent_task_id\<close>.\<close>

definition task_attributes :: "task \<Rightarrow> (string, attribute) dict" where
  "task_attributes t =
     [(''id'', uuid_or_none (tk_id t)), (''company_id'', UuidObj (tk_company t)), (''title'', Value (JStr (tk_title t))),
      (''description'', text_or_none (tk_description t)), (''status'', Value (JStr (tk_status t))),
      (''priority'', Value (JStr (tk_priority t))), (''assignee_role'', text_or_none (tk_assignee t)),
      (''assignee_agent_id'', uuid_or_none (tk_agent t)), (''parent_task_id'', Value JNull),
      (''dependencies'', dict_or_none (tk_deps t)), (''meta'', Value (JObj (tk_meta t))),
      (''metadata'', MetaData), (''created_at'', TimeObj), (''updated_at'', TimeObj)]"

text \<open>Every stored workflow is active: no code writes the column.\<close>

definition workflow_attributes :: "workflow \<Rightarrow> (string, attribute) dict" where
  "workflow_attributes w =
     [(''id'', uuid_or_none (wf_id w)), (''company_id'', UuidObj (wf_company w)), (''name'', Value (JStr (wf_name w))),
      (''description'', text_or_none (wf_description w)), (''trigger'', Value (json_dict JStr (wf_trigger w))),
      (''steps'', Value (JArr (map step_json (wf_steps w)))),
      (''assigned_agents'', Value (json_dict JBool (wf_agents w))), (''is_active'', Value (JBool True)),
      (''created_at'', TimeObj)]"

definition event_attributes :: "activity_event \<Rightarrow> (string, attribute) dict" where
  "event_attributes e =
     [(''id'', UuidObj (ev_id e)), (''company_id'', UuidObj (ev_company e)), (''type'', Value (JStr (ev_type e))),
      (''source'', Value (JStr (ev_source e))), (''source_id'', text_or_none (ev_source_id e)),
      (''title'', Value (JStr (ev_title e))), (''description'', text_or_none (ev_description e)),
      (''meta'', Value (JObj (ev_meta e))), (''metadata'', MetaData),
      (''created_at'', TimeObj)]"

definition agent_attributes :: "agent \<Rightarrow> (string, attribute) dict" where
  "agent_attributes a =
     [(''id'', UuidObj (ag_id a)), (''company_id'', UuidObj (ag_company a)), (''role'', Value (JStr (ag_role a))),
      (''name'', Value (JStr (ag_name a))), (''description'', text_or_none (ag_description a)),
      (''status'', Value (JStr (ag_status a))),
      (''capabilities'', Value (case ag_caps a of None \<Rightarrow> JNull | Some d \<Rightarrow> json_dict JNum d)),
      (''cost_per_task'', Value (JNum (ag_cost a))), (''max_concurrent_tasks'', Value (JInt (ag_max a))),
      (''current_load'', Value (JInt (ag_load a))), (''meta'', dict_or_none (ag_meta a)),
      (''metadata'', MetaData), (''created_at'', TimeObj), (''updated_at'', TimeObj)]"

section \<open>Validation\<close>

definition json_number :: "json \<Rightarrow> bool" where
  "json_number v = (case v of JNum x \<Rightarrow> True | JInt i \<Rightarrow> True | _ \<Rightarrow> False)"

fun accepts :: "annotation \<Rightarrow> attribute \<Rightarrow> bool" where
  "accepts PUuid v = (case v of UuidObj i \<Rightarrow> True | _ \<Rightarrow> False)"
| "accepts PText v = (case v of Value (JStr s) \<Rightarrow> True | _ \<Rightarrow> False)"
| "accepts PInt v = (case v of Value (JInt i) \<Rightarrow> True | _ \<Rightarrow> False)"
| "accepts PFloat v = (case v of Value x \<Rightarrow> json_number x | _ \<Rightarrow> False)"
| "accepts PBool v = (case v of Value (JBool b) \<Rightarrow> True | _ \<Rightarrow> False)"
| "accepts PDict v = (case v of Value (JObj d) \<Rightarrow> True | _ \<Rightarrow> False)"
| "accepts PScores v = (case v of Value (JObj d) \<Rightarrow> list_all (json_number \<circ> snd) d | _ \<Rightarrow> False)"
| "accepts PTime v = (case v of TimeObj \<Rightarrow> True | _ \<Rightarrow> False)"
| "accepts (POpt a) v = (v = Value JNull \<or> accepts a v)"
| "accepts (PList a) v = (case v of Objects vs \<Rightarrow> list_all (accepts a) vs | _ \<Rightarrow> False)"
| "accepts (PModel m) v = (v = Instance m)"

definition field_valid :: "(string, attribute) dict \<Rightarrow> model_field \<Rightarrow> bool" where
  "field_valid attrs f \<longleftrightarrow>
     (case dict_get attrs (fd_name f) of None \<Rightarrow> fd_default f \<noteq> None | Some v \<Rightarrow> accepts (fd_type f) v)"

definition model_validate :: "string \<Rightarrow> (string, attribute) dict \<Rightarrow> unit result" where
  "model_validate m attrs =
     (if list_all (field_valid attrs) (dict_get_or schemas m []) then Inr () else Inl ValidationError)"

fun validate_all :: "('a \<Rightarrow> 'b result) \<Rightarrow> 'a list \<Rightarrow> 'b list result" where
  "validate_all f [] = Inr []"
| "validate_all f (x # xs) =
     (case f x of Inl e \<Rightarrow> Inl e
      | Inr y \<Rightarrow> (case validate_all f xs of Inl e \<Rightarrow> Inl e | Inr ys \<Rightarrow> Inr (y # ys)))"

section \<open>Which rows can be answered\<close>

lemmas attribute_defs = json_number_def text_or_none_def dict_or_none_def uuid_or_none_def json_dict_def
  json_texts_def timeline_json_def tech_stack_json_def

lemmas response_schemas = company_response_schema_def onboarding_session_response_schema_def
  knowledge_graph_response_schema_def constitution_response_schema_def roadmap_response_schema_def
  architecture_plan_response_schema_def task_response_schema_def workflow_response_schema_def
  activity_event_response_schema_def agent_response_schema_def

lemmas validation_simps = model_validate_def field_valid_def schemas_def dict_get_or_def dict_get_def required_field_def
  default_field_def attribute_defs response_schemas

lemma company_answered: "model_validate ''CompanyResponse'' (company_attributes c) = Inr ()"
  by (simp add: validation_simps company_attributes_def split: option.split)

lemma session_answered: "model_validate ''OnboardingSessionResponse'' (session_attributes x) = Inr ()"
  by (simp add: validation_simps session_attributes_def split: option.split)

lemma graph_answered: "model_validate ''KnowledgeGraphResponse'' (graph_attributes g) = Inr ()"
  by (simp add: validation_simps graph_attributes_def)

lemma constitution_answered: "model_validate ''ConstitutionResponse'' (constitution_attributes k) = Inr ()"
  by (simp add: validation_simps constitution_attributes_def)

lemma roadmap_answered: "model_validate ''RoadmapResponse'' (roadmap_attributes r) = Inr ()"
  by (simp add: validation_simps roadmap_attributes_def)

lemma plan_answered: "model_validate ''ArchitecturePlanResponse'' (plan_attributes p) = Inr ()"
  by (simp add: validation_simps plan_attributes_def)

lemma task_unanswered: "model_validate ''TaskResponse'' (task_attributes t) = Inl ValidationError"
  by (simp add: validation_simps task_attributes_def)

lemma event_unanswered: "model_validate ''ActivityEventResponse'' (event_attributes e) = Inl ValidationError"
  by (simp add: validation_simps event_attributes_def)

lemma agent_unanswered: "model_validate ''AgentResponse'' (agent_attributes a) = Inl ValidationError"
  by (simp add: validation_simps agent_attributes_def)

lemma workflow_unanswered: "model_validate ''WorkflowResponse'' (workflow_attributes w) = Inl ValidationError"
  by (simp add: validation_simps workflow_attributes_def)

text \<open>
  C20. Which stored rows can be sent. The rows of companies, sessions and of all four generated
  documents pass the validation of their response, whatever they hold; no task, event or agent
  ever passes, because the field \<open>metadata\<close> reads an object that is no dictionary, and no workflow
  ever passes, because its steps are a list where the schema has a dictionary.
\<close>

theorem stored_rows_answered:
  "model_validate ''CompanyResponse'' (company_attributes c) = Inr () \<and>
   model_validate ''OnboardingSessionResponse'' (session_attributes x) = Inr () \<and>
   model_validate ''KnowledgeGraphResponse'' (graph_attributes g) = Inr () \<and>
   model_validate ''ConstitutionResponse'' (constitution_attributes k) = Inr () \<and>
   model_validate ''RoadmapResponse'' (roadmap_attributes r) = Inr () \<and>
   model_validate ''ArchitecturePlanResponse'' (plan_attributes p) = Inr () \<and>
   model_validate ''TaskResponse'' (task_attributes t) = Inl ValidationError \<and>
   model_validate ''ActivityEventResponse'' (event_attributes e) = Inl ValidationError \<and>
   model_validate ''AgentResponse'' (agent_attributes a) = Inl ValidationError \<and>
   model_validate ''WorkflowResponse'' (workflow_attributes w) = Inl ValidationError"
  by (intro conjI company_answered session_answered graph_answered constitution_answered roadmap_answered
      plan_answered task_unanswered event_unanswered agent_unanswered workflow_unanswered)

section \<open>Schemas and columns\<close>

fun column_type :: "col_type \<Rightarrow> annotation" where
  "column_type UuidT = PUuid"
| "column_type (Str n) = PText"
| "column_type TextT = PText"
| "column_type JsonT = PDict"
| "column_type BoolT = PBool"
| "column_type IntT = PInt"
| "column_type FloatT = PFloat"
| "column_type TimeT = PTime"

text \<open>A field is served by a column of its name with its type, which can be NULL only if the field can.\<close>

definition field_served :: "column list \<Rightarrow> model_field \<Rightarrow> bool" where
  "field_served cs f \<longleftrightarrow> fd_name f \<noteq> ''metadata'' \<and>
     list_ex (\<lambda>c. cl_name c = fd_name f \<and>
        (fd_type f = POpt (column_type (cl_type c)) \<or>
         fd_type f = column_type (cl_type c) \<and> cl_null c \<noteq> Nullable)) cs"

definition response_tables :: "(string \<times> string) list" where
  "response_tables =
     [(''CompanyResponse'', ''companies''), (''OnboardingSessionResponse'', ''onboarding_sessions''),
      (''KnowledgeGraphResponse'', ''knowledge_graphs''), (''ConstitutionResponse'', ''constitutions''),
      (''RoadmapResponse'', ''roadmaps''), (''ArchitecturePlanResponse'', ''architecture_plans''),
      (''TaskResponse'', ''tasks''), (''WorkflowResponse'', ''workflows''),
      (''ActivityEventResponse'', ''activity_events''), (''AgentResponse'', ''agents'')]"

definition response_gaps :: "(string \<times> string) list" where
  "response_gaps =
     [(r, fd_name f). (r, t) \<leftarrow> response_tables, f \<leftarrow> dict_get_or schemas r [],
        \<not> field_served (dict_get_or models t []) f]"

text \<open>The requests whose texts are written to columns of the same name.\<close>

definition request_tables :: "(string \<times> string) list" where
  "request_tables =
     [(''CompanyCreate'', ''companies''), (''CompanyUpdate'', ''companies''), (''AgentRegister'', ''agents''),
      (''AgentUpdate'', ''agents''), (''AgentHeartbeat'', ''agents''), (''EmitEventRequest'', ''activity_events'')]"

definition is_text :: "annotation \<Rightarrow> bool" where
  "is_text a \<longleftrightarrow> a = PText \<or> a = POpt PText"

fun shorter :: "nat \<Rightarrow> limit_check \<Rightarrow> bool" where
  "shorter n (MaxLength m) = (m \<le> n)"
| "shorter n _ = False"

fun text_size :: "col_type \<Rightarrow> nat option" where
  "text_size (Str n) = Some n"
| "text_size _ = None"

text \<open>The texts a request can hold and its column cannot, with the size of the column.\<close>

definition overlong_inputs :: "(string \<times> string \<times> nat) list" where
  "overlong_inputs =
     [(r, fd_name f, n). (r, t) \<leftarrow> request_tables, f \<leftarrow> dict_get_or schemas r [],
        c \<leftarrow> dict_get_or models t [], cl_name c = fd_name f \<and> is_text (fd_type f),
        n \<leftarrow> (case text_size (cl_type c) of None \<Rightarrow> [] | Some n \<Rightarrow> [n]),
        \<not> list_ex (shorter n) (fd_checks f)]"

text \<open>
  The schemas against the tables. Every field of a response has a column of its name, with
  its type and never NULL where the field needs a value, except the three fields
  \<open>metadata\<close>. Thirteen texts of requests have no limit, or none as small, although their columns do:
  a longer one passes the validation and is refused by the database. Only the type of an emitted
  event is checked by its handler.
\<close>

lemma schemas_against_tables:
  "response_gaps = [(''TaskResponse'', ''metadata''), (''ActivityEventResponse'', ''metadata''),
     (''AgentResponse'', ''metadata'')] \<and>
   overlong_inputs =
     [(''CompanyCreate'', ''industry'', 255), (''CompanyCreate'', ''size'', 50),
      (''CompanyUpdate'', ''industry'', 255), (''CompanyUpdate'', ''size'', 50),
      (''AgentRegister'', ''description'', 1000), (''AgentUpdate'', ''name'', 255),
      (''AgentUpdate'', ''description'', 1000), (''AgentUpdate'', ''status'', 50),
      (''AgentHeartbeat'', ''status'', 50), (''EmitEventRequest'', ''type'', 50),
      (''EmitEventRequest'', ''source'', 100), (''EmitEventRequest'', ''title'', 500),
      (''EmitEventRequest'', ''source_id'', 255)]"
  by (intro conjI; code_simp)

end
