(* ===== verification/Api.thy ===== *)
theory Api
  imports Schemas
begin

text \<open>
  The HTTP interface of the backend (backend/app/api/onboarding.py, companies.py, agents.py,
  events.py and core/database.py): the handlers over the modelled services, the database session
  of a request, the schemas of the responses and the table of the agent routes. An exception
  that a handler does not turn into an HTTPException is a response with status 500.
\<close>

section \<open>The session of a request\<close>

text \<open>
  \<open>get_db\<close> opens a session for the request and closes it when the request ends:
  \<open>async with async_session() as session: yield session\<close>. Closing a session rolls back the
  transaction that it has open; a transaction is kept only by a commit. No handler and no service
  of the backend calls commit, and the session maker is not told to commit by itself, so the
  transaction of a request is still open when its session closes. What the request published on
  the in-memory bus stays, and the random identifiers and the clock go on.
\<close>

definition close_session :: "'a site_scheme \<Rightarrow> 'a site_scheme \<Rightarrow> 'a site_scheme" where
  "close_session opened s = opened\<lparr>es_bus := es_bus s, es_tick := es_tick s\<rparr>"

definition get_db :: "('a site_scheme \<Rightarrow> 'r \<times> 'a site_scheme) \<Rightarrow> 'a site_scheme \<Rightarrow> 'r \<times> 'a site_scheme" where
  "get_db handler s = (let (r, s1) = handler s in (r, close_session s s1))"

section \<open>The responses\<close>

text \<open>A row as the response of a schema: the row itself when it is valid.\<close>

definition answered :: "string \<Rightarrow> ('r \<Rightarrow> (string, attribute) dict) \<Rightarrow> 'r \<Rightarrow> 'r result" where
  "answered m attributes x = map_sum id (\<lambda>_. x) (model_validate m (attributes x))"

definition company_response :: "company \<Rightarrow> company result" where
  "company_response = answered ''CompanyResponse'' company_attributes"

definition session_response :: "onboarding_session \<Rightarrow> onboarding_session result" where
  "session_response = answered ''OnboardingSessionResponse'' session_attributes"

definition graph_response :: "kg_analysis document \<Rightarrow> kg_analysis document result" where
  "graph_response = answered ''KnowledgeGraphResponse'' graph_attributes"

definition constitution_response :: "constitution document \<Rightarrow> constitution document result" where
  "constitution_response = answered ''ConstitutionResponse'' constitution_attributes"

definition roadmap_response :: "roadmap document \<Rightarrow> roadmap document result" where
  "roadmap_response = answered ''RoadmapResponse'' roadmap_attributes"

definition plan_response :: "architecture document \<Rightarrow> architecture document result" where
  "plan_response = answered ''ArchitecturePlanResponse'' plan_attributes"

definition agent_response :: "agent \<Rightarrow> agent result" where
  "agent_response = answered ''AgentResponse'' agent_attributes"

definition task_response :: "task \<Rightarrow> task result" where
  "task_response = answered ''TaskResponse'' task_attributes"

definition workflow_response :: "workflow \<Rightarrow> workflow result" where
  "workflow_response = answered ''WorkflowResponse'' workflow_attributes"

definition event_response :: "activity_event \<Rightarrow> activity_event result" where
  "event_response = answered ''ActivityEventResponse'' event_attributes"

text \<open>The response of a finished onboarding; \<open>generate\<close> wrote all four documents.\<close>

record onboarding_complete =
  cr_company :: company
  cr_graph :: "kg_analysis document"
  cr_constitution :: "constitution document"
  cr_roadmap :: "roadmap document"
  cr_plan :: "architecture document"
  cr_tasks :: "task list"
  cr_workflows :: "workflow list"

definition complete_response :: "outcome \<Rightarrow> onboarding_complete result" where
  "complete_response oc =
     bind_result (company_response (oc_company oc)) (\<lambda>c.
     bind_result (graph_response (oc_graph oc)) (\<lambda>g.
     bind_result (constitution_response (oc_constitution oc)) (\<lambda>k.
     bind_result (roadmap_response (oc_roadmap oc)) (\<lambda>r.
     bind_result (plan_response (oc_plan oc)) (\<lambda>p.
     bind_result (validate_all task_response (oc_tasks oc)) (\<lambda>ts.
     bind_result (validate_all workflow_response (oc_workflows oc)) (\<lambda>ws.
       Inr \<lparr>cr_company = c, cr_graph = g, cr_constitution = k, cr_roadmap = r, cr_plan = p, cr_tasks = ts,
            cr_workflows = ws\<rparr>)))))))"

lemma responses_valid [simp]:
  "company_response c = Inr c" "session_response x = Inr x" "graph_response g = Inr g"
  "constitution_response k = Inr k" "roadmap_response r = Inr r" "plan_response p = Inr p"
  by (simp_all add: company_response_def session_response_def graph_response_def constitution_response_def
      roadmap_response_def plan_response_def answered_def company_answered session_answered graph_answered
      constitution_answered roadmap_answered plan_answered)

lemma responses_invalid [simp]:
  "agent_response a = Inl ValidationError" "task_response t = Inl ValidationError"
  "event_response e = Inl ValidationError" "workflow_response w = Inl ValidationError"
  by (simp_all add: agent_response_def task_response_def event_response_def workflow_response_def answered_def
      agent_unanswered task_unanswered event_unanswered workflow_unanswered)

section \<open>Onboarding\<close>

definition start_onboarding ::
  "string \<Rightarrow> string \<Rightarrow> string option \<Rightarrow> string option \<Rightarrow> string option \<Rightarrow> 'a site_scheme \<Rightarrow>
   onboarding_session result \<times> 'a site_scheme" where
  "start_onboarding name slug description industry company_size s =
     (if 255 < char_count name \<or> 255 < char_count slug then (Inl ValidationError, s)
      else case create_company name slug description industry company_size s of
        (Inl e, s1) \<Rightarrow> (Inl e, s1)
      | (Inr c, s1) \<Rightarrow>
          (case find_session (co_id c) s1 of None \<Rightarrow> (Inl OtherError, s1) | Some x \<Rightarrow> (session_response x, s1)))"

definition api_process ::
  "string \<Rightarrow> uuid \<Rightarrow> 'a site_scheme \<Rightarrow> onboarding_complete result \<times> 'a site_scheme" where
  "api_process validation_text company s =
     (case process_onboarding company s of
        (Inl (ValueError m), s1) \<Rightarrow> (Inl (HTTPException 400 m), s1)
      | (Inl ValidationError, s1) \<Rightarrow> (Inl (HTTPException 400 validation_text), s1)
      | (Inl e, s1) \<Rightarrow> (Inl e, s1)
      | (Inr oc, s1) \<Rightarrow> (complete_response oc, s1))"

definition required :: "string \<Rightarrow> 'r option \<Rightarrow> 'r result" where
  "required what x = (case x of None \<Rightarrow> Inl (HTTPException 404 (what @ '' not found'')) | Some y \<Rightarrow> Inr y)"

definition api_get_session :: "uuid \<Rightarrow> 'a site_scheme \<Rightarrow> onboarding_session result" where
  "api_get_session company s =
     bind_result (required ''Session'' (find_session company s)) session_response"

definition get_knowledge_graph :: "uuid \<Rightarrow> 'a site_scheme \<Rightarrow> kg_analysis document result" where
  "get_knowledge_graph company s =
     bind_result (required ''Knowledge graph'' (find_document company (si_graphs s))) graph_response"

definition get_constitution :: "uuid \<Rightarrow> 'a site_scheme \<Rightarrow> constitution document result" where
  "get_constitution company s =
     bind_result (required ''Constitution'' (find_document company (si_constitutions s))) constitution_response"

definition get_roadmap :: "uuid \<Rightarrow> 'a site_scheme \<Rightarrow> roadmap document result" where
  "get_roadmap company s =
     bind_result (required ''Roadmap'' (find_document company (si_roadmaps s))) roadmap_response"

definition get_architecture :: "uuid \<Rightarrow> 'a site_scheme \<Rightarrow> architecture document result" where
  "get_architecture company s =
     bind_result (required ''Architecture plan'' (find_document company (si_plans s))) plan_response"

definition get_tasks :: "uuid \<Rightarrow> 'a site_scheme \<Rightarrow> task list result" where
  "get_tasks company s = validate_all task_response (filter (\<lambda>t. tk_company t = company) (st_tasks s))"

definition company_workflows :: "uuid \<Rightarrow> 'a site_scheme \<Rightarrow> workflow list" where
  "company_workflows company s = filter (\<lambda>w. wf_company w = company) (st_workflows s)"

definition get_workflows :: "uuid \<Rightarrow> 'a site_scheme \<Rightarrow> workflow list result" where
  "get_workflows company s = validate_all workflow_response (company_workflows company s)"

section \<open>Companies\<close>

definition list_companies :: "'a site_scheme \<Rightarrow> company list result" where
  "list_companies s = validate_all company_response (sort_key (\<lambda>c. - co_created c) (si_companies s))"

definition get_company :: "uuid \<Rightarrow> 'a site_scheme \<Rightarrow> company result" where
  "get_company company s =
     bind_result (required ''Company'' (find_company company s)) company_response"

record company_update =
  up_name :: "string option"
  up_description :: "string option"
  up_industry :: "string option"
  up_size :: "string option"

definition given :: "'v option \<Rightarrow> 'v option \<Rightarrow> 'v option" where
  "given new old = (case new of None \<Rightarrow> old | Some v \<Rightarrow> Some v)"

definition update_company ::
  "uuid \<Rightarrow> company_update \<Rightarrow> 'a site_scheme \<Rightarrow> company result \<times> 'a site_scheme" where
  "update_company company p s =
     (if (case up_name p of None \<Rightarrow> False | Some n \<Rightarrow> 255 < char_count n) then (Inl ValidationError, s)
      else case required ''Company'' (find_company company s) of
        Inl e \<Rightarrow> (Inl e, s)
      | Inr c \<Rightarrow>
          (let c1 = c\<lparr>co_name := (case up_name p of None \<Rightarrow> co_name c | Some n \<Rightarrow> n),
                      co_description := given (up_description p) (co_description c),
                      co_industry := given (up_industry p) (co_industry c),
                      co_size := given (up_size p) (co_size c)\<rparr>
           in (company_response c1, save_company c1 s)))"

text \<open>\<open>result.scalars().all()\<close> exhausts the result: a second call returns the empty list.\<close>

definition scalars_all :: "'r list \<Rightarrow> 'r list \<times> 'r list" where
  "scalars_all res = (res, [])"

record dashboard =
  da_company :: company
  da_graph :: "kg_analysis document option"
  da_constitution :: "constitution document option"
  da_roadmap :: "roadmap document option"
  da_plan :: "architecture document option"
  da_tasks :: "task list"
  da_workflows :: "workflow list"
  da_total_tasks :: nat
  da_active_workflows :: nat
  da_complete :: bool

definition get_dashboard :: "uuid \<Rightarrow> 'a site_scheme \<Rightarrow> dashboard result" where
  "get_dashboard company s =
     (case required ''Company'' (find_company company s) of Inl e \<Rightarrow> Inl e
      | Inr c \<Rightarrow>
          let tasks_result = filter (\<lambda>t. tk_company t = company) (st_tasks s);
              wf_result = company_workflows company s;
              (tasks, tasks_rest) = scalars_all tasks_result;
              (workflows, wf_rest) = scalars_all wf_result;
              (tasks2, _) = scalars_all tasks_rest;
              (workflows2, _) = scalars_all wf_rest
          in Inr \<lparr>da_company = c, da_graph = find_document company (si_graphs s),
                  da_constitution = find_document company (si_constitutions s),
                  da_roadmap = find_document company (si_roadmaps s), da_plan = find_document company (si_plans s),
                  da_tasks = tasks, da_workflows = workflows, da_total_tasks = length tasks2,
                  da_active_workflows = length workflows2, da_complete = co_completed c\<rparr>)"

section \<open>Agents\<close>

definition api_list_agents ::
  "uuid \<Rightarrow> string option \<Rightarrow> string option \<Rightarrow> 'a site_scheme \<Rightarrow> agent list result" where
  "api_list_agents company role status s = validate_all agent_response (list_agents company role status s)"

definition api_register_agent ::
  "uuid \<Rightarrow> agent_register \<Rightarrow> 'a site_scheme \<Rightarrow> agent result \<times> 'a site_scheme" where
  "api_register_agent company p s =
     (if 100 < char_count (reg_role p) \<or> 255 < char_count (reg_name p) \<or> reg_cost p < 0 \<or> reg_max p < 1
      then (Inl ValidationError, s)
      else case register_agent True company p s of
        (Inl e, s1) \<Rightarrow> (Inl e, s1)
      | (Inr a, s1) \<Rightarrow> (agent_response a, s1))"

definition api_get_agent :: "uuid \<Rightarrow> uuid \<Rightarrow> 'a site_scheme \<Rightarrow> agent result" where
  "api_get_agent company i s =
     (case find_agent i s of
        None \<Rightarrow> Inl (HTTPException 404 ''Agent not found'')
      | Some a \<Rightarrow> if ag_company a \<noteq> company then Inl (HTTPException 404 ''Agent not found'') else agent_response a)"

definition api_update_agent ::
  "uuid \<Rightarrow> uuid \<Rightarrow> agent_field list \<Rightarrow> 'a site_scheme \<Rightarrow> agent result \<times> 'a site_scheme" where
  "api_update_agent company i upd s =
     (case update_agent i upd s of
        Inl e \<Rightarrow> (Inl e, s)
      | Inr (None, s1) \<Rightarrow> (Inl (HTTPException 404 ''Agent not found''), s1)
      | Inr (Some a, s1) \<Rightarrow> (agent_response a, s1))"

definition api_delete_agent :: "uuid \<Rightarrow> uuid \<Rightarrow> 'a site_scheme \<Rightarrow> unit result \<times> 'a site_scheme" where
  "api_delete_agent company i s =
     (let (deleted, s1) = delete_agent i s
      in (if deleted then Inr () else Inl (HTTPException 404 ''Agent not found''), s1))"

definition api_seed_agents :: "uuid \<Rightarrow> 'a site_scheme \<Rightarrow> agent list result \<times> 'a site_scheme" where
  "api_seed_agents company s =
     (case seed_default_agents True company s of
        (Inl e, s1) \<Rightarrow> (Inl e, s1)
      | (Inr agents, s1) \<Rightarrow> (validate_all agent_response agents, s1))"

definition api_agent_heartbeat ::
  "uuid \<Rightarrow> int \<Rightarrow> string \<Rightarrow> (string, json) dict option \<Rightarrow> 'a site_scheme \<Rightarrow> agent result \<times> 'a site_scheme" where
  "api_agent_heartbeat i load status metadata s =
     (case update_heartbeat i load status metadata s of
        (Inl e, s1) \<Rightarrow> (Inl e, s1)
      | (Inr None, s1) \<Rightarrow> (Inl (HTTPException 404 ''Agent not found''), s1)
      | (Inr (Some a), s1) \<Rightarrow> (agent_response a, s1))"

text \<open>Only a RuntimeError becomes status 503.\<close>

definition unavailable :: "'r result \<times> 's \<Rightarrow> 'r result \<times> 's" where
  "unavailable r = (case r of (Inl (RuntimeError m), s) \<Rightarrow> (Inl (HTTPException 503 m), s) | _ \<Rightarrow> r)"

definition api_route_subtask ::
  "uuid \<Rightarrow> route_request \<Rightarrow> 'a site_scheme \<Rightarrow> route_result result \<times> 'a site_scheme" where
  "api_route_subtask company req s = unavailable (route_task True company req s)"

definition api_route_to_role ::
  "uuid \<Rightarrow> route_request \<Rightarrow> string \<Rightarrow> 'a site_scheme \<Rightarrow> route_result result \<times> 'a site_scheme" where
  "api_route_to_role company req role s = unavailable (route_task_to_role True company req role s)"

definition api_batch_route ::
  "uuid \<Rightarrow> route_request list \<Rightarrow> 'a site_scheme \<Rightarrow> batch_response result \<times> 'a site_scheme" where
  "api_batch_route company requests s =
     (if requests = [] \<or> 100 < length requests then (Inl ValidationError, s)
      else batch_route_tasks True company requests s)"

definition api_assign_subtask ::
  "string \<Rightarrow> uuid \<Rightarrow> string option \<Rightarrow> 'a site_scheme \<Rightarrow> unit result \<times> 'a site_scheme" where
  "api_assign_subtask task i title s = assign_subtask True task i title s"

definition api_complete_subtask ::
  "string \<Rightarrow> uuid \<Rightarrow> string option \<Rightarrow> 'a site_scheme \<Rightarrow> unit result \<times> 'a site_scheme" where
  "api_complete_subtask task i title s = complete_subtask True task i title s"

subsection \<open>The table of the routes\<close>

text \<open>
  The routes are tried in the order of their declaration; the first one whose method and path
  fit takes the request. A parameter fits every non-empty segment: its type is checked after
  the choice.
\<close>

datatype segment = Lit string | Param string

record route =
  rt_method :: string
  rt_path :: "segment list"
  rt_name :: string

fun path_fits :: "segment list \<Rightarrow> string list \<Rightarrow> bool" where
  "path_fits [] [] = True"
| "path_fits (Lit l # ps) (x # xs) = (x = l \<and> path_fits ps xs)"
| "path_fits (Param p # ps) (x # xs) = (x \<noteq> [] \<and> CHR ''/'' \<notin> set x \<and> path_fits ps xs)"
| "path_fits _ _ = False"

definition find_route :: "route list \<Rightarrow> string \<Rightarrow> string list \<Rightarrow> route option" where
  "find_route rs verb path = find (\<lambda>r. rt_method r = verb \<and> path_fits (rt_path r) path) rs"

definition agent_routes :: "route list" where
  "agent_routes =
     [\<lparr>rt_method = ''GET'', rt_path = [Param ''company_id''], rt_name = ''list_agents''\<rparr>,
      \<lparr>rt_method = ''POST'', rt_path = [Param ''company_id''], rt_name = ''register_agent''\<rparr>,
      \<lparr>rt_method = ''GET'', rt_path = [Param ''company_id'', Param ''agent_id''], rt_name = ''get_agent''\<rparr>,
      \<lparr>rt_method = ''PATCH'', rt_path = [Param ''company_id'', Param ''agent_id''], rt_name = ''update_agent''\<rparr>,
      \<lparr>rt_method = ''DELETE'', rt_path = [Param ''company_id'', Param ''agent_id''], rt_name = ''delete_agent''\<rparr>,
      \<lparr>rt_method = ''POST'', rt_path = [Param ''company_id'', Lit ''seed''], rt_name = ''seed_agents''\<rparr>,
      \<lparr>rt_method = ''POST'', rt_path = [Lit ''heartbeat''], rt_name = ''agent_heartbeat''\<rparr>,
      \<lparr>rt_method = ''POST'', rt_path = [Param ''company_id'', Lit ''route''], rt_name = ''route_subtask''\<rparr>,
      \<lparr>rt_method = ''POST'', rt_path = [Param ''company_id'', Lit ''route-to-role''], rt_name = ''route_subtask_to_role''\<rparr>,
      \<lparr>rt_method = ''POST'', rt_path = [Param ''company_id'', Lit ''batch-route''], rt_name = ''batch_route_subtasks''\<rparr>,
      \<lparr>rt_method = ''POST'', rt_path = [Param ''company_id'', Lit ''assign-subtask''], rt_name = ''assign_subtask''\<rparr>,
      \<lparr>rt_method = ''POST'', rt_path = [Param ''company_id'', Lit ''complete-subtask''], rt_name = ''complete_subtask''\<rparr>]"

section \<open>Events\<close>

text \<open>
  \<open>uuid.UUID(text)\<close> drops "urn:", "uuid:", braces and hyphens and reads 32 hexadecimal digits; the
  result is its canonical text. The prefixes, signs, blanks and underscores that \<open>int\<close> would
  also take are left out.
\<close>

fun remove_all :: "string \<Rightarrow> nat \<Rightarrow> string \<Rightarrow> string" where
  "remove_all w n [] = []"
| "remove_all w (Suc n) (c # cs) = remove_all w n cs"
| "remove_all w 0 (c # cs) =
     (if w \<noteq> [] \<and> prefix w (c # cs) then remove_all w (length w - 1) cs else c # remove_all w 0 cs)"

definition braces_strip :: "string \<Rightarrow> string" where
  "braces_strip s = rev (dropWhile (\<lambda>c. c \<in> set ''{}'') (rev (dropWhile (\<lambda>c. c \<in> set ''{}'') s)))"

definition hex_char :: "char \<Rightarrow> bool" where
  "hex_char c \<longleftrightarrow> c \<in> set ''0123456789abcdefABCDEF''"

definition canonical_uuid :: "string \<Rightarrow> uuid" where
  "canonical_uuid hex =
     (let h = py_lower hex
      in take 8 h @ ''-'' @ take 4 (drop 8 h) @ ''-'' @ take 4 (drop 12 h) @ ''-'' @ take 4 (drop 16 h) @
         ''-'' @ drop 20 h)"

definition parse_uuid :: "string \<Rightarrow> uuid option" where
  "parse_uuid s =
     (let hex = filter (\<lambda>c. c \<noteq> CHR ''-'') (braces_strip (remove_all ''uuid:'' 0 (remove_all ''urn:'' 0 s)))
      in if length hex = 32 \<and> list_all hex_char hex then Some (canonical_uuid hex) else None)"

definition parse_company :: "string \<Rightarrow> uuid result" where
  "parse_company s =
     (case parse_uuid s of None \<Rightarrow> Inl (HTTPException 400 ''Invalid company_id'') | Some c \<Rightarrow> Inr c)"

definition known_company :: "string \<Rightarrow> 'a site_scheme \<Rightarrow> uuid result" where
  "known_company company_id s =
     (case parse_company company_id of Inl e \<Rightarrow> Inl e
      | Inr c \<Rightarrow> if find_company c s = None then Inl (HTTPException 404 ''Company not found'') else Inr c)"

text \<open>The filter of the stream; \<open>valid_text\<close> lists the valid types in the order of a set.\<close>

definition stream_filter :: "string \<Rightarrow> string option \<Rightarrow> string list option result" where
  "stream_filter valid_text types =
     (case types of None \<Rightarrow> Inr None
      | Some t \<Rightarrow>
          if t = [] then Inr None
          else let kept = filter (\<lambda>x. x \<in> set EVENT_TYPES) (map py_strip (py_split (CHR '','') t))
               in if kept = [] then Inl (HTTPException 400 (''Invalid type filter. Valid types: '' @ valid_text))
                  else Inr (Some kept))"

definition stream_events ::
  "string \<Rightarrow> string \<Rightarrow> string option \<Rightarrow> 'a site_scheme \<Rightarrow> string list option result" where
  "stream_events valid_text company_id types s =
     (case known_company company_id s of Inl e \<Rightarrow> Inl e | Inr c \<Rightarrow> stream_filter valid_text types)"

definition list_events ::
  "string \<Rightarrow> string option \<Rightarrow> string option \<Rightarrow> int option \<Rightarrow> int option \<Rightarrow> nat \<Rightarrow> 'a site_scheme \<Rightarrow>
   activity_event list result" where
  "list_events company_id types source since before limit s =
     (if limit < 1 \<or> 200 < limit then Inl ValidationError
      else case known_company company_id s of Inl e \<Rightarrow> Inl e
      | Inr c \<Rightarrow>
          let type_list = (case types of None \<Rightarrow> None
                | Some t \<Rightarrow> if t = [] then None else Some (map py_strip (py_split (CHR '','') t)))
          in validate_all event_response (get_events c type_list source since before limit s))"

definition get_event :: "uuid \<Rightarrow> 'a site_scheme \<Rightarrow> activity_event result" where
  "get_event event_id s =
     (case get_event_by_id event_id s of
        None \<Rightarrow> Inl (HTTPException 404 ''Event not found'') | Some e \<Rightarrow> event_response e)"

record emit_request =
  em_company :: string
  em_type :: string
  em_source :: string
  em_title :: string
  em_source_id :: "string option"
  em_description :: "string option"
  em_metadata :: "(string, json) dict option"

definition emit_event ::
  "string \<Rightarrow> emit_request \<Rightarrow> 'a site_scheme \<Rightarrow>
   activity_event result \<times> 'a site_scheme" where
  "emit_event valid_text p s =
     (if em_type p \<notin> set EVENT_TYPES
      then (Inl (HTTPException 400 (''Invalid type '' @ [CHR 0x27] @ em_type p @ [CHR 0x27] @ ''. Valid: '' @ valid_text)), s)
      else case parse_company (em_company p) of
        Inl e \<Rightarrow> (Inl e, s)
      | Inr c \<Rightarrow>
          (case record_event c (em_type p) (em_source p) (em_title p) (em_source_id p)
                  (em_description p) (em_metadata p) s of
             (Inl e, s1) \<Rightarrow> (Inl e, s1)
           | (Inr e, s1) \<Rightarrow> (event_response e, s1)))"

section \<open>Requests\<close>

text \<open>
  A request with its handler, run in its own session. \<open>note_text\<close> is the text of a validation error and
  of the set of valid types, which the responses quote.
\<close>

datatype request =
    StartOnboarding string string "string option" "string option" "string option"
  | SaveStep uuid string "(string, json) dict"
  | UploadVision uuid string
  | SelectModels uuid "(string, json) dict list"
  | SaveIntegrations uuid "(string, json) dict"
  | ProcessOnboarding uuid
  | UpdateCompany uuid company_update
  | RegisterAgent uuid agent_register
  | UpdateAgent uuid uuid "agent_field list"
  | DeleteAgent uuid uuid
  | SeedAgents uuid
  | AgentHeartbeat uuid int string "(string, json) dict option"
  | RouteSubtask uuid route_request
  | RouteToRole uuid route_request string
  | BatchRoute uuid "route_request list"
  | AssignSubtask string uuid "string option"
  | CompleteSubtask string uuid "string option"
  | EmitEvent emit_request

datatype response =
    RSession onboarding_session
  | RCompany company
  | RComplete onboarding_complete
  | RAgent agent
  | RAgents "agent list"
  | RRoute route_result
  | RBatch batch_response
  | REvent activity_event
  | RNothing

definition answer :: "('r \<Rightarrow> response) \<Rightarrow> 'r result \<times> 's \<Rightarrow> response result \<times> 's" where
  "answer f r = (map_sum id f (fst r), snd r)"

fun run_handler :: "string \<Rightarrow> request \<Rightarrow> 'a site_scheme \<Rightarrow> response result \<times> 'a site_scheme" where
  "run_handler note_text (StartOnboarding n sl d i z) s = answer RSession (start_onboarding n sl d i z s)"
| "run_handler note_text (SaveStep c k d) s = answer RSession (advance_step c k d s)"
| "run_handler note_text (UploadVision c v) s = answer RSession (save_vision c v s)"
| "run_handler note_text (SelectModels c ms) s = answer RCompany (save_models c ms s)"
| "run_handler note_text (SaveIntegrations c d) s = answer RCompany (save_integrations c d s)"
| "run_handler note_text (ProcessOnboarding c) s = answer RComplete (api_process note_text c s)"
| "run_handler note_text (UpdateCompany c u) s = answer RCompany (update_company c u s)"
| "run_handler note_text (RegisterAgent c p) s = answer RAgent (api_register_agent c p s)"
| "run_handler note_text (UpdateAgent c i u) s = answer RAgent (api_update_agent c i u s)"
| "run_handler note_text (DeleteAgent c i) s = answer (\<lambda>_. RNothing) (api_delete_agent c i s)"
| "run_handler note_text (SeedAgents c) s = answer RAgents (api_seed_agents c s)"
| "run_handler note_text (AgentHeartbeat i l st m) s = answer RAgent (api_agent_heartbeat i l st m s)"
| "run_handler note_text (RouteSubtask c r) s = answer RRoute (api_route_subtask c r s)"
| "run_handler note_text (RouteToRole c r x) s = answer RRoute (api_route_to_role c r x s)"
| "run_handler note_text (BatchRoute c rs) s = answer RBatch (api_batch_route c rs s)"
| "run_handler note_text (AssignSubtask t i n) s = answer (\<lambda>_. RNothing) (api_assign_subtask t i n s)"
| "run_handler note_text (CompleteSubtask t i n) s = answer (\<lambda>_. RNothing) (api_complete_subtask t i n s)"
| "run_handler note_text (EmitEvent p) s = answer REvent (emit_event note_text p s)"

definition serve :: "string \<Rightarrow> request \<Rightarrow> 'a site_scheme \<Rightarrow> response result \<times> 'a site_scheme" where
  "serve note_text r = get_db (run_handler note_text r)"

section \<open>Nothing is kept\<close>

definition same_tables :: "'a site_scheme \<Rightarrow> 'a site_scheme \<Rightarrow> bool" where
  "same_tables s t \<longleftrightarrow> tables s = tables t \<and> es_rows s = es_rows t \<and> bk_agents s = bk_agents t \<and>
     st_tasks s = st_tasks t \<and> st_workflows s = st_workflows t"

lemma serve_same: "same_tables s0 s \<Longrightarrow> same_tables s0 (snd (serve note_text r s))"
  by (simp add: serve_def get_db_def close_session_def same_tables_def tables_def split_beta)

interpretation api: op_system "\<lambda>s r. snd (serve note_text r s)" "\<lambda>_. True" "same_tables s0" for note_text and s0
  by unfold_locales (rule serve_same)

text \<open>
  No request changes a table: after any sequence of requests every table holds exactly the
  rows it held before, so the session of a company that was just created is not found by the
  next request.
\<close>

theorem requests_keep_nothing:
  "same_tables s (foldl (\<lambda>s r. snd (serve note_text r s)) s requests)"
  by (rule api.run_inv) (simp_all add: same_tables_def list_all_iff)

lemma find_session_same: "same_tables s t \<Longrightarrow> find_session c t = find_session c s"
  by (simp add: same_tables_def tables_eq find_session_def)

text \<open>
  The answer to the start of an onboarding names a company that the next request does not
  find: asking for its session gives status 404, and so does every later request for it.
\<close>

theorem started_company_unknown:
  assumes "serve note_text (StartOnboarding name slug d i z) s = (Inr (RSession x), s1)"
    and "find_session (os_company x) s = None"
  shows "api_get_session (os_company x) (foldl (\<lambda>s r. snd (serve note_text r s)) s1 requests) =
    Inl (HTTPException 404 ''Session not found'')"
proof -
  have "same_tables s s1"
    using serve_same [of s s note_text "StartOnboarding name slug d i z"] assms(1) by (simp add: same_tables_def)
  then have "same_tables s (foldl (\<lambda>s r. snd (serve note_text r s)) s1 requests)"
    by (rule api.run_inv) (simp add: list_all_iff)
  from find_session_same [OF this, of "os_company x"] assms(2) show ?thesis
    by (simp add: api_get_session_def required_def)
qed

section \<open>Answers that cannot be given\<close>

lemma validate_none: "(\<And>x. f x = Inl ValidationError) \<Longrightarrow>
    validate_all f xs = (if xs = [] then Inr [] else Inl ValidationError)"
  by (cases xs) simp_all

text \<open>
  C37. The request that processes an onboarding is never answered: either processing fails, or
  its response, which holds the tasks and workflows, fails validation.
\<close>

theorem process_never_answers:
  "fst (serve note_text (ProcessOnboarding company) s) =
     Inl (case onboarding_error company s of
            None \<Rightarrow> ValidationError
          | Some (ValueError text) \<Rightarrow> HTTPException 400 text
          | Some ValidationError \<Rightarrow> HTTPException 400 note_text
          | Some e \<Rightarrow> e)"
proof (cases "onboarding_error company s")
  case (Some e)
  from process_fails [OF this] obtain s1 where "process_onboarding company s = (Inl e, s1)"
    by (metis prod.collapse)
  then show ?thesis
    by (cases e) (simp_all add: serve_def get_db_def close_session_def api_process_def answer_def Some split_beta)
next
  case None
  from None obtain oc s1 where run: "process_onboarding company s = (Inr oc, s1)"
    and work: "work_written company (oc_tasks oc) (oc_workflows oc) s s1" by (rule process_runs)
  then have "oc_tasks oc \<noteq> []" by (auto simp: work_written_def)
  then have "complete_response oc = Inl ValidationError"
    by (simp add: complete_response_def validate_none)
  with run None show ?thesis
    by (simp add: serve_def get_db_def close_session_def api_process_def answer_def split_beta)
qed

text \<open>
  A manually emitted event of a valid type whose row is accepted is published to the subscribers,
  but its request fails and the event is not stored.
\<close>

theorem emitted_event_fails:
  assumes "em_type p \<in> set EVENT_TYPES" and "parse_uuid (em_company p) = Some c"
    and "event_error c (em_type p) (em_source p) (em_title p) (em_source_id p) s = None"
  shows "serve note_text (EmitEvent p) s = (Inl ValidationError,
    s\<lparr>es_bus := publish (event_row c (em_type p) (em_source p) (em_title p) (em_source_id p)
        (em_description p) (case em_metadata p of None \<Rightarrow> [] | Some m \<Rightarrow> m) s) (es_bus s),
      es_tick := Suc (es_tick s)\<rparr>)"
  using assms by (simp add: serve_def get_db_def close_session_def answer_def emit_event_def parse_company_def
      record_event_def Let_def)

section \<open>Unreachable routes\<close>

lemma find_route_mem: "find_route rs verb path = Some r \<Longrightarrow> r \<in> set rs"
  by (auto simp: find_route_def find_Some_iff)

definition sample_path :: "segment list \<Rightarrow> string list" where
  "sample_path ps = map (\<lambda>p. case p of Lit l \<Rightarrow> l | Param q \<Rightarrow> ''x'') ps"

text \<open>
  Every agent route but one is chosen for some request. The heartbeat route is chosen for
  none: its path fits the registration route, which is declared before it.
\<close>

theorem heartbeat_route_unreachable:
  "(\<exists>verb path. find_route agent_routes verb path = Some r) \<longleftrightarrow>
     r \<in> set agent_routes \<and> rt_name r \<noteq> ''agent_heartbeat''"
proof
  assume "\<exists>verb path. find_route agent_routes verb path = Some r"
  then obtain verb path where r: "find_route agent_routes verb path = Some r" by blast
  have "rt_name r \<noteq> ''agent_heartbeat''"
  proof
    assume hb: "rt_name r = ''agent_heartbeat''"
    have "r = \<lparr>rt_method = ''POST'', rt_path = [Lit ''heartbeat''], rt_name = ''agent_heartbeat''\<rparr>"
      using find_route_mem [OF r] hb by (auto simp: agent_routes_def)
    moreover have "rt_method r = verb" "path_fits (rt_path r) path"
      using r by (auto simp: find_route_def find_Some_iff)
    ultimately have "verb = ''POST''" "path = [''heartbeat'']"
      by (auto elim: path_fits.elims)
    with r hb show False by (auto simp: find_route_def agent_routes_def)
  qed
  with find_route_mem [OF r] show "r \<in> set agent_routes \<and> rt_name r \<noteq> ''agent_heartbeat''" by blast
next
  assume r: "r \<in> set agent_routes \<and> rt_name r \<noteq> ''agent_heartbeat''"
  have "list_all (\<lambda>r. rt_name r = ''agent_heartbeat'' \<or>
      find_route agent_routes (rt_method r) (sample_path (rt_path r)) = Some r) agent_routes"
    by (simp add: agent_routes_def find_route_def sample_path_def)
  with r have "find_route agent_routes (rt_method r) (sample_path (rt_path r)) = Some r"
    by (auto simp: list_all_iff)
  then show "\<exists>verb path. find_route agent_routes verb path = Some r" by blast
qed

section \<open>The dashboard\<close>

text \<open>
  The statistics of the dashboard are always zero, however many tasks and workflows the
  same response lists: each result is read twice, and the second reading is empty.
\<close>

theorem dashboard_counts_nothing:
  assumes "get_dashboard company s = Inr d"
  shows "da_total_tasks d = 0 \<and> da_active_workflows d = 0 \<and>
    da_tasks d = filter (\<lambda>t. tk_company t = company) (st_tasks s) \<and>
    da_workflows d = filter (\<lambda>w. wf_company w = company) (st_workflows s)"
  using assms by (auto simp: get_dashboard_def scalars_all_def company_workflows_def Let_def split: sum.splits)

section \<open>Samples\<close>

theorem started_company_unknown_witness:
  "\<exists>x s. serve [] (StartOnboarding ''New'' ''new'' None None None) sample_site = (Inr (RSession x), s) \<and>
     api_get_session (os_company x) s = Inl (HTTPException 404 ''Session not found'')"
proof -
  note made = create_company_cases [OF sample_fresh, where name = "''New''" and slug = "''new''" and d = None and i = None and z = None]
  have "''new'' \<notin> co_slug ` set (si_companies sample_site)" by (simp add: sample_site_def sample_company_def)
  with made obtain c x s where run: "create_company ''New'' ''new'' None None None sample_site = (Inr c, s)"
    and c: "co_id c = es_uuid sample_site (es_tick sample_site)" "find_session (co_id c) s = Some x"
    by (auto split: prod.splits sum.splits)
  have short: "char_count ''New'' \<le> 255" "char_count ''new'' \<le> 255"
    by (simp_all add: char_count_def)
  then have "fst (serve [] (StartOnboarding ''New'' ''new'' None None None) sample_site) = Inr (RSession x)"
    by (simp add: serve_def get_db_def close_session_def start_onboarding_def run c(2) answer_def split_beta)
  then obtain s1 where serve: "serve [] (StartOnboarding ''New'' ''new'' None None None) sample_site =
      (Inr (RSession x), s1)" by (metis prod.collapse)
  have "os_company x = co_id c" by (rule find_session_company [OF c(2)])
  with started_company_unknown [OF serve, of "[]"] sample_fresh(1) c(1)
  show ?thesis using serve by auto
qed

definition sample_emit :: emit_request where
  "sample_emit = \<lparr>em_company = ''00000000-0000-0000-0000-000000000001'', em_type = ''error'', em_source = ''ci'',
     em_title = ''t'', em_source_id = None, em_description = None, em_metadata = None\<rparr>"

theorem emitted_event_fails_witness:
  "fst (serve [] (EmitEvent sample_emit) (sample_site\<lparr>si_companies :=
     [sample_company\<lparr>co_id := ''00000000-0000-0000-0000-000000000001''\<rparr>]\<rparr>)) = Inl ValidationError"
proof -
  let ?s = "sample_site\<lparr>si_companies := [sample_company\<lparr>co_id := ''00000000-0000-0000-0000-000000000001''\<rparr>]\<rparr>"
  have ty: "em_type sample_emit \<in> set EVENT_TYPES" by (simp add: sample_emit_def EVENT_TYPES_def ERROR_EVENT_def)
  have row: "event_error ''00000000-0000-0000-0000-000000000001'' (em_type sample_emit) (em_source sample_emit)
      (em_title sample_emit) (em_source_id sample_emit) ?s = None"
    by (simp add: event_error_def event_fits_def short_fits company_known_def sample_emit_def)
  have "parse_uuid (em_company sample_emit) = Some ''00000000-0000-0000-0000-000000000001''"
    by (simp add: sample_emit_def parse_uuid_def braces_strip_def hex_char_def canonical_uuid_def py_lower_def
        lower_char_def Let_def)
  from emitted_event_fails [OF ty this row, where note_text = "[]"] show ?thesis by simp
qed

theorem dashboard_counts_nothing_witness:
  "\<exists>d. get_dashboard ''c'' sample_site = Inr d \<and> da_total_tasks d = 0"
proof -
  have "\<exists>d. get_dashboard ''c'' sample_site = Inr d"
    by (simp add: get_dashboard_def sample_found required_def scalars_all_def)
  then show ?thesis using dashboard_counts_nothing by blast
qed

end
