(* ===== verification/Application.thy ===== *)
theory Application
  imports Metrics Api
begin

text \<open>
  The assembly of the backend (backend/app/main.py): the middlewares, the routes of all routers
  in the order of their inclusion, and what a request gets from the whole.

  The framework is a parameter where it answers by itself: \<open>preflight\<close> is the answer of the CORS
  middleware to a request it does not pass on, \<open>unmatched\<close> the status of a request no route takes
  (not found, method not allowed, or a redirect), \<open>handlers\<close> the outcome of the handler of a
  route. The routes of the documentation, which the framework adds before all others, are left
  out; no path of theirs is one of these.
\<close>

section \<open>The routes\<close>

text \<open>
  A handler of a router gets its parameters from the framework. A function added with
  \<open>add_route\<close> is called with the request as its only argument; its number of parameters is
  kept, and Python raises a \<open>TypeError\<close> when it does not take exactly one.
\<close>

record app_route =
  ep_route :: route
  ep_parameters :: "nat option"

definition endpoint :: "string \<Rightarrow> segment list \<Rightarrow> string \<Rightarrow> app_route" where
  "endpoint verb path n = \<lparr>ep_route = \<lparr>rt_method = verb, rt_path = path, rt_name = n\<rparr>, ep_parameters = None\<rparr>"

definition include_router :: "segment list \<Rightarrow> app_route list \<Rightarrow> app_route list" where
  "include_router pre rs = map (\<lambda>r. r\<lparr>ep_route := (ep_route r)\<lparr>rt_path := pre @ rt_path (ep_route r)\<rparr>\<rparr>) rs"

text \<open>A plain route answers HEAD wherever it answers GET.\<close>

definition add_route :: "segment list \<Rightarrow> string \<Rightarrow> nat \<Rightarrow> app_route list" where
  "add_route path n parameters =
     map (\<lambda>verb. \<lparr>ep_route = \<lparr>rt_method = verb, rt_path = path, rt_name = n\<rparr>, ep_parameters = Some parameters\<rparr>)
       [''GET'', ''HEAD'']"

definition health_router :: "app_route list" where
  "health_router =
     [endpoint ''GET'' [Lit ''api'', Lit ''health''] ''health_check'',
      endpoint ''GET'' [Lit ''api'', Lit ''health'', Lit ''history''] ''health_history'']"

definition onboarding_router :: "app_route list" where
  "onboarding_router = include_router [Lit ''api'', Lit ''v1'', Lit ''onboarding'']
     [endpoint ''POST'' [Lit ''start''] ''start_onboarding'',
      endpoint ''POST'' [Param ''company_id'', Lit ''step''] ''save_step'',
      endpoint ''POST'' [Param ''company_id'', Lit ''vision''] ''upload_vision'',
      endpoint ''POST'' [Param ''company_id'', Lit ''models''] ''select_models'',
      endpoint ''POST'' [Param ''company_id'', Lit ''integrations''] ''save_integrations'',
      endpoint ''POST'' [Param ''company_id'', Lit ''process''] ''process_onboarding'',
      endpoint ''GET'' [Param ''company_id'', Lit ''session''] ''get_session'',
      endpoint ''GET'' [Param ''company_id'', Lit ''knowledge-graph''] ''get_knowledge_graph'',
      endpoint ''GET'' [Param ''company_id'', Lit ''constitution''] ''get_constitution'',
      endpoint ''GET'' [Param ''company_id'', Lit ''roadmap''] ''get_roadmap'',
      endpoint ''GET'' [Param ''company_id'', Lit ''architecture''] ''get_architecture'',
      endpoint ''GET'' [Param ''company_id'', Lit ''tasks''] ''get_tasks'',
      endpoint ''GET'' [Param ''company_id'', Lit ''workflows''] ''get_workflows'']"

definition companies_router :: "app_route list" where
  "companies_router = include_router [Lit ''api'', Lit ''v1'', Lit ''companies'']
     [endpoint ''GET'' [Lit []] ''list_companies'',
      endpoint ''GET'' [Param ''company_id''] ''get_company'',
      endpoint ''PATCH'' [Param ''company_id''] ''update_company'',
      endpoint ''GET'' [Param ''company_id'', Lit ''dashboard''] ''get_dashboard'']"

definition events_router :: "app_route list" where
  "events_router = include_router [Lit ''api'', Lit ''v1'', Lit ''events'']
     [endpoint ''GET'' [Lit ''stream''] ''stream_events'',
      endpoint ''GET'' [] ''list_events'',
      endpoint ''GET'' [Param ''event_id''] ''get_event'',
      endpoint ''POST'' [Lit ''emit''] ''emit_event'']"

definition agents_router :: "app_route list" where
  "agents_router = include_router [Lit ''api'', Lit ''v1'', Lit ''agents'']
     (map (\<lambda>r. \<lparr>ep_route = r, ep_parameters = None\<rparr>) agent_routes)"

text \<open>The three functions of the metrics are declared without parameters.\<close>

definition app_routes :: "app_route list" where
  "app_routes = health_router @ onboarding_router @ companies_router @ events_router @ agents_router @
     add_route [Lit ''metrics''] ''metrics_endpoint'' 0 @
     add_route [Lit ''metrics'', Lit ''openmetrics''] ''metrics_openmetrics_endpoint'' 0 @
     add_route [Lit ''metrics'', Lit ''api''] ''metrics_json_endpoint'' 0"

section \<open>Requests\<close>

record http_request =
  hq_method :: string
  hq_path :: string

text \<open>A path starts with a slash; its segments are between the slashes.\<close>

definition path_segments :: "string \<Rightarrow> string list" where
  "path_segments path = tl (py_split (CHR ''/'') path)"

definition segments_path :: "string list \<Rightarrow> string" where
  "segments_path xs = ''/'' @ py_join ''/'' xs"

definition find_endpoint :: "app_route list \<Rightarrow> http_request \<Rightarrow> app_route option" where
  "find_endpoint rs q =
     find (\<lambda>r. rt_method (ep_route r) = hq_method q \<and> path_fits (rt_path (ep_route r)) (path_segments (hq_path q))) rs"

type_synonym asgi = "http_request \<Rightarrow> metrics_calls \<Rightarrow> int result \<times> metrics_calls"

definition call_endpoint :: "app_route \<Rightarrow> int result \<Rightarrow> int result" where
  "call_endpoint r outcome =
     (case ep_parameters r of None \<Rightarrow> outcome | Some n \<Rightarrow> if n = 1 then outcome else Inl TypeError)"

definition router :: "(http_request \<Rightarrow> int) \<Rightarrow> (string \<Rightarrow> http_request \<Rightarrow> int result) \<Rightarrow> app_route list \<Rightarrow> asgi" where
  "router unmatched handlers rs q s =
     (case find_endpoint rs q of
        None \<Rightarrow> (Inr (unmatched q), s)
      | Some r \<Rightarrow> (call_endpoint r (handlers (rt_name (ep_route r)) q), s))"

section \<open>The middlewares\<close>

definition prometheus_middleware :: "(http_request \<Rightarrow> real) \<Rightarrow> asgi \<Rightarrow> asgi" where
  "prometheus_middleware elapsed nxt q s = metrics_dispatch (hq_path q) (hq_method q) (elapsed q) (nxt q) s"

definition cors_middleware :: "(http_request \<Rightarrow> int option) \<Rightarrow> asgi \<Rightarrow> asgi" where
  "cors_middleware preflight nxt q s = (case preflight q of Some st \<Rightarrow> (Inr st, s) | None \<Rightarrow> nxt q s)"

text \<open>\<open>add_middleware\<close> inserts at the front of the list, whose first element is the outermost.\<close>

definition add_middleware :: "(asgi \<Rightarrow> asgi) \<Rightarrow> (asgi \<Rightarrow> asgi) list \<Rightarrow> (asgi \<Rightarrow> asgi) list" where
  "add_middleware m stack = m # stack"

definition middleware_stack :: "(http_request \<Rightarrow> int option) \<Rightarrow> (http_request \<Rightarrow> real) \<Rightarrow> (asgi \<Rightarrow> asgi) list" where
  "middleware_stack preflight elapsed =
     add_middleware (cors_middleware preflight) (add_middleware (prometheus_middleware elapsed) [])"

text \<open>An exception that leaves the stack is a response with status 500.\<close>

definition application ::
    "(http_request \<Rightarrow> int option) \<Rightarrow> (http_request \<Rightarrow> real) \<Rightarrow> (http_request \<Rightarrow> int) \<Rightarrow>
     (string \<Rightarrow> http_request \<Rightarrow> int result) \<Rightarrow> http_request \<Rightarrow> metrics_calls \<Rightarrow> int \<times> metrics_calls" where
  "application preflight elapsed unmatched handlers q s =
     (let (r, s1) = foldr (\<lambda>m app. m app) (middleware_stack preflight elapsed) (router unmatched handlers app_routes) q s
      in (case r of Inl e \<Rightarrow> 500 | Inr st \<Rightarrow> st, s1))"

section \<open>Which handlers answer\<close>

text \<open>Some request reaches the route, and its handler can be called.\<close>

definition answers :: "app_route \<Rightarrow> bool" where
  "answers r \<longleftrightarrow> (\<exists>q. find_endpoint app_routes q = Some r) \<and> call_endpoint r (Inr 200) = Inr 200"

lemmas router_defs = app_routes_def health_router_def onboarding_router_def companies_router_def events_router_def
  agents_router_def agent_routes_def include_router_def endpoint_def add_route_def

lemma find_endpoint_mem: "find_endpoint rs q = Some r \<Longrightarrow> r \<in> set rs"
  by (auto simp: find_endpoint_def find_Some_iff)

text \<open>A request for every route: each parameter is a letter.\<close>

definition sample_request :: "app_route \<Rightarrow> http_request" where
  "sample_request r = \<lparr>hq_method = rt_method (ep_route r), hq_path = segments_path (sample_path (rt_path (ep_route r)))\<rparr>"

lemma samples_found:
  "list_all (\<lambda>r. find_endpoint app_routes (sample_request r) = Some r \<or> rt_name (ep_route r) = ''agent_heartbeat'')
     app_routes"
  by code_simp

lemma heartbeat_never_found:
  assumes "find_endpoint app_routes q = Some r"
  shows "rt_name (ep_route r) \<noteq> ''agent_heartbeat''"
proof
  assume hb: "rt_name (ep_route r) = ''agent_heartbeat''"
  have "list_all (\<lambda>r. rt_name (ep_route r) \<noteq> ''agent_heartbeat'' \<or>
      r = endpoint ''POST'' [Lit ''api'', Lit ''v1'', Lit ''agents'', Lit ''heartbeat''] ''agent_heartbeat'') app_routes"
    by code_simp
  with find_endpoint_mem [OF assms] hb
  have r: "r = endpoint ''POST'' [Lit ''api'', Lit ''v1'', Lit ''agents'', Lit ''heartbeat''] ''agent_heartbeat''"
    by (auto simp: list_all_iff)
  from assms have "rt_method (ep_route r) = hq_method q"
    "path_fits (rt_path (ep_route r)) (path_segments (hq_path q))"
    by (auto simp: find_endpoint_def find_Some_iff)
  with r have "hq_method q = ''POST''" "path_segments (hq_path q) = [''api'', ''v1'', ''agents'', ''heartbeat'']"
    by (auto simp: endpoint_def elim!: path_fits.elims)
  then have "map_option (rt_name \<circ> ep_route) (find_endpoint app_routes q) = Some ''register_agent''"
    by (simp add: find_endpoint_def router_defs)
  with assms hb show False by simp
qed

lemma metrics_parameters:
  "list_all (\<lambda>r. call_endpoint r (Inr 200) = Inr 200 \<longleftrightarrow> rt_name (ep_route r) \<notin>
     {''metrics_endpoint'', ''metrics_openmetrics_endpoint'', ''metrics_json_endpoint''}) app_routes"
  by code_simp

lemma metrics_found:
  "list_all (\<lambda>path. map_option ep_parameters (find_endpoint app_routes \<lparr>hq_method = ''GET'', hq_path = path\<rparr>) =
     Some (Some 0) \<and> path \<in> set METRICS_SKIP_PATHS) [''/metrics'', ''/metrics/openmetrics'', ''/metrics/api'']"
  by code_simp

text \<open>What the stack does with a request.\<close>

lemma application_eq:
  "application preflight elapsed unmatched handlers q s =
     (case preflight q of
        Some st \<Rightarrow> (st, s)
      | None \<Rightarrow>
          (let (r, s1) = metrics_dispatch (hq_path q) (hq_method q) (elapsed q) (router unmatched handlers app_routes q) s
           in (case r of Inl e \<Rightarrow> 500 | Inr st \<Rightarrow> st, s1)))"
  by (simp add: application_def middleware_stack_def add_middleware_def cors_middleware_def prometheus_middleware_def
      split: option.split)

lemma scrape_fails:
  assumes "map_option ep_parameters (find_endpoint app_routes q) = Some (Some 0)" and "hq_path q \<in> set METRICS_SKIP_PATHS"
    and "preflight q = None"
  shows "application preflight elapsed unmatched handlers q s = (500, s)"
proof -
  from assms(1) obtain r where "find_endpoint app_routes q = Some r" "ep_parameters r = Some 0" by blast
  then have "router unmatched handlers app_routes q s = (Inl TypeError, s)"
    by (simp add: router_def call_endpoint_def)
  with assms(2,3) show ?thesis by (simp add: application_eq metrics_dispatch_def)
qed

text \<open>
  C14. Which handlers ever answer. Of all the routes of the application, in the order in which they
  are declared and included, every one is reached by some request and its handler can be
  called, except the heartbeat of an agent, which the registration route shadows, and the three
  routes of the metrics: their functions take no parameter but are called with the request, so
  that every scrape that reaches the application gets status 500, whatever was measured.
\<close>

theorem routes_never_served:
  "(answers r \<longleftrightarrow> r \<in> set app_routes \<and> rt_name (ep_route r) \<notin>
     {''agent_heartbeat'', ''metrics_endpoint'', ''metrics_openmetrics_endpoint'', ''metrics_json_endpoint''}) \<and>
   list_all (\<lambda>path. application (\<lambda>q. None) elapsed unmatched handlers \<lparr>hq_method = ''GET'', hq_path = path\<rparr> s = (500, s))
     [''/metrics'', ''/metrics/openmetrics'', ''/metrics/api'']"
proof -
  have "answers r \<longleftrightarrow> r \<in> set app_routes \<and> call_endpoint r (Inr 200) = Inr 200 \<and>
      rt_name (ep_route r) \<noteq> ''agent_heartbeat''"
    using samples_found find_endpoint_mem heartbeat_never_found unfolding answers_def list_all_iff by blast
  moreover have "call_endpoint r (Inr 200) = Inr 200 \<longleftrightarrow> rt_name (ep_route r) \<notin>
      {''metrics_endpoint'', ''metrics_openmetrics_endpoint'', ''metrics_json_endpoint''}" if "r \<in> set app_routes"
    using metrics_parameters that unfolding list_all_iff by blast
  ultimately have "answers r \<longleftrightarrow> r \<in> set app_routes \<and> rt_name (ep_route r) \<notin>
      {''agent_heartbeat'', ''metrics_endpoint'', ''metrics_openmetrics_endpoint'', ''metrics_json_endpoint''}"
    by blast
  moreover have "list_all (\<lambda>path. application (\<lambda>q. None) elapsed unmatched handlers
      \<lparr>hq_method = ''GET'', hq_path = path\<rparr> s = (500, s)) [''/metrics'', ''/metrics/openmetrics'', ''/metrics/api'']"
    unfolding list_all_iff
  proof (intro ballI scrape_fails)
    fix path
    assume path: "path \<in> set [''/metrics'', ''/metrics/openmetrics'', ''/metrics/api'']"
    with metrics_found show "map_option ep_parameters (find_endpoint app_routes \<lparr>hq_method = ''GET'', hq_path = path\<rparr>) =
        Some (Some 0)" unfolding list_all_iff by blast
    from path metrics_found show "hq_path \<lparr>hq_method = ''GET'', hq_path = path\<rparr> \<in> set METRICS_SKIP_PATHS"
      unfolding list_all_iff http_request.simps by blast
  qed simp
  ultimately show ?thesis by (rule conjI)
qed

lemma dispatch_steady:
  assumes "\<And>t. nxt t = (r, t)" and "metrics_dispatch path meth secs nxt s = (r', s1)"
  shows "dict_get_or (mc_in_flight s1) v 0 = dict_get_or (mc_in_flight s) v 0 \<and>
    mc_requests s1 = mc_requests s @
      (if path \<notin> set METRICS_SKIP_PATHS \<and> \<not> isl r then [(meth, normalize_path path, projr r')] else []) \<and>
    isl r' = isl r"
proof (cases "path \<in> set METRICS_SKIP_PATHS")
  case False
  with assms show ?thesis
    by (cases r) (auto simp: metrics_dispatch_def Let_def dict_get_or_def)
qed (use assms in \<open>auto simp: metrics_dispatch_def\<close>)

text \<open>
  Every request leaves the gauge of the requests in flight as it was, and is counted with its
  method, endpoint and status exactly when the CORS middleware, which is the outer one, passes it
  on, its path is tracked, and no exception leaves the router.
\<close>

theorem requests_counted:
  "case application preflight elapsed unmatched handlers q s of (st, s1) \<Rightarrow>
     dict_get_or (mc_in_flight s1) v 0 = dict_get_or (mc_in_flight s) v 0 \<and>
     mc_requests s1 = mc_requests s @
       (if preflight q = None \<and> hq_path q \<notin> set METRICS_SKIP_PATHS \<and>
           \<not> isl (fst (router unmatched handlers app_routes q s))
        then [(hq_method q, normalize_path (hq_path q), st)] else [])"
proof (cases "preflight q")
  case None
  have run: "router unmatched handlers app_routes q t = (fst (router unmatched handlers app_routes q s), t)" for t
    by (simp add: router_def split: option.split)
  obtain r' s1 where d: "metrics_dispatch (hq_path q) (hq_method q) (elapsed q)
      (router unmatched handlers app_routes q) s = (r', s1)" by fastforce
  from dispatch_steady [OF run d] None show ?thesis
    by (cases r') (simp_all add: application_eq d)
qed (simp add: application_eq)

end
