(* ===== verification/EventStream.thy ===== *)
theory EventStream
  imports Api
begin

text \<open>
  The stream of server-sent events (\<open>_event_stream\<close> in backend/app/api/events.py): a generator
  that subscribes a queue to the bus, yields what arrives on it and unsubscribes at the end. The
  environment decides when an event is published, when the generator is resumed and when the
  client hangs up, so a run is a sequence of these steps.
\<close>

section \<open>The generator\<close>

datatype sse = Connected | Keepalive | Data activity_event

text \<open>\<open>dumps\<close> is \<open>json.dumps\<close> of the published dictionary.\<close>

fun sse_text :: "(activity_event \<Rightarrow> string) \<Rightarrow> sse \<Rightarrow> string" where
  "sse_text dumps Connected = ''event: connected'' @ newline @ ''data: {\"status\": \"ok\"}'' @ newline @ newline"
| "sse_text dumps Keepalive = '': keepalive'' @ newline @ newline"
| "sse_text dumps (Data e) =
     ''event: '' @ ev_type e @ newline @ ''id: '' @ ev_id e @ newline @ ''data: '' @ dumps e @ newline @ newline"

type_synonym stream_state = "event_bus \<times> sse list \<times> bool"

definition stream_open :: "string \<Rightarrow> nat \<Rightarrow> event_bus \<Rightarrow> stream_state" where
  "stream_open company_id q b =
     (subscribe company_id q (b\<lparr>bus_queues := dict_set q \<lparr>q_max = 256, q_items = []\<rparr> (bus_queues b)\<rparr>),
      [Connected], True)"

definition passes :: "string list option \<Rightarrow> activity_event \<Rightarrow> bool" where
  "passes type_filter e \<longleftrightarrow> (case type_filter of None \<Rightarrow> True | Some ts \<Rightarrow> ts = [] \<or> ev_type e \<in> set ts)"

text \<open>One turn of the loop with a connected client: an event, or 30 seconds without one.\<close>

definition stream_turn :: "nat \<Rightarrow> string list option \<Rightarrow> event_bus \<Rightarrow> sse list \<Rightarrow> stream_state" where
  "stream_turn q type_filter b out =
     (case (case dict_get (bus_queues b) q of None \<Rightarrow> [] | Some a \<Rightarrow> q_items a) of
        [] \<Rightarrow> (b, out @ [Keepalive], True)
      | e # _ \<Rightarrow> (take_event q b, if passes type_filter e then out @ [Data e] else out, True))"

datatype stream_op = Published activity_event | Turn | HangUp

fun stream_exec :: "string \<Rightarrow> nat \<Rightarrow> string list option \<Rightarrow> stream_state \<Rightarrow> stream_op \<Rightarrow> stream_state" where
  "stream_exec company_id q flt (b, out, alive) (Published e) = (publish e b, out, alive)"
| "stream_exec company_id q flt (b, out, alive) Turn =
     (if alive then stream_turn q flt b out else (b, out, alive))"
| "stream_exec company_id q flt (b, out, alive) HangUp =
     (if alive then (unsubscribe company_id q b, out, False) else (b, out, alive))"

definition stream_run :: "string \<Rightarrow> nat \<Rightarrow> string list option \<Rightarrow> event_bus \<Rightarrow> stream_op list \<Rightarrow> stream_state" where
  "stream_run company_id q flt b ops = foldl (stream_exec company_id q flt) (stream_open company_id q b) ops"

section \<open>What a client receives\<close>

fun published :: "stream_op list \<Rightarrow> activity_event list" where
  "published [] = []"
| "published (Published e # ops) = e # published ops"
| "published (_ # ops) = published ops"

fun received :: "sse list \<Rightarrow> activity_event list" where
  "received [] = []"
| "received (Data e # xs) = e # received xs"
| "received (_ # xs) = received xs"

lemma received_append [simp]: "received (xs @ ys) = received xs @ received ys"
  by (induction xs rule: received.induct) simp_all

definition backlog :: "nat \<Rightarrow> event_bus \<Rightarrow> activity_event list" where
  "backlog q b = (case dict_get (bus_queues b) q of None \<Rightarrow> [] | Some a \<Rightarrow> q_items a)"

text \<open>The bus between two steps: the queue is subscribed once, to \<open>company_id\<close> only.\<close>

definition listening :: "string \<Rightarrow> nat \<Rightarrow> event_bus \<Rightarrow> bool" where
  "listening company_id q b \<longleftrightarrow>
     (\<exists>a. dict_get (bus_queues b) q = Some a \<and> q_max a = 256) \<and>
     (\<forall>c. subscriptions b c q = (if c = company_id then 1 else 0))"

lemma subscriptions_publish [simp]: "subscriptions (publish e b) c q = subscriptions b c q"
  by (simp add: subscriptions_def)

lemma subscriptions_take [simp]: "subscriptions (take_event q' b) c q = subscriptions b c q"
  by (simp add: subscriptions_def take_event_def split: option.split)

lemma listening_publish:
  assumes "listening company_id q b" and "company_id \<noteq> ''*''"
    and "length (backlog q b) + (if ev_company e = company_id then 1 else 0) \<le> 256"
  shows "listening company_id q (publish e b)"
    and "backlog q (publish e b) = backlog q b @ (if ev_company e = company_id then [e] else [])"
proof -
  obtain a where a: "dict_get (bus_queues b) q = Some a" "q_max a = 256"
    and subs: "\<And>c. subscriptions b c q = (if c = company_id then 1 else 0)"
    using assms(1) by (auto simp: listening_def)
  show "listening company_id q (publish e b)"
    using a subs by (auto simp: listening_def publish_get add_copies_def)
  show "backlog q (publish e b) = backlog q b @ (if ev_company e = company_id then [e] else [])"
    using a assms(2,3) by (auto simp: backlog_def publish_get subs add_copies_def room_def)
qed

lemma listening_turn:
  assumes "listening company_id q b" and "stream_turn q flt b out = (b', out', alive)"
  shows "listening company_id q b' \<and> alive \<and>
    received out' @ filter (passes flt) (backlog q b') = received out @ filter (passes flt) (backlog q b) \<and>
    length (backlog q b') \<le> length (backlog q b)"
proof -
  obtain a where a: "dict_get (bus_queues b) q = Some a" "q_max a = 256"
    using assms(1) by (auto simp: listening_def)
  show ?thesis
  proof (cases "q_items a")
    case Nil
    with assms a show ?thesis by (auto simp: stream_turn_def)
  next
    case (Cons e es)
    then have b': "b' = take_event q b" "out' = (if passes flt e then out @ [Data e] else out)" "alive"
      using assms(2) a by (simp_all add: stream_turn_def)
    have "dict_get (bus_queues b') q = Some (a\<lparr>q_items := es\<rparr>)"
      by (simp add: b' take_event_def a Cons)
    moreover have "listening company_id q b'"
      using assms(1) a by (auto simp: listening_def b' take_event_def subscriptions_def)
    ultimately show ?thesis using b' a Cons by (simp add: backlog_def)
  qed
qed

lemma stream_invariant:
  assumes "listening company_id q b" and "company_id \<noteq> ''*''" and "HangUp \<notin> set ops"
    and "length (backlog q b) + length (filter (\<lambda>e. ev_company e = company_id) (published ops)) \<le> 256"
    and "foldl (stream_exec company_id q flt) (b, out, True) ops = (b', out', alive)"
  shows "listening company_id q b' \<and> alive \<and> received out' @ filter (passes flt) (backlog q b') =
    received out @ filter (passes flt) (backlog q b) @
    filter (\<lambda>e. ev_company e = company_id \<and> passes flt e) (published ops)"
  using assms(1,3,4,5)
proof (induction ops arbitrary: b out)
  case (Cons oper ops)
  show ?case
  proof (cases oper)
    case (Published e)
    have room: "length (backlog q b) + (if ev_company e = company_id then 1 else 0) \<le> 256"
      using Cons.prems(3) Published by (auto split: if_splits)
    note step = listening_publish [OF Cons.prems(1) assms(2) room]
    show ?thesis
      using Cons.IH [OF step(1), of out] Cons.prems(2-4) step(2) Published
      by (auto split: if_splits)
  next
    case Turn
    obtain b1 out1 al where turn: "stream_turn q flt b out = (b1, out1, al)" by (metis prod_cases3)
    note step = listening_turn [OF Cons.prems(1) turn]
    with Cons.IH [of b1 out1] Cons.prems(2-4) Turn turn show ?thesis by simp
  next
    case HangUp
    with Cons.prems(2) show ?thesis by simp
  qed
qed simp

lemma listening_open:
  assumes "bus_ok b" and "dict_get (bus_queues b) q = None"
  shows "listening company_id q (fst (stream_open company_id q b))"
    and "backlog q (fst (stream_open company_id q b)) = []"
proof -
  have "q \<notin> set (dict_get_or (bus_subs b) c [])" for c
    using bus_ok_sub [OF assms(1), of q c] assms(2) by auto
  then show "listening company_id q (fst (stream_open company_id q b))"
    by (auto simp: listening_def stream_open_def subscribe_def subscriptions_def count_list_append)
  show "backlog q (fst (stream_open company_id q b)) = []"
    by (simp add: backlog_def stream_open_def subscribe_def)
qed

text \<open>
  C30. A client of the stream receives every published event of its company whose type passes its
  filter, in order and once, whenever and however often the generator is resumed: what it has
  received followed by what waits in its queue is exactly that. The bound is the queue's: at
  most 256 events of the company are published while the client is connected.
\<close>

theorem stream_delivers:
  assumes "bus_ok b" and "dict_get (bus_queues b) q = None" and "company_id \<noteq> ''*''"
    and "HangUp \<notin> set ops"
    and "length (filter (\<lambda>e. ev_company e = company_id) (published ops)) \<le> 256"
    and "stream_run company_id q flt b ops = (b', out, alive)"
  shows "received out @ filter (passes flt) (backlog q b') =
      filter (\<lambda>e. ev_company e = company_id \<and> passes flt e) (published ops) \<and>
    hd out = Connected"
proof -
  define b1 where "b1 = fst (stream_open company_id q b)"
  have start: "stream_open company_id q b = (b1, [Connected], True)"
    by (simp add: b1_def stream_open_def)
  note lis = listening_open [OF assms(1,2), of company_id, folded b1_def]
  have run: "foldl (stream_exec company_id q flt) (b1, [Connected], True) ops = (b', out, alive)"
    using assms(6) by (simp add: stream_run_def start)
  have "hd (fst (snd (foldl (stream_exec company_id q flt) st ops))) = Connected"
    if "fst (snd st) \<noteq> []" "hd (fst (snd st)) = Connected" for st
    using that
  proof (induction ops arbitrary: st)
    case (Cons oper ops)
    obtain b2 o2 al2 where st: "st = (b2, o2, al2)" by (metis prod_cases3)
    show ?case
      using Cons.prems unfolding foldl_Cons
      by (intro Cons.IH) (cases oper; auto simp: st stream_turn_def split: list.split)+
  qed simp
  from this [of "(b1, [Connected], True)"] have "hd out = Connected" by (simp add: run)
  with stream_invariant [OF lis(1) assms(3,4) _ run] lis(2) assms(5) show ?thesis by simp
qed


theorem stream_delivers_witness:
  "\<exists>b' out alive. stream_run ''c'' 0 None empty_bus [Published sample_event, Turn, Turn] = (b', out, alive) \<and>
     received out @ backlog 0 b' = [sample_event]"
proof -
  obtain b' out alive where run: "stream_run ''c'' 0 None empty_bus [Published sample_event, Turn, Turn] = (b', out, alive)"
    by (metis prod_cases3)
  have "dict_get (bus_queues empty_bus) 0 = None" by (simp add: empty_bus_def)
  from stream_delivers [OF empty_bus_ok this _ _ _ run] run show ?thesis
    by (auto simp: sample_event_def passes_def)
qed

definition spelled :: string where
  "spelled = ''00000000000000000000000000000001''"

definition spelled_uuid :: uuid where
  "spelled_uuid = ''00000000-0000-0000-0000-000000000001''"

lemma spelled_parse: "parse_uuid spelled = Some spelled_uuid" "spelled \<noteq> spelled_uuid"
  by (simp_all add: spelled_def spelled_uuid_def parse_uuid_def braces_strip_def hex_char_def
      canonical_uuid_def py_lower_def lower_char_def Let_def)


end
