(* ===== verification/Seccomp.thy ===== *)
theory Seccomp
  imports Prelude
begin

text \<open>
  The seccomp profiles of the sandbox (src/sandbox/seccomp.py): the tables of system calls, the
  three profiles built from them, the manager that saves, loads and finds profiles, and its
  check of one system call. The files are a dictionary from path to text. \<open>json.dumps\<close> and
  \<open>json.load\<close> are parameters, on documents of the shape the code writes (a document read
  may lack any key); the argument of \<open>dumps\<close> is the indentation. A profile name is one for
  which \<open>Path\<close> has nothing to normalise (no doubled slash, no component ".").
\<close>

section \<open>Tables\<close>

datatype seccomp_action = ALLOW | KILL | ERRNO | TRAP | LOG

fun action_value :: "seccomp_action \<Rightarrow> string" where
  "action_value ALLOW = ''SCMP_ACT_ALLOW''"
| "action_value KILL = ''SCMP_ACT_KILL''"
| "action_value ERRNO = ''SCMP_ACT_ERRNO''"
| "action_value TRAP = ''SCMP_ACT_TRAP''"
| "action_value LOG = ''SCMP_ACT_LOG''"

text \<open>The call \<open>SeccompAction(v)\<close>: the member with that value, or \<open>ValueError\<close>.\<close>

definition action_of :: "string \<Rightarrow> seccomp_action result" where
  "action_of v =
     (case find (\<lambda>a. action_value a = v) [ALLOW, KILL, ERRNO, TRAP, LOG] of
        None \<Rightarrow> Inl (ValueError ([CHR 0x27] @ v @ [CHR 0x27] @ '' is not a valid SeccompAction''))
      | Some a \<Rightarrow> Inr a)"

definition ARCH :: string where "ARCH = ''SCMP_ARCH_X86_64''"

definition DEFAULT_ALLOWED_SYSCALLS :: "string list" where
  "DEFAULT_ALLOWED_SYSCALLS = sort
     [''read'', ''write'', ''close'', ''lseek'', ''pread64'', ''pwrite64'', ''readv'',
      ''writev'', ''dup'', ''dup2'', ''dup3'', ''fcntl'', ''ioctl'', ''mmap'', ''mprotect'',
      ''munmap'', ''brk'', ''mremap'', ''madvise'', ''mseal'', ''clone'', ''clone3'',
      ''fork'', ''vfork'', ''execve'', ''execveat'', ''exit'', ''exit_group'', ''wait4'',
      ''waitid'', ''getpid'', ''getppid'', ''gettid'', ''getuid'', ''geteuid'', ''getgid'',
      ''getegid'', ''rt_sigaction'', ''rt_sigprocmask'', ''rt_sigreturn'', ''sigaltstack'',
      ''kill'', ''tgkill'', ''stat'', ''lstat'', ''fstat'', ''newfstatat'', ''openat'',
      ''openat2'', ''getdents64'', ''mkdir'', ''mkdirat'', ''rmdir'', ''unlink'',
      ''unlinkat'', ''rename'', ''renameat'', ''renameat2'', ''link'', ''linkat'',
      ''symlink'', ''symlinkat'', ''readlink'', ''readlinkat'', ''chdir'', ''fchdir'',
      ''getcwd'', ''chmod'', ''fchmod'', ''fchmodat'', ''chown'', ''fchown'', ''fchownat'',
      ''access'', ''faccessat'', ''faccessat2'', ''clock_gettime'', ''clock_nanosleep'',
      ''nanosleep'', ''gettimeofday'', ''time'', ''sched_yield'', ''sched_getaffinity'',
      ''sched_setaffinity'', ''futex'', ''futex_waitv'', ''futex_wake'', ''socket'',
      ''connect'', ''bind'', ''listen'', ''accept'', ''accept4'', ''sendto'', ''recvfrom'',
      ''sendmsg'', ''recvmsg'', ''getsockname'', ''getpeername'', ''getsockopt'',
      ''setsockopt'', ''shutdown'', ''poll'', ''ppoll'', ''epoll_create1'', ''epoll_ctl'',
      ''epoll_wait'', ''epoll_pwait'', ''getrandom'', ''getdents'', ''arch_prctl'',
      ''set_tid_address'', ''set_robust_list'', ''prlimit64'', ''rseq'', ''uname'',
      ''getrusage'', ''getrlimit'', ''prctl'', ''seccomp'']"

definition RESTRICTIVE_REMOVED :: "string set" where
  "RESTRICTIVE_REMOVED =
     {''clone'', ''clone3'', ''fork'', ''vfork'', ''execve'', ''execveat'', ''ptrace'',
      ''process_vm_readv'', ''process_vm_writev'', ''socket'', ''connect'', ''bind'',
      ''listen'', ''accept'', ''accept4'', ''sendto'', ''recvfrom'', ''sendmsg'',
      ''recvmsg'', ''shutdown'', ''socketpair'', ''kill'', ''tgkill'', ''tkill''}"

definition PERMISSIVE_EXTRAS :: "string set" where
  "PERMISSIVE_EXTRAS =
     {''ptrace'', ''process_vm_readv'', ''process_vm_writev'', ''socketpair'', ''pipe'',
      ''pipe2'', ''eventfd'', ''eventfd2'', ''memfd_create'', ''memfd_secret'',
      ''userfaultfd'', ''bpf'', ''perf_event_open''}"

definition ALWAYS_BLOCKED :: "string list" where
  "ALWAYS_BLOCKED =
     [''reboot'', ''kexec_load'', ''kexec_file_load'', ''init_module'', ''finit_module'',
      ''delete_module'', ''create_module'', ''ioperm'', ''iopl'', ''ioprio_set'',
      ''ioprio_get'', ''kcmp'', ''move_pages'', ''mbind'', ''migrate_pages'', ''add_key'',
      ''request_key'', ''keyctl'', ''lookup_dcookie'', ''nfsservctl'', ''_sysctl'', ''acct'',
      ''modify_ldt'', ''pivot_root'', ''setns'', ''unshare'', ''mount'', ''umount2'',
      ''swapon'', ''swapoff'', ''personality'', ''syslog'', ''setuid'', ''setgid'',
      ''setreuid'', ''setregid'', ''setresuid'', ''setresgid'', ''setfsuid'', ''setfsgid'',
      ''capset'', ''capget'', ''chroot'']"

section \<open>Profiles and documents\<close>

record seccomp_profile =
  sp_name :: string
  sp_default :: seccomp_action
  sp_allowed :: "string list"
  sp_blocked :: "string list"

record seccomp_entry =
  en_names :: "string list option"
  en_action :: "string option"

record seccomp_doc =
  sd_default :: "string option"
  sd_architectures :: "string list option"
  sd_syscalls :: "seccomp_entry list option"

definition to_dict :: "seccomp_profile \<Rightarrow> seccomp_doc" where
  "to_dict p =
     \<lparr>sd_default = Some (action_value (sp_default p)), sd_architectures = Some [ARCH],
      sd_syscalls = Some
        [\<lparr>en_names = Some (sp_allowed p), en_action = Some (action_value ALLOW)\<rparr>,
         \<lparr>en_names = Some (sp_blocked p), en_action = Some (action_value KILL)\<rparr>]\<rparr>"

type_synonym dumps = "nat option \<Rightarrow> seccomp_doc \<Rightarrow> string"
type_synonym loads = "string \<Rightarrow> seccomp_doc result"

definition to_json :: "dumps \<Rightarrow> seccomp_profile \<Rightarrow> string" where
  "to_json dumps p = dumps (Some 2) (to_dict p)"

definition to_docker_config :: "dumps \<Rightarrow> seccomp_profile \<Rightarrow> (string, string list) dict" where
  "to_docker_config dumps p = [(''SecurityOpt'', [''seccomp='' @ dumps None (to_dict p)])]"

section \<open>The manager\<close>

definition seccomp_default :: seccomp_profile where
  "seccomp_default =
     \<lparr>sp_name = ''default'', sp_default = KILL, sp_allowed = DEFAULT_ALLOWED_SYSCALLS,
      sp_blocked = ALWAYS_BLOCKED\<rparr>"

definition seccomp_restrictive :: seccomp_profile where
  "seccomp_restrictive =
     \<lparr>sp_name = ''restrictive'', sp_default = KILL,
      sp_allowed = filter (\<lambda>s. s \<notin> RESTRICTIVE_REMOVED) DEFAULT_ALLOWED_SYSCALLS,
      sp_blocked = ALWAYS_BLOCKED\<rparr>"

definition seccomp_permissive :: seccomp_profile where
  "seccomp_permissive =
     \<lparr>sp_name = ''permissive'', sp_default = KILL,
      sp_allowed = sorted_list_of_set (set DEFAULT_ALLOWED_SYSCALLS \<union> PERMISSIVE_EXTRAS),
      sp_blocked = ALWAYS_BLOCKED\<rparr>"

type_synonym seccomp_files = "(string, string) dict"

definition profile_path :: "string \<Rightarrow> string \<Rightarrow> string" where
  "profile_path dir name =
     (if take 1 name = ''/'' then name @ ''.json'' else dir @ ''/'' @ name @ ''.json'')"

text \<open>\<open>Path.stem\<close>: the last component without its last suffix.\<close>

definition path_stem :: "string \<Rightarrow> string" where
  "path_stem path =
     (let n = last (py_split (CHR ''/'') path);
          k = length (takeWhile (\<lambda>c. c \<noteq> CHR ''.'') (rev n))
      in if CHR ''.'' \<in> set n \<and> 0 < k \<and> Suc k < length n then take (length n - Suc k) n else n)"

definition save_profile ::
  "dumps \<Rightarrow> string \<Rightarrow> seccomp_profile \<Rightarrow> seccomp_files \<Rightarrow> string \<times> seccomp_files" where
  "save_profile dumps dir p fs =
     (let path = profile_path dir (sp_name p) in (path, dict_set path (to_json dumps p) fs))"

fun load_entries :: "seccomp_entry list \<Rightarrow> string list \<Rightarrow> string list \<Rightarrow> string list \<times> string list" where
  "load_entries [] allowed blocked = (allowed, blocked)"
| "load_entries (e # es) allowed blocked =
     (let action = (case en_action e of None \<Rightarrow> [] | Some a \<Rightarrow> a);
          names = (case en_names e of None \<Rightarrow> [] | Some ns \<Rightarrow> ns)
      in if action = action_value ALLOW then load_entries es (allowed @ names) blocked
         else if action \<in> {action_value KILL, action_value ERRNO}
              then load_entries es allowed (blocked @ names)
         else load_entries es allowed blocked)"

definition load_doc :: "string \<Rightarrow> seccomp_doc \<Rightarrow> seccomp_profile result" where
  "load_doc path d =
     (let (allowed, blocked) =
            load_entries (case sd_syscalls d of None \<Rightarrow> [] | Some es \<Rightarrow> es) [] []
      in case action_of (case sd_default d of None \<Rightarrow> action_value KILL | Some v \<Rightarrow> v) of
           Inl e \<Rightarrow> Inl e
         | Inr a \<Rightarrow> Inr \<lparr>sp_name = path_stem path, sp_default = a,
                        sp_allowed = sort allowed, sp_blocked = sort blocked\<rparr>)"

definition load_seccomp :: "loads \<Rightarrow> seccomp_files \<Rightarrow> string \<Rightarrow> seccomp_profile result" where
  "load_seccomp loads fs path =
     (case dict_get fs path of
        None \<Rightarrow> Inl (FileNotFoundErr path)
      | Some text \<Rightarrow> (case loads text of Inl e \<Rightarrow> Inl e | Inr d \<Rightarrow> load_doc path d))"

definition find_seccomp ::
  "loads \<Rightarrow> string \<Rightarrow> seccomp_files \<Rightarrow> string \<Rightarrow> seccomp_profile option result" where
  "find_seccomp loads dir fs name =
     (let path = profile_path dir name
      in if path \<in> set (dict_keys fs)
         then (case load_seccomp loads fs path of Inl e \<Rightarrow> Inl e | Inr p \<Rightarrow> Inr (Some p))
         else if name = ''default'' then Inr (Some seccomp_default)
         else if name = ''restrictive'' then Inr (Some seccomp_restrictive)
         else if name = ''permissive'' then Inr (Some seccomp_permissive)
         else Inr None)"

definition validate_syscall :: "seccomp_profile \<Rightarrow> string \<Rightarrow> bool" where
  "validate_syscall p s =
     (if s \<in> set (sp_blocked p) then False
      else if sp_default p = KILL then s \<in> set (sp_allowed p)
      else s \<notin> set (sp_blocked p))"

definition seccomp_docker_opts ::
  "dumps \<Rightarrow> loads \<Rightarrow> string \<Rightarrow> seccomp_files \<Rightarrow> string \<Rightarrow> string list result" where
  "seccomp_docker_opts dumps loads dir fs name =
     (case find_seccomp loads dir fs name of
        Inl e \<Rightarrow> Inl e
      | Inr None \<Rightarrow> Inl (ValueError (''Unknown seccomp profile: '' @ name))
      | Inr (Some p) \<Rightarrow> Inr [''seccomp='' @ dumps None (to_dict p), ''no-new-privileges=true''])"

section \<open>The three built-in profiles\<close>

lemma action_of_value [simp]: "action_of (action_value a) = Inr a"
  by (cases a) (simp_all add: action_of_def)

lemma blocked_not_default: "list_all (\<lambda>s. s \<notin> set DEFAULT_ALLOWED_SYSCALLS) ALWAYS_BLOCKED"
  unfolding DEFAULT_ALLOWED_SYSCALLS_def set_sort ALWAYS_BLOCKED_def by code_simp

lemma blocked_not_extra: "list_all (\<lambda>s. s \<notin> PERMISSIVE_EXTRAS) ALWAYS_BLOCKED"
  unfolding PERMISSIVE_EXTRAS_def ALWAYS_BLOCKED_def by code_simp

lemma finite_extras [simp]: "finite PERMISSIVE_EXTRAS"
  by (simp add: PERMISSIVE_EXTRAS_def)

lemma allowed_columns [simp]:
  "sp_default seccomp_default = KILL" "sp_blocked seccomp_default = ALWAYS_BLOCKED"
  "sp_default seccomp_restrictive = KILL" "sp_blocked seccomp_restrictive = ALWAYS_BLOCKED"
  "sp_default seccomp_permissive = KILL" "sp_blocked seccomp_permissive = ALWAYS_BLOCKED"
  "set (sp_allowed seccomp_default) = set DEFAULT_ALLOWED_SYSCALLS"
  "set (sp_allowed seccomp_restrictive) = set DEFAULT_ALLOWED_SYSCALLS - RESTRICTIVE_REMOVED"
  "set (sp_allowed seccomp_permissive) = set DEFAULT_ALLOWED_SYSCALLS \<union> PERMISSIVE_EXTRAS"
  by (auto simp: seccomp_default_def seccomp_restrictive_def seccomp_permissive_def)

lemma allowed_kill:
  "sp_default p = KILL \<Longrightarrow> {s. validate_syscall p s} = set (sp_allowed p) - set (sp_blocked p)"
  by (auto simp: validate_syscall_def)

text \<open>
  C15. The three tiers are nested and none of them lets a blocked call through: the restrictive
  profile allows what the default one allows except the removed calls, the permissive one
  allows exactly the extra calls on top, and no call of the block list is allowed by any.
\<close>

theorem seccomp_tiers:
  "{s. validate_syscall seccomp_default s} = set DEFAULT_ALLOWED_SYSCALLS \<and>
   {s. validate_syscall seccomp_restrictive s} =
     {s. validate_syscall seccomp_default s} - RESTRICTIVE_REMOVED \<and>
   {s. validate_syscall seccomp_permissive s} =
     {s. validate_syscall seccomp_default s} \<union> PERMISSIVE_EXTRAS \<and>
   (\<forall>s. s \<in> set ALWAYS_BLOCKED \<longrightarrow> \<not> validate_syscall seccomp_permissive s)"
proof -
  have d: "set DEFAULT_ALLOWED_SYSCALLS \<inter> set ALWAYS_BLOCKED = {}"
    using blocked_not_default unfolding list_all_iff by blast
  have e: "PERMISSIVE_EXTRAS \<inter> set ALWAYS_BLOCKED = {}"
    using blocked_not_extra unfolding list_all_iff by blast
  have "\<not> validate_syscall seccomp_permissive s" if "s \<in> set ALWAYS_BLOCKED" for s
    using that by (simp add: validate_syscall_def)
  then show ?thesis
    unfolding allowed_kill [OF allowed_columns(1)] allowed_kill [OF allowed_columns(3)]
      allowed_kill [OF allowed_columns(5)] allowed_columns
    using d e by blast
qed

theorem seccomp_tiers_witness:
  "\<not> validate_syscall seccomp_permissive ''mount''"
proof -
  have "''mount'' \<in> set ALWAYS_BLOCKED" by (simp add: ALWAYS_BLOCKED_def)
  with seccomp_tiers show ?thesis by blast
qed

section \<open>Saving and loading\<close>

lemma py_split_append: "py_split c (a @ c # b) = py_split c a @ py_split c b"
  by (induction a) (auto split: list.split simp: Cons_eq_append_conv)

lemma py_split_last: "last (py_split c (a @ c # b)) = last (py_split c b)"
  by (simp add: py_split_append)

lemma py_split_none: "c \<notin> set s \<Longrightarrow> py_split c s = [s]"
  by (induction s) auto

lemma path_stem_json:
  assumes "CHR ''/'' \<notin> set name" and "name \<noteq> []"
  shows "path_stem (profile_path dir name) = name"
proof -
  have "take 1 name \<noteq> ''/''" using assms by (cases name) auto
  then have path: "profile_path dir name = dir @ CHR ''/'' # name @ ''.json''"
    by (simp add: profile_path_def)
  have "CHR ''/'' \<notin> set (name @ ''.json'')" using assms(1) by simp
  then have n: "last (py_split (CHR ''/'') (profile_path dir name)) = name @ ''.json''"
    unfolding path py_split_last by (simp only: py_split_none last.simps if_True simp_thms)
  show ?thesis
    using assms(2) by (simp add: path_stem_def Let_def n)
qed

lemma load_to_dict:
  "load_doc path (to_dict p) =
     Inr (p\<lparr>sp_name := path_stem path, sp_allowed := sort (sp_allowed p), sp_blocked := sort (sp_blocked p)\<rparr>)"
  by (simp add: load_doc_def to_dict_def)

text \<open>
  C21. A profile that was saved is the one found under its name from then on, in the place of a
  built-in profile too: the same default action and the same calls, each list sorted; and
  \<open>validate_syscall\<close> gives the same verdicts as before the round trip.
\<close>

theorem saved_profile_found:
  assumes "loads (dumps (Some 2) (to_dict p)) = Inr (to_dict p)"
    and "CHR ''/'' \<notin> set (sp_name p)" and "sp_name p \<noteq> []"
    and "save_profile dumps dir p fs = (path, fs')"
  shows "\<exists>q. find_seccomp loads dir fs' (sp_name p) = Inr (Some q) \<and> sp_name q = sp_name p \<and>
    sp_default q = sp_default p \<and> sp_allowed q = sort (sp_allowed p) \<and>
    sp_blocked q = sort (sp_blocked p) \<and> (\<forall>s. validate_syscall q s = validate_syscall p s) \<and>
    seccomp_docker_opts dumps loads dir fs' (sp_name p) =
      Inr [''seccomp='' @ dumps None (to_dict q), ''no-new-privileges=true'']"
proof -
  let ?q = "p\<lparr>sp_allowed := sort (sp_allowed p), sp_blocked := sort (sp_blocked p)\<rparr>"
  have fs: "fs' = dict_set (profile_path dir (sp_name p)) (dumps (Some 2) (to_dict p)) fs"
    and path: "path = profile_path dir (sp_name p)"
    using assms(4) by (auto simp: save_profile_def to_json_def Let_def)
  have found: "find_seccomp loads dir fs' (sp_name p) = Inr (Some ?q)"
    by (simp add: find_seccomp_def load_seccomp_def fs dict_simps assms(1) load_to_dict
        path_stem_json [OF assms(2,3)])
  moreover have "validate_syscall ?q s = validate_syscall p s" for s
    by (simp add: validate_syscall_def)
  ultimately show ?thesis by (simp add: seccomp_docker_opts_def)
qed

theorem saved_profile_found_witness:
  "\<exists>q. find_seccomp (\<lambda>_. Inr (to_dict seccomp_default)) ''/d''
       (snd (save_profile (\<lambda>_ _. ''{}'') ''/d'' seccomp_default [])) ''default'' = Inr (Some q) \<and>
     sp_allowed q = sort DEFAULT_ALLOWED_SYSCALLS"
proof -
  have "sp_name seccomp_default = ''default'' \<and> sp_allowed seccomp_default = DEFAULT_ALLOWED_SYSCALLS"
    by (simp add: seccomp_default_def)
  with saved_profile_found [where p = seccomp_default and dir = "''/d''" and fs = "[]"
      and dumps = "\<lambda>_ _. ''{}''" and loads = "\<lambda>_. Inr (to_dict seccomp_default)", OF refl]
  show ?thesis by (auto simp: prod_eq_iff)
qed

section \<open>Where a profile changes its meaning\<close>

lemma load_entries_append:
  "load_entries es a b = (a @ fst (load_entries es [] []), b @ snd (load_entries es [] []))"
proof (induction es arbitrary: a b)
  case (Cons e es)
  define A N where "A = (case en_action e of None \<Rightarrow> [] | Some a \<Rightarrow> a)"
    and "N = (case en_names e of None \<Rightarrow> [] | Some ns \<Rightarrow> ns)"
  show ?case
    unfolding load_entries.simps Let_def A_def [symmetric] N_def [symmetric]
    by (simp only: Cons.IH [of "a @ N" b] Cons.IH [of "[] @ N" "[]"] Cons.IH [of a "b @ N"]
        Cons.IH [of "[]" "[] @ N"] Cons.IH [of a b] split: if_split) simp
qed simp

lemma load_entries_more:
  "set (snd (load_entries es [] [])) \<subseteq> set (snd (load_entries (e # es) [] []))"
proof -
  define A N where "A = (case en_action e of None \<Rightarrow> [] | Some a \<Rightarrow> a)"
    and "N = (case en_names e of None \<Rightarrow> [] | Some ns \<Rightarrow> ns)"
  show ?thesis
    unfolding load_entries.simps Let_def A_def [symmetric] N_def [symmetric]
    by (simp only: load_entries_append [of es "[] @ N" "[]"] load_entries_append [of es "[]" "[] @ N"]
        split: if_split) auto
qed

text \<open>
  Loading a profile and saving it again is not the identity on its meaning: the calls a
  document answers with an error number are written back as calls that kill the process, and
  the entries with the actions TRAP and LOG are lost.
\<close>

theorem resaved_profile_actions:
  assumes "load_doc path d = Inr p" and "sd_syscalls d = Some es"
    and "e \<in> set es" and "en_names e = Some ns" and "en_action e = Some (action_value a)"
  shows "(a = ERRNO \<longrightarrow> set ns \<subseteq> set (sp_blocked p) \<and>
      (\<exists>e'\<in>set (the (sd_syscalls (to_dict p))).
         en_action e' = Some (action_value KILL) \<and> set ns \<subseteq> set (the (en_names e')))) \<and>
    (a \<in> {TRAP, LOG} \<longrightarrow> (\<forall>e'\<in>set (the (sd_syscalls (to_dict p))). en_action e' \<noteq> Some (action_value a)))"
proof -
  have blocked: "set ns \<subseteq> set (snd (load_entries es' [] []))"
    if "e \<in> set es'" "a = ERRNO" for es'
    using that
  proof (induction es')
    case (Cons f fs)
    show ?case
    proof (cases "e = f")
      case True
      then show ?thesis
        using assms(4,5) \<open>a = ERRNO\<close> load_entries_append [of fs "[]" ns] by simp
    next
      case False
      with Cons have "set ns \<subseteq> set (snd (load_entries fs [] []))" by simp
      with load_entries_more show ?thesis by blast
    qed
  qed simp
  have p: "sp_blocked p = sort (snd (load_entries es [] []))"
    using assms(1,2) by (auto simp: load_doc_def split: prod.splits sum.splits)
  then show ?thesis
    using blocked [OF assms(3)] by (cases a) (auto simp: to_dict_def)
qed

definition errno_doc :: seccomp_doc where
  "errno_doc = \<lparr>sd_default = None, sd_architectures = None,
     sd_syscalls = Some [\<lparr>en_names = Some [''ptrace''], en_action = Some ''SCMP_ACT_ERRNO''\<rparr>]\<rparr>"

theorem resaved_profile_actions_witness:
  "\<exists>p. load_doc ''/d/p.json'' errno_doc = Inr p \<and> ''ptrace'' \<in> set (sp_blocked p)"
proof -
  obtain p where p: "load_doc ''/d/p.json'' errno_doc = Inr p"
    using action_of_value [of KILL] by (simp add: load_doc_def errno_doc_def)
  from resaved_profile_actions [OF p, of _ _ "[''ptrace'']" ERRNO] show ?thesis
    by (simp add: errno_doc_def p [unfolded errno_doc_def])
qed

text \<open>
  With a default action other than KILL the list of allowed calls is ignored: the check
  answers "allowed" for every call that is not blocked, although the document it writes for
  Docker answers every call outside the list with that default action, an error or a trap.
\<close>

theorem lenient_default_allows_all:
  assumes "sp_default p \<noteq> KILL"
  shows "{s. validate_syscall p s} = - set (sp_blocked p) \<and>
    {s. validate_syscall (p\<lparr>sp_allowed := []\<rparr>) s} = {s. validate_syscall p s} \<and>
    sd_default (to_dict p) = Some (action_value (sp_default p))"
  using assms by (auto simp: validate_syscall_def to_dict_def)

theorem lenient_default_allows_all_witness:
  "validate_syscall (seccomp_default\<lparr>sp_default := ERRNO, sp_blocked := []\<rparr>) ''ptrace''"
  using lenient_default_allows_all [of "seccomp_default\<lparr>sp_default := ERRNO, sp_blocked := []\<rparr>"]
  by auto

end
