(* ===== verification/Regex.thy ===== *)
theory Regex
  imports Prelude
begin

text \<open>
  The part of Python's \<open>re\<close> the audit logger uses: \<open>pattern.sub(replacement, text)\<close> for
  patterns built from character classes, greedy repetition of a class, alternatives and
  groups. A pattern is matched by backtracking: \<open>matches r s\<close> lists all ways to match a prefix
  of \<open>s\<close>, in the order in which the engine tries them (the longest repetition first), with
  the text of the groups; the first one is the match. \<open>sub\<close> replaces the leftmost matches
  from left to right. The texts are ASCII; no pattern used matches the empty text.
\<close>

section \<open>Matching and substitution\<close>

datatype re =
    Class "char \<Rightarrow> bool"
  | Seq re re
  | Alt re re
  | Rep nat "nat option" "char \<Rightarrow> bool"
  | Group nat re

type_synonym groups = "(nat \<times> string) list"

definition rep_lengths :: "nat \<Rightarrow> nat option \<Rightarrow> nat \<Rightarrow> nat list" where
  "rep_lengths lo hi n = rev [lo..<Suc (case hi of None \<Rightarrow> n | Some h \<Rightarrow> min h n)]"

fun matches :: "re \<Rightarrow> string \<Rightarrow> (string \<times> groups) list" where
  "matches (Class p) s = (case s of [] \<Rightarrow> [] | c # _ \<Rightarrow> if p c then [([c], [])] else [])"
| "matches (Seq a b) s =
     concat (map (\<lambda>(m, g). map (\<lambda>(m', g'). (m @ m', g @ g')) (matches b (drop (length m) s)))
       (matches a s))"
| "matches (Alt a b) s = matches a s @ matches b s"
| "matches (Rep lo hi p) s =
     map (\<lambda>k. (take k s, [])) (rep_lengths lo hi (length (takeWhile p s)))"
| "matches (Group i r) s = map (\<lambda>(m, g). (m, (i, m) # g)) (matches r s)"

definition re_match :: "re \<Rightarrow> string \<Rightarrow> (string \<times> groups) option" where
  "re_match r s = (case matches r s of [] \<Rightarrow> None | x # _ \<Rightarrow> Some x)"

function sub :: "re \<Rightarrow> (groups \<Rightarrow> string) \<Rightarrow> string \<Rightarrow> string" where
  "sub r f [] = []"
| "sub r f (c # s) =
     (case re_match r (c # s) of
        None \<Rightarrow> c # sub r f s
      | Some (m, g) \<Rightarrow>
          if m = [] then c # sub r f s else f g @ sub r f (drop (length m) (c # s)))"
  by pat_completeness auto

termination
  by (relation "measure (\<lambda>(r, f, s). length s)") (auto simp: neq_Nil_conv)

declare sub.simps [simp del]

text \<open>A literal text, \<open>r\<^sub>1 r\<^sub>2 \<dots>\<close>, and classes of characters.\<close>

fun lit :: "string \<Rightarrow> re" where
  "lit [] = Rep 0 (Some 0) (\<lambda>_. False)"
| "lit [c] = Class (\<lambda>x. x = c)"
| "lit (c # cs) = Seq (Class (\<lambda>x. x = c)) (lit cs)"

fun seqs :: "re list \<Rightarrow> re" where
  "seqs [] = lit []"
| "seqs [r] = r"
| "seqs (r # rs) = Seq r (seqs rs)"

fun alts :: "re list \<Rightarrow> re" where
  "alts [] = Class (\<lambda>_. False)"
| "alts [r] = r"
| "alts (r # rs) = Alt r (alts rs)"

definition between :: "char \<Rightarrow> char \<Rightarrow> char \<Rightarrow> bool" where
  "between a b c \<longleftrightarrow> (of_char a :: nat) \<le> of_char c \<and> (of_char c :: nat) \<le> of_char b"

definition is_upper :: "char \<Rightarrow> bool" where "is_upper c \<longleftrightarrow> between (CHR ''A'') (CHR ''Z'') c"
definition is_lower :: "char \<Rightarrow> bool" where "is_lower c \<longleftrightarrow> between (CHR ''a'') (CHR ''z'') c"
definition is_alnum :: "char \<Rightarrow> bool" where
  "is_alnum c \<longleftrightarrow> is_lower c \<or> is_upper c \<or> is_digit c"

text \<open>A literal under \<open>(?i)\<close>.\<close>

definition lit_ci :: "string \<Rightarrow> re" where
  "lit_ci cs = seqs (map (\<lambda>c. Class (\<lambda>x. lower_char x = c)) cs)"

section \<open>What a match is\<close>

lemma rep_lengths_le: "k \<in> set (rep_lengths lo hi n) \<Longrightarrow> lo \<le> k \<and> k \<le> n"
  by (auto simp: rep_lengths_def split: option.splits)

lemma matches_prefix: "(m, g) \<in> set (matches r s) \<Longrightarrow> prefix m s"
proof (induction r arbitrary: s m g)
  case (Seq a b)
  then obtain m1 g1 m2 g2 where m: "m = m1 @ m2" and a: "(m1, g1) \<in> set (matches a s)"
    and b: "(m2, g2) \<in> set (matches b (drop (length m1) s))"
    by auto
  from Seq.IH(1) [OF a] Seq.IH(2) [OF b] show ?case by (auto simp: m prefix_def)
qed (auto simp: take_is_prefix split: list.splits if_splits)

lemma re_match_Some: "re_match r s = Some (m, g) \<Longrightarrow> (m, g) \<in> set (matches r s)"
  by (auto simp: re_match_def split: list.splits)

lemma re_match_None: "re_match r s = None \<longleftrightarrow> matches r s = []"
  by (auto simp: re_match_def split: list.splits)

lemma matches_lit: "matches (lit cs) s = (if prefix cs s then [(cs, [])] else [])"
proof (induction cs arbitrary: s rule: lit.induct)
  case 1
  then show ?case by (simp add: rep_lengths_def)
next
  case (2 c)
  then show ?case by (auto split: list.split)
next
  case (3 c d cs)
  then show ?case by (cases s) auto
qed

lemma matches_SeqE:
  assumes "(m, g) \<in> set (matches (Seq a b) s)"
  obtains m1 g1 m2 g2 s' where "m = m1 @ m2" "(m1, g1) \<in> set (matches a s)" "(m2, g2) \<in> set (matches b s')"
  using assms by auto

lemma matches_ClassE:
  assumes "(m, g) \<in> set (matches (Class p) s)"
  obtains c where "m = [c]" "p c"
  using assms by (auto split: list.splits if_splits)

lemma matches_litE:
  assumes "(m, g) \<in> set (matches (lit cs) s)"
  obtains "m = cs"
  using assms by (auto simp: matches_lit split: if_splits)

lemma matches_RepE:
  assumes "(m, g) \<in> set (matches (Rep lo hi p) s)"
  obtains "lo \<le> length m" "list_all p m"
proof -
  obtain k where "k \<in> set (rep_lengths lo hi (length (takeWhile p s)))" and m: "m = take k s"
    using assms by auto
  from rep_lengths_le [OF this(1)] have k: "lo \<le> k" "k \<le> length (takeWhile p s)" by blast+
  have "take k (takeWhile p s @ dropWhile p s) = take k (takeWhile p s)"
    using k(2) unfolding take_append by simp
  then have "m = take k (takeWhile p s)" unfolding takeWhile_dropWhile_id m .
  then have "list_all p m" by (auto simp: list_all_iff dest: in_set_takeD set_takeWhileD)
  moreover have "lo \<le> length m" using k le_trans [OF k(2) length_takeWhile_le] by (simp add: m)
  ultimately show ?thesis using that by blast
qed

lemmas matchesE = matches_SeqE matches_ClassE matches_litE matches_RepE

lemma sub_no_match:
  assumes "\<And>u m g. suffix u s \<Longrightarrow> (m, g) \<notin> set (matches r u)"
  shows "sub r f s = s"
  using assms
proof (induction s)
  case (Cons c s)
  have "matches r (c # s) = []" using Cons.prems [of "c # s"] by (cases "matches r (c # s)") auto
  moreover have "sub r f s = s"
  proof (rule Cons.IH)
    fix u m g assume "suffix u s"
    then have "suffix u (c # s)" by (rule suffix_ConsI)
    then show "(m, g) \<notin> set (matches r u)" by (rule Cons.prems)
  qed
  ultimately show ?case by (simp add: sub.simps re_match_def)
qed (simp add: sub.simps)

text \<open>
  A token is a literal followed by at least \<open>n\<close> characters of a class, the shape of an access
  key.
\<close>

definition token :: "string \<Rightarrow> nat \<Rightarrow> (char \<Rightarrow> bool) \<Rightarrow> string \<Rightarrow> bool" where
  "token pre n p t \<longleftrightarrow> (\<exists>w. t = pre @ w \<and> length w = n \<and> list_all p w)"

definition token_free :: "string \<Rightarrow> nat \<Rightarrow> (char \<Rightarrow> bool) \<Rightarrow> string \<Rightarrow> bool" where
  "token_free pre n p s \<longleftrightarrow> (\<forall>t. token pre n p t \<longrightarrow> \<not> sublist t s)"

definition token_char :: "string \<Rightarrow> (char \<Rightarrow> bool) \<Rightarrow> char \<Rightarrow> bool" where
  "token_char pre p c \<longleftrightarrow> c \<in> set pre \<or> p c"

lemma token_chars: "token pre n p t \<Longrightarrow> c \<in> set t \<Longrightarrow> token_char pre p c"
  by (auto simp: token_def token_char_def list_all_iff)

lemma token_free_sublist: "token_free pre n p s \<Longrightarrow> sublist u s \<Longrightarrow> token_free pre n p u"
  unfolding token_free_def by (meson sublist_order.order_trans)

lemma token_free_appendD:
  "token_free pre n p (a @ b) \<Longrightarrow> token_free pre n p a" "token_free pre n p (a @ b) \<Longrightarrow> token_free pre n p b"
  by (auto elim: token_free_sublist)

text \<open>A character that no token holds separates the texts on its two sides.\<close>

lemma token_free_join:
  assumes "token_free pre n p a" and "token_free pre n p b" and "\<not> token_char pre p c"
    and "pre \<noteq> []"
  shows "token_free pre n p (a @ c # b)"
  unfolding token_free_def
proof (intro allI impI notI)
  fix t assume t: "token pre n p t" "sublist t (a @ c # b)"
  have c: "c \<notin> set t" using token_chars [OF t(1)] assms(3) by blast
  have ne: "t \<noteq> []" using t(1) assms(4) by (auto simp: token_def)
  from t(2) consider "sublist t a" | "sublist t (c # b)"
    | t1 t2 where "t = t1 @ t2" "suffix t1 a" "prefix t2 (c # b)"
    by (auto simp: sublist_append)
  then show False
  proof cases
    case 1
    then show ?thesis using assms(1) t(1) by (auto simp: token_free_def)
  next
    case 2
    with c ne have "sublist t b" by (auto simp: sublist_Cons_right prefix_Cons)
    then show ?thesis using assms(2) t(1) by (auto simp: token_free_def)
  next
    case 3
    with c have "t2 = []" by (cases t2) auto
    with 3 have "sublist t a" by auto
    then show ?thesis using assms(1) t(1) by (auto simp: token_free_def)
  qed
qed

section \<open>Substitution and tokens\<close>

text \<open>
  A replacement masks its match when it is a prefix of the match, a separator, a constant
  without the literal of the token, and another separator.
\<close>

definition masked :: "(char \<Rightarrow> bool) \<Rightarrow> string \<Rightarrow> string \<Rightarrow> string \<Rightarrow> string \<Rightarrow> bool" where
  "masked sep pre h m r \<longleftrightarrow>
     prefix h m \<and> (\<exists>c b c'. r = h @ c # b @ [c'] \<and> sep c \<and> sep c' \<and> \<not> py_in pre b)"

locale key_shape =
  fixes pre :: string and n :: nat and p :: "char \<Rightarrow> bool" and sep :: "char \<Rightarrow> bool"
  assumes pre_ne: "pre \<noteq> []"
    and sep_free: "sep c \<Longrightarrow> \<not> token_char pre p c"
begin

abbreviation free :: "string \<Rightarrow> bool" where
  "free \<equiv> token_free pre n p"

lemma free_Nil: "free []"
  using pre_ne by (auto simp: token_free_def token_def)

lemma free_constant: "\<not> py_in pre b \<Longrightarrow> free b"
  unfolding token_free_def token_def py_in_iff_sublist
  by (metis sublist_append_rightI sublist_order.order_trans)

lemma free_join: "free a \<Longrightarrow> free b \<Longrightarrow> sep c \<Longrightarrow> free (a @ c # b)"
  by (rule token_free_join [OF _ _ sep_free pre_ne])

lemma free_masked:
  assumes "masked sep pre h m r" and "free (x @ m)" and "free y"
  shows "free (x @ r @ y)"
proof -
  obtain c b c' where r: "r = h @ c # b @ [c']" and s: "sep c" "sep c'" and b: "\<not> py_in pre b"
    and h: "prefix h m"
    using assms(1) unfolding masked_def by blast
  obtain z where "m = h @ z" using h by (auto simp: prefix_def)
  with assms(2) have "free ((x @ h) @ z)" by simp
  then have "free (x @ h)" by (rule token_free_appendD(1))
  from free_join [OF this free_join [OF free_constant [OF b] assms(3) s(2)] s(1)]
  show ?thesis by (simp add: r)
qed

lemma free_sub:
  assumes "\<And>s m g. (m, g) \<in> set (matches r s) \<Longrightarrow> \<exists>h. masked sep pre h m (f g)"
    and "free (x @ s)"
  shows "free (x @ sub r f s)"
  using assms(2)
proof (induction "length s" arbitrary: x s rule: less_induct)
  case less
  show ?case
  proof (cases s)
    case Nil
    then show ?thesis using less.prems by (simp add: sub.simps)
  next
    case (Cons c s')
    have step: "free (x @ c # sub r f s')"
      using less.hyps [of s' "x @ [c]"] less.prems by (simp add: Cons)
    show ?thesis
    proof (cases "re_match r s")
      case None
      with step show ?thesis by (simp add: Cons sub.simps)
    next
      case (Some mg)
      obtain m g where mg: "mg = (m, g)" by (cases mg)
      show ?thesis
      proof (cases "m = []")
        case True
        with step Some show ?thesis by (simp add: Cons sub.simps mg)
      next
        case False
        have mem: "(m, g) \<in> set (matches r s)" using Some mg by (simp add: re_match_Some)
        have s: "s = m @ drop (length m) s"
          using matches_prefix [OF mem] by (auto simp: prefix_def)
        have x: "free ((x @ m) @ drop (length m) s)" using less.prems s by simp
        have "free (sub r f (drop (length m) s))"
          using less.hyps [of "drop (length m) s" "[]"] token_free_appendD(2) [OF x] False Cons by simp
        moreover obtain h where "masked sep pre h m (f g)" using assms(1) [OF mem] by blast
        ultimately have "free (x @ f g @ sub r f (drop (length m) s))"
          using free_masked token_free_appendD(1) [OF x] by blast
        with Some False show ?thesis by (simp add: Cons sub.simps mg)
      qed
    qed
  qed
qed

text \<open>Until the first separator the result of a substitution is the text itself.\<close>

lemma prefix_sub:
  assumes "\<And>s m g. (m, g) \<in> set (matches r s) \<Longrightarrow> masked sep pre [] m (f g)"
    and "prefix u (sub r f s)" and "\<And>c. c \<in> set u \<Longrightarrow> \<not> sep c"
  shows "prefix u s"
  using assms(2,3)
proof (induction s arbitrary: u)
  case Nil
  then show ?case by (simp add: sub.simps)
next
  case (Cons c s)
  have step: "prefix u (c # s)" if "prefix u (c # sub r f s)"
    using that Cons.IH Cons.prems(2) by (cases u) auto
  show ?case
  proof (cases "re_match r (c # s)")
    case None
    with step Cons.prems(1) show ?thesis by (simp add: sub.simps)
  next
    case (Some mg)
    obtain m g where mg: "mg = (m, g)" by (cases mg)
    have mem: "(m, g) \<in> set (matches r (c # s))" using Some mg by (simp add: re_match_Some)
    from assms(1) [OF mem] obtain c' b where "f g = c' # b" "sep c'" unfolding masked_def by auto
    with Some step Cons.prems show ?thesis
      by (cases u) (auto simp: sub.simps mg split: if_splits)
  qed
qed

lemma sub_removes:
  assumes "\<And>s m g. (m, g) \<in> set (matches r s) \<Longrightarrow> masked sep pre [] m (f g)"
    and "\<And>t s. token pre n p t \<Longrightarrow> prefix t s \<Longrightarrow> \<exists>m g. re_match r s = Some (m, g) \<and> m \<noteq> []"
  shows "free (sub r f s)"
proof (induction "length s" arbitrary: s rule: less_induct)
  case less
  show ?case
  proof (cases s)
    case Nil
    then show ?thesis using free_Nil by (simp add: sub.simps)
  next
    case (Cons c s')
    have rest: "free (sub r f s')" using less.hyps by (simp add: Cons)
    show ?thesis
    proof (cases "\<exists>m g. re_match r s = Some (m, g) \<and> m \<noteq> []")
      case True
      then obtain m g where m: "re_match r s = Some (m, g)" "m \<noteq> []" by blast
      have "free (sub r f (drop (length m) s))" using less.hyps m(2) by (simp add: Cons)
      moreover have "free ([] @ [])" using free_Nil by simp
      ultimately have "free ([] @ f g @ sub r f (drop (length m) s))"
        using free_masked [of "[]" "[]" "f g" "[]"] assms(1) [OF re_match_Some [OF m(1)]]
        by (auto simp: masked_def)
      with m show ?thesis by (simp add: Cons sub.simps)
    next
      case False
      have "free (c # sub r f s')"
        unfolding token_free_def
      proof (intro allI impI notI)
        fix t assume t: "token pre n p t" "sublist t (c # sub r f s')"
        have "\<not> sublist t (sub r f s')" using rest t(1) by (auto simp: token_free_def)
        with t(2) obtain t' where t': "t = c # t'" "prefix t' (sub r f s')"
          by (auto simp: sublist_Cons_right prefix_Cons)
        have "\<not> sep c'" if "c' \<in> set t'" for c'
          using token_chars [OF t(1), of c'] sep_free that by (auto simp: t'(1))
        with t'(2) have "prefix t' s'" by (intro prefix_sub [of r f t' s']) (auto intro: assms(1))
        with assms(2) [OF t(1), of s] False show False by (simp add: t'(1) Cons)
      qed
      with False show ?thesis by (auto simp: Cons sub.simps split: option.split)
    qed
  qed
qed

end

text \<open>Patterns that match every text that begins with a token.\<close>

lemma token_matched:
  assumes "token pre n p t" and "prefix t s" and "pre \<noteq> []" and "hi = None \<or> hi = Some n"
  shows "\<exists>m g. re_match (Seq (lit pre) (Rep n hi p)) s = Some (m, g) \<and> m \<noteq> []"
proof -
  obtain w where t: "t = pre @ w" and w: "length w = n" "list_all p w"
    using assms(1) by (auto simp: token_def)
  obtain z where s: "s = pre @ w @ z" using assms(2) by (auto simp: t prefix_def)
  have "takeWhile p (w @ z) = w @ takeWhile p z"
    using w(2) by (simp add: takeWhile_append2 list_all_iff)
  then have n: "n \<le> length (takeWhile p (w @ z))" by (simp add: w(1))
  define ks where "ks = rep_lengths n hi (length (takeWhile p (w @ z)))"
  have "ks \<noteq> []" using n assms(4) by (auto simp: ks_def rep_lengths_def)
  then obtain k ks' where ks: "ks = k # ks'" by (cases ks) auto
  have "matches (Seq (lit pre) (Rep n hi p)) s = map (\<lambda>k. (pre @ take k (w @ z), [])) ks"
    by (simp add: matches_lit s ks_def)
  then show ?thesis using assms(3) by (simp add: re_match_def ks)
qed

end
