(* ===== verification/Secrets.thy ===== *)
theory Secrets
  imports Prelude
begin

text \<open>
  The encrypted secret store (src/secrets/encrypted_store.py): storing, retrieving, rotating
  and deleting secrets, their copies on the temporary file system, the access log and the
  redaction of dictionaries. A file of the store is the JSON document it holds; the keys of a
  document that the code reads with a default are optional. \<open>AESGCM\<close>, \<open>hashlib.sha256\<close> and
  \<open>base64\<close> are parameters, as are the key file, the answer of Vault, the environment variable,
  the random identifiers and nonces (by the number drawn before) and the clock (by the number
  of times it was read before). A secret identifier has no slash; a copy on the temporary file
  system is named by it. The values of metadata and of redacted dictionaries are texts.
\<close>

section \<open>Data\<close>

datatype secret_class = API_KEY | DATABASE_CRED | TLS_CERT | OAUTH_TOKEN | SIGNING_KEY | GENERIC

fun class_value :: "secret_class \<Rightarrow> string" where
  "class_value API_KEY = ''api_key''"
| "class_value DATABASE_CRED = ''database_cred''"
| "class_value TLS_CERT = ''tls_cert''"
| "class_value OAUTH_TOKEN = ''oauth_token''"
| "class_value SIGNING_KEY = ''signing_key''"
| "class_value GENERIC = ''generic''"

definition class_of :: "string \<Rightarrow> secret_class result" where
  "class_of v =
     (case find (\<lambda>c. class_value c = v) [API_KEY, DATABASE_CRED, TLS_CERT, OAUTH_TOKEN, SIGNING_KEY, GENERIC] of
        None \<Rightarrow> Inl (ValueError ([CHR 0x27] @ v @ [CHR 0x27] @ '' is not a valid SecretClass''))
      | Some c \<Rightarrow> Inr c)"

record secret_access =
  sa_id :: string
  sa_class :: secret_class
  sa_by :: string
  sa_time :: real
  sa_trace :: "string option"

type_synonym metadata = "(string, string) dict"

record encrypted_secret =
  es_id :: string
  es_name :: string
  es_class :: secret_class
  es_ciphertext :: string
  es_nonce :: string
  es_created :: real
  es_rotated :: real
  es_expires :: "real option"
  es_metadata :: metadata
  es_version :: int

text \<open>The document of a secret; \<open>None\<close> is a missing key, or \<open>null\<close> for the expiry.\<close>

record secret_doc =
  do_id :: string
  do_name :: string
  do_class :: string
  do_ciphertext :: string
  do_nonce :: string
  do_created :: real
  do_rotated :: "real option"
  do_expires :: "real option"
  do_metadata :: "metadata option"
  do_version :: "int option"

record secret_env =
  se_encrypt :: "string \<Rightarrow> string \<Rightarrow> string \<Rightarrow> string"
  se_decrypt :: "string \<Rightarrow> string \<Rightarrow> string \<Rightarrow> string option"
  se_sha256 :: "string \<Rightarrow> string"
  se_b64encode :: "string \<Rightarrow> string"
  se_b64decode :: "string \<Rightarrow> string result"
  se_read_file :: "string \<Rightarrow> string result"
  se_vault :: "string result"
  se_master_var :: "string option"
  se_ids :: "nat \<Rightarrow> string"
  se_nonces :: "nat \<Rightarrow> string"
  se_clock :: "nat \<Rightarrow> real"
  se_key_source :: string
  se_key_file :: "string option"
  se_rotation_days :: int
  se_redacted_keys :: "string list"

record secret_state =
  ss_storage :: "(string, secret_doc) dict"
  ss_tmpfs :: "(string, string) dict"
  ss_key :: "string option"
  ss_log :: "secret_access list"
  ss_drawn :: nat
  ss_ticks :: nat

definition secret_to_dict :: "secret_env \<Rightarrow> encrypted_secret \<Rightarrow> secret_doc" where
  "secret_to_dict E e =
     \<lparr>do_id = es_id e, do_name = es_name e, do_class = class_value (es_class e),
      do_ciphertext = se_b64encode E (es_ciphertext e), do_nonce = se_b64encode E (es_nonce e),
      do_created = es_created e, do_rotated = Some (es_rotated e), do_expires = es_expires e,
      do_metadata = Some (es_metadata e), do_version = Some (es_version e)\<rparr>"

definition secret_from_dict :: "secret_env \<Rightarrow> secret_doc \<Rightarrow> encrypted_secret result" where
  "secret_from_dict E d =
     (case class_of (do_class d) of Inl e \<Rightarrow> Inl e
      | Inr c \<Rightarrow> (case se_b64decode E (do_ciphertext d) of Inl e \<Rightarrow> Inl e
      | Inr ct \<Rightarrow> (case se_b64decode E (do_nonce d) of Inl e \<Rightarrow> Inl e
      | Inr nonce \<Rightarrow>
          Inr \<lparr>es_id = do_id d, es_name = do_name d, es_class = c, es_ciphertext = ct, es_nonce = nonce,
               es_created = do_created d,
               es_rotated = (case do_rotated d of None \<Rightarrow> do_created d | Some r \<Rightarrow> r),
               es_expires = do_expires d,
               es_metadata = (case do_metadata d of None \<Rightarrow> [] | Some m \<Rightarrow> m),
               es_version = (case do_version d of None \<Rightarrow> 1 | Some v \<Rightarrow> v)\<rparr>)))"

section \<open>Keys\<close>

definition derive_key :: "secret_env \<Rightarrow> string \<Rightarrow> string \<Rightarrow> string" where
  "derive_key E master i = se_sha256 E (master @ i @ ''paperclip-secrets-v1'')"

definition bytes_strip :: "string \<Rightarrow> string" where
  "bytes_strip s =
     (let sp = (\<lambda>c. c \<in> {CHR '' '', CHR 0x09, CHR 0x0A, CHR 0x0B, CHR 0x0C, CHR 0x0D})
      in rev (dropWhile sp (rev (dropWhile sp s))))"

definition load_master_key :: "secret_env \<Rightarrow> string result" where
  "load_master_key E =
     (if se_key_source E = ''local'' then
        (if str_or (se_key_file E) [] = [] then Inl (ValueError ''key_file required for local key source'')
         else case se_read_file E (str_or (se_key_file E) []) of Inl e \<Rightarrow> Inl e
              | Inr key_data \<Rightarrow> se_b64decode E (bytes_strip key_data))
      else if se_key_source E = ''vault'' then
        (case se_vault E of Inl e \<Rightarrow> Inl e | Inr key_b64 \<Rightarrow> se_b64decode E key_b64)
      else if se_key_source E = ''env'' then
        (if str_or (se_master_var E) [] = []
         then Inl (ValueError ''PAPERCLIP_MASTER_KEY not set for env key source'')
         else se_b64decode E (str_or (se_master_var E) []))
      else Inl (ValueError (''Unsupported key source: '' @ se_key_source E)))"

definition get_master_key :: "secret_env \<Rightarrow> secret_state \<Rightarrow> string result \<times> secret_state" where
  "get_master_key E s =
     (case ss_key s of
        Some k \<Rightarrow> (Inr k, s)
      | None \<Rightarrow> (case load_master_key E of
                  Inl e \<Rightarrow> (Inl e, s)
                | Inr k \<Rightarrow> (Inr k, s\<lparr>ss_key := Some k\<rparr>)))"

section \<open>Operations\<close>

definition secret_file :: "string \<Rightarrow> string" where
  "secret_file i = i @ ''.enc''"

text \<open>\<open>with_suffix(".tmp")\<close>: the file name ".enc" of the empty identifier has no suffix.\<close>

definition secret_tmp_file :: "string \<Rightarrow> string" where
  "secret_tmp_file i = (if i = [] then ''.enc.tmp'' else i @ ''.tmp'')"

definition clock :: "secret_env \<Rightarrow> secret_state \<Rightarrow> real \<times> secret_state" where
  "clock E s = (se_clock E (ss_ticks s), s\<lparr>ss_ticks := Suc (ss_ticks s)\<rparr>)"

definition log_access ::
  "secret_env \<Rightarrow> string \<Rightarrow> secret_class \<Rightarrow> string \<Rightarrow> string option \<Rightarrow> secret_state \<Rightarrow> secret_state" where
  "log_access E i c actor trace s =
     (let (t, s1) = clock E s
      in s1\<lparr>ss_log := ss_log s1 @
             [\<lparr>sa_id = i, sa_class = c, sa_by = actor, sa_time = t, sa_trace = trace\<rparr>]\<rparr>)"

text \<open>The document is written to a temporary file, which is then renamed.\<close>

definition write_secret :: "secret_env \<Rightarrow> string \<Rightarrow> encrypted_secret \<Rightarrow> secret_state \<Rightarrow> secret_state" where
  "write_secret E i e s =
     (let tmp = dict_set (secret_tmp_file i) (secret_to_dict E e) (ss_storage s)
      in s\<lparr>ss_storage := dict_set (secret_file i) (secret_to_dict E e) (dict_pop (secret_tmp_file i) tmp)\<rparr>)"

definition expiry :: "real \<Rightarrow> int option \<Rightarrow> real option" where
  "expiry t days = (case days of None \<Rightarrow> None | Some d \<Rightarrow> if d = 0 then None else Some (t + of_int (d * 86400)))"

definition store_secret ::
  "secret_env \<Rightarrow> string \<Rightarrow> string \<Rightarrow> secret_class \<Rightarrow> string \<Rightarrow> int option \<Rightarrow> metadata option \<Rightarrow>
   string option \<Rightarrow> secret_state \<Rightarrow> string result \<times> secret_state" where
  "store_secret E name val c actor days metadata trace s =
     (if val = [] then (Inl (ValueError ''Secret value must not be empty''), s)
      else case get_master_key E s of
        (Inl e, s1) \<Rightarrow> (Inl e, s1)
      | (Inr master, s1) \<Rightarrow>
          let i = se_ids E (ss_drawn s1);
              nonce = se_nonces E (ss_drawn s1);
              ct = se_encrypt E (derive_key E master i) nonce val;
              (t, s2) = clock E (s1\<lparr>ss_drawn := Suc (ss_drawn s1)\<rparr>);
              e = \<lparr>es_id = i, es_name = name, es_class = c, es_ciphertext = ct, es_nonce = nonce,
                   es_created = t, es_rotated = t, es_expires = expiry t days,
                   es_metadata = (case metadata of None \<Rightarrow> [] | Some m \<Rightarrow> m), es_version = 1\<rparr>
          in (Inr i, log_access E i c actor trace (write_secret E i e s2)))"

definition expired :: "secret_env \<Rightarrow> real option \<Rightarrow> secret_state \<Rightarrow> bool \<times> secret_state" where
  "expired E expires s =
     (case expires of None \<Rightarrow> (False, s)
      | Some x \<Rightarrow> if x = 0 then (False, s) else let (t, s1) = clock E s in (t > x, s1))"

definition retrieve ::
  "secret_env \<Rightarrow> string \<Rightarrow> string \<Rightarrow> string option \<Rightarrow> secret_state \<Rightarrow> string result \<times> secret_state" where
  "retrieve E i actor trace s =
     (case get_master_key E s of
        (Inl e, s1) \<Rightarrow> (Inl e, s1)
      | (Inr master, s1) \<Rightarrow>
          (case dict_get (ss_storage s1) (secret_file i) of
             None \<Rightarrow> (Inl (FileNotFoundErr (''Secret '' @ i @ '' not found'')), s1)
           | Some d \<Rightarrow>
               (case secret_from_dict E d of
                  Inl e \<Rightarrow> (Inl e, s1)
                | Inr e \<Rightarrow>
                    (case expired E (es_expires e) s1 of
                       (True, s2) \<Rightarrow> (Inl (ValueError (''Secret '' @ i @ '' has expired'')), s2)
                     | (False, s2) \<Rightarrow>
                         (case se_decrypt E (derive_key E master i) (es_nonce e) (es_ciphertext e) of
                            None \<Rightarrow> (Inl (ValueError (''Failed to decrypt secret '' @ i @
                                       '': key mismatch or corruption'')), s2)
                          | Some plain \<Rightarrow> (Inr plain, log_access E i (es_class e) actor trace s2))))))"

definition inject_to_tmpfs ::
  "secret_env \<Rightarrow> string \<Rightarrow> string \<Rightarrow> string option \<Rightarrow> secret_state \<Rightarrow> string result \<times> secret_state" where
  "inject_to_tmpfs E i actor trace s =
     (case retrieve E i actor trace s of
        (Inl e, s1) \<Rightarrow> (Inl e, s1)
      | (Inr val, s1) \<Rightarrow> (Inr i, s1\<lparr>ss_tmpfs := dict_set i val (ss_tmpfs s1)\<rparr>))"

definition rotate_secret ::
  "secret_env \<Rightarrow> string \<Rightarrow> string \<Rightarrow> string \<Rightarrow> string option \<Rightarrow> secret_state \<Rightarrow> string result \<times> secret_state" where
  "rotate_secret E i new actor trace s =
     (case get_master_key E s of
        (Inl e, s1) \<Rightarrow> (Inl e, s1)
      | (Inr master, s1) \<Rightarrow>
          (case dict_get (ss_storage s1) (secret_file i) of
             None \<Rightarrow> (Inl (FileNotFoundErr (secret_file i)), s1)
           | Some d \<Rightarrow>
               (case secret_from_dict E d of
                  Inl e \<Rightarrow> (Inl e, s1)
                | Inr e \<Rightarrow>
                    let nonce = se_nonces E (ss_drawn s1);
                        ct = se_encrypt E (derive_key E master i) nonce new;
                        (t, s2) = clock E (s1\<lparr>ss_drawn := Suc (ss_drawn s1)\<rparr>);
                        e1 = e\<lparr>es_ciphertext := ct, es_nonce := nonce, es_rotated := t,
                               es_version := es_version e + 1\<rparr>
                    in (Inr i, log_access E i (es_class e) actor trace (write_secret E i e1 s2)))))"

definition delete_secret :: "string \<Rightarrow> secret_state \<Rightarrow> bool \<times> secret_state" where
  "delete_secret i s =
     (True, s\<lparr>ss_storage := dict_pop (secret_file i) (ss_storage s), ss_tmpfs := dict_pop i (ss_tmpfs s)\<rparr>)"

record secret_listing =
  sl_id :: string
  sl_name :: string
  sl_class :: string
  sl_created :: real
  sl_rotated :: real
  sl_expires :: "real option"
  sl_version :: int

definition list_secrets :: "secret_state \<Rightarrow> secret_listing list" where
  "list_secrets s =
     map (\<lambda>(f, d). \<lparr>sl_id = do_id d, sl_name = do_name d, sl_class = do_class d,
        sl_created = do_created d,
        sl_rotated = (case do_rotated d of None \<Rightarrow> do_created d | Some r \<Rightarrow> r),
        sl_expires = do_expires d, sl_version = (case do_version d of None \<Rightarrow> 1 | Some v \<Rightarrow> v)\<rparr>)
       (filter (\<lambda>(f, d). suffix ''.enc'' f) (ss_storage s))"

definition needs_rotation :: "secret_env \<Rightarrow> string \<Rightarrow> secret_state \<Rightarrow> bool \<times> secret_state" where
  "needs_rotation E i s =
     (case dict_get (ss_storage s) (secret_file i) of
        None \<Rightarrow> (False, s)
      | Some d \<Rightarrow>
          let rotated = (case do_rotated d of None \<Rightarrow> do_created d | Some r \<Rightarrow> r);
              (t, s1) = clock E s
          in ((t - rotated) / 86400 \<ge> of_int (se_rotation_days E), s1))"

definition clear_access_log :: "secret_state \<Rightarrow> secret_state" where
  "clear_access_log s = s\<lparr>ss_log := []\<rparr>"

definition redact_value :: "secret_env \<Rightarrow> string \<Rightarrow> string \<Rightarrow> string" where
  "redact_value E key val =
     (if \<exists>r\<in>set (se_redacted_keys E). py_in r (py_lower key) then ''[REDACTED]'' else val)"

definition redact_secrets_from_dict :: "secret_env \<Rightarrow> (string, string) dict \<Rightarrow> (string, string) dict" where
  "redact_secrets_from_dict E d = map (\<lambda>(k, v). (k, redact_value E k v)) d"

section \<open>The store is a map\<close>

definition crypto_ok :: "secret_env \<Rightarrow> bool" where
  "crypto_ok E \<longleftrightarrow> (\<forall>k n p. se_decrypt E k n (se_encrypt E k n p) = Some p) \<and>
     (\<forall>x. se_b64decode E (se_b64encode E x) = Inr x)"

text \<open>What the store holds for an identifier: the text its document decrypts to.\<close>

definition secret_at :: "secret_env \<Rightarrow> string \<Rightarrow> secret_state \<Rightarrow> string \<Rightarrow> string option" where
  "secret_at E master s i =
     (case dict_get (ss_storage s) (secret_file i) of
        None \<Rightarrow> None
      | Some d \<Rightarrow> (case secret_from_dict E d of
                    Inl e \<Rightarrow> None
                  | Inr e \<Rightarrow> se_decrypt E (derive_key E master i) (es_nonce e) (es_ciphertext e)))"

lemma class_of_value [simp]: "class_of (class_value c) = Inr c"
  by (cases c) (simp_all add: class_of_def)

lemma from_to_dict [simp]: "crypto_ok E \<Longrightarrow> secret_from_dict E (secret_to_dict E e) = Inr e"
  by (simp add: secret_from_dict_def secret_to_dict_def crypto_ok_def)

lemma secret_file_eq [simp]: "secret_file i = secret_file j \<longleftrightarrow> i = j"
  by (simp add: secret_file_def)

lemma secret_file_tmp [simp]: "secret_file j \<noteq> secret_tmp_file i"
proof
  assume "secret_file j = secret_tmp_file i"
  then have "last (secret_file j) = last (secret_tmp_file i)" by simp
  then show False by (simp add: secret_file_def secret_tmp_file_def split: if_splits)
qed

lemma write_secret_get:
  "dict_get (ss_storage (write_secret E i e s)) (secret_file j) =
     (if j = i then Some (secret_to_dict E e) else dict_get (ss_storage s) (secret_file j))"
  by (simp add: write_secret_def Let_def dict_simps)

lemma secret_columns [simp]:
  "ss_storage (log_access E i c a tr s) = ss_storage s" "ss_tmpfs (log_access E i c a tr s) = ss_tmpfs s"
  "ss_key (log_access E i c a tr s) = ss_key s" "ss_ticks (log_access E i c a tr s) = Suc (ss_ticks s)"
  "ss_storage (snd (clock E s)) = ss_storage s" "ss_tmpfs (snd (clock E s)) = ss_tmpfs s"
  "ss_key (snd (clock E s)) = ss_key s" "ss_log (snd (clock E s)) = ss_log s"
  "fst (clock E s) = se_clock E (ss_ticks s)" "ss_ticks (snd (clock E s)) = Suc (ss_ticks s)"
  "ss_tmpfs (write_secret E i e s) = ss_tmpfs s" "ss_key (write_secret E i e s) = ss_key s"
  "ss_ticks (write_secret E i e s) = ss_ticks s" "ss_log (write_secret E i e s) = ss_log s"
  by (simp_all add: log_access_def clock_def write_secret_def Let_def)

lemma secret_at_cong: "ss_storage s = ss_storage s' \<Longrightarrow> secret_at E m s = secret_at E m s'"
  by (rule ext) (simp add: secret_at_def)

lemma secret_at_write:
  assumes "crypto_ok E" and "es_ciphertext e = se_encrypt E (derive_key E master i) (es_nonce e) v"
  shows "secret_at E master (log_access E i c a tr (write_secret E i e s)) = (secret_at E master s)(i \<mapsto> v)"
proof
  fix j
  have "se_decrypt E (derive_key E master i) (es_nonce e) (es_ciphertext e) = Some v"
    using assms by (simp add: crypto_ok_def)
  with assms(1) show "secret_at E master (log_access E i c a tr (write_secret E i e s)) j =
      ((secret_at E master s)(i \<mapsto> v)) j"
    by (simp add: secret_at_def write_secret_get)
qed

lemma known_key: "ss_key s = Some master \<Longrightarrow> get_master_key E s = (Inr master, s)"
  by (simp add: get_master_key_def)

text \<open>
  C12. The store is a map from identifiers to values: with the master key read, storing a value
  adds it under the drawn identifier, rotating replaces the value of the identifier and raises
  its version by one, deleting removes it, and none of them touches another identifier.
\<close>

theorem secrets_refine_map:
  assumes "crypto_ok E" and "ss_key s = Some master"
  shows "(v \<noteq> [] \<longrightarrow> (\<exists>s'. store_secret E name v c actor days metadata trace s =
        (Inr (se_ids E (ss_drawn s)), s') \<and>
        secret_at E master s' = (secret_at E master s)(se_ids E (ss_drawn s) \<mapsto> v))) \<and>
    (\<forall>d e. dict_get (ss_storage s) (secret_file i) = Some d \<and> secret_from_dict E d = Inr e \<longrightarrow>
      (\<exists>s' d' e'. rotate_secret E i v actor trace s = (Inr i, s') \<and>
        secret_at E master s' = (secret_at E master s)(i \<mapsto> v) \<and>
        dict_get (ss_storage s') (secret_file i) = Some d' \<and> secret_from_dict E d' = Inr e' \<and>
        es_version e' = es_version e + 1 \<and> es_expires e' = es_expires e \<and> es_created e' = es_created e)) \<and>
    secret_at E master (snd (delete_secret i s)) = (secret_at E master s)(i := None)"
proof -
  let ?s1 = "snd (clock E (s\<lparr>ss_drawn := Suc (ss_drawn s)\<rparr>))"
  have s1: "ss_storage ?s1 = ss_storage s" by simp
  note same = secret_at_cong [OF s1]
  have store: "\<exists>s'. store_secret E name v c actor days metadata trace s =
        (Inr (se_ids E (ss_drawn s)), s') \<and>
        secret_at E master s' = (secret_at E master s)(se_ids E (ss_drawn s) \<mapsto> v)" if "v \<noteq> []"
    using that assms(1)
    by (simp add: store_secret_def known_key [OF assms(2)] Let_def split_beta secret_at_write same)
  have rotate: "\<exists>s' d' e'. rotate_secret E i v actor trace s = (Inr i, s') \<and>
        secret_at E master s' = (secret_at E master s)(i \<mapsto> v) \<and>
        dict_get (ss_storage s') (secret_file i) = Some d' \<and> secret_from_dict E d' = Inr e' \<and>
        es_version e' = es_version e + 1 \<and> es_expires e' = es_expires e \<and> es_created e' = es_created e"
    if "dict_get (ss_storage s) (secret_file i) = Some d" "secret_from_dict E d = Inr e" for d e
    using that assms(1)
    by (simp add: rotate_secret_def known_key [OF assms(2)] Let_def split_beta secret_at_write same
        write_secret_get)
  have "secret_at E master (snd (delete_secret i s)) = (secret_at E master s)(i := None)"
    by (rule ext) (simp add: delete_secret_def secret_at_def dict_simps)
  with store rotate show ?thesis by blast
qed

text \<open>
  C33. Retrieving gives exactly the stored value: it returns \<open>v\<close> if and only if the store holds
  \<open>v\<close> and the secret has not expired; the store is unchanged, and the access log grows by one
  entry for the actor on success and not at all on failure.
\<close>

theorem retrieve_exact:
  assumes "ss_key s = Some master" and "retrieve E i actor trace s = (r, s')"
  shows "(\<forall>v. r = Inr v \<longleftrightarrow> secret_at E master s i = Some v \<and>
      (\<forall>d e x. dict_get (ss_storage s) (secret_file i) = Some d \<and> secret_from_dict E d = Inr e \<and>
         es_expires e = Some x \<and> x \<noteq> 0 \<longrightarrow> se_clock E (ss_ticks s) \<le> x)) \<and>
    ss_storage s' = ss_storage s \<and>
    (case r of Inl e \<Rightarrow> ss_log s' = ss_log s
     | Inr v \<Rightarrow> \<exists>a. ss_log s' = ss_log s @ [a] \<and> sa_id a = i \<and> sa_by a = actor \<and> sa_trace a = trace)"
proof (cases "dict_get (ss_storage s) (secret_file i)")
  case None
  with assms show ?thesis
    by (auto simp: retrieve_def known_key secret_at_def)
next
  case (Some d)
  show ?thesis
  proof (cases "secret_from_dict E d")
    case (Inl e)
    with assms Some show ?thesis by (auto simp: retrieve_def known_key secret_at_def)
  next
    case (Inr e)
    define late where "late = (case es_expires e of None \<Rightarrow> False | Some x \<Rightarrow> x \<noteq> 0 \<and> se_clock E (ss_ticks s) > x)"
    have ex: "fst (expired E (es_expires e) s) = late"
      "ss_storage (snd (expired E (es_expires e) s)) = ss_storage s"
      "ss_log (snd (expired E (es_expires e) s)) = ss_log s"
      by (auto simp: expired_def late_def clock_def Let_def split: option.split)
    have log: "ss_log (log_access E i c a tr t) = ss_log t @
        [\<lparr>sa_id = i, sa_class = c, sa_by = a, sa_time = se_clock E (ss_ticks t), sa_trace = tr\<rparr>]" for c a tr t
      by (simp add: log_access_def clock_def)
    have at: "secret_at E master s i = se_decrypt E (derive_key E master i) (es_nonce e) (es_ciphertext e)"
      by (simp add: secret_at_def Some Inr)
    have cond: "(\<forall>d e x. dict_get (ss_storage s) (secret_file i) = Some d \<and> secret_from_dict E d = Inr e \<and>
         es_expires e = Some x \<and> x \<noteq> 0 \<longrightarrow> se_clock E (ss_ticks s) \<le> x) \<longleftrightarrow> \<not> late"
      by (auto simp: late_def Some Inr split: option.splits)
    define t where "t = snd (expired E (es_expires e) s)"
    have t: "expired E (es_expires e) s = (late, t)" "ss_storage t = ss_storage s" "ss_log t = ss_log s"
      using ex by (simp_all add: t_def prod_eq_iff)
    have result: "r = (if late then Inl (ValueError (''Secret '' @ i @ '' has expired''))
        else case se_decrypt E (derive_key E master i) (es_nonce e) (es_ciphertext e) of
          None \<Rightarrow> Inl (ValueError (''Failed to decrypt secret '' @ i @ '': key mismatch or corruption''))
        | Some p \<Rightarrow> Inr p)"
      and state: "s' = (if \<not> late \<and> se_decrypt E (derive_key E master i) (es_nonce e) (es_ciphertext e) \<noteq> None
        then log_access E i (es_class e) actor trace t else t)"
      using assms(2) by (auto simp: retrieve_def known_key [OF assms(1)] Some Inr t(1) split: option.splits bool.splits)
    show ?thesis
      unfolding cond at result state
      by (cases "se_decrypt E (derive_key E master i) (es_nonce e) (es_ciphertext e)") (simp_all add: t log)
  qed
qed

text \<open>
  Rotating does not make an expired secret usable again and does not reach the copies: the
  new document keeps the old expiry, so retrieving still fails, and the file on the temporary
  file system keeps the old value until it is injected again or deleted. An empty new value,
  which \<open>store\<close> refuses, is accepted.
\<close>

theorem rotation_keeps_expiry:
  assumes "crypto_ok E" and "ss_key s = Some master"
    and "dict_get (ss_storage s) (secret_file i) = Some d" and "secret_from_dict E d = Inr e"
    and "es_expires e = Some x" and "x \<noteq> 0" and "\<forall>n\<ge>ss_ticks s. x < se_clock E n"
  shows "\<exists>s'. rotate_secret E i new actor trace s = (Inr i, s') \<and>
    fst (retrieve E i actor' trace' s') = Inl (ValueError (''Secret '' @ i @ '' has expired'')) \<and>
    ss_tmpfs s' = ss_tmpfs s"
proof -
  define e' where "e' = e\<lparr>es_ciphertext := se_encrypt E (derive_key E master i) (se_nonces E (ss_drawn s)) new,
     es_nonce := se_nonces E (ss_drawn s), es_rotated := se_clock E (ss_ticks s), es_version := es_version e + 1\<rparr>"
  obtain s' where s': "rotate_secret E i new actor trace s = (Inr i, s')"
    and key: "ss_key s' = Some master" and ticks: "ss_ticks s \<le> ss_ticks s'" and tmp: "ss_tmpfs s' = ss_tmpfs s"
    and get: "dict_get (ss_storage s') (secret_file i) = Some (secret_to_dict E e')"
    using assms(3,4)
    by (simp add: rotate_secret_def known_key [OF assms(2)] Let_def split_beta write_secret_get assms(2) e'_def)
  have "es_expires e' = Some x" by (simp add: e'_def assms(5))
  moreover have "x < se_clock E (ss_ticks s')" using assms(7) ticks by blast
  ultimately have "fst (retrieve E i actor' trace' s') = Inl (ValueError (''Secret '' @ i @ '' has expired''))"
    using assms(1,6) get by (simp add: retrieve_def known_key [OF key] expired_def Let_def split_beta)
  with s' tmp show ?thesis by blast
qed

section \<open>Instances\<close>

definition sample_env :: secret_env where
  "sample_env = \<lparr>se_encrypt = \<lambda>k n p. p, se_decrypt = \<lambda>k n c. Some c, se_sha256 = \<lambda>x. x,
     se_b64encode = \<lambda>x. x, se_b64decode = \<lambda>x. Inr x, se_read_file = \<lambda>_. Inr ''key'',
     se_vault = Inl OtherError, se_master_var = None, se_ids = \<lambda>n. ''id'', se_nonces = \<lambda>n. ''nonce'',
     se_clock = \<lambda>n. 100000 * real n + 1, se_key_source = ''local'', se_key_file = Some ''/key'',
     se_rotation_days = 30, se_redacted_keys = [''password'', ''token'']\<rparr>"

definition sample_secrets :: secret_state where
  "sample_secrets = \<lparr>ss_storage = [], ss_tmpfs = [], ss_key = Some ''key'', ss_log = [], ss_drawn = 0, ss_ticks = 0\<rparr>"

definition sample_stored :: secret_state where
  "sample_stored = snd (store_secret sample_env ''db'' ''s3cret'' DATABASE_CRED ''a'' (Some 1) None None sample_secrets)"

lemma sample_crypto: "crypto_ok sample_env"
  by (simp add: crypto_ok_def sample_env_def)

theorem secrets_refine_map_witness:
  "\<exists>s'. store_secret sample_env ''db'' ''s3cret'' DATABASE_CRED ''a'' None None None sample_secrets = (Inr ''id'', s') \<and>
     secret_at sample_env ''key'' s' ''id'' = Some ''s3cret''"
proof -
  have "ss_key sample_secrets = Some ''key''" by (simp add: sample_secrets_def)
  from secrets_refine_map [OF sample_crypto this, where v = "''s3cret''" and name = "''db''" and days = None
      and c = DATABASE_CRED and actor = "''a''" and metadata = None and trace = None, THEN conjunct1]
  show ?thesis by (auto simp: sample_env_def)
qed

theorem retrieve_exact_witness:
  "\<exists>e s'. retrieve sample_env ''none'' ''a'' None sample_secrets = (Inl e, s') \<and> ss_log s' = []"
proof -
  have "ss_key sample_secrets = Some ''key''" by (simp add: sample_secrets_def)
  note exact = retrieve_exact [OF this, of sample_env "''none''" "''a''" None]
  have none: "secret_at sample_env ''key'' sample_secrets ''none'' = None"
    by (simp add: secret_at_def sample_secrets_def dict_get_def)
  obtain r s' where r: "retrieve sample_env ''none'' ''a'' None sample_secrets = (r, s')" by fastforce
  from exact [OF r] none show ?thesis
    by (cases r) (auto simp: r, simp add: sample_secrets_def)
qed

theorem rotation_keeps_expiry_witness:
  "\<exists>s'. rotate_secret sample_env ''id'' [] ''a'' None sample_stored = (Inr ''id'', s') \<and>
     fst (retrieve sample_env ''id'' ''b'' None s') = Inl (ValueError ''Secret id has expired'')"
proof -
  define e where "e = \<lparr>es_id = ''id'', es_name = ''db'', es_class = DATABASE_CRED, es_ciphertext = ''s3cret'',
    es_nonce = ''nonce'', es_created = 1, es_rotated = 1, es_expires = Some 86401, es_metadata = [], es_version = 1\<rparr>"
  have stored: "sample_stored = log_access sample_env ''id'' DATABASE_CRED ''a'' None
      (write_secret sample_env ''id'' e (sample_secrets\<lparr>ss_drawn := 1, ss_ticks := 1\<rparr>))"
    by (simp add: sample_stored_def store_secret_def known_key sample_secrets_def sample_env_def clock_def
        expiry_def e_def Let_def)
  have key: "ss_key sample_stored = Some ''key''" by (simp add: stored sample_secrets_def)
  have d: "dict_get (ss_storage sample_stored) (secret_file ''id'') = Some (secret_to_dict sample_env e)"
    by (simp add: stored write_secret_get)
  have late: "\<forall>n\<ge>ss_ticks sample_stored. 86401 < se_clock sample_env n"
    by (auto simp: stored sample_env_def)
  have "es_expires e = Some 86401" by (simp add: e_def)
  from rotation_keeps_expiry [OF sample_crypto key d from_to_dict [OF sample_crypto] this _ late,
      where new = "[]" and actor = "''a''" and trace = None and actor' = "''b''" and trace' = None]
  show ?thesis by auto
qed

end
