(* ===== verification/RateLimit.thy ===== *)
theory RateLimit
  imports Prelude
begin

text \<open>
  The rate limiter of the worker (src/ratelimit/token_bucket.py): token buckets in memory and
  the sliding window in Redis.

  Every call of \<open>time.monotonic()\<close> is the next reading \<open>li_clock s n\<close> of a clock, every call of
  \<open>time.time()\<close> the next reading of \<open>li_wall\<close>; \<open>li_tick\<close> counts the readings. Redis is not part
  of the repository: its commands are the fields of a record \<open>redis_ops\<close> over a store type
  \<open>'r\<close>, and the theorems about the Redis path name the documented behaviour of sorted sets
  they rely on.
\<close>

section \<open>Token buckets\<close>

record bucket =
  bk_rate :: real
  bk_burst :: int
  bk_tokens :: real
  bk_last :: real

definition new_bucket :: "real \<Rightarrow> int \<Rightarrow> real \<Rightarrow> bucket" where
  "new_bucket rate burst now =
     \<lparr>bk_rate = rate, bk_burst = burst, bk_tokens = of_int burst, bk_last = now\<rparr>"

definition refill :: "real \<Rightarrow> bucket \<Rightarrow> bucket" where
  "refill now b =
     (let elapsed = now - bk_last b
      in b\<lparr>bk_tokens := min (of_int (bk_burst b)) (bk_tokens b + elapsed * bk_rate b), bk_last := now\<rparr>)"

definition consume :: "real \<Rightarrow> real \<Rightarrow> bucket \<Rightarrow> bool \<times> bucket" where
  "consume now n b =
     (let b1 = refill now b
      in if n \<le> bk_tokens b1 then (True, b1\<lparr>bk_tokens := bk_tokens b1 - n\<rparr>) else (False, b1))"

text \<open>A rate of 0 makes the division raise \<open>ZeroDivisionError\<close>.\<close>

definition retry_after :: "real \<Rightarrow> bucket \<Rightarrow> real result \<times> bucket" where
  "retry_after now b =
     (let b1 = refill now b
      in (if 1 \<le> bk_tokens b1 then Inr 0
          else if bk_rate b1 = 0 then Inl OtherError
          else Inr ((1 - bk_tokens b1) / bk_rate b1), b1))"

section \<open>The limiter\<close>

record 'r redis_ops =
  zremrangebyscore :: "string \<Rightarrow> int \<Rightarrow> int \<Rightarrow> 'r \<Rightarrow> 'r"
  zcard :: "string \<Rightarrow> 'r \<Rightarrow> nat"
  zadd :: "string \<Rightarrow> string \<Rightarrow> int \<Rightarrow> 'r \<Rightarrow> 'r"
  expire :: "string \<Rightarrow> int \<Rightarrow> 'r \<Rightarrow> 'r"
  zrange_first :: "string \<Rightarrow> 'r \<Rightarrow> (string \<times> real) list"
  redis_delete :: "string \<Rightarrow> 'r \<Rightarrow> 'r"

record 'r limiter =
  li_global_rate :: real
  li_global_burst :: int
  li_agent_rate :: real
  li_agent_burst :: int
  li_exec_rate :: real
  li_exec_burst :: int
  li_redis :: "'r redis_ops option"
  li_store :: 'r
  li_prefix :: string
  li_window :: int
  li_global :: bucket
  li_agents :: "(string, bucket) dict"
  li_execs :: "(string, bucket) dict"
  li_clock :: "nat \<Rightarrow> real"
  li_wall :: "nat \<Rightarrow> real"
  li_tick :: nat

datatype verdict = Allowed | Exceeded real string string | Failed exc

definition now :: "'r limiter \<Rightarrow> real" where
  "now s = li_clock s (li_tick s)"

definition tick :: "'r limiter \<Rightarrow> 'r limiter" where
  "tick s = s\<lparr>li_tick := Suc (li_tick s)\<rparr>"

definition redis_key :: "'r limiter \<Rightarrow> string \<Rightarrow> string" where
  "redis_key s key = li_prefix s @ '':'' @ key"

definition check_redis :: "string \<Rightarrow> real \<Rightarrow> int \<Rightarrow> 'r limiter \<Rightarrow> (bool \<times> real) \<times> 'r limiter" where
  "check_redis key rate burst s =
     (case li_redis s of
        None \<Rightarrow> ((True, 0), s)
      | Some ops \<Rightarrow>
          (let now_ms = \<lfloor>li_wall s (li_tick s) * 1000\<rfloor>; s1 = tick s;
               window_start = now_ms - li_window s * 1000; rk = redis_key s key;
               r1 = zremrangebyscore ops rk 0 window_start (li_store s);
               count = zcard ops rk r1;
               r2 = zadd ops rk (show_int now_ms) now_ms r1;
               r3 = expire ops rk (li_window s + 10) r2;
               s2 = s1\<lparr>li_store := r3\<rparr>
           in if burst < int count
              then (case zrange_first ops rk r3 of
                      [] \<Rightarrow> ((False, 1), s2)
                    | (m, score) # _ \<Rightarrow>
                        ((False, max 0 (score + of_int (li_window s) * 1000 - of_int now_ms) / 1000), s2))
              else ((True, 0), s2)))"

text \<open>One token of a bucket in memory: the verdict and then the retry time, two clock readings.\<close>

definition take_token :: "bucket \<Rightarrow> 'r limiter \<Rightarrow> (bool \<times> real result \<times> bucket) \<times> 'r limiter" where
  "take_token b s =
     (let (ok, b1) = consume (now s) 1 b; s1 = tick s;
          (retry, b2) = retry_after (now s1) b1
      in ((ok, retry, b2), tick s1))"

definition check_global :: "'r limiter \<Rightarrow> (bool \<times> real) result \<times> 'r limiter" where
  "check_global s =
     (case li_redis s of
        Some ops \<Rightarrow> (case check_redis ''global'' (li_global_rate s) (li_global_burst s) s of (v, s1) \<Rightarrow> (Inr v, s1))
      | None \<Rightarrow>
          (let ((ok, retry, b), s1) = take_token (li_global s) s
           in (map_sum id (Pair ok) retry, s1\<lparr>li_global := b\<rparr>)))"

definition get_agent_bucket :: "string \<Rightarrow> 'r limiter \<Rightarrow> bucket \<times> 'r limiter" where
  "get_agent_bucket i s =
     (case dict_get (li_agents s) i of
        Some b \<Rightarrow> (b, s)
      | None \<Rightarrow> (let b = new_bucket (li_agent_rate s) (li_agent_burst s) (now s)
                 in (b, tick (s\<lparr>li_agents := dict_set i b (li_agents s)\<rparr>))))"

definition get_execution_bucket :: "string \<Rightarrow> 'r limiter \<Rightarrow> bucket \<times> 'r limiter" where
  "get_execution_bucket i s =
     (case dict_get (li_execs s) i of
        Some b \<Rightarrow> (b, s)
      | None \<Rightarrow> (let b = new_bucket (li_exec_rate s) (li_exec_burst s) (now s)
                 in (b, tick (s\<lparr>li_execs := dict_set i b (li_execs s)\<rparr>))))"

definition check_agent :: "string \<Rightarrow> 'r limiter \<Rightarrow> (bool \<times> real) result \<times> 'r limiter" where
  "check_agent i s =
     (case li_redis s of
        Some ops \<Rightarrow> (case check_redis (''agent:'' @ i) (li_agent_rate s) (li_agent_burst s) s of (v, s1) \<Rightarrow> (Inr v, s1))
      | None \<Rightarrow>
          (let (b, s1) = get_agent_bucket i s; ((ok, retry, b'), s2) = take_token b s1
           in (map_sum id (Pair ok) retry, s2\<lparr>li_agents := dict_set i b' (li_agents s2)\<rparr>)))"

definition check_execution :: "string \<Rightarrow> 'r limiter \<Rightarrow> (bool \<times> real) result \<times> 'r limiter" where
  "check_execution i s =
     (case li_redis s of
        Some ops \<Rightarrow> (case check_redis (''exec:'' @ i) (li_exec_rate s) (li_exec_burst s) s of (v, s1) \<Rightarrow> (Inr v, s1))
      | None \<Rightarrow>
          (let (b, s1) = get_execution_bucket i s; ((ok, retry, b'), s2) = take_token b s1
           in (map_sum id (Pair ok) retry, s2\<lparr>li_execs := dict_set i b' (li_execs s2)\<rparr>)))"

definition check :: "string \<Rightarrow> string option \<Rightarrow> 'r limiter \<Rightarrow> verdict \<times> 'r limiter" where
  "check agent execution s =
     (case check_global s of
        (Inl e, s1) \<Rightarrow> (Failed e, s1)
      | (Inr (ok, retry), s1) \<Rightarrow>
          if \<not> ok then (Exceeded retry ''global'' agent, s1)
          else (case check_agent agent s1 of
                  (Inl e, s2) \<Rightarrow> (Failed e, s2)
                | (Inr (ok2, retry2), s2) \<Rightarrow>
                    if \<not> ok2 then (Exceeded retry2 ''per_agent'' agent, s2)
                    else if execution = None \<or> execution = Some [] then (Allowed, s2)
                    else (case check_execution (the execution) s2 of
                            (Inl e, s3) \<Rightarrow> (Failed e, s3)
                          | (Inr (ok3, retry3), s3) \<Rightarrow>
                              if \<not> ok3 then (Exceeded retry3 ''per_execution'' agent, s3)
                              else (Allowed, s3))))"

definition is_allowed :: "string \<Rightarrow> string option \<Rightarrow> 'r limiter \<Rightarrow> bool result \<times> 'r limiter" where
  "is_allowed agent execution s =
     (case check agent execution s of
        (Allowed, s1) \<Rightarrow> (Inr True, s1)
      | (Exceeded _ _ _, s1) \<Rightarrow> (Inr False, s1)
      | (Failed e, s1) \<Rightarrow> (Inl e, s1))"

definition cleanup_execution :: "string \<Rightarrow> 'r limiter \<Rightarrow> 'r limiter" where
  "cleanup_execution i s =
     (let s1 = s\<lparr>li_execs := dict_pop i (li_execs s)\<rparr>
      in case li_redis s of
           None \<Rightarrow> s1
         | Some ops \<Rightarrow> s1\<lparr>li_store := redis_delete ops (redis_key s (''exec:'' @ i)) (li_store s1)\<rparr>)"

section \<open>One bucket\<close>

definition bucket_ok :: "bucket \<Rightarrow> bool" where
  "bucket_ok b \<longleftrightarrow> 0 \<le> bk_tokens b \<and> bk_tokens b \<le> of_int (bk_burst b) \<and> 0 \<le> bk_rate b"

lemma refill_columns [simp]:
  "bk_rate (refill t b) = bk_rate b" "bk_burst (refill t b) = bk_burst b" "bk_last (refill t b) = t"
  by (simp_all add: refill_def Let_def)

lemma consume_columns [simp]:
  "bk_rate (snd (consume t n b)) = bk_rate b" "bk_burst (snd (consume t n b)) = bk_burst b"
  "bk_last (snd (consume t n b)) = t"
  by (simp_all add: consume_def Let_def)

lemma retry_columns [simp]:
  "bk_rate (snd (retry_after t b)) = bk_rate b" "bk_burst (snd (retry_after t b)) = bk_burst b"
  "bk_last (snd (retry_after t b)) = t" "snd (retry_after t b) = refill t b"
  by (simp_all add: retry_after_def Let_def)

lemma refill_ok: "bucket_ok b \<Longrightarrow> bk_last b \<le> t \<Longrightarrow> bucket_ok (refill t b)"
  by (auto simp: bucket_ok_def refill_def Let_def)

lemma consume_ok: "bucket_ok b \<Longrightarrow> bk_last b \<le> t \<Longrightarrow> 0 \<le> n \<Longrightarrow> bucket_ok (snd (consume t n b))"
  using refill_ok [of b t] by (auto simp: bucket_ok_def consume_def Let_def)

text \<open>
  The credit of a bucket: what it holds, less what time has put in. A refill does not raise
  it, and an admitted request lowers it by the tokens it takes.
\<close>

definition credit :: "bucket \<Rightarrow> real" where
  "credit b = bk_tokens b - bk_rate b * bk_last b"

lemma credit_refill: "credit (refill t b) \<le> credit b"
  by (auto simp: credit_def refill_def Let_def min_def algebra_simps)

lemma credit_consume: "credit (snd (consume t n b)) \<le> credit b - (if fst (consume t n b) then n else 0)"
  using credit_refill [of t b] by (auto simp: consume_def Let_def credit_def)

text \<open>
  The retry time is exact: after \<open>retry_after\<close> has answered \<open>r\<close> at the time \<open>t\<close>, a request
  for one token at a later time \<open>u\<close> is admitted if and only if at least \<open>r\<close> seconds have
  passed, for a bucket with a positive rate and a burst of at least one.
\<close>

theorem retry_after_exact:
  assumes "0 < bk_rate b" and "1 \<le> bk_burst b" and "retry_after t b = (Inr r, b')" and "t \<le> u"
  shows "fst (consume u 1 b') \<longleftrightarrow> t + r \<le> u"
proof -
  have b': "b' = refill t b" using assms(3) retry_columns(4) [of t b] by simp
  have tokens: "fst (consume u 1 b') \<longleftrightarrow> 1 \<le> bk_tokens b' + (u - t) * bk_rate b"
    using assms(2) by (simp add: b' consume_def Let_def refill_def [of u])
  show ?thesis
  proof (cases "1 \<le> bk_tokens b'")
    case True
    then have "r = 0" using assms(3) by (simp add: retry_after_def b' Let_def)
    moreover have "0 \<le> (u - t) * bk_rate b" using assms(1,4) by simp
    ultimately show ?thesis using True tokens assms(4) by linarith
  next
    case False
    then have r: "r = (1 - bk_tokens b') / bk_rate b"
      using assms(1,3) by (auto simp: retry_after_def b' Let_def)
    have "1 \<le> bk_tokens b' + (u - t) * bk_rate b \<longleftrightarrow> r \<le> u - t"
      using assms(1) by (simp add: r field_simps)
    then show ?thesis using tokens by (auto simp: algebra_simps)
  qed
qed

definition empty_bucket :: bucket where
  "empty_bucket = \<lparr>bk_rate = 2, bk_burst = 1, bk_tokens = 0, bk_last = 0\<rparr>"

theorem retry_after_exact_witness:
  "\<not> fst (consume (1/4) 1 empty_bucket)"
  using retry_after_exact [of empty_bucket 0 "1/2" empty_bucket "1/4"]
  by (simp add: empty_bucket_def retry_after_def refill_def)

section \<open>The limiter in memory\<close>

text \<open>
  The clock does not go back, every bucket lies within its bounds and has the rate of its
  scope, and no bucket was refilled later than the next reading.
\<close>

definition bucket_at :: "real \<Rightarrow> real \<Rightarrow> bucket \<Rightarrow> bool" where
  "bucket_at t r b \<longleftrightarrow> bucket_ok b \<and> bk_last b \<le> t \<and> bk_rate b = r"

definition limiter_ok :: "'r limiter \<Rightarrow> bool" where
  "limiter_ok s \<longleftrightarrow> li_redis s = None \<and> mono (li_clock s) \<and>
     0 \<le> li_agent_rate s \<and> 0 \<le> li_agent_burst s \<and> 0 \<le> li_exec_rate s \<and> 0 \<le> li_exec_burst s \<and>
     bucket_at (now s) (li_global_rate s) (li_global s) \<and>
     (\<forall>i b. dict_get (li_agents s) i = Some b \<longrightarrow> bucket_at (now s) (li_agent_rate s) b) \<and>
     (\<forall>i b. dict_get (li_execs s) i = Some b \<longrightarrow> bucket_at (now s) (li_exec_rate s) b)"

lemma limiter_tick [simp]:
  "li_redis (tick s) = li_redis s" "li_clock (tick s) = li_clock s" "li_global (tick s) = li_global s"
  "li_agents (tick s) = li_agents s" "li_execs (tick s) = li_execs s"
  "li_agent_rate (tick s) = li_agent_rate s" "li_agent_burst (tick s) = li_agent_burst s"
  "li_exec_rate (tick s) = li_exec_rate s" "li_exec_burst (tick s) = li_exec_burst s"
  "li_global_rate (tick s) = li_global_rate s"
  by (simp_all add: tick_def)

lemma limiter_update [simp]:
  "now (s\<lparr>li_agents := x\<rparr>) = now s" "now (s\<lparr>li_execs := y\<rparr>) = now s" "now (s\<lparr>li_global := g\<rparr>) = now s"
  "tick (s\<lparr>li_agents := x\<rparr>) = (tick s)\<lparr>li_agents := x\<rparr>"
  "tick (s\<lparr>li_execs := y\<rparr>) = (tick s)\<lparr>li_execs := y\<rparr>"
  "tick (s\<lparr>li_global := g\<rparr>) = (tick s)\<lparr>li_global := g\<rparr>"
  by (simp_all add: now_def tick_def)

lemma now_tick: "mono (li_clock s) \<Longrightarrow> now s \<le> now (tick s)"
  by (simp add: now_def tick_def mono_def)

lemma bucket_at_mono: "t \<le> u \<Longrightarrow> bucket_at t r b \<Longrightarrow> bucket_at u r b"
  by (auto simp: bucket_at_def)

text \<open>What \<open>take_token\<close> does to the bucket and to the limiter.\<close>

lemma take_token_state [simp]: "snd (take_token b s) = tick (tick s)"
  by (simp add: take_token_def Let_def split_beta)

abbreviation granted :: "bucket \<Rightarrow> 'r limiter \<Rightarrow> bool" where
  "granted b s \<equiv> fst (fst (take_token b s))"

abbreviation left_bucket :: "bucket \<Rightarrow> 'r limiter \<Rightarrow> bucket" where
  "left_bucket b s \<equiv> snd (snd (fst (take_token b s)))"

lemma take_token_bucket:
  assumes "bucket_at (now s) r b" and "mono (li_clock s)"
  shows "bucket_at (now (tick (tick s))) r (left_bucket b s)"
    and "credit (left_bucket b s) \<le> credit b - (if granted b s then 1 else 0)"
proof -
  let ?b1 = "snd (consume (now s) 1 b)"
  have fst: "granted b s = fst (consume (now s) 1 b)"
    and snd: "left_bucket b s = refill (now (tick s)) ?b1"
    by (simp_all add: take_token_def Let_def split_beta)
  have "bucket_ok ?b1" using assms consume_ok [of b "now s" 1] by (simp add: bucket_at_def)
  then have "bucket_at (now (tick s)) r (refill (now (tick s)) ?b1)"
    using now_tick [OF assms(2)] assms(1) by (simp add: bucket_at_def refill_ok)
  then show "bucket_at (now (tick (tick s))) r (left_bucket b s)"
    unfolding snd by (rule bucket_at_mono [rotated]) (simp add: now_tick assms(2))
  show "credit (left_bucket b s) \<le> credit b - (if granted b s then 1 else 0)"
    unfolding fst snd
    using credit_refill [of "now (tick s)" ?b1] credit_consume [of "now s" 1 b] by linarith
qed

lemma limiter_okD:
  assumes "limiter_ok s"
  shows "li_redis s = None" and "mono (li_clock s)"
    and "bucket_at (now s) (li_global_rate s) (li_global s)"
    and "dict_get (li_agents s) i = Some b \<Longrightarrow> bucket_at (now s) (li_agent_rate s) b"
    and "dict_get (li_execs s) i = Some b \<Longrightarrow> bucket_at (now s) (li_exec_rate s) b"
    and "bucket_at (now s) (li_agent_rate s) (new_bucket (li_agent_rate s) (li_agent_burst s) (now s))"
    and "bucket_at (now s) (li_exec_rate s) (new_bucket (li_exec_rate s) (li_exec_burst s) (now s))"
  using assms by (auto simp: limiter_ok_def bucket_at_def bucket_ok_def new_bucket_def)

lemma limiter_ok_tick: "limiter_ok s \<Longrightarrow> limiter_ok (tick s)"
  by (auto simp: limiter_ok_def intro: bucket_at_mono [OF now_tick])

lemma limiter_ok_update:
  assumes "limiter_ok s"
  shows "bucket_at (now s) (li_global_rate s) b \<Longrightarrow> limiter_ok (s\<lparr>li_global := b\<rparr>)"
    and "bucket_at (now s) (li_agent_rate s) b \<Longrightarrow> limiter_ok (s\<lparr>li_agents := dict_set i b (li_agents s)\<rparr>)"
    and "bucket_at (now s) (li_exec_rate s) b \<Longrightarrow> limiter_ok (s\<lparr>li_execs := dict_set i b (li_execs s)\<rparr>)"
  using assms by (auto simp: limiter_ok_def)

subsection \<open>The three scopes\<close>

text \<open>What a scope leaves alone. The clock only moves on.\<close>

definition keeps_config :: "'r limiter \<Rightarrow> 'r limiter \<Rightarrow> bool" where
  "keeps_config s s' \<longleftrightarrow> li_agent_rate s' = li_agent_rate s \<and> li_agent_burst s' = li_agent_burst s \<and>
     li_global_rate s' = li_global_rate s \<and> li_clock s' = li_clock s \<and> now s \<le> now s'"

lemma keeps_config_trans: "keeps_config s t \<Longrightarrow> keeps_config t u \<Longrightarrow> keeps_config s u"
  by (simp add: keeps_config_def)

lemma keeps_config_tick: "limiter_ok s \<Longrightarrow> keeps_config s (tick s)"
  by (simp add: keeps_config_def now_tick limiter_okD(2))

definition agent_pot :: "string \<Rightarrow> 'r limiter \<Rightarrow> real" where
  "agent_pot i s = (case dict_get (li_agents s) i of
      None \<Rightarrow> credit (new_bucket (li_agent_rate s) (li_agent_burst s) (now s))
    | Some b \<Rightarrow> credit b)"

lemma agent_pot_mono:
  assumes "limiter_ok s" and "keeps_config s s'" and "dict_get (li_agents s') i = dict_get (li_agents s) i"
  shows "agent_pot i s' \<le> agent_pot i s"
  using assms
  by (auto simp: agent_pot_def keeps_config_def credit_def new_bucket_def limiter_ok_def mult_left_mono
      split: option.split)

definition passed :: "(bool \<times> real) result \<Rightarrow> bool" where
  "passed v \<longleftrightarrow> (case v of Inl _ \<Rightarrow> False | Inr (ok, _) \<Rightarrow> ok)"

lemma passed_map_sum: "passed (map_sum id (Pair ok) v) \<Longrightarrow> ok"
  by (cases v) (simp_all add: passed_def)

lemma check_global_step:
  assumes "limiter_ok s"
  shows "limiter_ok (snd (check_global s))" and "keeps_config s (snd (check_global s))"
    and "li_agents (snd (check_global s)) = li_agents s"
    and "credit (li_global (snd (check_global s))) \<le>
      credit (li_global s) - (if passed (fst (check_global s)) then 1 else 0)"
proof -
  note D = limiter_okD [OF assms]
  have eq: "check_global s = (map_sum id (Pair (granted (li_global s) s)) (fst (snd (fst (take_token (li_global s) s)))),
      (tick (tick s))\<lparr>li_global := left_bucket (li_global s) s\<rparr>)"
    by (simp add: check_global_def D(1) Let_def split_beta)
  note b = take_token_bucket [OF D(3,2)]
  show "limiter_ok (snd (check_global s))"
    unfolding eq snd_conv by (intro limiter_ok_update limiter_ok_tick assms) (simp add: b)
  show "keeps_config s (snd (check_global s))"
    using keeps_config_trans [OF keeps_config_tick [OF assms] keeps_config_tick [OF limiter_ok_tick [OF assms]]]
    by (simp add: eq keeps_config_def)
  show "li_agents (snd (check_global s)) = li_agents s" by (simp add: eq)
  show "credit (li_global (snd (check_global s))) \<le>
      credit (li_global s) - (if passed (fst (check_global s)) then 1 else 0)"
    using b(2) by (auto simp: eq split: if_splits dest!: passed_map_sum)
qed

lemma get_agent_bucket_step:
  assumes "limiter_ok s"
  shows "limiter_ok (snd (get_agent_bucket i s))" and "keeps_config s (snd (get_agent_bucket i s))"
    and "bucket_at (now (snd (get_agent_bucket i s))) (li_agent_rate s) (fst (get_agent_bucket i s))"
    and "credit (fst (get_agent_bucket i s)) = agent_pot i s"
    and "j \<noteq> i \<Longrightarrow> dict_get (li_agents (snd (get_agent_bucket i s))) j = dict_get (li_agents s) j"
    and "li_global (snd (get_agent_bucket i s)) = li_global s"
proof -
  let ?b = "new_bucket (li_agent_rate s) (li_agent_burst s) (now s)"
  have "limiter_ok (tick (s\<lparr>li_agents := dict_set i ?b (li_agents s)\<rparr>))"
    by (intro limiter_ok_tick limiter_ok_update limiter_okD assms)
  then show "limiter_ok (snd (get_agent_bucket i s))"
    using assms by (simp add: get_agent_bucket_def Let_def split: option.split)
  show "keeps_config s (snd (get_agent_bucket i s))"
    using keeps_config_tick [OF assms]
    by (auto simp: get_agent_bucket_def Let_def keeps_config_def split: option.split)
  have "bucket_at (now (tick s)) (li_agent_rate s) ?b"
    by (intro bucket_at_mono [OF now_tick] limiter_okD [OF assms])
  then show "bucket_at (now (snd (get_agent_bucket i s))) (li_agent_rate s) (fst (get_agent_bucket i s))"
    using limiter_okD(4) [OF assms]
    by (auto simp: get_agent_bucket_def Let_def split: option.split)
qed (simp_all add: get_agent_bucket_def agent_pot_def Let_def split: option.split)

lemma check_agent_step:
  assumes "limiter_ok s"
  shows "limiter_ok (snd (check_agent i s))" and "keeps_config s (snd (check_agent i s))"
    and "li_global (snd (check_agent i s)) = li_global s"
    and "j \<noteq> i \<Longrightarrow> dict_get (li_agents (snd (check_agent i s))) j = dict_get (li_agents s) j"
    and "agent_pot i (snd (check_agent i s)) \<le>
      agent_pot i s - (if passed (fst (check_agent i s)) then 1 else 0)"
proof -
  define b where "b = fst (get_agent_bucket i s)"
  define s1 where "s1 = snd (get_agent_bucket i s)"
  note g = get_agent_bucket_step [OF assms, where i = i, folded b_def s1_def]
  have eq: "check_agent i s = (map_sum id (Pair (granted b s1)) (fst (snd (fst (take_token b s1)))),
      (tick (tick s1))\<lparr>li_agents := dict_set i (left_bucket b s1) (li_agents s1)\<rparr>)"
    by (simp add: check_agent_def limiter_okD(1) [OF assms] Let_def split_beta b_def s1_def)
  have rate: "li_agent_rate s1 = li_agent_rate s" using g(2) by (simp add: keeps_config_def)
  note t = take_token_bucket [OF g(3) limiter_okD(2) [OF g(1)]]
  have "limiter_ok ((tick (tick s1))\<lparr>li_agents := dict_set i (left_bucket b s1) (li_agents (tick (tick s1)))\<rparr>)"
    by (intro limiter_ok_update limiter_ok_tick g) (simp add: t rate)
  then show "limiter_ok (snd (check_agent i s))" by (simp add: eq)
  have "keeps_config s (tick (tick s1))"
    using g(1,2) by (blast intro: keeps_config_trans keeps_config_tick limiter_ok_tick)
  then show "keeps_config s (snd (check_agent i s))" by (simp add: eq keeps_config_def)
  show "li_global (snd (check_agent i s)) = li_global s" by (simp add: eq g)
  show "j \<noteq> i \<Longrightarrow> dict_get (li_agents (snd (check_agent i s))) j = dict_get (li_agents s) j"
    by (simp add: eq g)
  show "agent_pot i (snd (check_agent i s)) \<le>
      agent_pot i s - (if passed (fst (check_agent i s)) then 1 else 0)"
    using t(2) g(4) by (auto simp: eq agent_pot_def [of i "_\<lparr>li_agents := _\<rparr>"] split: if_splits dest!: passed_map_sum)
qed

lemma check_execution_step:
  assumes "limiter_ok s"
  shows "limiter_ok (snd (check_execution i s)) \<and> keeps_config s (snd (check_execution i s)) \<and>
    li_global (snd (check_execution i s)) = li_global s \<and>
    li_agents (snd (check_execution i s)) = li_agents s"
proof -
  define b where "b = fst (get_execution_bucket i s)"
  define s1 where "s1 = snd (get_execution_bucket i s)"
  let ?b = "new_bucket (li_exec_rate s) (li_exec_burst s) (now s)"
  have "limiter_ok (tick (s\<lparr>li_execs := dict_set i ?b (li_execs s)\<rparr>))"
    by (intro limiter_ok_tick limiter_ok_update limiter_okD assms)
  then have s1: "limiter_ok s1"
    using assms by (simp add: s1_def get_execution_bucket_def Let_def split: option.split)
  have keep: "keeps_config s s1 \<and> li_global s1 = li_global s \<and> li_agents s1 = li_agents s \<and>
      li_exec_rate s1 = li_exec_rate s"
    using keeps_config_tick [OF assms]
    by (auto simp: s1_def get_execution_bucket_def Let_def keeps_config_def split: option.split)
  have "bucket_at (now (tick s)) (li_exec_rate s) ?b"
    by (intro bucket_at_mono [OF now_tick] limiter_okD [OF assms])
  then have b: "bucket_at (now s1) (li_exec_rate s) b"
    using limiter_okD(5) [OF assms]
    by (auto simp: b_def s1_def get_execution_bucket_def Let_def split: option.split)
  have eq: "check_execution i s = (map_sum id (Pair (granted b s1)) (fst (snd (fst (take_token b s1)))),
      (tick (tick s1))\<lparr>li_execs := dict_set i (left_bucket b s1) (li_execs s1)\<rparr>)"
    by (simp add: check_execution_def limiter_okD(1) [OF assms] Let_def split_beta b_def s1_def)
  note t = take_token_bucket [OF b limiter_okD(2) [OF s1]]
  have "limiter_ok ((tick (tick s1))\<lparr>li_execs := dict_set i (left_bucket b s1) (li_execs (tick (tick s1)))\<rparr>)"
    by (intro limiter_ok_update limiter_ok_tick s1) (simp add: t keep)
  moreover have "keeps_config s (tick (tick s1))"
    using s1 keep by (blast intro: keeps_config_trans keeps_config_tick limiter_ok_tick)
  ultimately show ?thesis using keep by (simp add: eq keeps_config_def)
qed


subsection \<open>Whole checks\<close>

datatype limiter_op = Check string "string option" | Cleanup string

fun limiter_exec :: "'r limiter \<Rightarrow> limiter_op \<Rightarrow> 'r limiter" where
  "limiter_exec s (Check i e) = snd (check i e s)"
| "limiter_exec s (Cleanup e) = cleanup_execution e s"

fun admits :: "'r limiter \<Rightarrow> limiter_op \<Rightarrow> bool" where
  "admits s (Check i e) = (fst (check i e s) = Allowed)"
| "admits s (Cleanup e) = False"

fun admits_agent :: "string \<Rightarrow> 'r limiter \<Rightarrow> limiter_op \<Rightarrow> bool" where
  "admits_agent a s (Check i e) = (i = a \<and> fst (check i e s) = Allowed)"
| "admits_agent a s (Cleanup e) = False"

text \<open>A check passes through the scopes in order and stops at the first denial.\<close>

lemma check_eq:
  fixes s :: "'r limiter" and i :: string
  defines "s1 \<equiv> snd (check_global s)"
  defines "s2 \<equiv> snd (check_agent i s1)"
  shows "snd (check i e s) = (if \<not> passed (fst (check_global s)) then s1
      else if \<not> passed (fst (check_agent i s1)) \<or> e = None \<or> e = Some [] then s2
      else snd (check_execution (the e) s2)) \<and>
    (fst (check i e s) = Allowed \<longrightarrow> passed (fst (check_global s)) \<and> passed (fst (check_agent i s1)))"
proof -
  have g: "check_global s = (fst (check_global s), s1)" and a: "check_agent i s1 = (fst (check_agent i s1), s2)"
    by (simp_all add: s1_def s2_def)
  obtain u s3 where x: "check_execution (the e) s2 = (u, s3)" by fastforce
  show ?thesis
  proof (cases "passed (fst (check_global s))")
    case False
    then consider ex where "check_global s = (Inl ex, s1)" | r where "check_global s = (Inr (False, r), s1)"
      using g by (auto simp: passed_def split: sum.splits)
    then show ?thesis by cases (simp_all add: check_def passed_def)
  next
    case v: True
    then obtain r where v': "fst (check_global s) = Inr (True, r)"
      by (auto simp: passed_def split: sum.splits)
    show ?thesis
    proof (cases "passed (fst (check_agent i s1))")
      case False
      then consider ex where "check_agent i s1 = (Inl ex, s2)" | r where "check_agent i s1 = (Inr (False, r), s2)"
        using a by (auto simp: passed_def split: sum.splits)
      then show ?thesis using v g by cases (simp_all add: check_def v' passed_def)
    next
      case w: True
      then obtain r2 where w': "fst (check_agent i s1) = Inr (True, r2)"
        by (auto simp: passed_def split: sum.splits)
      have "check i e s = (if e = None \<or> e = Some [] then (Allowed, s2)
          else case check_execution (the e) s2 of
              (Inl ex, s3) \<Rightarrow> (Failed ex, s3)
            | (Inr (ok3, retry3), s3) \<Rightarrow>
                if \<not> ok3 then (Exceeded retry3 ''per_execution'' i, s3) else (Allowed, s3))"
        using g a by (simp add: check_def v' w')
      with v w show ?thesis by (auto simp: x split: sum.split)
    qed
  qed
qed

lemma check_step:
  assumes "limiter_ok s"
  shows "limiter_ok (snd (check i e s)) \<and> keeps_config s (snd (check i e s)) \<and>
    credit (li_global (snd (check i e s))) \<le> credit (li_global s) - (if fst (check i e s) = Allowed then 1 else 0) \<and>
    agent_pot i (snd (check i e s)) \<le> agent_pot i s - (if fst (check i e s) = Allowed then 1 else 0) \<and>
    (\<forall>j. j \<noteq> i \<longrightarrow> dict_get (li_agents (snd (check i e s))) j = dict_get (li_agents s) j)"
proof -
  define s1 where "s1 = snd (check_global s)"
  define s2 where "s2 = snd (check_agent i s1)"
  note g = check_global_step [OF assms, folded s1_def]
  note a = check_agent_step [OF g(1), where i = i, folded s2_def]
  have pot: "agent_pot i s1 \<le> agent_pot i s"
    by (rule agent_pot_mono [OF assms g(2)]) (simp add: g)
  have e: "keeps_config s2 (snd (check_execution x s2)) \<and>
      agent_pot i (snd (check_execution x s2)) \<le> agent_pot i s2" for x
    using check_execution_step [OF a(1), of x] by (simp add: agent_pot_mono [OF a(1)])
  note keep = keeps_config_trans [OF g(2) a(2)]
  note eq = check_eq [of i e s, folded s1_def, folded s2_def]
  show ?thesis
  proof (cases "passed (fst (check_global s)) \<and> passed (fst (check_agent i s1)) \<and> e \<noteq> None \<and> e \<noteq> Some []")
    case True
    with g(4) a(5) pot show ?thesis
      using eq check_execution_step [OF a(1), of "the e"] e [of "the e"] keeps_config_trans [OF keep]
      by (auto simp: g(3) a(3,4))
  next
    case False
    with g(4) a(5) pot eq show ?thesis
      using g(1,2) keep by (auto simp: g(3) a(1,3,4) split: if_splits)
  qed
qed

lemma cleanup_step:
  assumes "limiter_ok s"
  shows "limiter_ok (cleanup_execution e s) \<and> li_global (cleanup_execution e s) = li_global s \<and>
    li_agents (cleanup_execution e s) = li_agents s \<and> keeps_config s (cleanup_execution e s)"
  using assms by (auto simp: cleanup_execution_def Let_def limiter_ok_def keeps_config_def)

lemma limiter_exec_ok: "limiter_ok s \<Longrightarrow> limiter_ok (limiter_exec s oper)"
  by (cases oper) (simp_all add: check_step cleanup_step)

lemma limiter_exec_config: "limiter_ok s \<Longrightarrow> keeps_config s (limiter_exec s oper)"
  by (cases oper) (simp_all add: check_step cleanup_step)

interpretation global_meter: metered limiter_exec "\<lambda>_. True" limiter_ok admits "\<lambda>s. credit (li_global s)"
proof unfold_locales
  fix s :: "'r limiter" and oper
  assume "limiter_ok s"
  then show "credit (li_global (limiter_exec s oper)) \<le>
      credit (li_global s) - (if admits s oper then 1 else 0)"
    by (cases oper) (simp_all add: check_step cleanup_step)
qed (rule limiter_exec_ok)

lemma agent_pot_exec:
  assumes "limiter_ok s"
  shows "agent_pot i (limiter_exec s oper) \<le> agent_pot i s - (if admits_agent i s oper then 1 else 0)"
proof (cases oper)
  case (Check j e)
  note step = check_step [OF assms, of j e]
  show ?thesis
  proof (cases "j = i")
    case True
    with step Check show ?thesis by auto
  next
    case False
    with step have "agent_pot i (snd (check j e s)) \<le> agent_pot i s"
      by (intro agent_pot_mono [OF assms]) simp_all
    with False Check show ?thesis by simp
  qed
next
  case (Cleanup e)
  with cleanup_step [OF assms] agent_pot_mono [OF assms] show ?thesis by simp
qed

interpretation agent_meter: metered limiter_exec "\<lambda>_. True" limiter_ok "admits_agent i" "agent_pot i" for i
  by unfold_locales (rule agent_pot_exec)

lemma run_config: "limiter_ok s \<Longrightarrow> keeps_config s (foldl limiter_exec s ops)"
proof (induction ops arbitrary: s)
  case Nil
  show ?case by (simp add: keeps_config_def)
next
  case (Cons x xs)
  then show ?case
    using keeps_config_trans [OF limiter_exec_config] limiter_exec_ok by fastforce
qed

definition new_limiter ::
    "real \<Rightarrow> int \<Rightarrow> real \<Rightarrow> int \<Rightarrow> real \<Rightarrow> int \<Rightarrow> 'r redis_ops option \<Rightarrow> 'r \<Rightarrow> string \<Rightarrow> int \<Rightarrow>
     (nat \<Rightarrow> real) \<Rightarrow> (nat \<Rightarrow> real) \<Rightarrow> 'r limiter" where
  "new_limiter grate gburst arate aburst erate eburst redis store pfx window clock wall =
     \<lparr>li_global_rate = grate, li_global_burst = gburst, li_agent_rate = arate, li_agent_burst = aburst,
      li_exec_rate = erate, li_exec_burst = eburst, li_redis = redis, li_store = store,
      li_prefix = pfx, li_window = window, li_global = new_bucket grate gburst (clock 0),
      li_agents = [], li_execs = [], li_clock = clock, li_wall = wall, li_tick = 1\<rparr>"

lemma new_limiter_ok:
  assumes "mono clock" and "0 \<le> grate" "0 \<le> gburst" "0 \<le> arate" "0 \<le> aburst" "0 \<le> erate" "0 \<le> eburst"
  shows "limiter_ok (new_limiter grate gburst arate aburst erate eburst None store pfx window clock wall)"
  using assms
  by (auto simp: limiter_ok_def new_limiter_def bucket_at_def bucket_ok_def new_bucket_def now_def mono_def)

lemma credit_lower: "bucket_at t r b \<Longrightarrow> - r * t \<le> credit b"
  using mult_left_mono [of "bk_last b" t "bk_rate b"]
  by (simp add: bucket_at_def bucket_ok_def credit_def)

lemma agent_pot_lower: "limiter_ok s \<Longrightarrow> - li_agent_rate s * now s \<le> agent_pot i s"
  using credit_lower [OF limiter_okD(4)] credit_lower [OF limiter_okD(6)]
  by (auto simp: agent_pot_def split: option.split)

text \<open>
  C6. Without Redis, after any run of checks and clean-ups of a new limiter the number of
  admitted requests is at most the global burst plus the global rate times the time passed,
  and for each agent at most its burst plus its rate times the time passed, whatever the
  clock readings are.
\<close>

theorem limiter_rate_bound:
  assumes "mono clock" and "0 \<le> grate \<and> 0 \<le> gburst \<and> 0 \<le> arate \<and> 0 \<le> aburst \<and> 0 \<le> erate \<and> 0 \<le> eburst"
    and "s = new_limiter grate gburst arate aburst erate eburst None store pfx window clock wall"
    and "t = foldl limiter_exec s ops"
  shows "real (hits limiter_exec admits s ops) \<le> gburst + grate * (now t - clock 0) \<and>
    real (hits limiter_exec (admits_agent i) s ops) \<le> aburst + arate * (now t - clock 0)"
proof
  have ok: "limiter_ok s" unfolding assms(3) by (rule new_limiter_ok) (use assms(1,2) in simp_all)
  have okt: "limiter_ok t"
    unfolding assms(4) by (rule global_meter.run_inv [OF ok]) (simp add: list_all_iff)
  have keep: "keeps_config s t" unfolding assms(4) by (rule run_config [OF ok])
  have "real (hits limiter_exec admits s ops) \<le> credit (li_global s) - credit (li_global t)"
    unfolding assms(4) by (rule global_meter.hits_bound [OF ok]) (simp add: list_all_iff)
  moreover have "- grate * now t \<le> credit (li_global t)"
    using credit_lower [OF limiter_okD(3) [OF okt]] keep
    by (simp add: keeps_config_def assms(3) new_limiter_def)
  ultimately show "real (hits limiter_exec admits s ops) \<le> gburst + grate * (now t - clock 0)"
    by (simp add: assms(3) new_limiter_def credit_def new_bucket_def algebra_simps)
  have "real (hits limiter_exec (admits_agent i) s ops) \<le> agent_pot i s - agent_pot i t"
    unfolding assms(4) by (rule agent_meter.hits_bound [OF ok]) (simp add: list_all_iff)
  moreover have "- arate * now t \<le> agent_pot i t"
    using agent_pot_lower [OF okt] keep by (simp add: keeps_config_def assms(3) new_limiter_def)
  moreover have "agent_pot i s \<le> aburst - arate * clock 0"
    using assms(1,2)
    by (simp add: assms(3) new_limiter_def agent_pot_def credit_def new_bucket_def now_def mono_def mult_left_mono)
  ultimately show "real (hits limiter_exec (admits_agent i) s ops) \<le> aburst + arate * (now t - clock 0)"
    by (simp add: algebra_simps)
qed

theorem limiter_rate_bound_witness:
  "real (hits limiter_exec admits
     (new_limiter 1 2 1 2 1 2 None () ''p'' 60 (\<lambda>_. 0) (\<lambda>_. 0))
     [Check ''a'' None, Check ''b'' None, Check ''a'' (Some ''x'')]) \<le> 2"
proof -
  let ?s = "new_limiter 1 2 1 2 1 2 None () ''p'' 60 (\<lambda>_. 0) (\<lambda>_. 0)"
  let ?ops = "[Check ''a'' None, Check ''b'' None, Check ''a'' (Some ''x'')]"
  have "limiter_ok ?s" by (rule new_limiter_ok) (simp_all add: mono_def)
  from run_config [OF this, of ?ops] have "li_clock (foldl limiter_exec ?s ?ops) = (\<lambda>_. 0)"
    by (simp add: keeps_config_def new_limiter_def)
  then have "now (foldl limiter_exec ?s ?ops) = 0" by (simp only: now_def)
  moreover have "mono (\<lambda>_::nat. 0::real)" by (simp add: mono_def)
  ultimately show ?thesis
    using limiter_rate_bound [OF _ _ refl refl, of "\<lambda>_. 0" 1 2 1 2 1 2 "()" "''p''" 60 "\<lambda>_. 0" ?ops "''a''"]
    by simp
qed

text \<open>
  A check for one agent leaves the bucket of every other agent as it was, whatever its
  verdict.
\<close>

lemma check_other_agents:
  assumes "limiter_ok s" and "j \<noteq> i"
  shows "dict_get (li_agents (snd (check i e s))) j = dict_get (li_agents s) j"
  using check_step [OF assms(1), of i e] assms(2) by simp

section \<open>The sliding window in Redis\<close>

text \<open>
  What the code relies on: \<open>zset k r\<close> is the sorted set stored under the key \<open>k\<close>, a map from
  members to scores, and the commands do what their documentation says.
\<close>

definition live :: "int \<Rightarrow> int \<Rightarrow> (string \<Rightarrow> int option) \<Rightarrow> string \<Rightarrow> int option" where
  "live lo hi z m = (case z m of None \<Rightarrow> None | Some x \<Rightarrow> if lo \<le> x \<and> x \<le> hi then None else Some x)"

definition sorted_sets :: "'r redis_ops \<Rightarrow> (string \<Rightarrow> 'r \<Rightarrow> string \<Rightarrow> int option) \<Rightarrow> bool" where
  "sorted_sets ops zset \<longleftrightarrow>
     (\<forall>k lo hi r. zset k (zremrangebyscore ops k lo hi r) = live lo hi (zset k r)) \<and>
     (\<forall>k m x r. zset k (zadd ops k m x r) = (zset k r)(m \<mapsto> x)) \<and>
     (\<forall>k n r. zset k (expire ops k n r) = zset k r) \<and>
     (\<forall>k r. zcard ops k r = card (dom (zset k r)))"

lemma dom_live: "dom (live lo hi z) \<subseteq> dom z"
  by (auto simp: live_def split: option.splits)

lemma redis_step:
  assumes "li_redis s = Some ops" and "sorted_sets ops zset"
    and "window = live 0 (\<lfloor>li_wall s (li_tick s) * 1000\<rfloor> - li_window s * 1000)
           (zset (redis_key s key) (li_store s))"
  shows "fst (fst (check_redis key rate burst s)) \<longleftrightarrow> int (card (dom window)) \<le> burst"
    and "zset (redis_key s key) (li_store (snd (check_redis key rate burst s))) =
      window(show_int \<lfloor>li_wall s (li_tick s) * 1000\<rfloor> \<mapsto> \<lfloor>li_wall s (li_tick s) * 1000\<rfloor>)"
  using assms(2)
  by (auto simp: check_redis_def assms(1,3) sorted_sets_def Let_def split: list.split)

text \<open>
  With Redis a request is admitted if and only if the window holds at most \<open>burst\<close>
  requests already, so that a full window still admits one; and the request is recorded in
  the window whatever the verdict is, so that denied requests count too.
\<close>

theorem check_redis_verdict:
  assumes "li_redis s = Some ops" and "sorted_sets ops zset" and "rk = redis_key s key"
    and "ms = \<lfloor>li_wall s (li_tick s) * 1000\<rfloor>"
    and "window = live 0 (ms - li_window s * 1000) (zset rk (li_store s))"
  shows "(fst (fst (check_redis key rate burst s)) \<longleftrightarrow> int (card (dom window)) \<le> burst) \<and>
    zset rk (li_store (snd (check_redis key rate burst s))) = window(show_int ms \<mapsto> ms)"
  using redis_step [OF assms(1,2) refl] by (simp add: assms(3-5))

lemma check_redis_frame [simp]:
  "li_redis (snd (check_redis key rate burst s)) = li_redis s"
  "li_wall (snd (check_redis key rate burst s)) = li_wall s"
  "li_window (snd (check_redis key rate burst s)) = li_window s"
  "redis_key (snd (check_redis key rate burst s)) k = redis_key s k"
  "li_tick s \<le> li_tick (snd (check_redis key rate burst s))"
  by (auto simp: check_redis_def tick_def redis_key_def Let_def split: option.split list.split)

fun redis_verdicts :: "string \<Rightarrow> real \<Rightarrow> int \<Rightarrow> nat \<Rightarrow> 'r limiter \<Rightarrow> bool list" where
  "redis_verdicts key rate burst 0 s = []"
| "redis_verdicts key rate burst (Suc n) s =
     (case check_redis key rate burst s of
        ((ok, retry), s1) \<Rightarrow> ok # redis_verdicts key rate burst n s1)"

text \<open>
  The member of the sorted set is the time in milliseconds, so the requests of one
  millisecond are one entry: while the window holds fewer than \<open>burst\<close> other entries, any
  number of requests in the same millisecond is admitted.
\<close>

theorem redis_same_millisecond:
  assumes "li_redis s = Some ops" and "sorted_sets ops zset" and "rk = redis_key s key"
    and "\<forall>n\<ge>li_tick s. \<lfloor>li_wall s n * 1000\<rfloor> = ms"
    and "finite (dom (zset rk (li_store s)))"
    and "int (card (dom (zset rk (li_store s)) - {show_int ms})) < burst"
  shows "redis_verdicts key rate burst n s = replicate n True"
  using assms(1,3-6)
proof (induction n arbitrary: s)
  case (Suc n)
  let ?Z = "zset rk (li_store s)" and ?s = "snd (check_redis key rate burst s)"
  let ?W = "live 0 (ms - li_window s * 1000) ?Z"
  have ms: "ms = \<lfloor>li_wall s (li_tick s) * 1000\<rfloor>" using Suc.prems(3) by simp
  note verdict = redis_step [OF Suc.prems(1) assms(2) refl, of key rate burst,
      folded ms Suc.prems(2)]
  have sub: "dom ?W - {show_int ms} \<subseteq> dom ?Z - {show_int ms}" using dom_live by fastforce
  have "card (dom ?W) \<le> Suc (card (dom ?W - {show_int ms}))"
    using card_Diff_singleton_if [of "dom ?W" "show_int ms"] by auto
  moreover have "card (dom ?W - {show_int ms}) \<le> card (dom ?Z - {show_int ms})"
    using sub Suc.prems(4) by (intro card_mono) auto
  ultimately have ok: "fst (fst (check_redis key rate burst s))"
    using verdict(1) Suc.prems(5) by linarith
  have store: "zset rk (li_store ?s) = ?W(show_int ms \<mapsto> ms)" using verdict(2) .
  have "redis_verdicts key rate burst n ?s = replicate n True"
  proof (rule Suc.IH)
    show "finite (dom (zset rk (li_store ?s)))"
      using finite_subset [OF dom_live Suc.prems(4)] by (simp add: store)
    have "dom (zset rk (li_store ?s)) - {show_int ms} = dom ?W - {show_int ms}"
      by (auto simp: store)
    then show "int (card (dom (zset rk (li_store ?s)) - {show_int ms})) < burst"
      using \<open>card (dom ?W - {show_int ms}) \<le> card (dom ?Z - {show_int ms})\<close> Suc.prems(5) by simp
    show "\<forall>n\<ge>li_tick ?s. \<lfloor>li_wall ?s n * 1000\<rfloor> = ms"
      using Suc.prems(3) order_trans [OF check_redis_frame(5) [of s key rate burst]] by simp
  qed (use Suc.prems in simp_all)
  with ok show ?case by (simp add: split_beta)
qed simp

text \<open>A store of sorted sets, for the witnesses.\<close>

definition map_redis :: "(string \<Rightarrow> string \<Rightarrow> int option) redis_ops" where
  "map_redis = \<lparr>zremrangebyscore = (\<lambda>k lo hi r. r(k := live lo hi (r k))),
     zcard = (\<lambda>k r. card (dom (r k))), zadd = (\<lambda>k m x r. r(k := (r k)(m \<mapsto> x))),
     expire = (\<lambda>k n r. r), zrange_first = (\<lambda>k r. []), redis_delete = (\<lambda>k r. r(k := Map.empty))\<rparr>"

lemma map_redis_sorted_sets: "sorted_sets map_redis (\<lambda>k r. r k)"
  by (simp add: sorted_sets_def map_redis_def)

definition redis_limiter :: "(string \<Rightarrow> string \<Rightarrow> int option) limiter" where
  "redis_limiter = new_limiter 1 1 1 1 1 1 (Some map_redis) (\<lambda>k. Map.empty) ''p'' 60 (\<lambda>_. 0) (\<lambda>_. 100)"

theorem check_redis_verdict_witness:
  "fst (fst (check_redis ''global'' 1 0 redis_limiter))"
  using check_redis_verdict [OF _ map_redis_sorted_sets refl refl refl, of redis_limiter "''global''" 1 0]
  by (simp add: redis_limiter_def new_limiter_def live_def dom_def)

theorem redis_same_millisecond_witness:
  "redis_verdicts ''global'' 1 1 1000 redis_limiter = replicate 1000 True"
  by (rule redis_same_millisecond [OF _ map_redis_sorted_sets refl, where ms = 100000])
    (simp_all add: redis_limiter_def new_limiter_def)

end
