(* ===== verification/Egress.thy ===== *)
theory Egress
  imports Prelude
begin

text \<open>
  The egress filter of the sandbox (src/network_egress.py): from the network capabilities of
  an agent to a list of CIDR ranges, and from these to the iptables script that runs inside
  the container.

  A set of capabilities is a list in the order the code happens to iterate it. The regular
  expression of \<open>_is_cidr\<close> is written out; its \<open>\d\<close> is an ASCII digit here (the configuration
  is ASCII text). The Docker client that is to execute the script is a parameter.
\<close>

record egress_config =
  eg_rules :: "(string, string list) dict"
  eg_dns :: "string list"
  eg_search :: "string list"
  eg_default :: string

record egress_policy =
  po_cidrs :: "string list"
  po_dns :: "string list"
  po_default :: string

definition CAPABILITY_TO_CATEGORY :: "(string, string) dict" where
  "CAPABILITY_TO_CATEGORY =
     [(''net.outbound_github'', ''github''), (''net.outbound_pypi'', ''pypi''),
      (''net.outbound_npm'', ''npm''), (''net.outbound_docker_registry'', ''docker_registry''),
      (''net.outbound_cloud_apis'', ''cloud_apis''),
      (''net.outbound_test_endpoints'', ''test_endpoints''),
      (''net.outbound_scan_targets'', ''scan_targets'')]"

definition KNOWN_REGISTRY_CIDRS :: "string list" where
  "KNOWN_REGISTRY_CIDRS =
     [''44.205.64.0/20'', ''54.85.0.0/16'', ''34.192.0.0/12'', ''3.224.0.0/12'', ''140.82.112.0/20'']"

definition KNOWN_CLOUD_API_CIDRS :: "string list" where
  "KNOWN_CLOUD_API_CIDRS =
     [''54.160.0.0/13'', ''54.208.0.0/15'', ''52.0.0.0/15'', ''3.208.0.0/13'', ''18.232.0.0/14'',
      ''44.192.0.0/11'']"

definition KNOWN_GCP_API_CIDRS :: "string list" where
  "KNOWN_GCP_API_CIDRS =
     [''8.34.208.0/20'', ''8.35.192.0/21'', ''8.35.200.0/23'', ''108.170.192.0/18'', ''108.177.0.0/17'']"

definition digits :: "nat \<Rightarrow> string \<Rightarrow> bool" where
  "digits n s \<longleftrightarrow> 1 \<le> length s \<and> length s \<le> n \<and> list_all is_digit s"

definition is_cidr :: "string \<Rightarrow> bool" where
  "is_cidr entry =
     (case py_split (CHR ''/'') entry of
        [addr, len] \<Rightarrow> digits 2 len \<and> length (py_split (CHR ''.'') addr) = 4 \<and>
                       list_all (digits 3) (py_split (CHR ''.'') addr)
      | _ \<Rightarrow> False)"

definition entry_cidrs :: "string \<Rightarrow> string \<Rightarrow> string list" where
  "entry_cidrs category raw =
     (let entry = py_strip raw
      in if is_cidr entry then [entry]
         else if category = ''docker_registry'' then KNOWN_REGISTRY_CIDRS
         else if category = ''cloud_apis'' then KNOWN_CLOUD_API_CIDRS @ KNOWN_GCP_API_CIDRS
         else [])"

definition resolve_category_cidrs :: "egress_config \<Rightarrow> string \<Rightarrow> string list" where
  "resolve_category_cidrs cfg category =
     concat (map (entry_cidrs category) (dict_get_or (eg_rules cfg) category []))"

fun resolve_caps :: "egress_config \<Rightarrow> string list \<Rightarrow> string list \<Rightarrow> string list" where
  "resolve_caps cfg seen [] = []"
| "resolve_caps cfg seen (cap # caps) =
     (case dict_get CAPABILITY_TO_CATEGORY cap of
        None \<Rightarrow> resolve_caps cfg seen caps
      | Some category \<Rightarrow>
          if category \<in> set seen then resolve_caps cfg seen caps
          else resolve_category_cidrs cfg category @ resolve_caps cfg (category # seen) caps)"

definition resolve_policy :: "egress_config \<Rightarrow> string list \<Rightarrow> egress_policy" where
  "resolve_policy cfg caps =
     (if ''net.outbound_all'' \<in> set caps
      then \<lparr>po_cidrs = [''0.0.0.0/0''], po_dns = eg_dns cfg, po_default = eg_default cfg\<rparr>
      else \<lparr>po_cidrs = sort (remdups (resolve_caps cfg [] (remdups caps))), po_dns = eg_dns cfg,
            po_default = eg_default cfg\<rparr>)"

definition dns_lines :: "string \<Rightarrow> string list" where
  "dns_lines dns =
     [''iptables -A OUTPUT -p udp --dport 53 -d '' @ dns @ '' -j ACCEPT'',
      ''iptables -A OUTPUT -p tcp --dport 53 -d '' @ dns @ '' -j ACCEPT'']"

definition cidr_line :: "string \<Rightarrow> string" where
  "cidr_line cidr = ''iptables -A OUTPUT -d '' @ cidr @ '' -j ACCEPT''"

fun cidr_lines :: "string list \<Rightarrow> string list" where
  "cidr_lines [] = []"
| "cidr_lines (cidr # cidrs) =
     (if cidr = ''0.0.0.0/0''
      then [''iptables -P OUTPUT ACCEPT'',
            ''# Allow-all CIDR '' @ em_dash @ '' default policy set to ACCEPT'']
      else cidr_line cidr # cidr_lines cidrs)"

definition rules_lines :: "egress_policy \<Rightarrow> string list" where
  "rules_lines p =
     [''#!/usr/bin/env bash'', ''set -e'',
      ''# Network egress policy '' @ em_dash @ '' generated by NetworkEgressManager'',
      ''# Default policy: deny all outbound'', [],
      ''iptables -F OUTPUT 2>/dev/null || true'',
      ''iptables -P OUTPUT DROP'', [],
      ''# Allow loopback'',
      ''iptables -A OUTPUT -o lo -j ACCEPT'', [],
      ''# Allow established/related traffic'',
      ''iptables -A OUTPUT -m conntrack --ctstate ESTABLISHED,RELATED -j ACCEPT'', [],
      ''# DNS: only approved servers''] @
     concat (map dns_lines (po_dns p)) @
     [[], ''# Allowed egress CIDRs''] @
     (if po_cidrs p = [] then [''# (none '' @ em_dash @ '' all outbound blocked)''] else []) @
     cidr_lines (po_cidrs p)"

definition build_rules_script :: "egress_policy \<Rightarrow> string" where
  "build_rules_script p = py_join newline (rules_lines p) @ newline"

text \<open>
  Both methods call \<open>docker_client.exec_run\<close>, and every exception is caught. The argument is the
  attribute \<open>exec_run\<close> of the object passed as client: \<open>None\<close> when the object has no such
  attribute, so that the lookup raises an AttributeError and nothing is executed. The client of the
  Docker SDK, which the container runtime passes, has none (\<open>exec_run\<close> is a method of its
  container objects). Where there is one, it answers with the exit code or the output, or with
  \<open>None\<close> for an exception.
\<close>

definition apply_to_container ::
    "(string \<Rightarrow> string list \<Rightarrow> int option) option \<Rightarrow> string \<Rightarrow> egress_policy \<Rightarrow> bool" where
  "apply_to_container exec_attr cid p =
     (case exec_attr of
        None \<Rightarrow> False
      | Some exec_run \<Rightarrow> exec_run cid [''/bin/bash'', ''-c'', build_rules_script p] = Some 0)"

definition verify_rules :: "(string \<Rightarrow> string list \<Rightarrow> string option) option \<Rightarrow> string \<Rightarrow> bool" where
  "verify_rules exec_attr cid =
     (case Option.bind exec_attr (\<lambda>exec_run. exec_run cid [''iptables'', ''-L'', ''OUTPUT'', ''-n'']) of
        None \<Rightarrow> False
      | Some out \<Rightarrow> out \<noteq> [] \<and> py_in ''DROP'' (hd (py_split (CHR 0x0A) out)))"

section \<open>The resolved ranges\<close>

text \<open>The categories that a set of capabilities grants.\<close>

definition granted_categories :: "string list \<Rightarrow> string set" where
  "granted_categories caps = {c. \<exists>cap\<in>set caps. dict_get CAPABILITY_TO_CATEGORY cap = Some c}"

lemma set_resolve_caps:
  "set (resolve_caps cfg seen caps) =
     (\<Union>c\<in>granted_categories caps - set seen. set (resolve_category_cidrs cfg c))"
proof (induction cfg seen caps rule: resolve_caps.induct)
  case (2 cfg seen cap caps)
  show ?case
  proof (cases "dict_get CAPABILITY_TO_CATEGORY cap")
    case None
    with 2 show ?thesis by (auto simp: granted_categories_def)
  next
    case (Some c)
    then have cats: "granted_categories (cap # caps) = insert c (granted_categories caps)"
      by (auto simp: granted_categories_def)
    show ?thesis
    proof (cases "c \<in> set seen")
      case True
      then have "granted_categories (cap # caps) - set seen = granted_categories caps - set seen"
        unfolding cats by blast
      with True Some 2 show ?thesis by simp
    next
      case False
      then have "(granted_categories (cap # caps) - set seen) =
          insert c (granted_categories caps - set (c # seen))"
        unfolding cats by auto
      with False Some 2 show ?thesis by simp
    qed
  qed
qed (simp add: granted_categories_def)

lemma resolve_policy_cidrs:
  "set (po_cidrs (resolve_policy cfg caps)) =
     (if ''net.outbound_all'' \<in> set caps then {''0.0.0.0/0''}
      else \<Union>c\<in>granted_categories caps. set (resolve_category_cidrs cfg c))"
  by (simp add: resolve_policy_def set_resolve_caps) (simp add: granted_categories_def)

text \<open>
  The policy depends only on which capabilities the agent has: not on their order, on
  repetitions, or on the order in which the code iterates the set.
\<close>

theorem resolve_policy_order:
  assumes "set caps = set caps'"
  shows "resolve_policy cfg caps = resolve_policy cfg caps'"
proof (cases "''net.outbound_all'' \<in> set caps")
  case True
  with assms show ?thesis by (simp add: resolve_policy_def)
next
  case False
  have "granted_categories (remdups caps) = granted_categories (remdups caps')"
    using assms by (simp add: granted_categories_def)
  then have "set (resolve_caps cfg [] (remdups caps)) = set (resolve_caps cfg [] (remdups caps'))"
    by (simp add: set_resolve_caps)
  then have "sort (remdups (resolve_caps cfg [] (remdups caps))) =
      sort (remdups (resolve_caps cfg [] (remdups caps')))"
    by (metis sorted_list_of_set_sort_remdups)
  with False assms show ?thesis by (simp add: resolve_policy_def)
qed

definition sample_egress :: egress_config where
  "sample_egress = \<lparr>eg_rules = [(''npm'', ['' 104.16.0.0/12 '', ''registry.npmjs.org''])],
     eg_dns = [''1.1.1.1''], eg_search = [], eg_default = ''deny''\<rparr>"

theorem resolve_policy_order_witness:
  "resolve_policy sample_egress [''net.outbound_npm'', ''x'', ''net.outbound_npm''] =
     resolve_policy sample_egress [''x'', ''net.outbound_npm'']"
  by (rule resolve_policy_order) auto

lemma resolve_policy_mem:
  "c \<in> set (po_cidrs (resolve_policy cfg caps)) \<longleftrightarrow>
      (if ''net.outbound_all'' \<in> set caps then c = ''0.0.0.0/0''
       else \<exists>cap\<in>set caps. \<exists>cat. dict_get CAPABILITY_TO_CATEGORY cap = Some cat \<and>
              (\<exists>raw\<in>set (dict_get_or (eg_rules cfg) cat []). c \<in> set (entry_cidrs cat raw)))"
proof (cases "''net.outbound_all'' \<in> set caps")
  case True
  then show ?thesis by (simp only: resolve_policy_cidrs if_True singleton_iff)
next
  case False
  then show ?thesis
    unfolding resolve_policy_cidrs granted_categories_def resolve_category_cidrs_def by auto
qed

lemma entry_cidrs_mem:
  "c \<in> set (entry_cidrs cat raw) \<longleftrightarrow>
     is_cidr (py_strip raw) \<and> c = py_strip raw \<or>
     \<not> is_cidr (py_strip raw) \<and>
       (cat = ''docker_registry'' \<and> c \<in> set KNOWN_REGISTRY_CIDRS \<or>
        cat = ''cloud_apis'' \<and> c \<in> set KNOWN_CLOUD_API_CIDRS \<union> set KNOWN_GCP_API_CIDRS)"
  by (auto simp: entry_cidrs_def Let_def)

text \<open>
  C7. Deny by default: an agent reaches exactly the ranges that the entries configured for the
  categories of its capabilities stand for. An entry with the shape of a CIDR stands for itself,
  without the blanks around it; any other entry stands for the known ranges of the registries in
  the category docker_registry, for the known ranges of the cloud interfaces in the category
  cloud_apis, and for nothing in every other category. So without a network capability, and for
  names that cannot be resolved, no range is allowed. Only the wildcard capability gives 0.0.0.0/0
  without an entry that is this range. The ranges are sorted and listed once.
\<close>

theorem resolve_policy_exact:
  "(c \<in> set (po_cidrs (resolve_policy cfg caps)) \<longleftrightarrow>
      (if ''net.outbound_all'' \<in> set caps then c = ''0.0.0.0/0''
       else \<exists>cap\<in>set caps. \<exists>cat. dict_get CAPABILITY_TO_CATEGORY cap = Some cat \<and>
              (\<exists>raw\<in>set (dict_get_or (eg_rules cfg) cat []).
                 is_cidr (py_strip raw) \<and> c = py_strip raw \<or>
                 \<not> is_cidr (py_strip raw) \<and>
                   (cat = ''docker_registry'' \<and> c \<in> set KNOWN_REGISTRY_CIDRS \<or>
                    cat = ''cloud_apis'' \<and> c \<in> set KNOWN_CLOUD_API_CIDRS \<union> set KNOWN_GCP_API_CIDRS)))) \<and>
   sorted (po_cidrs (resolve_policy cfg caps)) \<and> distinct (po_cidrs (resolve_policy cfg caps))"
proof -
  note resolve_policy_mem [of c cfg caps, unfolded entry_cidrs_mem]
  moreover have "sorted (po_cidrs (resolve_policy cfg caps)) \<and> distinct (po_cidrs (resolve_policy cfg caps))"
    by (simp add: resolve_policy_def)
  ultimately show ?thesis by (rule conjI)
qed

section \<open>Only ranges reach the shell\<close>

lemma digits_chars: "digits n s \<Longrightarrow> set s \<subseteq> set ''0123456789''"
  unfolding digits_def list_all_iff is_digit_def by blast

lemma cidr_alphabet: "set ''0123456789./'' = set ''0123456789'' \<union> {CHR ''.'', CHR ''/''}"
  by auto

lemma is_cidr_chars:
  assumes "is_cidr s"
  shows "set s \<subseteq> set ''0123456789./''"
proof -
  obtain addr len where sp: "py_split (CHR ''/'') s = [addr, len]" and len: "digits 2 len"
    and ps: "list_all (digits 3) (py_split (CHR ''.'') addr)"
    using assms by (auto simp: is_cidr_def split: list.splits)
  define D where "D = set ''0123456789''"
  note digit = digits_chars [folded D_def]
  have "set p \<subseteq> D" if "p \<in> set (py_split (CHR ''.'') addr)" for p
    using ps that digit unfolding list_all_iff by blast
  then have "set (py_join [CHR ''.''] (py_split (CHR ''.'') addr)) \<subseteq> {CHR ''.''} \<union> D"
    using set_py_join [of "[CHR ''.'']" "py_split (CHR ''.'') addr"] by auto
  then have "set addr \<subseteq> {CHR ''.''} \<union> D"
    by (simp only: py_join_split)
  moreover have s: "s = addr @ [CHR ''/''] @ len"
    using py_join_split [of "CHR ''/''" s] by (simp add: sp)
  have "set len \<subseteq> D" by (rule digit [OF len])
  ultimately have "set s \<subseteq> D \<union> {CHR ''.'', CHR ''/''}"
    by (auto simp: s)
  then show ?thesis by (simp only: cidr_alphabet D_def)
qed

lemma known_cidrs:
  "list_all is_cidr (KNOWN_REGISTRY_CIDRS @ KNOWN_CLOUD_API_CIDRS @ KNOWN_GCP_API_CIDRS @ [''0.0.0.0/0''])"
  by (simp add: KNOWN_REGISTRY_CIDRS_def KNOWN_CLOUD_API_CIDRS_def KNOWN_GCP_API_CIDRS_def is_cidr_def
      digits_def is_digit_def)

lemma wildcard_cidr: "is_cidr ''0.0.0.0/0''"
  using known_cidrs by simp

lemma entry_cidrs_ok: "c \<in> set (entry_cidrs cat raw) \<Longrightarrow> is_cidr c"
  using known_cidrs by (auto simp: entry_cidrs_def Let_def list_all_iff split: if_splits)

text \<open>
  Whatever the configuration holds, every allowed range has the shape of a CIDR and is
  made of digits, dots and a slash only: no text of the rules that means something to the
  shell reaches the script that runs as root.
\<close>

theorem allowed_ranges_are_cidrs:
  "\<forall>c\<in>set (po_cidrs (resolve_policy cfg caps)). is_cidr c \<and> set c \<subseteq> set ''0123456789./''"
proof
  fix c assume "c \<in> set (po_cidrs (resolve_policy cfg caps))"
  then have "is_cidr c"
    using entry_cidrs_ok wildcard_cidr
    unfolding resolve_policy_mem by (fastforce split: if_splits)
  with is_cidr_chars [OF this] show "is_cidr c \<and> set c \<subseteq> set ''0123456789./''" by (rule conjI [rotated])
qed

lemma sample_resolved: "po_cidrs (resolve_policy sample_egress [''net.outbound_npm'']) = [''104.16.0.0/12'']"
  by (simp add: resolve_policy_def CAPABILITY_TO_CATEGORY_def dict_get_def dict_get_or_def
      resolve_category_cidrs_def sample_egress_def entry_cidrs_def py_strip_def is_space_def
      is_cidr_def digits_def is_digit_def)

theorem allowed_ranges_are_cidrs_witness:
  "is_cidr ''104.16.0.0/12''"
  using allowed_ranges_are_cidrs [of sample_egress "[''net.outbound_npm'']"] by (simp add: sample_resolved)

section \<open>The script\<close>

lemma accept_in_cidr_lines:
  "''iptables -P OUTPUT ACCEPT'' \<in> set (cidr_lines cs) \<longleftrightarrow> ''0.0.0.0/0'' \<in> set cs"
  by (induction cs) (auto simp: cidr_line_def)

lemma cidr_lines_plain: "''0.0.0.0/0'' \<notin> set cs \<Longrightarrow> cidr_lines cs = map cidr_line cs"
  by (induction cs) auto

lemma rules_lines_accept:
  "''iptables -P OUTPUT ACCEPT'' \<in> set (rules_lines p) \<longleftrightarrow> ''0.0.0.0/0'' \<in> set (po_cidrs p)"
  unfolding rules_lines_def set_append Un_iff accept_in_cidr_lines [symmetric]
  by (simp add: dns_lines_def em_dash_def)

lemma rule_lines_kept:
  "filter (prefix ''iptables -A'') (concat (map dns_lines ds)) = concat (map dns_lines ds)"
  "filter (prefix ''iptables -A'') (map cidr_line cs) = map cidr_line cs"
  by (induction ds; simp add: dns_lines_def) (induction cs; simp add: cidr_line_def)

text \<open>
  The script opens the default policy of the container exactly when the wildcard range is
  among the allowed ones; otherwise the policy stays DROP and the script accepts, beside
  loopback, established flows and the DNS servers, one range per line and nothing else.
\<close>

theorem script_default_deny:
  "(''iptables -P OUTPUT ACCEPT'' \<in> set (rules_lines p) \<longleftrightarrow> ''0.0.0.0/0'' \<in> set (po_cidrs p)) \<and>
   ''iptables -P OUTPUT DROP'' \<in> set (rules_lines p) \<and>
   (''0.0.0.0/0'' \<in> set (po_cidrs p) \<or>
    {l \<in> set (rules_lines p). prefix ''iptables -A'' l} =
      {''iptables -A OUTPUT -o lo -j ACCEPT'',
       ''iptables -A OUTPUT -m conntrack --ctstate ESTABLISHED,RELATED -j ACCEPT''} \<union>
      (\<Union>d\<in>set (po_dns p). set (dns_lines d)) \<union> cidr_line ` set (po_cidrs p))"
proof -
  note rules_lines_accept [of p]
  moreover have "''iptables -P OUTPUT DROP'' \<in> set (rules_lines p)"
    by (simp add: rules_lines_def)
  moreover have "{l \<in> set (rules_lines p). prefix ''iptables -A'' l} =
      {''iptables -A OUTPUT -o lo -j ACCEPT'',
       ''iptables -A OUTPUT -m conntrack --ctstate ESTABLISHED,RELATED -j ACCEPT''} \<union>
      (\<Union>d\<in>set (po_dns p). set (dns_lines d)) \<union> cidr_line ` set (po_cidrs p)"
    if "''0.0.0.0/0'' \<notin> set (po_cidrs p)"
    unfolding set_filter [symmetric] rules_lines_def filter_append cidr_lines_plain [OF that]
      rule_lines_kept
    by (simp add: em_dash_def Un_assoc)
  ultimately show ?thesis by blast
qed

end
