(* ===== verification/Permissions.thy ===== *)
theory Permissions
  imports Egress
begin

text \<open>
  The permissions engine of the worker (src/permissions.py): capability checks, command
  checks and the check of a network target. The regular expressions of the patterns come from
  the configuration and are matched by \<open>re.search\<close>; the matcher is a parameter \<open>search\<close> (the
  text of the pattern, the command). Sets of capabilities are lists in an arbitrary order.
\<close>

datatype permission_result = ALLOWED | DENIED | UNKNOWN_CAPABILITY

record permission_check =
  pc_agent :: string
  pc_type :: string
  pc_capability :: string
  pc_resource :: "string option"
  pc_result :: permission_result
  pc_reason :: string

record command_check =
  cc_command :: string
  cc_allowed :: bool
  cc_pattern :: "string option"

record permissions_engine =
  pe_capabilities :: "(string, string list) dict"
  pe_default :: "string list"
  pe_safe :: "string list"
  pe_blocked :: "string list"

definition new_engine ::
    "(string, string list) dict \<Rightarrow> string list option \<Rightarrow> string list option \<Rightarrow> string list option \<Rightarrow>
     permissions_engine" where
  "new_engine caps dflt safe blocked =
     \<lparr>pe_capabilities = caps, pe_default = (case dflt of None \<Rightarrow> [] | Some d \<Rightarrow> d),
      pe_safe = (case safe of None \<Rightarrow> [] | Some d \<Rightarrow> d),
      pe_blocked = (case blocked of None \<Rightarrow> [] | Some d \<Rightarrow> d)\<rparr>"

definition get_capabilities :: "permissions_engine \<Rightarrow> string \<Rightarrow> string list" where
  "get_capabilities pe agent_type =
     remdups (dict_get_or (pe_capabilities pe) agent_type [] @ pe_default pe)"

definition check_capability ::
    "permissions_engine \<Rightarrow> string \<Rightarrow> string \<Rightarrow> string \<Rightarrow> string option \<Rightarrow> permission_check" where
  "check_capability pe agent_type agent_id capability resource =
     (let chk = \<lparr>pc_agent = agent_id, pc_type = agent_type, pc_capability = capability,
                 pc_resource = resource, pc_result = DENIED, pc_reason = []\<rparr>
      in if capability \<in> set (get_capabilities pe agent_type)
         then chk\<lparr>pc_result := ALLOWED,
           pc_reason := ''Capability '' @ [CHR 0x27] @ capability @ [CHR 0x27] @
             '' granted to agent type '' @ [CHR 0x27] @ agent_type @ [CHR 0x27]\<rparr>
         else chk\<lparr>pc_result := DENIED,
           pc_reason := ''Capability '' @ [CHR 0x27] @ capability @ [CHR 0x27] @
             '' not in allowlist for agent type '' @ [CHR 0x27] @ agent_type @ [CHR 0x27]\<rparr>)"

definition verify_capability ::
    "permissions_engine \<Rightarrow> string \<Rightarrow> string \<Rightarrow> string \<Rightarrow> string option \<Rightarrow> permission_check" where
  "verify_capability pe agent_type agent_id capability resource =
     check_capability pe agent_type agent_id capability resource"

definition require_capability ::
    "permissions_engine \<Rightarrow> string \<Rightarrow> string \<Rightarrow> string \<Rightarrow> string option \<Rightarrow> permission_check result" where
  "require_capability pe agent_type agent_id capability resource =
     (let chk = check_capability pe agent_type agent_id capability resource
      in if pc_result chk \<noteq> ALLOWED then Inl (PermissionErr (pc_reason chk)) else Inr chk)"

text \<open>The first pattern that matches.\<close>

definition first_match :: "(string \<Rightarrow> string \<Rightarrow> bool) \<Rightarrow> string list \<Rightarrow> string \<Rightarrow> string option" where
  "first_match search patterns command = find (\<lambda>p. search p command) patterns"

definition check_command ::
    "(string \<Rightarrow> string \<Rightarrow> bool) \<Rightarrow> permissions_engine \<Rightarrow> string \<Rightarrow> command_check" where
  "check_command search pe command =
     (let stripped = py_strip command
      in case first_match search (pe_blocked pe) stripped of
           Some p \<Rightarrow> \<lparr>cc_command = stripped, cc_allowed = False, cc_pattern = Some p\<rparr>
         | None \<Rightarrow>
             (case first_match search (pe_safe pe) stripped of
                Some p \<Rightarrow> \<lparr>cc_command = stripped, cc_allowed = True, cc_pattern = Some p\<rparr>
              | None \<Rightarrow> \<lparr>cc_command = stripped, cc_allowed = False, cc_pattern = None\<rparr>))"

definition is_command_allowed :: "(string \<Rightarrow> string \<Rightarrow> bool) \<Rightarrow> permissions_engine \<Rightarrow> string \<Rightarrow> bool" where
  "is_command_allowed search pe command = cc_allowed (check_command search pe command)"

fun github_cap :: "string \<Rightarrow> string list \<Rightarrow> string option" where
  "github_cap target [] = None"
| "github_cap target (cap # caps) =
     (if drop (length ''net.outbound_'') cap = ''github'' \<and>
         (py_in ''github.com'' target \<or> py_in ''github'' target)
      then Some cap else github_cap target caps)"

definition validate_network_access ::
    "permissions_engine \<Rightarrow> string \<Rightarrow> string \<Rightarrow> string \<Rightarrow> permission_check" where
  "validate_network_access pe agent_type agent_id target =
     (let caps = get_capabilities pe agent_type
      in if ''net.outbound_all'' \<in> set caps
         then \<lparr>pc_agent = agent_id, pc_type = agent_type, pc_capability = ''net.outbound_all'',
               pc_resource = Some target, pc_result = ALLOWED,
               pc_reason = ''Wildcard network access granted''\<rparr>
         else case github_cap target (filter (prefix ''net.outbound_'') caps) of
                Some cap \<Rightarrow>
                  \<lparr>pc_agent = agent_id, pc_type = agent_type, pc_capability = cap,
                   pc_resource = Some target, pc_result = ALLOWED, pc_reason = []\<rparr>
              | None \<Rightarrow>
                  \<lparr>pc_agent = agent_id, pc_type = agent_type, pc_capability = ''net.outbound'',
                   pc_resource = Some target, pc_result = DENIED,
                   pc_reason = ''No network capability allows access to '' @ target\<rparr>)"

section \<open>Deny by default\<close>

definition grants :: "permissions_engine \<Rightarrow> string \<Rightarrow> string \<Rightarrow> bool" where
  "grants pe agent_type cap \<longleftrightarrow>
     cap \<in> set (dict_get_or (pe_capabilities pe) agent_type []) \<or> cap \<in> set (pe_default pe)"

lemma get_capabilities_set: "cap \<in> set (get_capabilities pe ty) \<longleftrightarrow> grants pe ty cap"
  by (simp add: get_capabilities_def grants_def)

text \<open>
  A capability is allowed exactly when the allowlist of the agent's type or the default
  list names it, whatever the agent and the resource; the check never has a third result, and
  \<open>require_capability\<close> raises \<open>PermissionError\<close>, with the reason of the check, exactly when the
  capability is not allowed.
\<close>

theorem capability_deny_by_default:
  "(pc_result (check_capability pe ty i cap res) = (if grants pe ty cap then ALLOWED else DENIED)) \<and>
   require_capability pe ty i cap res =
     (if grants pe ty cap then Inr (verify_capability pe ty i cap res)
      else Inl (PermissionErr (pc_reason (verify_capability pe ty i cap res))))"
  by (simp add: check_capability_def require_capability_def verify_capability_def Let_def
      get_capabilities_set)

lemma first_match_None: "first_match search ps c = None \<longleftrightarrow> \<not> (\<exists>p\<in>set ps. search p c)"
  by (auto simp: first_match_def find_None_iff)

lemma first_match_Some: "first_match search ps c = Some p \<Longrightarrow> p \<in> set ps \<and> search p c"
  by (auto simp: first_match_def find_Some_iff)

text \<open>
  C32. A command is allowed exactly when no blocked pattern matches it and some safe pattern
  does, after stripping it; a blocked pattern wins over every safe one, and the reported
  pattern is one that matched.
\<close>

theorem command_blocked_wins:
  "(is_command_allowed search pe command \<longleftrightarrow>
      \<not> (\<exists>p\<in>set (pe_blocked pe). search p (py_strip command)) \<and>
      (\<exists>p\<in>set (pe_safe pe). search p (py_strip command))) \<and>
   (case cc_pattern (check_command search pe command) of
      None \<Rightarrow> \<not> (\<exists>p\<in>set (pe_blocked pe @ pe_safe pe). search p (py_strip command))
    | Some p \<Rightarrow> search p (py_strip command) \<and>
        p \<in> set (if is_command_allowed search pe command then pe_safe pe else pe_blocked pe))"
proof (cases "first_match search (pe_blocked pe) (py_strip command)")
  case None
  note blocked = None [unfolded first_match_None]
  show ?thesis
  proof (cases "first_match search (pe_safe pe) (py_strip command)")
    case safe: None
    with None blocked safe [unfolded first_match_None] show ?thesis
      by (simp add: is_command_allowed_def check_command_def Let_def) blast
  next
    case (Some p)
    with None blocked first_match_Some [OF Some] show ?thesis
      by (simp add: is_command_allowed_def check_command_def Let_def) blast
  qed
next
  case (Some p)
  with first_match_Some [OF Some] show ?thesis
    by (auto simp: is_command_allowed_def check_command_def Let_def)
qed

lemma prefix_drop: "prefix p x \<Longrightarrow> drop (length p) x = y \<longleftrightarrow> x = p @ y"
  by (auto simp: prefix_def)

lemma github_cap_None:
  "(\<forall>cap\<in>set caps. prefix ''net.outbound_'' cap) \<Longrightarrow>
     github_cap target caps = None \<longleftrightarrow> \<not> (''net.outbound_github'' \<in> set caps \<and> py_in ''github'' target)"
proof (induction caps)
  case (Cons cap caps)
  have "py_in ''github.com'' target \<Longrightarrow> py_in ''github'' target"
    by (rule py_in_trans [of _ "''github.com''"]) simp_all
  moreover have "drop (length ''net.outbound_'') cap = ''github'' \<longleftrightarrow> cap = ''net.outbound_github''"
    using Cons.prems prefix_drop [of "''net.outbound_''" cap "''github''"] by simp
  ultimately show ?case using Cons by (auto simp del: py_in.simps)
qed simp

text \<open>
  A network target is allowed exactly for the wildcard capability, or for the GitHub
  capability when the word "github" occurs anywhere in the target. No other network
  capability (PyPI, npm, registries, cloud interfaces) allows any target here, although each
  of them opens its ranges in the egress filter.
\<close>

theorem network_access_exact:
  "(pc_result (validate_network_access pe ty i target) = ALLOWED \<longleftrightarrow>
      grants pe ty ''net.outbound_all'' \<or>
      grants pe ty ''net.outbound_github'' \<and> py_in ''github'' target) \<and>
   (grants pe ty ''net.outbound_pypi'' \<longrightarrow> py_in ''github'' target \<or> grants pe ty ''net.outbound_all'' \<or>
      pc_result (validate_network_access pe ty i target) = DENIED \<and>
      (\<forall>raw\<in>set (dict_get_or (eg_rules cfg) ''pypi'' []). is_cidr (py_strip raw) \<longrightarrow>
         py_strip raw \<in> set (po_cidrs (resolve_policy cfg (get_capabilities pe ty)))))"
proof -
  let ?caps = "get_capabilities pe ty"
  have "github_cap target (filter (prefix ''net.outbound_'') ?caps) = None \<longleftrightarrow>
      \<not> (grants pe ty ''net.outbound_github'' \<and> py_in ''github'' target)"
    using github_cap_None [of "filter (prefix ''net.outbound_'') ?caps" target]
    by (simp add: get_capabilities_set del: py_in.simps)
  then have res: "pc_result (validate_network_access pe ty i target) =
      (if grants pe ty ''net.outbound_all'' \<or> grants pe ty ''net.outbound_github'' \<and> py_in ''github'' target
       then ALLOWED else DENIED)"
    by (auto simp: validate_network_access_def Let_def get_capabilities_set split: option.split
        simp del: py_in.simps)
  have cat: "dict_get CAPABILITY_TO_CATEGORY ''net.outbound_pypi'' = Some ''pypi''"
    by (simp add: CAPABILITY_TO_CATEGORY_def dict_get_def)
  have "py_strip raw \<in> set (po_cidrs (resolve_policy cfg ?caps))"
    if "grants pe ty ''net.outbound_pypi''" "\<not> grants pe ty ''net.outbound_all''"
      "raw \<in> set (dict_get_or (eg_rules cfg) ''pypi'' [])" "is_cidr (py_strip raw)" for raw
  proof -
    have "py_strip raw \<in> set (entry_cidrs ''pypi'' raw)"
      using that(4) by (simp add: entry_cidrs_def)
    with that cat show ?thesis
      unfolding resolve_policy_cidrs granted_categories_def resolve_category_cidrs_def
      by (auto simp: get_capabilities_set intro!: exI [of _ "''pypi''"])
  qed
  with res show ?thesis by (simp del: py_in.simps)
qed

definition sample_engine :: permissions_engine where
  "sample_engine = \<lparr>pe_capabilities = [(''backend_dev'', [''net.outbound_pypi''])], pe_default = [],
     pe_safe = [], pe_blocked = []\<rparr>"

theorem network_access_exact_witness:
  "pc_result (validate_network_access sample_engine ''backend_dev'' ''a'' ''pypi.org'') = DENIED"
  using network_access_exact [of sample_engine "''backend_dev''" "''a''" "''pypi.org''" sample_egress]
  by (simp add: grants_def sample_engine_def dict_get_or_def dict_get_def)

end
