(* ===== verification/AppArmor.thy ===== *)
theory AppArmor
  imports Prelude
begin

text \<open>
  The AppArmor profiles of the sandbox (src/sandbox/apparmor.py): the tables of capabilities,
  paths and networks for each agent type, the text of a profile and the manager that writes
  and loads the profiles. The files are a dictionary from path to text; the answer of
  \<open>apparmor_parser\<close> is a parameter, \<open>None\<close> standing for the exceptions the code catches.
\<close>

section \<open>Tables\<close>

datatype apparmor_capability =
    CHOWN | DAC_OVERRIDE | DAC_READ_SEARCH | FOWNER | FSETID | KILL | SETGID | SETUID |
    SETPCAP | LINUX_IMMUTABLE | NET_BIND_SERVICE | NET_BROADCAST | NET_ADMIN | NET_RAW |
    IPC_LOCK | IPC_OWNER | SYS_MODULE | SYS_RAWIO | SYS_CHROOT | SYS_PTRACE | SYS_PACCT |
    SYS_ADMIN | SYS_BOOT | SYS_NICE | SYS_RESOURCE | SYS_TIME | SYS_TTY_CONFIG | MKNOD |
    LEASE | AUDIT_WRITE | AUDIT_CONTROL | SETFCAP | MAC_OVERRIDE | MAC_ADMIN | SYSLOG |
    WAKE_ALARM | BLOCK_SUSPEND | AUDIT_READ | PERFMON | BPF | CHECKPOINT_RESTORE

fun cap_value :: "apparmor_capability \<Rightarrow> string" where
  "cap_value CHOWN = ''chown''"
| "cap_value DAC_OVERRIDE = ''dac_override''"
| "cap_value DAC_READ_SEARCH = ''dac_read_search''"
| "cap_value FOWNER = ''fowner''"
| "cap_value FSETID = ''fsetid''"
| "cap_value KILL = ''kill''"
| "cap_value SETGID = ''setgid''"
| "cap_value SETUID = ''setuid''"
| "cap_value SETPCAP = ''setpcap''"
| "cap_value LINUX_IMMUTABLE = ''linux_immutable''"
| "cap_value NET_BIND_SERVICE = ''net_bind_service''"
| "cap_value NET_BROADCAST = ''net_broadcast''"
| "cap_value NET_ADMIN = ''net_admin''"
| "cap_value NET_RAW = ''net_raw''"
| "cap_value IPC_LOCK = ''ipc_lock''"
| "cap_value IPC_OWNER = ''ipc_owner''"
| "cap_value SYS_MODULE = ''sys_module''"
| "cap_value SYS_RAWIO = ''sys_rawio''"
| "cap_value SYS_CHROOT = ''sys_chroot''"
| "cap_value SYS_PTRACE = ''sys_ptrace''"
| "cap_value SYS_PACCT = ''sys_pacct''"
| "cap_value SYS_ADMIN = ''sys_admin''"
| "cap_value SYS_BOOT = ''sys_boot''"
| "cap_value SYS_NICE = ''sys_nice''"
| "cap_value SYS_RESOURCE = ''sys_resource''"
| "cap_value SYS_TIME = ''sys_time''"
| "cap_value SYS_TTY_CONFIG = ''sys_tty_config''"
| "cap_value MKNOD = ''mknod''"
| "cap_value LEASE = ''lease''"
| "cap_value AUDIT_WRITE = ''audit_write''"
| "cap_value AUDIT_CONTROL = ''audit_control''"
| "cap_value SETFCAP = ''setfcap''"
| "cap_value MAC_OVERRIDE = ''mac_override''"
| "cap_value MAC_ADMIN = ''mac_admin''"
| "cap_value SYSLOG = ''syslog''"
| "cap_value WAKE_ALARM = ''wake_alarm''"
| "cap_value BLOCK_SUSPEND = ''block_suspend''"
| "cap_value AUDIT_READ = ''audit_read''"
| "cap_value PERFMON = ''perfmon''"
| "cap_value BPF = ''bpf''"
| "cap_value CHECKPOINT_RESTORE = ''checkpoint_restore''"

datatype apparmor_network =
    INET_TCP | INET_UDP | INET6_TCP | INET6_UDP | UNIX_STREAM | UNIX_DGRAM | NETLINK_RAW |
    PACKET_RAW

fun net_value :: "apparmor_network \<Rightarrow> string" where
  "net_value INET_TCP = ''inet tcp''"
| "net_value INET_UDP = ''inet udp''"
| "net_value INET6_TCP = ''inet6 tcp''"
| "net_value INET6_UDP = ''inet6 udp''"
| "net_value UNIX_STREAM = ''unix stream''"
| "net_value UNIX_DGRAM = ''unix dgram''"
| "net_value NETLINK_RAW = ''netlink raw''"
| "net_value PACKET_RAW = ''packet raw''"

definition AGENT_CAPABILITIES :: "(string, apparmor_capability list) dict" where
  "AGENT_CAPABILITIES =
     [
      (''coder'',
       [DAC_OVERRIDE, FOWNER, FSETID, SETUID, SETGID, CHOWN, KILL, SETPCAP]),
      (''devops'',
       [DAC_OVERRIDE, FOWNER, FSETID, SETUID, SETGID, CHOWN, KILL, SETPCAP, NET_ADMIN,
        NET_RAW, SYS_ADMIN, SYS_PTRACE, SYS_CHROOT]),
      (''qa'',
       [DAC_OVERRIDE, KILL]),
      (''securityengineer'',
       [DAC_OVERRIDE, FOWNER, FSETID, SETUID, SETGID, CHOWN, KILL, NET_RAW, SYS_PTRACE,
        SYS_ADMIN]),
      (''explore'',
       [DAC_OVERRIDE, KILL])]"

definition AGENT_FILESYSTEM_RULES :: "(string, string list) dict" where
  "AGENT_FILESYSTEM_RULES =
     [
      (''coder'',
       [''/workspace/** rwmlk'', ''/tmp/** rwmlk'', ''/run/** rwmlk'',
        ''/home/executor/** rwmlk'', ''/usr/bin/git mrix'', ''/usr/bin/python* mrix'',
        ''/usr/bin/node mrix'', ''/usr/bin/npm mrix'', ''/usr/bin/npx mrix'',
        ''/usr/bin/pip* mrix'', ''/usr/bin/poetry mrix'', ''/usr/bin/cargo mrix'',
        ''/usr/bin/go mrix'', ''/usr/bin/curl mrix'', ''/usr/bin/wget mrix'',
        ''/usr/bin/gh mrix'', ''/usr/bin/make mrix'', ''/usr/bin/gcc mrix'',
        ''/usr/bin/g++ mrix'']),
      (''devops'',
       [''/workspace/** rwmlk'', ''/tmp/** rwmlk'', ''/run/** rwmlk'',
        ''/home/executor/** rwmlk'', ''/usr/bin/git mrix'', ''/usr/bin/python* mrix'',
        ''/usr/bin/node mrix'', ''/usr/bin/npm mrix'', ''/usr/bin/curl mrix'',
        ''/usr/bin/wget mrix'', ''/usr/bin/gh mrix'', ''/usr/bin/docker mrix'',
        ''/usr/bin/kubectl mrix'', ''/usr/bin/make mrix'', ''/var/run/docker.sock rw'',
        ''/root/.docker/config.json r'']),
      (''qa'',
       [''/workspace/** r'', ''/tmp/** r'', ''/run/** r'', ''/home/executor/** r'',
        ''/usr/bin/python* mrix'', ''/usr/bin/node mrix'', ''/usr/bin/curl mrix'',
        ''/usr/bin/wget mrix'']),
      (''securityengineer'',
       [''/workspace/** rwmlk'', ''/tmp/** rwmlk'', ''/run/** rwmlk'',
        ''/home/executor/** rwmlk'', ''/usr/bin/git mrix'', ''/usr/bin/python* mrix'',
        ''/usr/bin/node mrix'', ''/usr/bin/curl mrix'', ''/usr/bin/wget mrix'',
        ''/usr/bin/nmap mrix'', ''/usr/bin/nikto mrix'', ''/usr/bin/gobuster mrix'',
        ''/usr/bin/sqlmap mrix'', ''/usr/bin/gh mrix'']),
      (''explore'',
       [''/workspace/** r'', ''/tmp/** r'', ''/run/** r'', ''/home/executor/** r'',
        ''/usr/bin/git mrix'', ''/usr/bin/python* mrix'', ''/usr/bin/node mrix'',
        ''/usr/bin/curl mrix'', ''/usr/bin/gh mrix''])]"

definition AGENT_NETWORK_RULES :: "(string, apparmor_network list) dict" where
  "AGENT_NETWORK_RULES =
     [
      (''coder'',
       [INET_TCP, INET6_TCP, UNIX_STREAM, UNIX_DGRAM]),
      (''devops'',
       [INET_TCP, INET_UDP, INET6_TCP, INET6_UDP, UNIX_STREAM, UNIX_DGRAM, NETLINK_RAW]),
      (''qa'',
       [INET_TCP, INET6_TCP, UNIX_STREAM, UNIX_DGRAM]),
      (''securityengineer'',
       [INET_TCP, INET_UDP, INET6_TCP, INET6_UDP, UNIX_STREAM, UNIX_DGRAM, PACKET_RAW]),
      (''explore'',
       [INET_TCP, INET6_TCP, UNIX_STREAM, UNIX_DGRAM])]"

definition BASE_ABSTRACTIONS :: "string list" where
  "BASE_ABSTRACTIONS =
     [''base'', ''nameservice'', ''ssl_certs'', ''crypto'']"

definition COMMON_READONLY_PATHS :: "string list" where
  "COMMON_READONLY_PATHS =
     [''/etc/passwd r'', ''/etc/group r'', ''/etc/nsswitch.conf r'',
      ''/etc/resolv.conf r'', ''/etc/hosts r'', ''/etc/hostname r'', ''/etc/ssl/** r'',
      ''/usr/lib/** r'', ''/usr/share/** r'', ''/lib/** r'', ''/lib64/** r'',
      ''/proc/*/status r'', ''/proc/*/mounts r'', ''/proc/filesystems r'',
      ''/proc/sys/kernel/ngroups_max r'', ''/sys/devices/system/cpu/** r'',
      ''/dev/null rw'', ''/dev/zero rw'', ''/dev/random r'', ''/dev/urandom r'',
      ''/dev/stdin r'', ''/dev/stdout w'', ''/dev/stderr w'']"

definition ALWAYS_DENY_PATHS :: "string list" where
  "ALWAYS_DENY_PATHS =
     [''/boot/**'', ''/root/**'', ''/etc/shadow'', ''/etc/sudoers'', ''/etc/sudoers.d/**'',
      ''/etc/apparmor/**'', ''/etc/apparmor.d/**'', ''/sys/kernel/security/**'',
      ''/proc/sysrq-trigger'', ''/proc/kcore'', ''/proc/kallsyms'', ''/proc/sys/kernel/**'']"

section \<open>Profiles\<close>

record apparmor_profile =
  ap_name :: string
  ap_capabilities :: "apparmor_capability list"
  ap_files :: "string list"
  ap_networks :: "apparmor_network list"
  ap_comment :: string

definition capability_lines :: "apparmor_capability list \<Rightarrow> string list" where
  "capability_lines caps =
     (if caps = [] then []
      else [[], ''  # Linux capabilities''] @
           map (\<lambda>c. ''  capability '' @ cap_value c @ '','') (sort_key cap_value caps) @
           [''  deny capability,''])"

definition file_lines :: "string list \<Rightarrow> string list" where
  "file_lines rules =
     (if rules = [] then []
      else [[], ''  # Filesystem access''] @ map (\<lambda>r. ''  '' @ r @ '','') rules)"

definition deny_lines :: "string list" where
  "deny_lines =
     (if ALWAYS_DENY_PATHS = [] then []
      else [[], ''  # Explicitly denied paths''] @ map (\<lambda>r. ''  deny '' @ r @ '','') ALWAYS_DENY_PATHS)"

definition network_lines :: "apparmor_network list \<Rightarrow> string list" where
  "network_lines nets =
     (if nets = [] then []
      else [[], ''  # Network access''] @
           map (\<lambda>n. ''  network '' @ net_value n @ '','') (sort_key net_value nets) @
           [''  deny network,''])"

definition comment_lines :: "string \<Rightarrow> string list" where
  "comment_lines c =
     (if c = [] then []
      else map (\<lambda>l. ''# '' @ py_strip l) (py_split (CHR 0x0A) (py_strip c)) @ [[]])"

definition signal_lines :: "string list" where
  "signal_lines =
     [[], ''  # Signal and ptrace restrictions'',
      ''  signal (receive) peer=unconfined,'',
      \<comment> \<open>the string is no f-string: the name is not filled in\<close>
      ''  signal (send) peer={self.name},'',
      ''  deny ptrace (readby) peer=unconfined,'',
      ''  deny ptrace (tracedby) peer=unconfined,'',
      [], ''  # Default deny for mount, umount, and pivot_root'',
      ''  deny mount,'', ''  deny umount,'', ''  deny pivot_root,'', ''}'']"

definition profile_lines :: "apparmor_profile \<Rightarrow> string list" where
  "profile_lines p =
     [''#include <tunables/global>'', []] @ comment_lines (ap_comment p) @
     [''profile '' @ ap_name p @ '' flags=(attach_disconnected,mediate_deleted) {''] @
     map (\<lambda>a. ''  #include <abstractions/'' @ a @ ''>'') BASE_ABSTRACTIONS @
     capability_lines (ap_capabilities p) @ file_lines (ap_files p) @ deny_lines @
     network_lines (ap_networks p) @ signal_lines"

definition generate :: "apparmor_profile \<Rightarrow> string" where
  "generate p = py_join newline (profile_lines p) @ newline"

definition to_docker_security_opt :: "apparmor_profile \<Rightarrow> string" where
  "to_docker_security_opt p = ''apparmor='' @ ap_name p"

section \<open>The manager\<close>

definition PROFILE_PREFIX :: string where "PROFILE_PREFIX = ''paperclip-execution''"

definition profile_name :: "string \<Rightarrow> string" where
  "profile_name agent_type = PROFILE_PREFIX @ ''-'' @ agent_type"

definition build_agent_profile :: "string \<Rightarrow> apparmor_profile" where
  "build_agent_profile ty =
     \<lparr>ap_name = profile_name ty, ap_capabilities = dict_get_or AGENT_CAPABILITIES ty [DAC_OVERRIDE],
      ap_files = COMMON_READONLY_PATHS @ dict_get_or AGENT_FILESYSTEM_RULES ty [],
      ap_networks = dict_get_or AGENT_NETWORK_RULES ty [INET_TCP],
      ap_comment = ''Paperclip execution profile for agent type: '' @ ty\<rparr>"

definition build_default_profile :: apparmor_profile where
  "build_default_profile =
     \<lparr>ap_name = PROFILE_PREFIX @ ''-default'', ap_capabilities = [DAC_OVERRIDE],
      ap_files = COMMON_READONLY_PATHS @ [''/workspace/** r'', ''/tmp/** r''],
      ap_networks = [UNIX_STREAM, UNIX_DGRAM],
      ap_comment = ''Default restrictive profile for unknown agent types''\<rparr>"

definition get_profile :: "string \<Rightarrow> apparmor_profile option" where
  "get_profile ty =
     (if ty \<in> set (dict_keys AGENT_CAPABILITIES) then Some (build_agent_profile ty) else None)"

type_synonym files = "(string, string) dict"

definition write_to :: "string \<Rightarrow> apparmor_profile \<Rightarrow> files \<Rightarrow> string \<times> files" where
  "write_to path p fs = (path, dict_set path (generate p) fs)"

definition write_profile :: "string \<Rightarrow> string \<Rightarrow> files \<Rightarrow> string \<times> files" where
  "write_profile dir ty fs =
     (let p = build_agent_profile ty in write_to (dir @ ''/'' @ ap_name p) p fs)"

fun write_profiles :: "string \<Rightarrow> string list \<Rightarrow> files \<Rightarrow> string list \<times> files" where
  "write_profiles dir [] fs = ([], fs)"
| "write_profiles dir (ty # tys) fs =
     (let (path, fs1) = write_profile dir ty fs; (paths, fs2) = write_profiles dir tys fs1
      in (path # paths, fs2))"

definition write_all_profiles :: "string \<Rightarrow> files \<Rightarrow> string list \<times> files" where
  "write_all_profiles dir fs =
     (let (path, fs1) = write_to (dir @ ''/'' @ PROFILE_PREFIX @ ''-default'') build_default_profile fs;
          (paths, fs2) = write_profiles dir (dict_keys AGENT_CAPABILITIES) fs1
      in (path # paths, fs2))"

definition load_profile :: "(string list \<Rightarrow> int option) \<Rightarrow> string \<Rightarrow> string \<Rightarrow> files \<Rightarrow> bool \<times> files" where
  "load_profile run dir ty fs =
     (let (path, fs1) = write_profile dir ty fs
      in (run [''apparmor_parser'', ''-r'', ''-W'', path] = Some 0, fs1))"

definition unload_profile :: "(string list \<Rightarrow> int option) \<Rightarrow> string \<Rightarrow> bool" where
  "unload_profile run ty = (run [''apparmor_parser'', ''-R'', profile_name ty] = Some 0)"

text \<open>\<open>None\<close>: the kernel's list does not exist or cannot be read.\<close>

definition is_profile_loaded :: "string option \<Rightarrow> string \<Rightarrow> bool" where
  "is_profile_loaded content ty =
     (case content of None \<Rightarrow> False | Some text \<Rightarrow> py_in (profile_name ty) text)"

definition get_docker_security_opts :: "string \<Rightarrow> string list" where
  "get_docker_security_opts ty =
     [to_docker_security_opt (case get_profile ty of None \<Rightarrow> build_default_profile | Some p \<Rightarrow> p)]"

definition get_default_docker_security_opt :: "string list" where
  "get_default_docker_security_opt = [to_docker_security_opt build_default_profile]"

definition get_all_profiles :: "(string, apparmor_profile) dict" where
  "get_all_profiles = dict_of ((''default'', build_default_profile) #
     map (\<lambda>ty. (ty, build_agent_profile ty)) (dict_keys AGENT_CAPABILITIES))"

section \<open>What the profiles say\<close>

lemma map_sort_key: "map f (sort_key f xs) = sort (map f xs)"
  by (rule properties_for_sort [symmetric]) simp_all

lemma map_sorted: "map (\<lambda>x. g (f x)) (sort_key f xs) = map g (sort (map f xs))"
  unfolding map_sort_key [symmetric] by simp

lemma capability_lines_sorted:
  "capability_lines caps = (if caps = [] then []
      else [[], ''  # Linux capabilities''] @
           map (\<lambda>v. ''  capability '' @ v @ '','') (sort (map cap_value caps)) @ [''  deny capability,''])"
  unfolding capability_lines_def map_sorted [of "\<lambda>v. ''  capability '' @ v @ '',''" cap_value caps] by (rule refl)

lemma network_lines_sorted:
  "network_lines nets = (if nets = [] then []
      else [[], ''  # Network access''] @
           map (\<lambda>v. ''  network '' @ v @ '','') (sort (map net_value nets)) @ [''  deny network,''])"
  unfolding network_lines_def map_sorted [of "\<lambda>v. ''  network '' @ v @ '',''" net_value nets] by (rule refl)

text \<open>
  The text of a profile does not depend on the order in which its capabilities and its
  networks are listed.
\<close>

theorem generate_order_independent:
  assumes "mset caps = mset caps'" and "mset nets = mset nets'"
  shows "generate (p\<lparr>ap_capabilities := caps, ap_networks := nets\<rparr>) =
    generate (p\<lparr>ap_capabilities := caps', ap_networks := nets'\<rparr>)"
proof -
  have sorted: "sort (map f xs) = sort (map f ys)" if "mset xs = mset ys"
    for f :: "'x \<Rightarrow> string" and xs ys
    by (metis mset_map properties_for_sort mset_sort sorted_sort that)
  have empty: "caps = [] \<longleftrightarrow> caps' = []" "nets = [] \<longleftrightarrow> nets' = []"
    using assms by (metis mset_zero_iff)+
  have "capability_lines caps = capability_lines caps'"
    unfolding capability_lines_sorted by (simp only: sorted [OF assms(1)] empty)
  moreover have "network_lines nets = network_lines nets'"
    unfolding network_lines_sorted by (simp only: sorted [OF assms(2)] empty)
  ultimately show ?thesis by (simp add: generate_def profile_lines_def)
qed

theorem generate_order_independent_witness:
  "generate (build_default_profile\<lparr>ap_capabilities := [KILL, CHOWN], ap_networks := []\<rparr>) =
     generate (build_default_profile\<lparr>ap_capabilities := [CHOWN, KILL], ap_networks := []\<rparr>)"
  by (rule generate_order_independent) simp_all

lemma file_rules_absolute:
  "list_all (\<lambda>r. take 1 r = ''/'') COMMON_READONLY_PATHS"
  "list_all (\<lambda>(k, rs). list_all (\<lambda>r. take 1 r = ''/'') rs) AGENT_FILESYSTEM_RULES"
  by (simp_all add: COMMON_READONLY_PATHS_def AGENT_FILESYSTEM_RULES_def)

lemma agent_rules_absolute: "\<forall>r\<in>set (dict_get_or AGENT_FILESYSTEM_RULES ty []). take 1 r = ''/''"
proof (cases "dict_get AGENT_FILESYSTEM_RULES ty")
  case None
  then show ?thesis by (simp add: dict_get_or_def)
next
  case (Some rs)
  from bspec [OF file_rules_absolute(2) [unfolded list_all_iff] dict_get_Some_mem [OF Some]]
  show ?thesis by (simp add: dict_get_or_def Some)
qed

text \<open>
  The rule that should let the processes of a profile signal one another names no
  profile: in the text of every agent profile the only rule for sending signals has the peer
  "{self.name}", a format placeholder that was left in.
\<close>

theorem signal_peer_not_filled_in:
  "filter (prefix ''  signal (send)'') (profile_lines (build_agent_profile ty)) =
     [''  signal (send) peer={self.name},'']"
proof -
  have files: "filter (prefix ''  signal (send)'') (file_lines (COMMON_READONLY_PATHS @ rs)) = []"
    if "\<forall>r\<in>set rs. take 1 r = ''/''" for rs
  proof -
    have "\<not> prefix ''  signal (send)'' (''  '' @ r @ '','')" if "take 1 r = ''/''" for r
      using that by (cases r) auto
    then show ?thesis
      using that file_rules_absolute(1) by (auto simp: file_lines_def list_all_iff filter_empty_conv)
  qed
  have others: "filter (prefix ''  signal (send)'') (capability_lines caps) = []"
    "filter (prefix ''  signal (send)'') (network_lines nets) = []"
    "filter (prefix ''  signal (send)'') (comment_lines c) = []"
    "filter (prefix ''  signal (send)'') deny_lines = []" for caps nets c
    by (auto simp: capability_lines_def network_lines_def comment_lines_def deny_lines_def filter_empty_conv)
  show ?thesis
    unfolding profile_lines_def filter_append others build_agent_profile_def apparmor_profile.select_convs
      files [OF agent_rules_absolute]
    by (simp add: BASE_ABSTRACTIONS_def signal_lines_def)
qed

text \<open>
  An agent type without a table entry runs under the default profile, which grants no
  Internet network at all; but \<open>build_agent_profile\<close>, and with it \<open>write_profile\<close> and
  \<open>load_profile\<close>, makes for the same type a profile of its own that grants TCP.
\<close>

theorem unknown_agent_profiles:
  assumes "ty \<notin> set (dict_keys AGENT_CAPABILITIES)" and "dict_get AGENT_NETWORK_RULES ty = None"
  shows "get_profile ty = None \<and>
    get_docker_security_opts ty = [''apparmor=paperclip-execution-default''] \<and>
    set (ap_networks build_default_profile) = {UNIX_STREAM, UNIX_DGRAM} \<and>
    ap_networks (build_agent_profile ty) = [INET_TCP] \<and>
    dict_get (snd (load_profile run dir ty fs)) (dir @ ''/paperclip-execution-'' @ ty) =
      Some (generate (build_agent_profile ty))"
  using assms
  by (simp add: get_profile_def get_docker_security_opts_def to_docker_security_opt_def
      build_default_profile_def build_agent_profile_def PROFILE_PREFIX_def dict_get_or_def
      load_profile_def write_profile_def write_to_def Let_def profile_name_def)

theorem unknown_agent_profiles_witness:
  "get_docker_security_opts ''marketing'' = [''apparmor=paperclip-execution-default'']"
  using unknown_agent_profiles [of "''marketing''" "\<lambda>_. None" "''/d''" "[]"]
  by (simp add: AGENT_CAPABILITIES_def AGENT_NETWORK_RULES_def dict_keys_def dict_get_def)

end
