(* ===== verification/Sandbox.thy ===== *)
theory Sandbox
  imports AppArmor Egress
begin

text \<open>
  The container runtime of the worker (src/container_runtime.py): how a job becomes a Docker
  container with resource limits, mounts, security options and egress rules.

  Docker and the file system are outside: an operation is the list of the calls it makes, in
  order, and its result; what Docker answers is the record \<open>answers\<close>. The exceptions of the
  calls before \<open>containers.run\<close> other than a failing pull are not modelled, nor is logging. A command is the JSON value of the payload, a text or a
  list of texts.
\<close>

section \<open>Data\<close>

record docker_config =
  dk_image :: string
  dk_network :: string
  dk_pull :: string

record resource_profile =
  rp_cpu_shares :: int
  rp_cpu_quota :: int
  rp_cpu_period :: int
  rp_memory :: int
  rp_swap :: int
  rp_disk :: int
  rp_pids :: int

record sandbox_config =
  sc_default_profile :: string
  sc_default_timeout :: int
  sc_max_timeout :: int
  sc_mount :: string
  sc_readonly :: bool
  sc_tmpfs :: int
  sc_drop_all :: bool
  sc_profiles :: "(string, resource_profile) dict"

text \<open>\<open>sm_apparmor\<close>: whether the runtime was built with an \<open>AppArmorManager\<close>.\<close>

record sandbox_manager =
  sm_docker :: docker_config
  sm_sandbox :: sandbox_config
  sm_apparmor :: bool
  sm_egress :: "egress_config option"
  sm_worker :: string

record mount =
  mt_target :: string
  mt_source :: string
  mt_readonly :: bool

record run_args =
  ra_image :: string
  ra_command :: json
  ra_name :: string
  ra_remove :: bool
  ra_network :: string
  ra_mounts :: "mount list"
  ra_environment :: "(string, string) dict"
  ra_readonly :: bool
  ra_cap_drop :: "string list"
  ra_cap_add :: "string list option"
  ra_security_opt :: "string list"
  ra_cpu :: "int \<times> int \<times> int"
  ra_memory :: "string \<times> string"
  ra_pids :: int
  ra_ulimits :: "(string \<times> int \<times> int) list"
  ra_tmpfs :: "(string, string) dict"
  ra_labels :: "(string, string) dict"

datatype call =
    ImageGet string
  | ImagePull string
  | MakeDirs string
  | ChmodAll string
  | Run run_args
  | ExecRoot string "string list"
  | StopContainer string
  | KillContainer string

record answers =
  an_found :: bool
  an_pull :: "exc option"
  an_tmpdir :: string
  an_run :: "run_args \<Rightarrow> exc + string"
  an_exec :: "(string \<Rightarrow> string list \<Rightarrow> int option) option"

definition EGRESS_REQUIRED_CAPS :: "string list" where
  "EGRESS_REQUIRED_CAPS = [''NET_ADMIN'', ''NET_RAW'']"

definition SANDBOX_LABEL :: string where "SANDBOX_LABEL = ''paperclip.sandbox''"
definition JOB_ID_LABEL :: string where "JOB_ID_LABEL = ''paperclip.job-id''"
definition WORKER_ID_LABEL :: string where "WORKER_ID_LABEL = ''paperclip.worker-id''"

section \<open>The parts of a container\<close>

text \<open>\<open>os.path.join(a, b)\<close> on POSIX: an absolute \<open>b\<close> replaces \<open>a\<close>.\<close>

definition path_join :: "string \<Rightarrow> string \<Rightarrow> string" where
  "path_join a b =
     (if take 1 b = ''/'' then b
      else if a = [] \<or> last a = CHR ''/'' then a @ b else a @ ''/'' @ b)"

definition workspace_base :: string where "workspace_base = ''/workspaces''"

definition prepare_workspace :: "answers \<Rightarrow> string option \<Rightarrow> string \<times> call list" where
  "prepare_workspace an workspace =
     (let path = (case workspace of
                    None \<Rightarrow> an_tmpdir an
                  | Some w \<Rightarrow> if w = [] then an_tmpdir an else path_join workspace_base w)
      in (path, [MakeDirs path, ChmodAll path]))"

definition build_mounts :: "sandbox_manager \<Rightarrow> string \<Rightarrow> mount list" where
  "build_mounts m dir = [\<lparr>mt_target = sc_mount (sm_sandbox m), mt_source = dir, mt_readonly = False\<rparr>]"

definition build_security_opts :: "sandbox_manager \<Rightarrow> string option \<Rightarrow> string list" where
  "build_security_opts m agent_type =
     [''no-new-privileges:true''] @
     (if sm_apparmor m
      then (case agent_type of
              None \<Rightarrow> get_default_docker_security_opt
            | Some ty \<Rightarrow>
                if ty \<in> set (dict_keys get_all_profiles) then get_docker_security_opts ty
                else get_default_docker_security_opt)
      else [])"

definition ensure_image :: "sandbox_manager \<Rightarrow> answers \<Rightarrow> string \<Rightarrow> exc option \<times> call list" where
  "ensure_image m an img =
     (let pull = dk_pull (sm_docker m)
      in if pull = ''never'' then (None, [])
         else if an_found an
         then (if pull = ''always'' then (an_pull an, [ImageGet img, ImagePull img])
               else (None, [ImageGet img]))
         else (if pull \<in> {''missing'', ''always''} then (an_pull an, [ImageGet img, ImagePull img])
               else (None, [ImageGet img])))"

text \<open>
  The first component is the success that is logged. The script is sent to the container only
  when the client has the method that the code calls.
\<close>

definition apply_egress_rules ::
    "sandbox_manager \<Rightarrow> answers \<Rightarrow> string \<Rightarrow> string list \<Rightarrow> bool \<times> call list" where
  "apply_egress_rules m an cid caps =
     (case sm_egress m of
        None \<Rightarrow> (False, [])
      | Some cfg \<Rightarrow>
          (let policy = resolve_policy cfg caps
           in (apply_to_container (an_exec an) cid policy,
               if an_exec an = None then []
               else [ExecRoot cid [''/bin/bash'', ''-c'', build_rules_script policy]])))"

record create_params =
  cp_job :: string
  cp_command :: json
  cp_profile :: resource_profile
  cp_network :: bool
  cp_workspace :: "string option"
  cp_environment :: "(string, string) dict option"
  cp_image :: "string option"
  cp_agent_type :: "string option"
  cp_caps :: "string list option"

definition needs_egress :: "sandbox_manager \<Rightarrow> create_params \<Rightarrow> bool" where
  "needs_egress m p \<longleftrightarrow> cp_network p \<and> sm_egress m \<noteq> None \<and> cp_caps p \<noteq> None"

definition container_args :: "sandbox_manager \<Rightarrow> create_params \<Rightarrow> string \<Rightarrow> run_args" where
  "container_args m p dir =
     \<lparr>ra_image = str_or (cp_image p) (dk_image (sm_docker m)),
      ra_command = cp_command p,
      ra_name = ''exec-'' @ py_replace (CHR '':'') ''-'' (cp_job p),
      ra_remove = True,
      ra_network = (if cp_network p then dk_network (sm_docker m) else ''none''),
      ra_mounts = build_mounts m dir,
      ra_environment = (case cp_environment p of None \<Rightarrow> [] | Some e \<Rightarrow> e),
      ra_readonly = sc_readonly (sm_sandbox m),
      ra_cap_drop = (if sc_drop_all (sm_sandbox m) then [''ALL''] else []),
      ra_cap_add = (if needs_egress m p then Some EGRESS_REQUIRED_CAPS else None),
      ra_security_opt = build_security_opts m (cp_agent_type p),
      ra_cpu = (rp_cpu_shares (cp_profile p), rp_cpu_quota (cp_profile p), rp_cpu_period (cp_profile p)),
      ra_memory = (show_int (rp_memory (cp_profile p)) @ ''m'', show_int (rp_swap (cp_profile p)) @ ''m''),
      ra_pids = rp_pids (cp_profile p),
      ra_ulimits = [(''nproc'', rp_pids (cp_profile p), rp_pids (cp_profile p)), (''nofile'', 1024, 4096)],
      ra_tmpfs = [(''/tmp'', ''size='' @ show_int (sc_tmpfs (sm_sandbox m)) @ ''m,mode=1777''),
                  (''/run'', ''size=16m,mode=0755,noexec'')],
      ra_labels = [(SANDBOX_LABEL, ''true''), (JOB_ID_LABEL, cp_job p), (WORKER_ID_LABEL, sm_worker m)]\<rparr>"

definition create_container ::
    "sandbox_manager \<Rightarrow> answers \<Rightarrow> create_params \<Rightarrow> string result \<times> call list" where
  "create_container m an p =
     (case ensure_image m an (str_or (cp_image p) (dk_image (sm_docker m))) of
        (Some e, calls) \<Rightarrow> (Inl e, calls)
      | (None, calls) \<Rightarrow>
          (let (dir, ws) = prepare_workspace an (cp_workspace p);
               args = container_args m p dir; before = calls @ ws @ [Run args]
           in case an_run an args of
                Inl e \<Rightarrow> (Inl e, before)
              | Inr cid \<Rightarrow>
                  (Inr cid,
                   before @ (if needs_egress m p
                             then snd (apply_egress_rules m an cid (the (cp_caps p))) else []))))"

text \<open>The status questions: \<open>None\<close> is a container that Docker does not know.\<close>

definition container_status :: "(string \<Rightarrow> (string \<times> int option) option) \<Rightarrow> string \<Rightarrow> string option" where
  "container_status docker cid = map_option fst (docker cid)"

definition container_exit_code :: "(string \<Rightarrow> (string \<times> int option) option) \<Rightarrow> string \<Rightarrow> int option" where
  "container_exit_code docker cid = Option.bind (docker cid) snd"

text \<open>
  \<open>cleanup_stale_containers\<close>: the containers with the sandbox label as pairs of identifier and
  status; \<open>removed\<close> says whether a removal succeeds. The age limit is an argument that the
  code does not use.
\<close>

definition cleanup_stale_containers ::
    "(string \<times> string) list \<Rightarrow> (string \<Rightarrow> bool) \<Rightarrow> int \<Rightarrow> nat" where
  "cleanup_stale_containers containers removed max_age =
     length (filter (\<lambda>(i, st). st \<in> {''exited'', ''dead'', ''created''} \<and> removed i) containers)"

section \<open>Isolation\<close>

lemma started_with:
  "Run args \<in> set (snd (create_container m an p)) \<Longrightarrow> \<exists>dir. args = container_args m p dir"
  by (auto simp: create_container_def Let_def ensure_image_def prepare_workspace_def
      apply_egress_rules_def split: prod.splits option.splits sum.splits if_splits)

lemma security_opts_profile:
  assumes "sm_apparmor m"
  shows "\<exists>ty. build_security_opts m agent = [''no-new-privileges:true'', ''apparmor=paperclip-execution-'' @ ty] \<and>
    (ty = ''default'' \<or> agent = Some ty \<and> ty \<in> set (dict_keys AGENT_CAPABILITIES))"
proof -
  have opts: "\<exists>ty'. get_docker_security_opts ty = [''apparmor=paperclip-execution-'' @ ty'] \<and>
      (ty' = ''default'' \<or> ty' = ty \<and> ty \<in> set (dict_keys AGENT_CAPABILITIES))" for ty
    by (auto simp: get_docker_security_opts_def get_profile_def to_docker_security_opt_def
        build_default_profile_def build_agent_profile_def profile_name_def PROFILE_PREFIX_def)
  show ?thesis
    using assms opts [of "the agent"]
    by (cases agent)
      (auto simp: build_security_opts_def get_default_docker_security_opt_def
        to_docker_security_opt_def build_default_profile_def PROFILE_PREFIX_def)
qed

text \<open>
  C9. Every container the runtime starts may not gain privileges; it is cut off from the
  network unless the job asked for network access; when all capabilities are dropped it gets
  back at most NET_ADMIN and NET_RAW, and these only when egress rules are to be applied; and
  with AppArmor it runs under exactly one profile, that of its agent type or the default one.
\<close>

theorem container_isolation:
  assumes "Run args \<in> set (snd (create_container m an p))"
  shows "''no-new-privileges:true'' \<in> set (ra_security_opt args) \<and>
    (ra_network args = ''none'' \<or> cp_network p) \<and>
    (sc_drop_all (sm_sandbox m) \<longrightarrow> ra_cap_drop args = [''ALL'']) \<and>
    (case ra_cap_add args of None \<Rightarrow> True
     | Some cs \<Rightarrow> set cs = {''NET_ADMIN'', ''NET_RAW''} \<and> cp_network p \<and> sm_egress m \<noteq> None) \<and>
    ra_readonly args = sc_readonly (sm_sandbox m) \<and> ra_remove args \<and>
    (sm_apparmor m \<longrightarrow> (\<exists>ty. tl (ra_security_opt args) = [''apparmor=paperclip-execution-'' @ ty] \<and>
       (ty = ''default'' \<or> cp_agent_type p = Some ty \<and> ty \<in> set (dict_keys AGENT_CAPABILITIES))))"
proof -
  obtain dir where args: "args = container_args m p dir"
    using started_with [OF assms] by blast
  have "\<exists>ty. tl (ra_security_opt args) = [''apparmor=paperclip-execution-'' @ ty] \<and>
       (ty = ''default'' \<or> cp_agent_type p = Some ty \<and> ty \<in> set (dict_keys AGENT_CAPABILITIES))"
    if "sm_apparmor m"
    using security_opts_profile [OF that, of "cp_agent_type p"] by (auto simp: args container_args_def)
  moreover have "''no-new-privileges:true'' \<in> set (ra_security_opt args)"
    by (simp add: args container_args_def build_security_opts_def)
  ultimately show ?thesis
    by (simp add: args container_args_def needs_egress_def EGRESS_REQUIRED_CAPS_def)
qed

section \<open>Where the isolation ends\<close>

text \<open>
  The workspace of a job may lie anywhere: for an absolute workspace path the runtime
  makes that very path of the host writable for everyone and mounts it writable into the
  container, whatever the base directory is.
\<close>

theorem absolute_workspace_escapes:
  assumes "cp_workspace p = Some w" and "take 1 w = ''/''" and "Inr cid = fst (create_container m an p)"
  shows "ChmodAll w \<in> set (snd (create_container m an p)) \<and>
    (\<exists>args. Run args \<in> set (snd (create_container m an p)) \<and>
       ra_mounts args = [\<lparr>mt_target = sc_mount (sm_sandbox m), mt_source = w, mt_readonly = False\<rparr>])"
proof -
  have "w \<noteq> []" using assms(2) by auto
  then have ws: "prepare_workspace an (cp_workspace p) = (w, [MakeDirs w, ChmodAll w])"
    using assms(1,2) by (simp add: prepare_workspace_def path_join_def)
  have "ra_mounts (container_args m p w) = [\<lparr>mt_target = sc_mount (sm_sandbox m), mt_source = w, mt_readonly = False\<rparr>]"
    by (simp add: container_args_def build_mounts_def)
  with assms(3) ws show ?thesis
    by (auto simp: create_container_def Let_def split: prod.splits option.splits sum.splits)
qed

text \<open>The calls of a successful creation: nothing runs in a container before it is started.\<close>

lemma created_trace:
  assumes "fst (create_container m an p) = Inr cid"
  obtains before dir where
    "snd (create_container m an p) = before @ [Run (container_args m p dir)] @
       (if needs_egress m p then snd (apply_egress_rules m an cid (the (cp_caps p))) else [])"
    and "\<nexists>c script. ExecRoot c script \<in> set before"
proof -
  obtain calls where im: "ensure_image m an (str_or (cp_image p) (dk_image (sm_docker m))) = (None, calls)"
    using assms by (auto simp: create_container_def split: prod.splits option.splits)
  obtain dir ws where ws: "prepare_workspace an (cp_workspace p) = (dir, ws)" by fastforce
  have "\<nexists>c script. ExecRoot c script \<in> set (calls @ ws)"
    using im ws by (auto simp: ensure_image_def prepare_workspace_def Let_def split: if_splits)
  moreover have "snd (create_container m an p) = (calls @ ws) @ [Run (container_args m p dir)] @
       (if needs_egress m p then snd (apply_egress_rules m an cid (the (cp_caps p))) else [])"
    using assms by (auto simp: create_container_def im ws Let_def split: sum.splits)
  ultimately show ?thesis using that by blast
qed

text \<open>
  Had the client the method, the egress rules would still be applied after the command of the
  job was started, by a call that comes after \<open>containers.run\<close> in every case, and their failure
  would change nothing: whatever the container answers to the execution of the script, the
  runtime returns the identifier of the running container and makes no further call.
\<close>

theorem egress_rules_late_and_ignored:
  assumes "fst (create_container m an p) = Inr cid" and "needs_egress m p" and "an_exec an = Some ex"
  shows "\<exists>before args script. snd (create_container m an p) = before @ [Run args, ExecRoot cid script] \<and>
      ra_command args = cp_command p \<and>
      create_container m (an\<lparr>an_exec := Some answer\<rparr>) p = create_container m an p"
proof -
  obtain cfg where cfg: "sm_egress m = Some cfg" using assms(2) by (auto simp: needs_egress_def)
  let ?an = "an\<lparr>an_exec := Some answer\<rparr>"
  have ws: "prepare_workspace ?an w = prepare_workspace an w"
    and im: "ensure_image m ?an i = ensure_image m an i" for w i
    by (simp_all add: prepare_workspace_def ensure_image_def Let_def split: option.split)
  have eg: "snd (apply_egress_rules m ?an c caps) = snd (apply_egress_rules m an c caps)"
    and run: "an_run ?an = an_run an" for c caps
    by (simp_all add: apply_egress_rules_def Let_def assms(3) split: option.split)
  have "create_container m ?an p = create_container m an p"
    unfolding create_container_def ws im eg run by (rule refl)
  moreover from created_trace [OF assms(1)] obtain before dir where
    "snd (create_container m an p) = before @ [Run (container_args m p dir)] @
       snd (apply_egress_rules m an cid (the (cp_caps p)))"
    using assms(2) by metis
  then have "snd (create_container m an p) = before @ [Run (container_args m p dir),
      ExecRoot cid [''/bin/bash'', ''-c'', build_rules_script (resolve_policy cfg (the (cp_caps p)))]]"
    by (simp add: apply_egress_rules_def cfg assms(3) Let_def)
  moreover have "ra_command (container_args m p dir) = cp_command p" by (simp add: container_args_def)
  ultimately show ?thesis by blast
qed

definition sample_profile :: resource_profile where
  "sample_profile = \<lparr>rp_cpu_shares = 512, rp_cpu_quota = 50000, rp_cpu_period = 100000, rp_memory = 512,
     rp_swap = 512, rp_disk = 1, rp_pids = 64\<rparr>"

definition sample_manager :: sandbox_manager where
  "sample_manager =
     \<lparr>sm_docker = \<lparr>dk_image = ''img'', dk_network = ''net'', dk_pull = ''never''\<rparr>,
      sm_sandbox = \<lparr>sc_default_profile = ''medium'', sc_default_timeout = 600, sc_max_timeout = 3600,
        sc_mount = ''/workspace'', sc_readonly = True, sc_tmpfs = 64, sc_drop_all = True,
        sc_profiles = [(''medium'', sample_profile)]\<rparr>,
      sm_apparmor = True, sm_egress = Some sample_egress, sm_worker = ''w''\<rparr>"

definition sample_answers :: answers where
  "sample_answers = \<lparr>an_found = True, an_pull = None, an_tmpdir = ''/workspaces/job-1'',
     an_run = (\<lambda>_. Inr ''cid''), an_exec = None\<rparr>"

definition sample_params :: create_params where
  "sample_params = \<lparr>cp_job = ''1-0'', cp_command = JStr ''make'', cp_profile = sample_profile, cp_network = True,
     cp_workspace = Some ''/etc'', cp_environment = None, cp_image = None, cp_agent_type = Some ''qa'',
     cp_caps = Some [''net.outbound_npm'']\<rparr>"

lemma sample_created: "fst (create_container sample_manager sample_answers sample_params) = Inr ''cid''"
  by (simp add: create_container_def ensure_image_def prepare_workspace_def sample_manager_def
      sample_answers_def Let_def)

theorem absolute_workspace_escapes_witness:
  "ChmodAll ''/etc'' \<in> set (snd (create_container sample_manager sample_answers sample_params))"
  using absolute_workspace_escapes [OF _ _ sample_created [symmetric], of "''/etc''"]
  by (simp add: sample_params_def)

lemma sample_needs_egress: "needs_egress sample_manager sample_params"
  by (simp add: needs_egress_def sample_manager_def sample_params_def)

theorem egress_rules_late_and_ignored_witness:
  "\<exists>before args script. snd (create_container sample_manager (sample_answers\<lparr>an_exec := Some (\<lambda>_ _. None)\<rparr>) sample_params) =
     before @ [Run args, ExecRoot ''cid'' script]"
proof -
  have "fst (create_container sample_manager (sample_answers\<lparr>an_exec := Some (\<lambda>_ _. None)\<rparr>) sample_params) = Inr ''cid''"
    by (simp add: create_container_def ensure_image_def prepare_workspace_def sample_manager_def
        sample_answers_def Let_def)
  from egress_rules_late_and_ignored [OF this sample_needs_egress] show ?thesis by fastforce
qed

theorem container_isolation_witness:
  "\<exists>args. Run args \<in> set (snd (create_container sample_manager sample_answers sample_params)) \<and>
     ''no-new-privileges:true'' \<in> set (ra_security_opt args)"
proof -
  have "Run (container_args sample_manager sample_params ''/etc'') \<in>
      set (snd (create_container sample_manager sample_answers sample_params))"
    by (simp add: create_container_def ensure_image_def prepare_workspace_def sample_manager_def
        sample_answers_def sample_params_def path_join_def Let_def)
  from container_isolation [OF this] this show ?thesis by blast
qed

end
