(* ===== verification/Worker.thy ===== *)
theory Worker
  imports Sandbox
begin

text \<open>
  The execution worker: the parsing of a queue message (src/consumer.py), the lifecycle of an
  execution (src/worker_manager.py) and the handling of a job (src/main.py).

  The decoder of JSON and the text that Python's \<open>str\<close> gives for floats and containers are
  parameters. A lock section is one step, so the interleavings of several threads are the
  interleavings of these steps. Docker's answers are parameters of the monitor. What the worker
  tells the orchestrator and the queue is a list of effects.
\<close>

section \<open>Messages\<close>

record job =
  jb_id :: string
  jb_stream :: string
  jb_type :: string
  jb_payload :: json
  jb_timeout :: int
  jb_profile :: string
  jb_network :: bool
  jb_workspace :: "string option"
  jb_agent_type :: "string option"
  jb_caps :: "string list"

text \<open>\<open>int(s)\<close> for a text: blanks around, a sign, and digits with single underscores between.\<close>

definition digit_value :: "char \<Rightarrow> int" where
  "digit_value c = int (of_char c) - 48"

definition digits_value :: "string \<Rightarrow> int" where
  "digits_value s = foldl (\<lambda>n c. 10 * n + digit_value c) 0 s"

definition parse_digits :: "string \<Rightarrow> int option" where
  "parse_digits s =
     (let groups = py_split (CHR ''_'') s
      in if list_all (\<lambda>g. g \<noteq> [] \<and> list_all is_digit g) groups
         then Some (digits_value (concat groups)) else None)"

definition parse_int :: "string \<Rightarrow> int option" where
  "parse_int raw =
     (let s = py_strip raw
      in if take 1 s = ''-'' then map_option uminus (parse_digits (drop 1 s))
         else if take 1 s = ''+'' then parse_digits (drop 1 s)
         else parse_digits s)"

definition non_empty :: "string option \<Rightarrow> string option" where
  "non_empty x = (if x = Some [] then None else x)"

definition parse_caps :: "string \<Rightarrow> string list" where
  "parse_caps raw =
     (if raw = [] then []
      else map py_strip (filter (\<lambda>c. py_strip c \<noteq> []) (py_split (CHR '','') raw)))"

definition parse_message ::
    "(string \<Rightarrow> json option) \<Rightarrow> string \<Rightarrow> string \<Rightarrow> (string, string) dict \<Rightarrow> job result" where
  "parse_message loads stream_key msg_id fs =
     (let payload = (case loads (dict_get_or fs ''payload'' ''{}'') of None \<Rightarrow> JObj [] | Some j \<Rightarrow> j);
          timeout = (case dict_get fs ''timeout_s'' of None \<Rightarrow> Some 600 | Some t \<Rightarrow> parse_int t)
      in case timeout of
           None \<Rightarrow> Inl (ValueError ''invalid literal for int()'')
         | Some t \<Rightarrow>
             Inr \<lparr>jb_id = msg_id, jb_stream = stream_key, jb_type = dict_get_or fs ''type'' ''unknown'',
                  jb_payload = payload, jb_timeout = t,
                  jb_profile = dict_get_or fs ''profile'' ''medium'',
                  jb_network = (py_lower (dict_get_or fs ''network_access'' ''false'') = ''true''),
                  jb_workspace = non_empty (dict_get fs ''workspace''),
                  jb_agent_type = non_empty (dict_get fs ''agent_type''),
                  jb_caps = parse_caps (dict_get_or fs ''agent_capabilities'' [])\<rparr>)"

section \<open>Commands\<close>

fun truthy :: "json \<Rightarrow> bool" where
  "truthy JNull = False"
| "truthy (JBool b) = b"
| "truthy (JInt i) = (i \<noteq> 0)"
| "truthy (JNum x) = (x \<noteq> 0)"
| "truthy (JStr s) = (s \<noteq> [])"
| "truthy (JArr xs) = (xs \<noteq> [])"
| "truthy (JObj kvs) = (kvs \<noteq> [])"

fun py_str :: "(json \<Rightarrow> string) \<Rightarrow> json \<Rightarrow> string" where
  "py_str other (JStr s) = s"
| "py_str other (JInt i) = show_int i"
| "py_str other JNull = ''None''"
| "py_str other (JBool b) = (if b then ''True'' else ''False'')"
| "py_str other j = other j"

definition build_command :: "(json \<Rightarrow> string) \<Rightarrow> json \<Rightarrow> json result" where
  "build_command other payload =
     (case payload of
        JObj pl \<Rightarrow>
          (let script = dict_get_or pl ''script'' (JStr []); entrypoint = dict_get_or pl ''entrypoint'' (JStr [])
           in if truthy entrypoint
              then (case (entrypoint, truthy script, script) of
                      (JStr e, False, _) \<Rightarrow> Inr (JStr e)
                    | (JStr e, True, JStr t) \<Rightarrow> Inr (JStr (e @ '' && '' @ t))
                    | _ \<Rightarrow> Inl OtherError)
              else if truthy script then Inr script
              else
                let cmd = dict_get_or pl ''command'' (dict_get_or pl ''cmd'' (JStr []));
                    args = dict_get_or pl ''args'' (JArr []);
                    cmd' = (case args of
                              JArr (a # as) \<Rightarrow>
                                JStr (py_str other cmd @ '' '' @ py_join '' '' (map (py_str other) (a # as)))
                            | _ \<Rightarrow> cmd)
                in Inr (if truthy cmd' then cmd'
                        else JStr (''echo '' @ [CHR 0x27] @ ''No command specified'' @ [CHR 0x27])))
      | _ \<Rightarrow> Inl OtherError)"

section \<open>Executions\<close>

datatype exec_status = Running | TimedOut | Completed | Failed

record execution =
  ex_container :: string
  ex_job :: string
  ex_type :: string
  ex_profile :: string
  ex_timeout :: int
  ex_started :: real
  ex_status :: exec_status
  ex_exit :: "int option"

type_synonym active = "(string, execution) dict"

definition at_capacity :: "nat \<Rightarrow> active \<Rightarrow> bool" where
  "at_capacity limit act \<longleftrightarrow> limit \<le> length (dict_keys act)"

definition clamp_timeout :: "sandbox_config \<Rightarrow> int \<Rightarrow> int" where
  "clamp_timeout cfg t =
     (let timeout = min t (sc_max_timeout cfg)
      in if timeout \<le> 0 then sc_default_timeout cfg else timeout)"

definition job_environment :: "job \<Rightarrow> (string, string) dict" where
  "job_environment j =
     [(''PAPERCLIP_JOB_ID'', jb_id j), (''PAPERCLIP_JOB_TYPE'', jb_type j),
      (''PAPERCLIP_WORKSPACE'', str_or (jb_workspace j) [])]"

text \<open>The arguments of \<open>create_container\<close>; \<open>profiles[default]\<close> is evaluated in every case.\<close>

definition dispatch_params :: "(json \<Rightarrow> string) \<Rightarrow> sandbox_manager \<Rightarrow> job \<Rightarrow> create_params result" where
  "dispatch_params other m j =
     (case dict_get (sc_profiles (sm_sandbox m)) (sc_default_profile (sm_sandbox m)) of
        None \<Rightarrow> Inl (KeyError (sc_default_profile (sm_sandbox m)))
      | Some dflt \<Rightarrow>
          (case build_command other (jb_payload j) of
             Inl e \<Rightarrow> Inl e
           | Inr command \<Rightarrow>
               Inr \<lparr>cp_job = jb_id j, cp_command = command,
                    cp_profile = dict_get_or (sc_profiles (sm_sandbox m)) (jb_profile j) dflt,
                    cp_network = jb_network j, cp_workspace = jb_workspace j,
                    cp_environment = Some (job_environment j), cp_image = None,
                    cp_agent_type = jb_agent_type j,
                    cp_caps = (if jb_caps j = [] then None else Some (jb_caps j))\<rparr>))"

definition new_execution :: "sandbox_manager \<Rightarrow> job \<Rightarrow> string \<Rightarrow> real \<Rightarrow> execution" where
  "new_execution m j cid now =
     \<lparr>ex_container = cid, ex_job = jb_id j, ex_type = jb_type j, ex_profile = jb_profile j,
      ex_timeout = clamp_timeout (sm_sandbox m) (jb_timeout j), ex_started = now,
      ex_status = Running, ex_exit = None\<rparr>"

definition dispatch ::
    "(json \<Rightarrow> string) \<Rightarrow> sandbox_manager \<Rightarrow> nat \<Rightarrow> answers \<Rightarrow> real \<Rightarrow> job \<Rightarrow> active \<Rightarrow>
     string result \<times> active \<times> call list" where
  "dispatch other m limit an now j act =
     (if at_capacity limit act then (Inl (RuntimeError ''Worker at capacity''), act, [])
      else case dispatch_params other m j of
             Inl e \<Rightarrow> (Inl e, act, [])
           | Inr p \<Rightarrow>
               (case create_container m an p of
                  (Inl e, calls) \<Rightarrow> (Inl e, act, calls)
                | (Inr cid, calls) \<Rightarrow> (Inr cid, dict_set cid (new_execution m j cid now) act, calls)))"

section \<open>The monitor\<close>

text \<open>
  One container of a pass: \<open>docker\<close> is what Docker answers after the timeout check (and after
  the kill, when there was one). Changes apply to an entry that is still there.
\<close>

definition update_entry :: "string \<Rightarrow> (execution \<Rightarrow> execution) \<Rightarrow> active \<Rightarrow> active" where
  "update_entry cid f act =
     (case dict_get act cid of None \<Rightarrow> act | Some e \<Rightarrow> dict_set cid (f e) act)"

definition timeout_check :: "real \<Rightarrow> string \<Rightarrow> execution \<Rightarrow> active \<Rightarrow> active \<times> call list" where
  "timeout_check now cid e act =
     (if now - ex_started e > of_int (ex_timeout e)
      then (update_entry cid (\<lambda>x. x\<lparr>ex_status := TimedOut\<rparr>) act, [KillContainer cid])
      else (act, []))"

definition status_check ::
    "(string \<Rightarrow> (string \<times> int option) option) \<Rightarrow> string \<Rightarrow> active \<Rightarrow> active \<times> call list" where
  "status_check docker cid act =
     (case container_status docker cid of
        None \<Rightarrow> (dict_pop cid act, [])
      | Some st \<Rightarrow>
          if st = ''exited''
          then (let code = container_exit_code docker cid
                in (update_entry cid (\<lambda>x. x\<lparr>ex_status := (if code = Some 0 then Completed else Failed),
                                            ex_exit := code\<rparr>) act, [StopContainer cid]))
          else (act, []))"

definition check_container ::
    "real \<Rightarrow> (string \<Rightarrow> (string \<times> int option) option) \<Rightarrow> string \<times> execution \<Rightarrow> active \<Rightarrow>
     active \<times> call list" where
  "check_container now docker ce act =
     (let (act1, k) = timeout_check now (fst ce) (snd ce) act;
          (act2, c) = status_check docker (fst ce) act1
      in (act2, k @ c))"

text \<open>A pass over the snapshot of the table.\<close>

fun check_snapshot ::
    "real \<Rightarrow> (string \<Rightarrow> (string \<times> int option) option) \<Rightarrow> (string \<times> execution) list \<Rightarrow> active \<Rightarrow>
     active \<times> call list" where
  "check_snapshot now docker [] act = (act, [])"
| "check_snapshot now docker (ce # ces) act =
     (let (act1, c1) = check_container now docker ce act;
          (act2, c2) = check_snapshot now docker ces act1
      in (act2, c1 @ c2))"

definition check_active_containers ::
    "real \<Rightarrow> (string \<Rightarrow> (string \<times> int option) option) \<Rightarrow> active \<Rightarrow> active \<times> call list" where
  "check_active_containers now docker act = check_snapshot now docker act act"

text \<open>One poll of \<open>wait_for_job\<close>: \<open>None\<close> is another round, \<open>Some x\<close> the returned value.\<close>

definition wait_poll :: "string \<Rightarrow> active \<Rightarrow> int option option" where
  "wait_poll cid act =
     (case dict_get act cid of
        None \<Rightarrow> Some None
      | Some e \<Rightarrow> if ex_status e \<in> {Completed, Failed, TimedOut} then Some (ex_exit e) else None)"

section \<open>The job handler\<close>

datatype job_status = QUEUED | RUNNING | COMPLETED | FAILED | TIMEOUT | CANCELLED

record job_result =
  jr_job :: string
  jr_status :: job_status
  jr_exit :: "int option"
  jr_error :: string

datatype effect =
    ReportStatus string job_status
  | ReportResult job_result
  | Ack string

definition exit_text :: "int option \<Rightarrow> string" where
  "exit_text c = (case c of None \<Rightarrow> ''None'' | Some i \<Rightarrow> show_int i)"

text \<open>What \<open>_handle_job\<close> does once \<open>wait_for_job\<close> has returned \<open>code\<close>.\<close>

definition finish_job :: "job \<Rightarrow> string \<Rightarrow> int option \<Rightarrow> active \<Rightarrow> effect list \<times> active" where
  "finish_job j cid code act =
     (case dict_get act cid of
        None \<Rightarrow> ([], dict_pop cid act)
      | Some e \<Rightarrow>
          (let (status, error) =
                 (if ex_status e = TimedOut
                  then (TIMEOUT, ''Job timed out after '' @ show_int (ex_timeout e) @ ''s'')
                  else if code = Some 0 then (COMPLETED, [])
                  else (FAILED, ''Job exited with code '' @ exit_text code))
           in ([ReportResult \<lparr>jr_job = jb_id j, jr_status = status, jr_exit = code, jr_error = error\<rparr>],
               dict_pop cid act)))"

text \<open>
  The first part of \<open>_handle_job\<close>: \<open>Inl\<close> is an exception that leaves the handler, \<open>Inr None\<close>
  the early return, \<open>Inr (Some cid)\<close> a container to wait for.
\<close>

definition begin_job ::
    "(json \<Rightarrow> string) \<Rightarrow> sandbox_manager \<Rightarrow> nat \<Rightarrow> answers \<Rightarrow> real \<Rightarrow> job \<Rightarrow> active \<Rightarrow>
     string option result \<times> effect list \<times> active \<times> call list" where
  "begin_job other m limit an now j act =
     (case dispatch other m limit an now j act of
        (Inr cid, act1, calls) \<Rightarrow> (Inr (Some cid), [ReportStatus (jb_id j) RUNNING], act1, calls)
      | (Inl (RuntimeError msg), act1, calls) \<Rightarrow>
          (Inr None, [ReportStatus (jb_id j) RUNNING, ReportStatus (jb_id j) QUEUED], act1, calls)
      | (Inl e, act1, calls) \<Rightarrow> (Inl e, [ReportStatus (jb_id j) RUNNING], act1, calls))"

text \<open>
  A message of the consumer loop: it is acknowledged when the handler returns. \<open>rest\<close> is what
  the table holds, and \<open>code\<close> what \<open>wait_for_job\<close> returns, when the wait for the container
  is over; \<open>None\<close> is a wait that has not ended.
\<close>

definition process_message ::
    "(string \<Rightarrow> json option) \<Rightarrow> (json \<Rightarrow> string) \<Rightarrow> sandbox_manager \<Rightarrow> nat \<Rightarrow> answers \<Rightarrow> real \<Rightarrow>
     (active \<Rightarrow> (int option \<times> active) option) \<Rightarrow> string \<Rightarrow> string \<Rightarrow> (string, string) dict \<Rightarrow> active \<Rightarrow>
     effect list result option \<times> active" where
  "process_message loads other m limit an now wait stream msg_id fs act =
     (case parse_message loads stream msg_id fs of
        Inl e \<Rightarrow> (Some (Inl e), act)
      | Inr j \<Rightarrow>
          (case begin_job other m limit an now j act of
             (Inl e, effs, act1, calls) \<Rightarrow> (Some (Inl e), act1)
           | (Inr None, effs, act1, calls) \<Rightarrow> (Some (Inr (effs @ [Ack msg_id])), act1)
           | (Inr (Some cid), effs, act1, calls) \<Rightarrow>
               (case wait act1 of
                  None \<Rightarrow> (None, act1)
                | Some (code, act2) \<Rightarrow>
                    (let (rep, act3) = finish_job j cid code act2
                     in (Some (Inr (effs @ rep @ [Ack msg_id])), act3)))))"

section \<open>Dispatch\<close>

text \<open>
  A job that asks for network access and names no capability gets the network without any
  egress filter: its container is attached to the Docker network, keeps none of the
  capabilities the filter needs, and no rule is ever applied.
\<close>

theorem network_without_capabilities_unfiltered:
  assumes "dispatch other m limit an now j act = (Inr cid, act', calls)"
    and "jb_network j" and "jb_caps j = []"
  shows "(\<exists>args. Run args \<in> set calls \<and> ra_network args = dk_network (sm_docker m) \<and>
      ra_cap_add args = None) \<and>
    \<not> (\<exists>c script. ExecRoot c script \<in> set calls)"
proof -
  obtain p where p: "dispatch_params other m j = Inr p"
    and create: "create_container m an p = (Inr cid, calls)"
    using assms(1) by (auto simp: dispatch_def split: if_splits sum.splits prod.splits)
  have params: "cp_network p" "cp_caps p = None"
    using p assms(2,3) by (auto simp: dispatch_params_def split: option.splits sum.splits)
  then have "\<not> needs_egress m p" by (simp add: needs_egress_def)
  moreover from this params have "ra_network (container_args m p d) = dk_network (sm_docker m)"
    "ra_cap_add (container_args m p d) = None" for d
    by (simp_all add: container_args_def)
  ultimately show ?thesis
    using create
    by (auto simp: create_container_def Let_def prepare_workspace_def ensure_image_def
        split: prod.splits option.splits sum.splits if_splits)
qed

text \<open>
  The timeout of an execution is positive and at most the maximum of the sandbox, whatever
  the job asks for, when the default timeout is positive and at most the maximum.
\<close>

theorem dispatched_timeout_bounds:
  assumes "dispatch other m limit an now j act = (Inr cid, act', calls)"
    and "0 < sc_default_timeout (sm_sandbox m)"
    and "sc_default_timeout (sm_sandbox m) \<le> sc_max_timeout (sm_sandbox m)"
  shows "\<exists>e. dict_get act' cid = Some e \<and> ex_status e = Running \<and> 0 < ex_timeout e \<and>
    ex_timeout e \<le> sc_max_timeout (sm_sandbox m) \<and>
    (0 < jb_timeout j \<longrightarrow> ex_timeout e = min (jb_timeout j) (sc_max_timeout (sm_sandbox m)))"
proof -
  have "dict_get act' cid = Some (new_execution m j cid now)"
    using assms(1) by (auto simp: dispatch_def split: if_splits sum.splits prod.splits)
  with assms(2,3) show ?thesis
    by (auto simp: new_execution_def clamp_timeout_def Let_def)
qed


section \<open>The monitor and the reports\<close>

text \<open>What one pass makes of an entry.\<close>

definition checked_entry ::
    "real \<Rightarrow> (string \<times> int option) option \<Rightarrow> execution \<Rightarrow> execution option" where
  "checked_entry now answer e =
     (let e1 = (if now - ex_started e > of_int (ex_timeout e) then e\<lparr>ex_status := TimedOut\<rparr> else e)
      in case answer of
           None \<Rightarrow> None
         | Some (st, code) \<Rightarrow>
             Some (if st = ''exited''
                   then e1\<lparr>ex_status := (if code = Some 0 then Completed else Failed), ex_exit := code\<rparr>
                   else e1))"

lemma update_entry_get:
  "dict_get (update_entry c f act) c' = (if c' = c then map_option f (dict_get act c) else dict_get act c')"
  by (auto simp: update_entry_def split: option.split)

lemma check_container_get:
  "dict_get (fst (check_container now docker (c, e) act)) c' =
     (if c' = c then Option.bind (dict_get act c)
        (\<lambda>x. map_option (\<lambda>y. x\<lparr>ex_status := ex_status y, ex_exit := ex_exit y\<rparr>)
               (checked_entry now (docker c) (e\<lparr>ex_status := ex_status x, ex_exit := ex_exit x\<rparr>)))
      else dict_get act c')"
  by (cases "dict_get act c"; cases "docker c")
    (auto simp: check_container_def timeout_check_def status_check_def checked_entry_def Let_def
      split_beta update_entry_get container_status_def container_exit_code_def)

lemma check_container_other [simp]:
  "c' \<noteq> c \<Longrightarrow> dict_get (fst (check_container now docker (c, e) act)) c' = dict_get act c'"
  by (simp add: check_container_get)

lemma check_container_same:
  "dict_get act c = Some e \<Longrightarrow> dict_get (fst (check_container now docker (c, e) act)) c =
     checked_entry now (docker c) e"
  by (auto simp: check_container_get checked_entry_def Let_def split: option.split)

lemma check_snapshot_get:
  "distinct (map fst ces) \<Longrightarrow> (\<And>e. (c, e) \<in> set ces \<Longrightarrow> dict_get act c = Some e) \<Longrightarrow>
     dict_get (fst (check_snapshot now docker ces act)) c =
       (if c \<in> fst ` set ces then Option.bind (dict_get act c) (checked_entry now (docker c))
        else dict_get act c)"
proof (induction ces arbitrary: act)
  case (Cons ce ces)
  obtain d e where ce: "ce = (d, e)" by (cases ce)
  let ?act = "fst (check_container now docker ce act)"
  have step: "fst (check_snapshot now docker (ce # ces) act) = fst (check_snapshot now docker ces ?act)"
    by (simp add: split_beta Let_def)
  show ?case
  proof (cases "c = d")
    case True
    then have "c \<notin> fst ` set ces" using Cons.prems(1) by (auto simp: ce)
    then have "dict_get (fst (check_snapshot now docker ces ?act)) c = dict_get ?act c"
      using Cons.prems(1) by (subst Cons.IH) force+
    moreover have "dict_get act c = Some e" using Cons.prems(2) True ce by auto
    ultimately show ?thesis
      unfolding step using True by (simp add: ce check_container_same del: check_snapshot.simps)
  next
    case False
    then have "dict_get ?act c = dict_get act c" by (simp add: ce)
    with Cons.prems False show ?thesis
      unfolding step by (subst Cons.IH) (auto simp: ce)
  qed
qed simp

lemma check_active_get:
  assumes "dict_wf act"
  shows "dict_get (fst (check_active_containers now docker act)) c =
    Option.bind (dict_get act c) (checked_entry now (docker c))"
proof -
  have mem: "c \<in> fst ` set act \<longleftrightarrow> dict_get act c \<noteq> None"
    using alist.keys_get [of c act] by (simp add: dict_keys_def)
  have "dict_get (fst (check_snapshot now docker act act)) c =
      (if c \<in> fst ` set act then Option.bind (dict_get act c) (checked_entry now (docker c))
       else dict_get act c)"
    by (rule check_snapshot_get) (use assms in \<open>auto simp: dict_wf_def intro: dict_get_mem [OF assms]\<close>)
  then show ?thesis
    unfolding check_active_containers_def mem by (cases "dict_get act c") simp_all
qed

text \<open>
  A timeout is lost: when, after the kill of a job that ran out of time, Docker no longer
  knows the container or reports it as exited, the pass of the monitor that found the timeout
  leaves no timed-out entry behind. The handler then reports the job as completed or failed,
  or reports nothing; never as timed out.
\<close>

theorem timeout_not_reported:
  assumes "dict_wf act" and "dict_get act cid = Some e"
    and "now - ex_started e > of_int (ex_timeout e)"
    and "docker cid = None \<or> (\<exists>code. docker cid = Some (''exited'', code))"
    and "act' = fst (check_active_containers now docker act)"
    and "wait_poll cid act' = Some code"
  shows "\<forall>r. ReportResult r \<in> set (fst (finish_job j cid code act')) \<longrightarrow> jr_status r \<in> {COMPLETED, FAILED}"
proof -
  have "dict_get act' cid = checked_entry now (docker cid) e"
    using check_active_get [OF assms(1)] assms(2) by (simp add: assms(5))
  then have "case dict_get act' cid of None \<Rightarrow> True | Some x \<Rightarrow> ex_status x \<noteq> TimedOut"
    using assms(4) by (auto simp: checked_entry_def Let_def)
  then show ?thesis
    by (auto simp: finish_job_def Let_def split: option.splits)
qed

text \<open>
  A job whose container Docker has removed is never reported: after the next pass of the
  monitor the wait returns \<open>None\<close> and the handler ends without a result. The runtime starts
  every container with automatic removal, so this is how a job normally ends.
\<close>

theorem removed_container_not_reported:
  assumes "dict_wf act" and "docker cid = None"
    and "act' = fst (check_active_containers now docker act)"
  shows "wait_poll cid act' = Some None \<and> fst (finish_job j cid None act') = [] \<and>
    (Run args \<in> set (snd (create_container m an p)) \<longrightarrow> ra_remove args)"
proof -
  have "dict_get act' cid = None"
    using check_active_get [OF assms(1)] assms(2)
    by (cases "dict_get act cid") (simp_all add: assms(3) checked_entry_def Let_def)
  then have "wait_poll cid act' = Some None \<and> fst (finish_job j cid None act') = []"
    by (simp add: wait_poll_def finish_job_def)
  moreover have "ra_remove args" if "Run args \<in> set (snd (create_container m an p))"
    using started_with [OF that] by (auto simp: container_args_def)
  ultimately show ?thesis by blast
qed

text \<open>
  A job that arrives while the worker is at capacity is lost: it is reported as running
  and then as queued, nothing is started, and its message is acknowledged, so that no worker
  will see it again.
\<close>

theorem capacity_rejection_acknowledged:
  assumes "parse_message loads stream i fs = Inr j" and "at_capacity limit act"
  shows "process_message loads other m limit an now wait stream i fs act =
    (Some (Inr [ReportStatus i RUNNING, ReportStatus i QUEUED, Ack i]), act)"
proof -
  have "jb_id j = i"
    using assms(1) by (auto simp: parse_message_def Let_def split: option.splits)
  with assms show ?thesis by (simp add: process_message_def begin_job_def dispatch_def)
qed

section \<open>Several handlers\<close>

text \<open>
  Handler threads over the shared table. The check of the capacity and the insertion of the
  execution are two lock sections of \<open>dispatch\<close>, with the creation of the container between
  them; the monitor may come at any point, also with an entry of an old snapshot.
\<close>

datatype handler = HIdle | HChecked job | HWaiting job string

record worker_state =
  ws_active :: active
  ws_handlers :: "handler list"

inductive wstep :: "nat \<Rightarrow> worker_state \<Rightarrow> worker_state \<Rightarrow> bool" for limit where
  w_check: "k < length (ws_handlers s) \<Longrightarrow> ws_handlers s ! k = HIdle \<Longrightarrow>
    \<not> at_capacity limit (ws_active s) \<Longrightarrow>
    wstep limit s (s\<lparr>ws_handlers := (ws_handlers s)[k := HChecked j]\<rparr>)"
| w_fail: "k < length (ws_handlers s) \<Longrightarrow> ws_handlers s ! k = HChecked j \<Longrightarrow>
    wstep limit s (s\<lparr>ws_handlers := (ws_handlers s)[k := HIdle]\<rparr>)"
| w_insert: "k < length (ws_handlers s) \<Longrightarrow> ws_handlers s ! k = HChecked j \<Longrightarrow>
    dict_get (ws_active s) cid = None \<Longrightarrow>
    wstep limit s (s\<lparr>ws_active := dict_set cid (new_execution m j cid now) (ws_active s),
                   ws_handlers := (ws_handlers s)[k := HWaiting j cid]\<rparr>)"
| w_monitor: "wstep limit s (s\<lparr>ws_active := fst (check_container now docker (cid, e) (ws_active s))\<rparr>)"
| w_finish: "k < length (ws_handlers s) \<Longrightarrow> ws_handlers s ! k = HWaiting j cid \<Longrightarrow>
    wait_poll cid (ws_active s) = Some code \<Longrightarrow>
    wstep limit s (s\<lparr>ws_active := snd (finish_job j cid code (ws_active s)),
                   ws_handlers := (ws_handlers s)[k := HIdle]\<rparr>)"

inductive_cases wstepE: "wstep limit s t"

definition winit :: "nat \<Rightarrow> worker_state \<Rightarrow> bool" where
  "winit n s \<longleftrightarrow> 1 \<le> n \<and> s = \<lparr>ws_active = [], ws_handlers = replicate n HIdle\<rparr>"

fun is_checked :: "handler \<Rightarrow> bool" where
  "is_checked (HChecked j) = True"
| "is_checked _ = False"

definition checked :: "handler list \<Rightarrow> nat" where
  "checked hs = length (filter is_checked hs)"

definition winv :: "nat \<Rightarrow> nat \<Rightarrow> worker_state \<Rightarrow> bool" where
  "winv limit n s \<longleftrightarrow> 1 \<le> n \<and> dict_wf (ws_active s) \<and> length (ws_handlers s) = n \<and>
     length (dict_keys (ws_active s)) + checked (ws_handlers s) \<le> limit + n - 1"

lemma checked_update:
  "k < length hs \<Longrightarrow> checked (hs[k := h]) + (if is_checked (hs ! k) then 1 else 0) =
     checked hs + (if is_checked h then 1 else 0)"
proof (induction hs arbitrary: k)
  case (Cons x hs)
  show ?case
  proof (cases k)
    case 0
    then show ?thesis by (simp add: checked_def)
  next
    case (Suc i)
    with Cons.IH [of i] Cons.prems show ?thesis
      by (cases "is_checked x") (simp_all add: checked_def)
  qed
qed simp

lemma checked_le: "checked hs \<le> length hs"
  by (simp add: checked_def)

lemma checked_less: "k < length hs \<Longrightarrow> \<not> is_checked (hs ! k) \<Longrightarrow> checked hs < length hs"
  using length_filter_less [of "hs ! k" hs is_checked] by (simp add: checked_def)

lemma update_entry_keys:
  "dict_wf act \<Longrightarrow> dict_wf (update_entry c f act) \<and>
     length (dict_keys (update_entry c f act)) = length (dict_keys act)"
  by (simp add: update_entry_def alist.length_keys_put split: option.split)

lemma pop_keys:
  "dict_wf act \<Longrightarrow> dict_wf (dict_pop c act) \<and> length (dict_keys (dict_pop c act)) \<le> length (dict_keys act)"
  by (simp add: alist.length_keys_pop)

lemma check_container_keys:
  assumes "dict_wf act"
  shows "dict_wf (fst (check_container now docker (c, e) act)) \<and>
    length (dict_keys (fst (check_container now docker (c, e) act))) \<le> length (dict_keys act)"
proof -
  define act1 where "act1 = fst (timeout_check now c e act)"
  have act1: "dict_wf act1 \<and> length (dict_keys act1) = length (dict_keys act)"
    using assms by (simp add: act1_def timeout_check_def update_entry_keys)
  have "fst (check_container now docker (c, e) act) = fst (status_check docker c act1)"
    by (simp add: check_container_def Let_def split_beta act1_def)
  moreover have "dict_wf (fst (status_check docker c act1)) \<and>
      length (dict_keys (fst (status_check docker c act1))) \<le> length (dict_keys act1)"
    using act1 pop_keys [of act1 c] update_entry_keys [of act1 c]
    by (auto simp: status_check_def Let_def split: option.split)
  ultimately show ?thesis using act1 by simp
qed

lemma wstep_inv: "wstep limit s t \<Longrightarrow> winv limit n s \<Longrightarrow> winv limit n t"
proof (erule wstepE)
  fix k j assume k: "k < length (ws_handlers s)" "ws_handlers s ! k = HIdle"
    and room: "\<not> at_capacity limit (ws_active s)"
    and t: "t = s\<lparr>ws_handlers := (ws_handlers s)[k := HChecked j]\<rparr>" and inv: "winv limit n s"
  have "checked (ws_handlers s) < n" using checked_less [OF k(1)] k(2) inv by (simp add: winv_def)
  with k room inv checked_update [OF k(1), of "HChecked j"] show "winv limit n t"
    by (auto simp: t winv_def at_capacity_def)
next
  fix k j assume k: "k < length (ws_handlers s)" "ws_handlers s ! k = HChecked j"
    and t: "t = s\<lparr>ws_handlers := (ws_handlers s)[k := HIdle]\<rparr>" and inv: "winv limit n s"
  with checked_update [OF k(1), of HIdle] show "winv limit n t" by (auto simp: t winv_def)
next
  fix k j cid m now assume k: "k < length (ws_handlers s)" "ws_handlers s ! k = HChecked j"
    and new: "dict_get (ws_active s) cid = None" and inv: "winv limit n s"
    and t: "t = s\<lparr>ws_active := dict_set cid (new_execution m j cid now) (ws_active s),
                  ws_handlers := (ws_handlers s)[k := HWaiting j cid]\<rparr>"
  with checked_update [OF k(1), of "HWaiting j cid"] show "winv limit n t"
    by (auto simp: t winv_def alist.length_keys_put)
next
  fix now docker cid e
  assume t: "t = s\<lparr>ws_active := fst (check_container now docker (cid, e) (ws_active s))\<rparr>"
    and inv: "winv limit n s"
  with check_container_keys [of "ws_active s" now docker cid e] show "winv limit n t"
    by (auto simp: winv_def)
next
  fix k j cid code
  assume k: "k < length (ws_handlers s)" "ws_handlers s ! k = HWaiting j cid" and inv: "winv limit n s"
    and t: "t = s\<lparr>ws_active := snd (finish_job j cid code (ws_active s)),
                  ws_handlers := (ws_handlers s)[k := HIdle]\<rparr>"
  have "snd (finish_job j cid code (ws_active s)) = dict_pop cid (ws_active s)"
    by (simp add: finish_job_def Let_def split: option.split)
  with k inv t checked_update [OF k(1), of HIdle] pop_keys [of "ws_active s" cid] show "winv limit n t"
    by (auto simp: winv_def)
qed

interpretation worker: inv_system "winit n" "wstep limit" "winv limit n" for n limit
proof unfold_locales
  fix s assume "winit n s"
  then show "winv limit n s"
    by (auto simp: winit_def winv_def checked_def dict_keys_def)
qed (rule wstep_inv)

text \<open>
  C26. With \<open>n\<close> handler threads the worker runs at most \<open>limit + n - 1\<close> executions at once,
  however the threads and the monitor interleave. With the single thread of the consumer this
  is the configured limit.
\<close>

theorem worker_capacity:
  assumes "winit n s" and "(wstep limit)\<^sup>*\<^sup>* s t"
  shows "length (dict_keys (ws_active t)) \<le> limit + n - 1"
  using worker.reachable_inv [OF assms] by (simp add: winv_def)

definition sample_job :: job where
  "sample_job = \<lparr>jb_id = ''1-0'', jb_stream = ''s'', jb_type = ''build'', jb_payload = JObj [],
     jb_timeout = 60, jb_profile = ''medium'', jb_network = True, jb_workspace = None,
     jb_agent_type = None, jb_caps = []\<rparr>"

definition two_handlers :: worker_state where
  "two_handlers = \<lparr>ws_active = [], ws_handlers = [HIdle, HIdle]\<rparr>"

lemma two_handlers_race:
  "\<exists>t. (wstep 1)\<^sup>*\<^sup>* two_handlers t \<and> length (dict_keys (ws_active t)) = 2"
proof -
  let ?e = "\<lambda>c. new_execution sample_manager sample_job c 0"
  let ?s1 = "two_handlers\<lparr>ws_handlers := [HChecked sample_job, HIdle]\<rparr>"
  let ?s2 = "two_handlers\<lparr>ws_handlers := [HChecked sample_job, HChecked sample_job]\<rparr>"
  let ?s3 = "\<lparr>ws_active = [(''a'', ?e ''a'')], ws_handlers = [HWaiting sample_job ''a'', HChecked sample_job]\<rparr>"
  let ?s4 = "\<lparr>ws_active = [(''a'', ?e ''a''), (''b'', ?e ''b'')],
      ws_handlers = [HWaiting sample_job ''a'', HWaiting sample_job ''b'']\<rparr>"
  have "wstep 1 two_handlers ?s1"
    using w_check [where k = 0 and s = two_handlers and limit = 1 and j = sample_job]
    by (simp add: two_handlers_def at_capacity_def dict_keys_def)
  moreover have "wstep 1 ?s1 ?s2"
    using w_check [where k = 1 and s = ?s1 and limit = 1 and j = sample_job]
    by (simp add: two_handlers_def at_capacity_def dict_keys_def)
  moreover have "wstep 1 ?s2 ?s3"
    using w_insert [where k = 0 and s = ?s2 and limit = 1 and j = sample_job and cid = "''a''" and m = sample_manager and now = 0]
    by (simp add: two_handlers_def dict_get_def dict_set_def)
  moreover have "wstep 1 ?s3 ?s4"
    using w_insert [where k = 1 and s = ?s3 and limit = 1 and j = sample_job and cid = "''b''" and m = sample_manager and now = 0]
    by (simp add: dict_get_def dict_set_def)
  ultimately have "(wstep 1)\<^sup>*\<^sup>* two_handlers ?s4"
    by (meson converse_rtranclp_into_rtranclp rtranclp.rtrancl_refl)
  then show ?thesis by (intro exI [of _ ?s4]) (simp add: dict_keys_def)
qed

text \<open>
  The bound is met: the check and the insertion are not one lock section, so two threads
  that both pass the check exceed a limit of one execution.
\<close>

theorem capacity_race:
  "\<exists>s t. winit 2 s \<and> (wstep 1)\<^sup>*\<^sup>* s t \<and> length (dict_keys (ws_active t)) = 2"
proof -
  have "winit 2 two_handlers" by (simp add: winit_def two_handlers_def numeral_2_eq_2)
  with two_handlers_race show ?thesis by blast
qed

theorem worker_capacity_witness:
  "length (dict_keys (ws_active \<lparr>ws_active = [], ws_handlers = [HChecked sample_job]\<rparr>)) \<le> 1"
proof -
  have "winit 1 \<lparr>ws_active = [], ws_handlers = [HIdle]\<rparr>" by (simp add: winit_def)
  moreover have "wstep 1 \<lparr>ws_active = [], ws_handlers = [HIdle]\<rparr>
      \<lparr>ws_active = [], ws_handlers = [HChecked sample_job]\<rparr>"
    using w_check [where k = 0 and s = "\<lparr>ws_active = [], ws_handlers = [HIdle]\<rparr>" and limit = 1 and j = sample_job]
    by (simp add: at_capacity_def dict_keys_def)
  ultimately show ?thesis using worker_capacity [of 1 _ 1] by fastforce
qed

section \<open>Witnesses\<close>

lemma sample_dispatch:
  "\<exists>act calls. dispatch (\<lambda>_. []) sample_manager 1 sample_answers 0 sample_job [] = (Inr ''cid'', act, calls)"
  by (simp add: dispatch_def at_capacity_def dict_keys_def dispatch_params_def sample_manager_def
      dict_get_def build_command_def sample_job_def dict_get_or_def create_container_def Let_def
      ensure_image_def prepare_workspace_def sample_answers_def)

theorem network_without_capabilities_unfiltered_witness:
  "\<exists>act calls. dispatch (\<lambda>_. []) sample_manager 1 sample_answers 0 sample_job [] = (Inr ''cid'', act, calls) \<and>
     \<not> (\<exists>c script. ExecRoot c script \<in> set calls)"
  using sample_dispatch network_without_capabilities_unfiltered
  by (fastforce simp: sample_job_def)

theorem dispatched_timeout_bounds_witness:
  "\<exists>act calls e. dispatch (\<lambda>_. []) sample_manager 1 sample_answers 0 sample_job [] = (Inr ''cid'', act, calls) \<and>
     dict_get act ''cid'' = Some e \<and> ex_timeout e = 60"
proof -
  obtain act calls where d:
    "dispatch (\<lambda>_. []) sample_manager 1 sample_answers 0 sample_job [] = (Inr ''cid'', act, calls)"
    using sample_dispatch by blast
  from dispatched_timeout_bounds [OF d] d show ?thesis
    by (auto simp: sample_manager_def sample_job_def)
qed

definition sample_execution :: execution where
  "sample_execution = new_execution sample_manager sample_job ''cid'' 0"

theorem timeout_not_reported_witness:
  "\<exists>code act. \<forall>r. ReportResult r \<in> set (fst (finish_job sample_job ''cid'' code act)) \<longrightarrow>
     jr_status r \<in> {COMPLETED, FAILED}"
proof -
  have "\<forall>r. ReportResult r \<in> set (fst (finish_job sample_job ''cid'' (Some 137)
      (fst (check_active_containers 100 (\<lambda>_. Some (''exited'', Some 137)) [(''cid'', sample_execution)])))) \<longrightarrow>
     jr_status r \<in> {COMPLETED, FAILED}"
    by (rule timeout_not_reported [where e = sample_execution and now = 100
          and docker = "\<lambda>_. Some (''exited'', Some 137)" and act = "[(''cid'', sample_execution)]", OF _ _ _ _ refl])
      (simp_all add: dict_wf_def dict_get_def sample_execution_def new_execution_def clamp_timeout_def
        sample_manager_def sample_job_def wait_poll_def check_active_containers_def check_container_def
        timeout_check_def status_check_def container_status_def container_exit_code_def update_entry_def
        dict_set_def)
  then show ?thesis by blast
qed

theorem removed_container_not_reported_witness:
  "wait_poll ''cid'' (fst (check_active_containers 0 (\<lambda>_. None) [(''cid'', sample_execution)])) = Some None"
  using removed_container_not_reported [OF _ _ refl, of "[(''cid'', sample_execution)]" "\<lambda>_. None" "''cid''" 0]
  by (simp add: dict_wf_def)

theorem capacity_rejection_acknowledged_witness:
  "process_message (\<lambda>_. None) (\<lambda>_. []) sample_manager 0 sample_answers 0 (\<lambda>_. None) ''s'' ''1-0'' [] [] =
     (Some (Inr [ReportStatus ''1-0'' RUNNING, ReportStatus ''1-0'' QUEUED, Ack ''1-0'']), [])"
proof -
  obtain j where "parse_message (\<lambda>_. None) ''s'' ''1-0'' [] = Inr j"
    by (simp add: parse_message_def Let_def)
  then show ?thesis
    by (rule capacity_rejection_acknowledged) (simp add: at_capacity_def)
qed

end
