(* ===== verification/Lifecycle.thy ===== *)
theory Lifecycle
  imports Worker
begin

text \<open>
  The threads around the executions (src/worker_manager.py): the loop of the monitor with the
  exceptions that end its thread, the waiting for a job, the shutdown of the manager and the
  listing of the active jobs; and the remaining calls of the runtime to Docker
  (src/container_runtime.py).

  What Docker answers is a parameter. The table of executions changes between two polls of a
  wait by any events of the other threads, so a wait runs over a sequence of tables.
\<close>

section \<open>The answers of Docker\<close>

text \<open>A call is answered, or it raises \<open>NotFound\<close> or another \<open>DockerException\<close>.\<close>

datatype 'a reply = Answer 'a | NotFound | DockerError

text \<open>
  The questions a pass asks about one container: two look-ups of the container, each followed
  by a reload.
\<close>

record docker_view =
  dv_get :: "unit reply"
  dv_status :: "string reply"
  dv_get_again :: "unit reply"
  dv_code :: "int option reply"

text \<open>\<open>get_container\<close>: \<open>Inl\<close> is an exception, \<open>Inr False\<close> a container that is gone.\<close>

definition get_container :: "unit reply \<Rightarrow> bool result" where
  "get_container r = (case r of Answer _ \<Rightarrow> Inr True | NotFound \<Rightarrow> Inr False | DockerError \<Rightarrow> Inl OtherError)"

text \<open>A look-up and a reload; nothing catches \<open>NotFound\<close> in the reload.\<close>

definition reload :: "unit reply \<Rightarrow> 'a reply \<Rightarrow> 'a option result" where
  "reload found r =
     bind_result (get_container found) (\<lambda>there.
     if there then (case r of Answer x \<Rightarrow> Inr (Some x) | _ \<Rightarrow> Inl OtherError) else Inr None)"

definition read_status :: "docker_view \<Rightarrow> string option result" where
  "read_status v = reload (dv_get v) (dv_status v)"

definition read_exit_code :: "docker_view \<Rightarrow> int option result" where
  "read_exit_code v = map_sum id (\<lambda>x. Option.bind x id) (reload (dv_get_again v) (dv_code v))"

text \<open>\<open>kill_container\<close> and \<open>stop_container\<close> swallow every exception of Docker.\<close>

definition quiet_call :: "call \<Rightarrow> unit reply \<Rightarrow> unit reply \<Rightarrow> call list" where
  "quiet_call c found r = (if found = Answer () \<and> r = Answer () then [c] else [])"

definition kill_container :: "string \<Rightarrow> unit reply \<Rightarrow> unit reply \<Rightarrow> call list" where
  "kill_container cid = quiet_call (KillContainer cid)"

definition stop_container :: "string \<Rightarrow> unit reply \<Rightarrow> unit reply \<Rightarrow> call list" where
  "stop_container cid = quiet_call (StopContainer cid)"

section \<open>The network and the listing\<close>

record network_args =
  na_name :: string
  na_driver :: string
  na_internal :: bool
  na_labels :: "(string, string) dict"

definition ensure_network :: "docker_config \<Rightarrow> unit reply \<Rightarrow> network_args option result" where
  "ensure_network cfg found =
     bind_result (get_container found) (\<lambda>there.
     Inr (if there then None
          else Some \<lparr>na_name = dk_network cfg, na_driver = ''bridge'', na_internal = True,
                     na_labels = [(''paperclip.network'', ''sandbox'')]\<rparr>))"

record container_info =
  ci_id :: string
  ci_name :: string
  ci_status :: string
  ci_labels :: "(string, string) dict"

definition list_sandbox_containers :: "container_info list \<Rightarrow> (string \<times> string \<times> string \<times> string) list" where
  "list_sandbox_containers cs =
     map (\<lambda>c. (ci_id c, ci_name c, ci_status c, dict_get_or (ci_labels c) JOB_ID_LABEL []))
       (filter (\<lambda>c. dict_get (ci_labels c) SANDBOX_LABEL = Some ''true'') cs)"

section \<open>The monitor\<close>

text \<open>One container of a pass; the first component says whether the thread goes on.\<close>

definition monitor_container ::
    "real \<Rightarrow> docker_view \<Rightarrow> string \<times> execution \<Rightarrow> active \<Rightarrow> bool \<times> active" where
  "monitor_container now v ce act =
     (let cid = fst ce; act1 = fst (timeout_check now cid (snd ce) act)
      in case read_status v of
           Inl e \<Rightarrow> (False, act1)
         | Inr None \<Rightarrow> (True, dict_pop cid act1)
         | Inr (Some st) \<Rightarrow>
             if st = ''exited''
             then (case read_exit_code v of
                     Inl e \<Rightarrow> (False, act1)
                   | Inr code \<Rightarrow>
                       (True, update_entry cid (\<lambda>x. x\<lparr>ex_status := (if code = Some 0 then Completed else Failed),
                                                     ex_exit := code\<rparr>) act1))
             else (True, act1))"

fun monitor_snapshot ::
    "real \<Rightarrow> (string \<Rightarrow> docker_view) \<Rightarrow> (string \<times> execution) list \<Rightarrow> active \<Rightarrow> bool \<times> active" where
  "monitor_snapshot now docker [] act = (True, act)"
| "monitor_snapshot now docker (ce # ces) act =
     (case monitor_container now (docker (fst ce)) ce act of
        (True, act1) \<Rightarrow> monitor_snapshot now docker ces act1
      | (False, act1) \<Rightarrow> (False, act1))"

text \<open>
  The table and whether the thread of the monitor is alive: \<open>_monitor_loop\<close> catches no
  exception, so that the first one ends it.
\<close>

record lifecycle =
  lf_active :: active
  lf_alive :: bool

definition monitor_pass :: "real \<Rightarrow> (string \<Rightarrow> docker_view) \<Rightarrow> lifecycle \<Rightarrow> lifecycle" where
  "monitor_pass now docker s =
     (if lf_alive s
      then (let (alive, act) = monitor_snapshot now docker (lf_active s) (lf_active s)
            in s\<lparr>lf_active := act, lf_alive := alive\<rparr>)
      else s)"

datatype lifecycle_event =
    Pass real "string \<Rightarrow> docker_view"
  | Inserted string execution
  | Popped string

fun lf_step :: "lifecycle \<Rightarrow> lifecycle_event \<Rightarrow> lifecycle" where
  "lf_step s (Pass now docker) = monitor_pass now docker s"
| "lf_step s (Inserted cid e) = s\<lparr>lf_active := dict_set cid e (lf_active s)\<rparr>"
| "lf_step s (Popped cid) = s\<lparr>lf_active := dict_pop cid (lf_active s)\<rparr>"

section \<open>Waiting\<close>

text \<open>
  \<open>wait_for_job\<close> from its poll \<open>n\<close> on, when poll \<open>k\<close> finds the table \<open>tab k\<close>: the number of the
  poll that ends it and the value it returns; \<open>None\<close> is a wait that never ends.
\<close>

partial_function (option) wait_for_job :: "(nat \<Rightarrow> active) \<Rightarrow> string \<Rightarrow> nat \<Rightarrow> (nat \<times> int option) option" where
  "wait_for_job tab cid n =
     (case wait_poll cid (tab n) of
        Some code \<Rightarrow> Some (n, code)
      | None \<Rightarrow> wait_for_job tab cid (Suc n))"

text \<open>The draining of a shutdown: \<open>clock k\<close> is the time of poll \<open>k\<close>.\<close>

fun drain ::
    "(nat \<Rightarrow> active) \<Rightarrow> (nat \<Rightarrow> real) \<Rightarrow> real \<Rightarrow> execution list \<Rightarrow> nat \<Rightarrow> (nat \<times> call list) option" where
  "drain tab clock deadline [] n = Some (n, [])"
| "drain tab clock deadline (e # es) n =
     (if deadline - clock n \<le> 0
      then map_option (\<lambda>(m, calls). (m, KillContainer (ex_container e) # calls)) (drain tab clock deadline es n)
      else case wait_for_job tab (ex_container e) n of
             None \<Rightarrow> None
           | Some (m, code) \<Rightarrow> drain tab clock deadline es m)"

definition shutdown ::
    "(nat \<Rightarrow> active) \<Rightarrow> (nat \<Rightarrow> real) \<Rightarrow> int \<Rightarrow> bool \<Rightarrow> nat \<Rightarrow> (nat \<times> call list) option" where
  "shutdown tab clock timeout draining n =
     (if draining
      then drain tab clock (clock n + of_int timeout) (map snd (tab n)) n
      else Some (n, map KillContainer (dict_keys (tab n))))"

record active_job =
  aj_container :: string
  aj_job :: string
  aj_type :: string
  aj_profile :: string
  aj_status :: exec_status
  aj_elapsed :: real
  aj_exit :: "int option"

definition get_active_jobs :: "real \<Rightarrow> active \<Rightarrow> active_job list" where
  "get_active_jobs now act =
     map (\<lambda>e. \<lparr>aj_container = ex_container e, aj_job = ex_job e, aj_type = ex_type e, aj_profile = ex_profile e,
               aj_status = ex_status e, aj_elapsed = now - ex_started e, aj_exit = ex_exit e\<rparr>) (map snd act)"

section \<open>A wait ends when the monitor lives\<close>

fun timeline :: "lifecycle \<Rightarrow> (nat \<Rightarrow> lifecycle_event list) \<Rightarrow> nat \<Rightarrow> lifecycle" where
  "timeline s evs 0 = s"
| "timeline s evs (Suc n) = foldl lf_step (timeline s evs n) (evs n)"

definition tables :: "lifecycle \<Rightarrow> (nat \<Rightarrow> lifecycle_event list) \<Rightarrow> nat \<Rightarrow> active" where
  "tables s evs k = lf_active (timeline s evs k)"

definition settled :: "string \<Rightarrow> active \<Rightarrow> bool" where
  "settled c act \<longleftrightarrow> (case dict_get act c of None \<Rightarrow> True | Some e \<Rightarrow> ex_status e \<noteq> Running)"

lemma wait_poll_settled: "wait_poll c act = None \<longleftrightarrow> \<not> settled c act"
proof (cases "dict_get act c")
  case (Some e)
  then show ?thesis by (cases "ex_status e") (simp_all add: wait_poll_def settled_def)
qed (simp add: wait_poll_def settled_def)

lemma wait_for_job_ends:
  "settled c (tab k) \<Longrightarrow> n \<le> k \<Longrightarrow> \<exists>j code. wait_for_job tab c n = Some (j, code) \<and> n \<le> j \<and> j \<le> k"
proof (induction "k - n" arbitrary: n)
  case 0
  then obtain code where "wait_poll c (tab n) = Some code"
    using wait_poll_settled [of c "tab n"] by (cases "n = k") auto
  with 0 show ?case by (simp add: wait_for_job.simps [of tab c n])
next
  case (Suc d)
  show ?case
  proof (cases "wait_poll c (tab n)")
    case None
    have "d = k - Suc n" "Suc n \<le> k" using Suc.hyps(2) by simp_all
    from Suc.hyps(1) [OF this(1) Suc.prems(1) this(2)]
    obtain j code where "wait_for_job tab c (Suc n) = Some (j, code)" "Suc n \<le> j" "j \<le> k" by blast
    with None show ?thesis by (simp add: wait_for_job.simps [of tab c n])
  next
    case (Some code)
    with Suc.prems show ?thesis by (simp add: wait_for_job.simps [of tab c n])
  qed
qed

lemma wait_for_job_settled:
  assumes "wait_for_job tab c n = Some r"
  shows "n \<le> fst r \<and> wait_poll c (tab (fst r)) = Some (snd r)"
proof (rule wait_for_job.raw_induct
    [where P = "\<lambda>tab c n r. n \<le> fst r \<and> wait_poll c (tab (fst r)) = Some (snd r)", OF _ assms])
  fix f tab c n r
  assume ih: "\<And>tab c n r. f tab c n = Some r \<Longrightarrow> n \<le> fst r \<and> wait_poll c (tab (fst r)) = Some (snd r)"
    and eq: "(case wait_poll c (tab n) of None \<Rightarrow> f tab c (Suc n) | Some code \<Rightarrow> Some (n, code)) = Some r"
  show "n \<le> fst r \<and> wait_poll c (tab (fst r)) = Some (snd r)"
    using eq ih [of tab c "Suc n" r] by (cases "wait_poll c (tab n)") auto
qed

text \<open>What a step of the monitor does to an entry: nothing, or it settles it.\<close>

lemma update_entry_other: "c' \<noteq> c \<Longrightarrow> dict_get (update_entry c f act) c' = dict_get act c'"
  by (simp add: update_entry_get)

lemma timeout_check_other: "c' \<noteq> c \<Longrightarrow> dict_get (fst (timeout_check now c e act)) c' = dict_get act c'"
  by (simp add: timeout_check_def update_entry_other)

lemma monitor_other:
  "c' \<noteq> fst ce \<Longrightarrow> dict_get (snd (monitor_container now v ce act)) c' = dict_get act c'"
  by (simp add: monitor_container_def Let_def timeout_check_other update_entry_other
      split: sum.split option.split)

lemma settled_update:
  "(\<And>e. ex_status (f e) \<noteq> Running) \<Longrightarrow> settled c (update_entry c f act)"
  by (simp add: settled_def update_entry_get split: option.split)

lemma settled_timeout: "settled c act \<Longrightarrow> settled c (fst (timeout_check now c e act))"
  by (simp add: timeout_check_def settled_update)

lemma settled_pop: "settled c (dict_pop c act)"
  by (simp add: settled_def)

lemma monitor_settled: "settled c act \<Longrightarrow> settled c (snd (monitor_container now v ce act))"
proof (cases "fst ce = c")
  case True
  assume "settled c act"
  then have "settled c (fst (timeout_check now c (snd ce) act))" by (rule settled_timeout)
  with True show ?thesis
    by (simp add: monitor_container_def Let_def settled_pop settled_update split: sum.split option.split)
next
  case False
  assume "settled c act"
  with False show ?thesis by (simp add: settled_def monitor_other)
qed

lemma monitor_tracks:
  assumes "dict_get act c = Some e"
  shows "settled c (snd (monitor_container now v ce act)) \<or>
    dict_get (snd (monitor_container now v ce act)) c = Some e"
proof (cases "fst ce = c")
  case True
  have "settled c (fst (timeout_check now c (snd ce) act)) \<or> dict_get (fst (timeout_check now c (snd ce) act)) c = Some e"
    using assms by (simp add: timeout_check_def settled_update)
  with True show ?thesis
    by (simp add: monitor_container_def Let_def settled_pop settled_update split: sum.split option.split)
qed (simp add: monitor_other assms)

lemma monitor_overdue:
  assumes "of_int (ex_timeout e) < now - ex_started e"
  shows "settled c (snd (monitor_container now v (c, e) act))"
proof -
  have "settled c (fst (timeout_check now c e act))"
    using assms by (simp add: timeout_check_def settled_update)
  then show ?thesis
    by (simp add: monitor_container_def Let_def settled_pop settled_update split: sum.split option.split)
qed

lemma monitor_snapshot_Cons:
  "monitor_snapshot now docker (ce # ces) act =
     (let r = monitor_container now (docker (fst ce)) ce act
      in if fst r then monitor_snapshot now docker ces (snd r) else r)"
  by (simp add: Let_def split: prod.split bool.split)

lemma snapshot_settled: "settled c act \<Longrightarrow> settled c (snd (monitor_snapshot now docker ces act))"
  by (induction ces arbitrary: act)
    (simp_all add: monitor_snapshot_Cons Let_def monitor_settled del: monitor_snapshot.simps(2))

lemma snapshot_tracks:
  "settled c act \<or> dict_get act c = Some e \<Longrightarrow>
     settled c (snd (monitor_snapshot now docker ces act)) \<or> dict_get (snd (monitor_snapshot now docker ces act)) c = Some e"
proof (induction ces arbitrary: act)
  case (Cons ce ces)
  let ?r = "monitor_container now (docker (fst ce)) ce act"
  have "settled c (snd ?r) \<or> dict_get (snd ?r) c = Some e"
    using Cons.prems monitor_settled monitor_tracks by blast
  with Cons.IH [of "snd ?r"] show ?case
    by (simp add: monitor_snapshot_Cons Let_def del: monitor_snapshot.simps(2))
qed simp

lemma snapshot_overdue:
  assumes "of_int (ex_timeout e) < now - ex_started e" "(c, e) \<in> set ces"
    "fst (monitor_snapshot now docker ces act)"
  shows "settled c (snd (monitor_snapshot now docker ces act))"
  using assms(2,3)
proof (induction ces arbitrary: act)
  case (Cons ce ces)
  let ?r = "monitor_container now (docker (fst ce)) ce act"
  from Cons.prems(2) have on: "fst ?r" "fst (monitor_snapshot now docker ces (snd ?r))"
    by (simp_all add: monitor_snapshot_Cons Let_def del: monitor_snapshot.simps(2) split: if_splits)
  show ?case
  proof (cases "ce = (c, e)")
    case True
    with monitor_overdue [OF assms(1)] have "settled c (snd ?r)" by simp
    with on(1) show ?thesis
      by (simp add: monitor_snapshot_Cons Let_def snapshot_settled del: monitor_snapshot.simps(2))
  next
    case False
    with Cons.IH [OF _ on(2)] Cons.prems(1) on(1) show ?thesis
      by (simp add: monitor_snapshot_Cons Let_def del: monitor_snapshot.simps(2))
  qed
qed simp

lemma snapshot_fails:
  assumes "d \<in> fst ` set ces" "read_status (docker d) = Inl x"
  shows "\<not> fst (monitor_snapshot now docker ces act)"
  using assms(1)
proof (induction ces arbitrary: act)
  case (Cons ce ces)
  then show ?case
    using assms(2)
    by (auto simp: monitor_snapshot_Cons Let_def monitor_container_def simp del: monitor_snapshot.simps(2))
qed simp

text \<open>
  With answers that stay the same during a pass, and none that fails, a pass does what
  \<open>check_active_containers\<close> does.
\<close>

definition steady_view :: "(string \<times> int option) option \<Rightarrow> docker_view" where
  "steady_view x =
     (case x of
        None \<Rightarrow> \<lparr>dv_get = NotFound, dv_status = NotFound, dv_get_again = NotFound, dv_code = NotFound\<rparr>
      | Some (st, code) \<Rightarrow>
          \<lparr>dv_get = Answer (), dv_status = Answer st, dv_get_again = Answer (), dv_code = Answer code\<rparr>)"

lemma monitor_container_steady:
  "monitor_container now (steady_view (docker (fst ce))) ce act = (True, fst (check_container now docker ce act))"
  by (cases "docker (fst ce)")
    (auto simp: monitor_container_def check_container_def status_check_def container_status_def
      container_exit_code_def steady_view_def read_status_def read_exit_code_def reload_def get_container_def
      Let_def split_beta)

lemma monitor_pass_steady:
  "lf_alive s \<Longrightarrow> monitor_pass now (steady_view \<circ> docker) s =
     s\<lparr>lf_active := fst (check_active_containers now docker (lf_active s))\<rparr>"
proof -
  have "monitor_snapshot now (steady_view \<circ> docker) ces act = (True, fst (check_snapshot now docker ces act))" for ces act
    by (induction ces arbitrary: act) (simp_all add: monitor_container_steady Let_def split_beta)
  then show "lf_alive s \<Longrightarrow> ?thesis" by (simp add: monitor_pass_def check_active_containers_def)
qed

text \<open>The events that concern other executions: identifiers of containers are not used twice.\<close>

fun avoids :: "string \<Rightarrow> lifecycle_event \<Rightarrow> bool" where
  "avoids c (Inserted cid e) = (cid \<noteq> c)"
| "avoids c _ = True"

fun leaves :: "string \<Rightarrow> lifecycle_event \<Rightarrow> bool" where
  "leaves c (Inserted cid e) = (cid \<noteq> c)"
| "leaves c (Popped cid) = (cid \<noteq> c)"
| "leaves c (Pass now docker) = True"

definition done_with :: "string \<Rightarrow> lifecycle \<Rightarrow> bool" where
  "done_with c s \<longleftrightarrow> settled c (lf_active s)"

definition tracks :: "string \<Rightarrow> execution \<Rightarrow> lifecycle \<Rightarrow> bool" where
  "tracks c e s \<longleftrightarrow> settled c (lf_active s) \<or> dict_get (lf_active s) c = Some e"

definition stalled :: "string \<Rightarrow> execution \<Rightarrow> lifecycle \<Rightarrow> bool" where
  "stalled c e s \<longleftrightarrow> \<not> lf_alive s \<and> dict_get (lf_active s) c = Some e"

lemma pass_active:
  "lf_active (monitor_pass now docker s) =
     (if lf_alive s then snd (monitor_snapshot now docker (lf_active s) (lf_active s)) else lf_active s)"
  "lf_alive (monitor_pass now docker s) =
     (lf_alive s \<and> fst (monitor_snapshot now docker (lf_active s) (lf_active s)))"
  by (simp_all add: monitor_pass_def split_beta)

lemma step_settled: "done_with c s \<Longrightarrow> avoids c ev \<Longrightarrow> done_with c (lf_step s ev)"
  by (cases ev) (auto simp: done_with_def pass_active snapshot_settled, auto simp: settled_def)

lemma step_tracks: "tracks c e s \<Longrightarrow> avoids c ev \<Longrightarrow> tracks c e (lf_step s ev)"
  by (cases ev) (auto simp: tracks_def pass_active snapshot_tracks, auto simp: settled_def)

lemma step_stalled: "stalled c e s \<Longrightarrow> leaves c ev \<Longrightarrow> stalled c e (lf_step s ev)"
  by (cases ev) (auto simp: stalled_def pass_active)

interpretation settling: op_system lf_step "avoids c" "done_with c" for c
  by unfold_locales (rule step_settled)

interpretation tracking: op_system lf_step "avoids c" "tracks c e" for c e
  by unfold_locales (rule step_tracks)

interpretation stalling: op_system lf_step "leaves c" "stalled c e" for c e
  by unfold_locales (rule step_stalled)

lemma step_alive: "lf_alive (lf_step s ev) \<Longrightarrow> lf_alive s"
  by (cases ev) (simp_all add: pass_active)

lemma run_alive: "lf_alive (foldl lf_step s evs) \<Longrightarrow> lf_alive s"
  by (induction evs arbitrary: s) (auto dest: step_alive)

lemma timeline_tracks:
  "tracks c e s \<Longrightarrow> \<forall>k. list_all (avoids c) (evs k) \<Longrightarrow> tracks c e (timeline s evs n)"
  by (induction n) (auto intro: tracking.run_inv)

lemma timeline_stalled:
  "stalled c e s \<Longrightarrow> \<forall>k. list_all (leaves c) (evs k) \<Longrightarrow> stalled c e (timeline s evs n)"
  by (induction n) (auto intro: stalling.run_inv)

lemma overdue_pass_settles:
  assumes "tracks c e s" "list_all (avoids c) evs" "Pass now docker \<in> set evs"
    "of_int (ex_timeout e) < now - ex_started e" "lf_alive (foldl lf_step s evs)"
  shows "done_with c (foldl lf_step s evs)"
proof -
  obtain pre post where evs: "evs = pre @ Pass now docker # post" using assms(3) by (meson split_list)
  let ?s = "foldl lf_step s pre"
  have "lf_alive (monitor_pass now docker ?s)" using assms(5) run_alive by (simp add: evs)
  then have alive: "lf_alive ?s" "fst (monitor_snapshot now docker (lf_active ?s) (lf_active ?s))"
    by (simp_all add: pass_active)
  have "tracks c e ?s" using assms(1,2) by (auto simp: evs intro: tracking.run_inv)
  then have "settled c (snd (monitor_snapshot now docker (lf_active ?s) (lf_active ?s)))"
    using snapshot_settled snapshot_overdue [OF assms(4) _ alive(2)] dict_get_Some_mem unfolding tracks_def by metis
  then have "done_with c (lf_step ?s (Pass now docker))" by (simp add: done_with_def pass_active alive(1))
  then have "done_with c (foldl lf_step (lf_step ?s (Pass now docker)) post)"
    using assms(2) by (auto simp: evs intro: settling.run_inv)
  then show ?thesis by (simp add: evs)
qed

text \<open>
  C13. Every wait for a job ends while the thread of the monitor lives. The wait for an execution
  that is in the table returns at the latest with the poll that follows the first pass after
  the timeout of the execution, whatever Docker answers and whatever the other threads do with
  other executions in between.
\<close>

theorem wait_for_job_returns:
  assumes "dict_get (lf_active s) c = Some e"
    and "\<forall>k. list_all (avoids c) (evs k)"
    and "Pass now docker \<in> set (evs n)" and "of_int (ex_timeout e) < now - ex_started e"
    and "lf_alive (timeline s evs (Suc n))"
  shows "\<exists>k code. wait_for_job (tables s evs) c 0 = Some (k, code) \<and> k \<le> Suc n"
proof -
  have "tracks c e (timeline s evs n)" using timeline_tracks [OF _ assms(2)] assms(1) by (simp add: tracks_def)
  with overdue_pass_settles [OF _ _ assms(3,4)] assms(2,5) have "done_with c (timeline s evs (Suc n))" by simp
  then have "settled c (tables s evs (Suc n))" by (simp add: done_with_def tables_def)
  then have "\<exists>j code. wait_for_job (tables s evs) c 0 = Some (j, code) \<and> 0 \<le> j \<and> j \<le> Suc n"
    by (rule wait_for_job_ends) simp
  then show ?thesis by simp
qed

text \<open>
  C31. A container that disappears between the look-up and the reload of the monitor stops the
  worker. Docker removes a container by itself when its command ends; when this happens
  between the two calls, the exception ends the thread of the monitor, and from then on no wait
  for a running execution ever returns, however long ago its timeout was, as long as the other
  threads leave its entry alone. Nor does a shutdown return whose timeout is positive and which
  finds such an execution as the first entry of the table.
\<close>

theorem vanished_container_stops_worker:
  assumes "d \<in> set (dict_keys (lf_active s))" and "dv_get (docker d) = Answer ()" and "dv_status (docker d) = NotFound"
    and "dict_get (lf_active (monitor_pass now docker s)) c = Some e" and "ex_status e = Running"
    and "\<forall>k. list_all (leaves c) (evs k)"
  shows "wait_for_job (tables (monitor_pass now docker s) evs) c 0 = None \<and>
    (hd (lf_active (monitor_pass now docker s)) = (c, e) \<and> ex_container e = c \<and> 0 < timeout \<longrightarrow>
       shutdown (tables (monitor_pass now docker s) evs) clock timeout True 0 = None)"
proof -
  let ?s = "monitor_pass now docker s" and ?tab = "tables (monitor_pass now docker s) evs"
  have "read_status (docker d) = Inl OtherError"
    by (simp add: read_status_def reload_def get_container_def assms(2,3))
  with snapshot_fails [of d "lf_active s" docker] assms(1) have "\<not> lf_alive ?s"
    by (simp add: pass_active dict_keys_def)
  then have "stalled c e ?s" by (simp add: stalled_def assms(4))
  from timeline_stalled [OF this assms(6)] have "dict_get (?tab k) c = Some e" for k
    by (simp add: stalled_def tables_def)
  then have poll: "wait_poll c (?tab k) = None" for k by (simp add: wait_poll_def assms(5))
  have wait: "wait_for_job ?tab c n = None" for n
  proof (rule ccontr)
    assume "wait_for_job ?tab c n \<noteq> None"
    then obtain r where "wait_for_job ?tab c n = Some r" by blast
    with wait_for_job_settled poll show False by (metis option.distinct(1))
  qed
  have "shutdown ?tab clock timeout True 0 = None"
    if first: "hd (lf_active ?s) = (c, e)" and cid: "ex_container e = c" and pos: "0 < timeout"
  proof -
    have "lf_active ?s \<noteq> []" using assms(4) by auto
    then obtain rest where "lf_active ?s = (c, e) # rest" using first by (cases "lf_active ?s") auto
    then have "?tab 0 = (c, e) # rest" by (simp add: tables_def)
    then show ?thesis using pos by (simp add: shutdown_def cid wait)
  qed
  with wait show ?thesis by blast
qed

section \<open>Witnesses\<close>

definition running_view :: docker_view where
  "running_view = \<lparr>dv_get = Answer (), dv_status = Answer ''running'', dv_get_again = Answer (), dv_code = Answer None\<rparr>"

definition vanished_view :: docker_view where
  "vanished_view = running_view\<lparr>dv_status := NotFound\<rparr>"

definition one_running :: lifecycle where
  "one_running = \<lparr>lf_active = [(''cid'', sample_execution)], lf_alive = True\<rparr>"

definition two_running :: lifecycle where
  "two_running = \<lparr>lf_active = [(''cid'', sample_execution), (''d'', sample_execution)], lf_alive = True\<rparr>"

lemma sample_fields:
  "ex_timeout sample_execution = 60" "ex_started sample_execution = 0" "ex_status sample_execution = Running"
  "ex_container sample_execution = ''cid''"
  by (simp_all add: sample_execution_def new_execution_def clamp_timeout_def sample_job_def sample_manager_def)

lemma monitor_running:
  "monitor_container now running_view ce act = (True, fst (timeout_check now (fst ce) (snd ce) act))"
  by (simp add: monitor_container_def read_status_def reload_def get_container_def running_view_def)

theorem wait_for_job_returns_witness:
  "\<exists>k code. wait_for_job (tables one_running (\<lambda>_. [Pass 100 (\<lambda>_. running_view)])) ''cid'' 0 = Some (k, code) \<and> k \<le> 1"
proof -
  have "lf_alive (monitor_pass 100 (\<lambda>_. running_view) one_running)"
    by (simp add: pass_active one_running_def monitor_snapshot_Cons monitor_running del: monitor_snapshot.simps(2))
  then show ?thesis
    using wait_for_job_returns [of one_running "''cid''" sample_execution "\<lambda>_. [Pass 100 (\<lambda>_. running_view)]" 100 "\<lambda>_. running_view" 0]
    by (simp add: one_running_def dict_get_def sample_fields)
qed

theorem vanished_container_stops_worker_witness:
  "wait_for_job (tables (monitor_pass 10 (\<lambda>c. if c = ''d'' then vanished_view else running_view) two_running) (\<lambda>_. []))
     ''cid'' 0 = None"
proof -
  let ?docker = "\<lambda>c. if c = ''d'' then vanished_view else running_view"
  have "dict_get (lf_active (monitor_pass 10 ?docker two_running)) ''cid'' = Some sample_execution"
    by (simp add: pass_active two_running_def monitor_snapshot_Cons Let_def monitor_running timeout_check_def
        sample_fields monitor_other del: monitor_snapshot.simps(2)) (simp add: dict_get_def)
  then show ?thesis
    using vanished_container_stops_worker [of "''d''" two_running ?docker 10 "''cid''" sample_execution "\<lambda>_. []"]
    by (simp add: two_running_def dict_keys_def vanished_view_def running_view_def sample_fields)
qed

end
