(* ===== verification/Consumer.thy ===== *)
theory Consumer
  imports Worker
begin

text \<open>
  The consumer of the job queue (src/consumer.py): the consumer group, the claiming of stale
  messages, the reading of new ones, and the loop around them.

  The commands of Redis are a parameter, a record of operations on an abstract state; the
  locale \<open>consumer_group\<close> holds what the code relies on. The handler is a parameter too: an
  operation on a state of its own that returns or raises. The log of a consumer, its newest
  entry first, records what it did; the code only writes it to its logger.
\<close>

section \<open>Redis\<close>

type_synonym message = "string \<times> (string, string) dict"

datatype redis_error = ResponseError string | OtherRedisError

text \<open>
  \<open>XGROUP CREATE\<close>; \<open>XAUTOCLAIM\<close> with consumer, idle time and count; \<open>XREADGROUP\<close> with consumer,
  count and block time; \<open>XPENDING\<close> with a count, as pairs of message and consumer; \<open>XACK\<close>. All
  are for the stream and the group of the consumer.
\<close>

record 'r redis_ops =
  ro_create :: "'r \<Rightarrow> redis_error option \<times> 'r"
  ro_claim :: "string \<Rightarrow> int \<Rightarrow> nat \<Rightarrow> 'r \<Rightarrow> (redis_error + message list) \<times> 'r"
  ro_read :: "string \<Rightarrow> int \<Rightarrow> int \<Rightarrow> 'r \<Rightarrow> (redis_error + (string \<times> message list) list) \<times> 'r"
  ro_pending :: "nat \<Rightarrow> 'r \<Rightarrow> redis_error + (string \<times> string) list"
  ro_ack :: "string \<Rightarrow> 'r \<Rightarrow> redis_error option \<times> 'r"

record consumer_config =
  cc_stream :: string
  cc_worker :: string
  cc_max :: int
  cc_claim :: int
  cc_block :: int

datatype consumer_event =
    Handled string
  | Acked string
  | ReadNew int
  | Slept

record ('r, 'h) consumer =
  co_redis :: 'r
  co_world :: 'h
  co_connected :: bool
  co_running :: bool
  co_log :: "consumer_event list"

datatype tick_error = RedisFailure redis_error | Raised exc

type_synonym 'h handling = "job \<Rightarrow> 'h \<Rightarrow> exc option \<times> 'h"

definition log_event :: "consumer_event \<Rightarrow> ('r, 'h) consumer \<Rightarrow> ('r, 'h) consumer" where
  "log_event x s = s\<lparr>co_log := x # co_log s\<rparr>"

section \<open>Connection\<close>

definition ensure_group :: "'r redis_ops \<Rightarrow> ('r, 'h) consumer \<Rightarrow> redis_error option \<times> ('r, 'h) consumer" where
  "ensure_group ops s =
     (case ro_create ops (co_redis s) of
        (None, r) \<Rightarrow> (None, s\<lparr>co_redis := r\<rparr>)
      | (Some (ResponseError m), r) \<Rightarrow>
          ((if py_in ''BUSYGROUP'' m then None else Some (ResponseError m)), s\<lparr>co_redis := r\<rparr>)
      | (Some e, r) \<Rightarrow> (Some e, s\<lparr>co_redis := r\<rparr>))"

text \<open>\<open>ping\<close>: the error of the first command. The client is set before it.\<close>

definition consumer_connect ::
    "'r redis_ops \<Rightarrow> redis_error option \<Rightarrow> ('r, 'h) consumer \<Rightarrow> redis_error option \<times> ('r, 'h) consumer" where
  "consumer_connect ops ping s =
     (let s1 = s\<lparr>co_connected := True\<rparr>
      in case ping of Some e \<Rightarrow> (Some e, s1) | None \<Rightarrow> ensure_group ops s1)"

section \<open>One tick\<close>

text \<open>A message: it is acknowledged when its handler returns.\<close>

definition process_one ::
    "'r redis_ops \<Rightarrow> (string \<Rightarrow> json option) \<Rightarrow> 'h handling \<Rightarrow> string \<Rightarrow> message \<Rightarrow> ('r, 'h) consumer \<Rightarrow>
     tick_error option \<times> ('r, 'h) consumer" where
  "process_one ops loads handler key msg s =
     (case parse_message loads key (fst msg) (snd msg) of
        Inl e \<Rightarrow> (Some (Raised e), s)
      | Inr j \<Rightarrow>
          (case handler j (co_world s) of
             (Some e, h) \<Rightarrow> (Some (Raised e), s\<lparr>co_world := h\<rparr>)
           | (None, h) \<Rightarrow>
               (let s1 = log_event (Handled (fst msg)) (s\<lparr>co_world := h\<rparr>)
                in case ro_ack ops (fst msg) (co_redis s1) of
                     (Some e, r) \<Rightarrow> (Some (RedisFailure e), s1\<lparr>co_redis := r\<rparr>)
                   | (None, r) \<Rightarrow> (None, log_event (Acked (fst msg)) (s1\<lparr>co_redis := r\<rparr>)))))"

fun process_all ::
    "'r redis_ops \<Rightarrow> (string \<Rightarrow> json option) \<Rightarrow> 'h handling \<Rightarrow> string \<Rightarrow> message list \<Rightarrow> ('r, 'h) consumer \<Rightarrow>
     tick_error option \<times> ('r, 'h) consumer" where
  "process_all ops loads handler key [] s = (None, s)"
| "process_all ops loads handler key (msg # msgs) s =
     (case process_one ops loads handler key msg s of
        (Some e, s1) \<Rightarrow> (Some e, s1)
      | (None, s1) \<Rightarrow> process_all ops loads handler key msgs s1)"

fun process_streams ::
    "'r redis_ops \<Rightarrow> (string \<Rightarrow> json option) \<Rightarrow> 'h handling \<Rightarrow> (string \<times> message list) list \<Rightarrow>
     ('r, 'h) consumer \<Rightarrow> tick_error option \<times> ('r, 'h) consumer" where
  "process_streams ops loads handler [] s = (None, s)"
| "process_streams ops loads handler ((key, msgs) # rest) s =
     (case process_all ops loads handler key msgs s of
        (Some e, s1) \<Rightarrow> (Some e, s1)
      | (None, s1) \<Rightarrow> process_streams ops loads handler rest s1)"

definition claim_stale ::
    "'r redis_ops \<Rightarrow> consumer_config \<Rightarrow> (string \<Rightarrow> json option) \<Rightarrow> 'h handling \<Rightarrow> ('r, 'h) consumer \<Rightarrow>
     tick_error option \<times> ('r, 'h) consumer" where
  "claim_stale ops cfg loads handler s =
     (case ro_claim ops (cc_worker cfg) (cc_claim cfg) 10 (co_redis s) of
        (Inl e, r) \<Rightarrow> (Some (RedisFailure e), s\<lparr>co_redis := r\<rparr>)
      | (Inr msgs, r) \<Rightarrow> process_all ops loads handler (cc_stream cfg) msgs (s\<lparr>co_redis := r\<rparr>))"

definition active_job_count :: "'r redis_ops \<Rightarrow> consumer_config \<Rightarrow> 'r \<Rightarrow> int" where
  "active_job_count ops cfg r =
     (case ro_pending ops 1000 r of
        Inl e \<Rightarrow> 0 | Inr ps \<Rightarrow> int (length (filter (\<lambda>p. snd p = cc_worker cfg) ps)))"

definition read_new ::
    "'r redis_ops \<Rightarrow> consumer_config \<Rightarrow> int \<Rightarrow> ('r, 'h) consumer \<Rightarrow>
     (redis_error + (string \<times> message list) list) \<times> ('r, 'h) consumer" where
  "read_new ops cfg n s =
     (let (x, r) = ro_read ops (cc_worker cfg) n (cc_block cfg) (co_redis s)
      in (x, log_event (ReadNew n) (s\<lparr>co_redis := r\<rparr>)))"

definition tick ::
    "'r redis_ops \<Rightarrow> consumer_config \<Rightarrow> (string \<Rightarrow> json option) \<Rightarrow> 'h handling \<Rightarrow> ('r, 'h) consumer \<Rightarrow>
     tick_error option \<times> ('r, 'h) consumer" where
  "tick ops cfg loads handler s =
     (if \<not> co_connected s then (Some (Raised (RuntimeError ''Consumer not connected'')), s)
      else
        case claim_stale ops cfg loads handler s of
          (Some e, s1) \<Rightarrow> (Some e, s1)
        | (None, s1) \<Rightarrow>
            (let active = active_job_count ops cfg (co_redis s1)
             in if cc_max cfg \<le> active then (None, log_event Slept s1)
                else case read_new ops cfg (min (cc_max cfg - active) 4) s1 of
                       (Inl e, s2) \<Rightarrow> (Some (RedisFailure e), s2)
                     | (Inr streams, s2) \<Rightarrow> process_streams ops loads handler streams s2))"

section \<open>The loop\<close>

text \<open>Every exception of a tick is logged, and the loop sleeps a second.\<close>

definition loop_body ::
    "'r redis_ops \<Rightarrow> consumer_config \<Rightarrow> (string \<Rightarrow> json option) \<Rightarrow> 'h handling \<Rightarrow> ('r, 'h) consumer \<Rightarrow>
     ('r, 'h) consumer" where
  "loop_body ops cfg loads handler s =
     (case tick ops cfg loads handler s of (None, s1) \<Rightarrow> s1 | (Some e, s1) \<Rightarrow> log_event Slept s1)"

definition stop_consumer :: "('r, 'h) consumer \<Rightarrow> ('r, 'h) consumer" where
  "stop_consumer s = s\<lparr>co_running := False\<rparr>"

definition close_consumer :: "('r, 'h) consumer \<Rightarrow> ('r, 'h) consumer" where
  "close_consumer s = s\<lparr>co_connected := False\<rparr>"

text \<open>
  Between two rounds of the loop: time passes and other clients change the queue, or a signal
  stops the consumer.
\<close>

datatype 'r outside = Others "'r \<Rightarrow> 'r" | Signal

fun outside_step :: "('r, 'h) consumer \<Rightarrow> 'r outside \<Rightarrow> ('r, 'h) consumer" where
  "outside_step s (Others f) = s\<lparr>co_redis := f (co_redis s)\<rparr>"
| "outside_step s Signal = stop_consumer s"

definition round ::
    "'r redis_ops \<Rightarrow> consumer_config \<Rightarrow> (string \<Rightarrow> json option) \<Rightarrow> 'h handling \<Rightarrow> ('r, 'h) consumer \<Rightarrow>
     'r outside \<Rightarrow> ('r, 'h) consumer" where
  "round ops cfg loads handler s x =
     (let s1 = outside_step s x in if co_running s1 then loop_body ops cfg loads handler s1 else s1)"

text \<open>\<open>start\<close> without a handler raises; otherwise it runs the rounds.\<close>

definition start ::
    "'r redis_ops \<Rightarrow> consumer_config \<Rightarrow> (string \<Rightarrow> json option) \<Rightarrow> 'h handling option \<Rightarrow> ('r, 'h) consumer \<Rightarrow>
     'r outside list \<Rightarrow> ('r, 'h) consumer result" where
  "start ops cfg loads registered s xs =
     (case registered of
        None \<Rightarrow> Inl (RuntimeError ''No handler registered'')
      | Some handler \<Rightarrow> Inr (foldl (round ops cfg loads handler) (s\<lparr>co_running := True\<rparr>) xs))"

section \<open>Acknowledgements\<close>

text \<open>Every acknowledgement comes right after the normal return of the handler of its message.\<close>

fun acks_follow :: "consumer_event list \<Rightarrow> bool" where
  "acks_follow [] = True"
| "acks_follow (Acked i # xs) = ((case xs of Handled j # _ \<Rightarrow> i = j | _ \<Rightarrow> False) \<and> acks_follow xs)"
| "acks_follow (_ # xs) = acks_follow xs"

definition acked_after_handling :: "('r, 'h) consumer \<Rightarrow> bool" where
  "acked_after_handling s \<longleftrightarrow> acks_follow (co_log s)"

lemma log_event_log [simp]: "co_log (log_event x s) = x # co_log s"
  by (simp add: log_event_def)

lemma process_one_acks:
  "acked_after_handling s \<Longrightarrow> acked_after_handling (snd (process_one ops loads handler key msg s))"
  by (simp add: process_one_def acked_after_handling_def Let_def split: sum.split prod.split option.split)

lemma process_all_acks:
  "acked_after_handling s \<Longrightarrow> acked_after_handling (snd (process_all ops loads handler key msgs s))"
proof (induction msgs arbitrary: s)
  case (Cons m ms)
  with process_one_acks [OF Cons.prems, of ops loads handler key m] show ?case
    by (auto split: prod.split option.split)
qed simp

lemma process_streams_acks:
  "acked_after_handling s \<Longrightarrow> acked_after_handling (snd (process_streams ops loads handler streams s))"
proof (induction streams arbitrary: s)
  case (Cons km rest)
  obtain key msgs where km: "km = (key, msgs)" by (cases km)
  from process_all_acks [OF Cons.prems, of ops loads handler key msgs] Cons.IH show ?case
    by (auto simp: km split: prod.split option.split)
qed simp

lemma claim_stale_acks:
  "acked_after_handling s \<Longrightarrow> acked_after_handling (snd (claim_stale ops cfg loads handler s))"
  by (auto simp: claim_stale_def acked_after_handling_def split: prod.split sum.split
      intro!: process_all_acks [unfolded acked_after_handling_def])

lemma read_new_acks:
  "acked_after_handling s \<Longrightarrow> acked_after_handling (snd (read_new ops cfg n s))"
  by (simp add: read_new_def acked_after_handling_def split_beta)

lemma tick_acks:
  assumes "acked_after_handling s"
  shows "acked_after_handling (snd (tick ops cfg loads handler s))"
proof -
  obtain x s1 where claim: "claim_stale ops cfg loads handler s = (x, s1)" by fastforce
  then have s1: "acked_after_handling s1" using claim_stale_acks [OF assms] by (metis snd_conv)
  define n where "n = min (cc_max cfg - active_job_count ops cfg (co_redis s1)) 4"
  obtain y s2 where read: "read_new ops cfg n s1 = (y, s2)" by fastforce
  then have "acked_after_handling s2" using read_new_acks [OF s1] by (metis snd_conv)
  then show ?thesis
    using assms s1 claim read process_streams_acks [of s2]
    by (auto simp: tick_def Let_def n_def acked_after_handling_def split: option.split sum.split)
qed

lemma round_acks:
  assumes "acked_after_handling s"
  shows "acked_after_handling (round ops cfg loads handler s x)"
proof -
  have "acked_after_handling (outside_step s x)"
    using assms by (cases x) (simp_all add: acked_after_handling_def stop_consumer_def)
  from tick_acks [OF this, of ops cfg loads handler] this show ?thesis
    by (auto simp: round_def loop_body_def Let_def acked_after_handling_def split: prod.split option.split)
qed

interpretation acking: op_system "round ops cfg loads handler" "\<lambda>_. True" acked_after_handling
  for ops cfg loads handler
  by unfold_locales (rule round_acks)

text \<open>
  C16. A message is acknowledged only after its handler has returned normally for it. Whatever
  Redis answers, whatever handlers raise and whenever the consumer is stopped, every
  acknowledgement in the log of a consumer follows directly on the return of the handler of
  the same message.
\<close>

theorem acknowledged_after_handling:
  "case start ops cfg loads registered \<lparr>co_redis = r, co_world = h, co_connected = True, co_running = False, co_log = []\<rparr> xs of
     Inl e \<Rightarrow> registered = None
   | Inr s \<Rightarrow> acks_follow (co_log s)"
proof (cases registered)
  case (Some handler)
  have "acked_after_handling (foldl (round ops cfg loads handler)
      \<lparr>co_redis = r, co_world = h, co_connected = True, co_running = True, co_log = []\<rparr> xs)"
    by (rule acking.run_inv) (simp_all add: acked_after_handling_def list_all_iff)
  then show ?thesis by (simp add: start_def Some acked_after_handling_def)
qed (simp add: start_def)

section \<open>What a handler keeps\<close>

text \<open>A fact about the state of the handler that every call keeps is kept by the whole loop.\<close>

locale handler_invariant =
  fixes handler :: "'h handling"
    and good :: "'h \<Rightarrow> bool"
  assumes handler_good: "good h \<Longrightarrow> good (snd (handler j h))"
begin

lemma process_one_good: "good (co_world s) \<Longrightarrow> good (co_world (snd (process_one ops loads handler key msg s)))"
proof (cases "parse_message loads key (fst msg) (snd msg)")
  case (Inr j)
  assume "good (co_world s)"
  from handler_good [OF this, of j] Inr show ?thesis
    by (auto simp: process_one_def log_event_def Let_def split: prod.split option.split)
qed (simp add: process_one_def)

lemma process_all_good: "good (co_world s) \<Longrightarrow> good (co_world (snd (process_all ops loads handler key msgs s)))"
proof (induction msgs arbitrary: s)
  case (Cons m ms)
  obtain x s1 where one: "process_one ops loads handler key m s = (x, s1)" by fastforce
  with process_one_good [OF Cons.prems, of ops loads key m] have "good (co_world s1)" by simp
  with Cons.IH one show ?case by (cases x) simp_all
qed simp

lemma process_streams_good:
  "good (co_world s) \<Longrightarrow> good (co_world (snd (process_streams ops loads handler streams s)))"
proof (induction streams arbitrary: s)
  case (Cons km rest)
  obtain key msgs where km: "km = (key, msgs)" by (cases km)
  obtain x s1 where "process_all ops loads handler key msgs s = (x, s1)" by fastforce
  with process_all_good [OF Cons.prems, of ops loads key msgs] Cons.IH show ?case by (cases x) (simp_all add: km)
qed simp

lemma claim_stale_good: "good (co_world s) \<Longrightarrow> good (co_world (snd (claim_stale ops cfg loads handler s)))"
  by (auto simp: claim_stale_def split: prod.split sum.split intro!: process_all_good)

lemma tick_good: "good (co_world s) \<Longrightarrow> good (co_world (snd (tick ops cfg loads handler s)))"
proof -
  assume ok: "good (co_world s)"
  obtain x s1 where claim: "claim_stale ops cfg loads handler s = (x, s1)" by fastforce
  with claim_stale_good [OF ok, of ops cfg loads] have s1: "good (co_world s1)" by simp
  define n where "n = min (cc_max cfg - active_job_count ops cfg (co_redis s1)) 4"
  obtain y s2 where read: "read_new ops cfg n s1 = (y, s2)" by fastforce
  with s1 have s2: "good (co_world s2)" by (auto simp: read_new_def log_event_def split_beta)
  from process_streams_good [OF s2] ok s1 s2 claim read show ?thesis
    by (auto simp: tick_def Let_def n_def log_event_def split: option.split sum.split)
qed

lemma round_good: "good (co_world s) \<Longrightarrow> good (co_world (round ops cfg loads handler s x))"
proof -
  assume "good (co_world s)"
  then have "good (co_world (outside_step s x))" by (cases x) (simp_all add: stop_consumer_def)
  from tick_good [OF this, of ops cfg loads] this show ?thesis
    by (auto simp: round_def loop_body_def Let_def log_event_def split: prod.split option.split)
qed

lemma rounds_good: "good (co_world s) \<Longrightarrow> good (co_world (foldl (round ops cfg loads handler) s xs))"
  by (induction xs arbitrary: s) (simp_all add: round_good)

end

section \<open>Messages that cannot be read\<close>

text \<open>How often the consumer asked for new messages.\<close>

fun reads :: "consumer_event list \<Rightarrow> nat" where
  "reads [] = 0"
| "reads (ReadNew n # xs) = Suc (reads xs)"
| "reads (_ # xs) = reads xs"

text \<open>
  What the code relies on: a claimed message is one of the stream, which never changes;
  claiming takes no message away from its consumer, acknowledging only the one it names; and
  \<open>XPENDING\<close> lists all messages that the consumer has not acknowledged. \<open>usable\<close> restricts
  the laws to the states in which they hold, \<open>owned\<close> are the messages of the consumer.
\<close>

locale consumer_group =
  fixes ops :: "'r redis_ops"
    and worker :: string
    and usable :: "'r \<Rightarrow> bool"
    and owned :: "'r \<Rightarrow> string set"
    and body :: "string \<Rightarrow> (string, string) dict"
  assumes claim_usable: "usable r \<Longrightarrow> usable (snd (ro_claim ops worker idle n r))"
    and claim_owned: "usable r \<Longrightarrow> owned r \<subseteq> owned (snd (ro_claim ops worker idle n r))"
    and claim_body: "usable r \<Longrightarrow> fst (ro_claim ops worker idle n r) = Inr msgs \<Longrightarrow> msg \<in> set msgs \<Longrightarrow>
      snd msg = body (fst msg)"
    and ack_usable: "usable r \<Longrightarrow> usable (snd (ro_ack ops i r))"
    and ack_owned: "usable r \<Longrightarrow> owned r - {i} \<subseteq> owned (snd (ro_ack ops i r))"
    and owned_finite: "usable r \<Longrightarrow> finite (owned r)"
    and pending_all: "usable r \<Longrightarrow> \<exists>ps. ro_pending ops 1000 r = Inr ps \<and>
      card (owned r) \<le> length (filter (\<lambda>p. snd p = worker) ps)"
begin

text \<open>A consumer that holds messages it cannot parse.\<close>

definition holds :: "string set \<Rightarrow> ('r, 'h) consumer \<Rightarrow> bool" where
  "holds bad s \<longleftrightarrow> usable (co_redis s) \<and> bad \<subseteq> owned (co_redis s)"

definition unreadable :: "(string \<Rightarrow> json option) \<Rightarrow> string set \<Rightarrow> bool" where
  "unreadable loads bad \<longleftrightarrow> (\<forall>i\<in>bad. \<forall>key. \<exists>e. parse_message loads key i (body i) = Inl e)"

lemma process_one_holds:
  assumes "holds bad s" "unreadable loads bad" "snd msg = body (fst msg)"
  shows "holds bad (snd (process_one ops loads handler key msg s)) \<and>
    reads (co_log (snd (process_one ops loads handler key msg s))) = reads (co_log s)"
proof (cases "parse_message loads key (fst msg) (snd msg)")
  case (Inr j)
  have "fst msg \<notin> bad"
  proof
    assume "fst msg \<in> bad"
    then obtain e where "parse_message loads key (fst msg) (body (fst msg)) = Inl e"
      using assms(2) unfolding unreadable_def by blast
    with Inr assms(3) show False by simp
  qed
  then have "bad \<subseteq> owned (snd (ro_ack ops (fst msg) (co_redis s)))" "usable (snd (ro_ack ops (fst msg) (co_redis s)))"
    using assms(1) ack_owned [of "co_redis s" "fst msg"] ack_usable by (auto simp: holds_def)
  with Inr assms(1) show ?thesis
    by (auto simp: process_one_def holds_def log_event_def Let_def split: prod.split option.split)
qed (simp add: process_one_def assms(1))

lemma process_all_holds:
  "holds bad s \<Longrightarrow> unreadable loads bad \<Longrightarrow> \<forall>msg\<in>set msgs. snd msg = body (fst msg) \<Longrightarrow>
     holds bad (snd (process_all ops loads handler key msgs s)) \<and>
     reads (co_log (snd (process_all ops loads handler key msgs s))) = reads (co_log s)"
proof (induction msgs arbitrary: s)
  case (Cons m ms)
  obtain x s1 where one: "process_one ops loads handler key m s = (x, s1)" by fastforce
  with process_one_holds [OF Cons.prems(1,2), of m handler key] Cons.prems(3)
  have "holds bad s1" "reads (co_log s1) = reads (co_log s)" by simp_all
  with Cons.IH [of s1] Cons.prems(2,3) one show ?case by (cases x) simp_all
qed simp

lemma claim_stale_holds:
  assumes "holds bad s" "unreadable loads bad" "cc_worker cfg = worker"
  shows "holds bad (snd (claim_stale ops cfg loads handler s)) \<and>
    reads (co_log (snd (claim_stale ops cfg loads handler s))) = reads (co_log s)"
proof -
  obtain x r where claim: "ro_claim ops worker (cc_claim cfg) 10 (co_redis s) = (x, r)" by fastforce
  have h: "holds bad (s\<lparr>co_redis := r\<rparr>)"
    using assms(1) claim_usable [of "co_redis s" "cc_claim cfg" 10] claim_owned [of "co_redis s" "cc_claim cfg" 10]
    by (auto simp: holds_def claim)
  show ?thesis
  proof (cases x)
    case (Inl e)
    with h show ?thesis by (simp add: claim_stale_def assms(3) claim)
  next
    case (Inr msgs)
    have "\<forall>msg\<in>set msgs. snd msg = body (fst msg)"
      using claim_body [of "co_redis s" "cc_claim cfg" 10 msgs] assms(1) by (simp add: holds_def claim Inr)
    from process_all_holds [OF h assms(2) this] show ?thesis
      by (simp add: claim_stale_def assms(3) claim Inr)
  qed
qed

lemma full_count:
  assumes "holds bad s" "cc_worker cfg = worker" "cc_max cfg \<le> int (card bad)"
  shows "cc_max cfg \<le> active_job_count ops cfg (co_redis s)"
proof -
  have "usable (co_redis s)" "bad \<subseteq> owned (co_redis s)" using assms(1) by (simp_all add: holds_def)
  with owned_finite have "card bad \<le> card (owned (co_redis s))" by (simp add: card_mono)
  moreover obtain ps where "ro_pending ops 1000 (co_redis s) = Inr ps"
      "card (owned (co_redis s)) \<le> length (filter (\<lambda>p. snd p = worker) ps)"
    using pending_all \<open>usable (co_redis s)\<close> by blast
  ultimately show ?thesis using assms(2,3) by (simp add: active_job_count_def)
qed

lemma tick_holds:
  assumes "holds bad s" "unreadable loads bad" "cc_worker cfg = worker" "cc_max cfg \<le> int (card bad)"
  shows "holds bad (snd (tick ops cfg loads handler s)) \<and>
    reads (co_log (snd (tick ops cfg loads handler s))) = reads (co_log s)"
proof -
  obtain x s1 where claim: "claim_stale ops cfg loads handler s = (x, s1)" by fastforce
  with claim_stale_holds [OF assms(1-3), of handler]
  have s1: "holds bad s1" "reads (co_log s1) = reads (co_log s)" by simp_all
  moreover have "cc_max cfg \<le> active_job_count ops cfg (co_redis s1)" by (rule full_count) (rule s1 assms)+
  ultimately show ?thesis
    using assms(1) claim by (simp add: tick_def Let_def holds_def log_event_def split: option.split)
qed

definition keeps :: "string set \<Rightarrow> 'r outside \<Rightarrow> bool" where
  "keeps bad x \<longleftrightarrow> (case x of Signal \<Rightarrow> True
     | Others f \<Rightarrow> \<forall>r. usable r \<and> bad \<subseteq> owned r \<longrightarrow> usable (f r) \<and> bad \<subseteq> owned (f r))"

lemma round_holds:
  assumes "holds bad s" "unreadable loads bad" "cc_worker cfg = worker" "cc_max cfg \<le> int (card bad)" "keeps bad x"
  shows "holds bad (round ops cfg loads handler s x) \<and>
    reads (co_log (round ops cfg loads handler s x)) = reads (co_log s)"
proof -
  have "holds bad (outside_step s x)" "reads (co_log (outside_step s x)) = reads (co_log s)"
    using assms(1,5) by (cases x; simp add: holds_def keeps_def stop_consumer_def)+
  with tick_holds [OF _ assms(2-4), of "outside_step s x" handler] show ?thesis
    by (auto simp: round_def loop_body_def Let_def holds_def log_event_def split: prod.split option.split)
qed

lemma rounds_hold:
  assumes "unreadable loads bad" "cc_worker cfg = worker" "cc_max cfg \<le> int (card bad)"
  shows "holds bad s \<Longrightarrow> list_all (keeps bad) xs \<Longrightarrow>
    reads (co_log (foldl (round ops cfg loads handler) s xs)) = reads (co_log s)"
proof (induction xs arbitrary: s)
  case (Cons x xs)
  with round_holds [OF Cons.prems(1) assms, of x handler] show ?case by simp
qed simp

end

text \<open>
  A consumer group that keeps the laws: the messages that nobody has read, and the pending ones
  with their consumer and idle time.
\<close>

record group_state =
  gs_new :: "message list"
  gs_pending :: "(message \<times> string \<times> int) list"

definition group_claim :: "string \<Rightarrow> int \<Rightarrow> nat \<Rightarrow> group_state \<Rightarrow> (redis_error + message list) \<times> group_state" where
  "group_claim w idle n g =
     (let taken = take n (filter (\<lambda>p. idle \<le> snd (snd p)) (gs_pending g))
      in (Inr (map fst taken),
          g\<lparr>gs_pending := map (\<lambda>p. if p \<in> set taken then (fst p, w, 0) else p) (gs_pending g)\<rparr>))"

definition group_ops :: "string \<Rightarrow> group_state redis_ops" where
  "group_ops key =
     \<lparr>ro_create = (\<lambda>g. (Some (ResponseError ''BUSYGROUP Consumer Group name already exists''), g)),
      ro_claim = group_claim,
      ro_read = (\<lambda>w n block g.
        (Inr (if take (nat n) (gs_new g) = [] then [] else [(key, take (nat n) (gs_new g))]),
         g\<lparr>gs_new := drop (nat n) (gs_new g),
           gs_pending := gs_pending g @ map (\<lambda>m. (m, w, 0)) (take (nat n) (gs_new g))\<rparr>)),
      ro_pending = (\<lambda>n g. Inr (map (\<lambda>p. (fst (fst p), fst (snd p))) (take n (gs_pending g)))),
      ro_ack = (\<lambda>i g. (None, g\<lparr>gs_pending := filter (\<lambda>p. fst (fst p) \<noteq> i) (gs_pending g)\<rparr>))\<rparr>"

definition group_usable :: "(string \<Rightarrow> (string, string) dict) \<Rightarrow> group_state \<Rightarrow> bool" where
  "group_usable body g \<longleftrightarrow> length (gs_pending g) \<le> 1000 \<and>
     list_all (\<lambda>p. snd (fst p) = body (fst (fst p))) (gs_pending g)"

definition group_owned :: "string \<Rightarrow> group_state \<Rightarrow> string set" where
  "group_owned w g = set (map (\<lambda>p. fst (fst p)) (filter (\<lambda>p. fst (snd p) = w) (gs_pending g)))"

lemma group_claim_owned: "group_owned w g \<subseteq> group_owned w (snd (group_claim w idle n g))"
proof
  fix i assume "i \<in> group_owned w g"
  then obtain p where p: "p \<in> set (gs_pending g)" "fst (snd p) = w" "i = fst (fst p)"
    by (auto simp: group_owned_def)
  define f where "f = (\<lambda>p. if p \<in> set (take n (filter (\<lambda>p. idle \<le> snd (snd p)) (gs_pending g))) then (fst p, w, 0) else p)"
  have "gs_pending (snd (group_claim w idle n g)) = map f (gs_pending g)"
    by (simp add: group_claim_def Let_def f_def)
  moreover have "fst (f p) = fst p" "fst (snd (f p)) = w" using p(2) by (simp_all add: f_def)
  moreover have "f p \<in> set (map f (gs_pending g))" using p(1) by simp
  ultimately have "f p \<in> set (filter (\<lambda>p. fst (snd p) = w) (gs_pending (snd (group_claim w idle n g))))"
    "i = fst (fst (f p))" using p(3) by simp_all
  then show "i \<in> group_owned w (snd (group_claim w idle n g))"
    unfolding group_owned_def set_map by (rule image_eqI [rotated])
qed

lemma group_pending_all:
  "length (gs_pending g) \<le> 1000 \<Longrightarrow> \<exists>ps. ro_pending (group_ops key) 1000 g = Inr ps \<and>
     card (group_owned w g) \<le> length (filter (\<lambda>p. snd p = w) ps)"
proof -
  assume "length (gs_pending g) \<le> 1000"
  then have "ro_pending (group_ops key) 1000 g = Inr (map (\<lambda>p. (fst (fst p), fst (snd p))) (gs_pending g))"
    by (simp add: group_ops_def)
  moreover have "card (group_owned w g) \<le>
      length (filter (\<lambda>p. snd p = w) (map (\<lambda>p. (fst (fst p), fst (snd p))) (gs_pending g)))"
    unfolding group_owned_def filter_map o_def snd_conv length_map by (metis card_length length_map)
  ultimately show ?thesis by blast
qed

interpretation redis: consumer_group "group_ops key" worker "group_usable body" "group_owned worker" body
  for key worker body
proof unfold_locales
  fix r :: group_state and idle n msgs i and msg :: message
  assume ok: "group_usable body r"
  show "group_usable body (snd (ro_claim (group_ops key) worker idle n r))"
    using ok by (auto simp: group_ops_def group_claim_def Let_def group_usable_def list_all_iff)
  show "group_owned worker r \<subseteq> group_owned worker (snd (ro_claim (group_ops key) worker idle n r))"
    by (simp add: group_ops_def group_claim_owned)
  show "snd msg = body (fst msg)"
    if "fst (ro_claim (group_ops key) worker idle n r) = Inr msgs" "msg \<in> set msgs"
  proof -
    have "msg \<in> fst ` set (take n (filter (\<lambda>p. idle \<le> snd (snd p)) (gs_pending r)))"
      using that by (auto simp: group_ops_def group_claim_def Let_def)
    then obtain p where p: "p \<in> set (take n (filter (\<lambda>p. idle \<le> snd (snd p)) (gs_pending r)))" "msg = fst p"
      by blast
    then have "p \<in> set (gs_pending r)" using in_set_takeD by fastforce
    with ok p(2) show ?thesis by (simp add: group_usable_def list_all_iff)
  qed
  show "group_usable body (snd (ro_ack (group_ops key) i r))"
  proof -
    have "length (filter (\<lambda>p. fst (fst p) \<noteq> i) (gs_pending r)) \<le> 1000"
      using ok by (intro le_trans [OF length_filter_le]) (simp add: group_usable_def)
    with ok show ?thesis by (simp add: group_ops_def group_usable_def list_all_iff)
  qed
  show "group_owned worker r - {i} \<subseteq> group_owned worker (snd (ro_ack (group_ops key) i r))"
    by (auto simp: group_ops_def group_owned_def)
  show "finite (group_owned worker r)" by (simp add: group_owned_def)
  show "\<exists>ps. ro_pending (group_ops key) 1000 r = Inr ps \<and>
      card (group_owned worker r) \<le> length (filter (\<lambda>p. snd p = worker) ps)"
    using ok by (intro group_pending_all) (simp add: group_usable_def)
qed

text \<open>
  C22. Messages that cannot be parsed stop a worker for good. Once a consumer holds as many
  unacknowledged messages with an invalid timeout as it has job slots, it never asks for a new
  message again, however often the loop runs, however much time passes, and whatever other
  clients do as long as they leave it these messages: its slots count as taken, and the
  messages are never acknowledged.
\<close>

theorem unreadable_messages_stop_worker:
  assumes "consumer_group ops (cc_worker cfg) usable owned body"
    and "usable (co_redis s)" and "bad \<subseteq> owned (co_redis s)"
    and "\<forall>i\<in>bad. \<forall>key. \<exists>e. parse_message loads key i (body i) = Inl e"
    and "cc_max cfg \<le> int (card bad)"
    and "\<forall>f r. Others f \<in> set xs \<and> usable r \<and> bad \<subseteq> owned r \<longrightarrow> usable (f r) \<and> bad \<subseteq> owned (f r)"
  shows "\<exists>s1. start ops cfg loads (Some handler) s xs = Inr s1 \<and> reads (co_log s1) = reads (co_log s)"
proof -
  note group = assms(1)
  have "consumer_group.unreadable body loads bad"
    using assms(4) by (simp add: consumer_group.unreadable_def [OF group])
  moreover have "consumer_group.holds usable owned bad (s\<lparr>co_running := True\<rparr>)"
    using assms(2,3) by (simp add: consumer_group.holds_def [OF group])
  moreover have "list_all (consumer_group.keeps usable owned bad) xs"
    using assms(6) by (auto simp: consumer_group.keeps_def [OF group] list_all_iff split: outside.split)
  ultimately have "reads (co_log (foldl (round ops cfg loads handler) (s\<lparr>co_running := True\<rparr>) xs)) =
      reads (co_log (s\<lparr>co_running := True\<rparr>))"
    by (intro consumer_group.rounds_hold [OF group _ refl assms(5)])
  then show ?thesis by (simp add: start_def)
qed

definition bad_message :: message where
  "bad_message = (''1-0'', [(''timeout_s'', ''ten'')])"

definition stuck_group :: group_state where
  "stuck_group = \<lparr>gs_new = [(''2-0'', [])], gs_pending = [(bad_message, ''w'', 0)]\<rparr>"

lemma bad_message_unreadable: "\<exists>e. parse_message loads key ''1-0'' [(''timeout_s'', ''ten'')] = Inl e"
  by (simp add: parse_message_def dict_get_def parse_int_def parse_digits_def py_strip_def is_space_def is_digit_def
    Let_def)

theorem unreadable_messages_stop_worker_witness:
  "\<exists>s1. start (group_ops ''jobs'') \<lparr>cc_stream = ''jobs'', cc_worker = ''w'', cc_max = 1, cc_claim = 300000, cc_block = 5000\<rparr>
       (\<lambda>_. None) (Some (\<lambda>j (n::nat). (None, Suc n)))
       \<lparr>co_redis = stuck_group, co_world = 0, co_connected = True, co_running = False, co_log = []\<rparr>
       [Others (\<lambda>g. g), Others (\<lambda>g. g)] = Inr s1 \<and> reads (co_log s1) = 0"
proof -
  let ?body = "\<lambda>i::string. [(''timeout_s'', ''ten'')]"
  let ?cfg = "\<lparr>cc_stream = ''jobs'', cc_worker = ''w'', cc_max = 1, cc_claim = 300000, cc_block = 5000\<rparr>"
  let ?s = "\<lparr>co_redis = stuck_group, co_world = 0 :: nat, co_connected = True, co_running = False, co_log = []\<rparr>"
  have "consumer_group (group_ops ''jobs'') (cc_worker ?cfg) (group_usable ?body) (group_owned ''w'') ?body"
    by (simp add: redis.consumer_group_axioms)
  from unreadable_messages_stop_worker [OF this, of ?s "{''1-0''}" "\<lambda>_. None" "[Others (\<lambda>g. g), Others (\<lambda>g. g)]"
      "\<lambda>j n. (None, Suc n)"]
  show ?thesis
    by (simp add: stuck_group_def bad_message_def group_usable_def group_owned_def bad_message_unreadable)
qed

end
