(* ===== verification/Config.thy ===== *)
theory Config
  imports Worker
begin

text \<open>
  The configuration of the worker (src/config.py): the substitution of environment variables,
  the loading of the YAML files into the settings, and the cached configuration.

  What \<open>open\<close> and \<open>yaml.safe_load\<close> give for a path is a parameter, with mappings as \<open>JObj\<close>;
  so are the environment and the name of the host. A value that the code does not convert
  stays the value of the file.
\<close>

section \<open>Environment variables\<close>

type_synonym environ = "(string, string) dict"

text \<open>\<open>expr.split(":-", 1)\<close> when the separator occurs.\<close>

fun split_default :: "string \<Rightarrow> (string \<times> string) option" where
  "split_default [] = None"
| "split_default (c # s) =
     (if prefix '':-'' (c # s) then Some ([], drop 1 s)
      else map_option (\<lambda>(v, d). (c # v, d)) (split_default s))"

definition replacement :: "environ \<Rightarrow> string \<Rightarrow> string" where
  "replacement env expr =
     (case split_default expr of
        Some (var, dflt) \<Rightarrow> dict_get_or env (py_strip var) (py_strip dflt)
      | None \<Rightarrow> dict_get_or env (py_strip expr) [])"

text \<open>A match of \<open>\$\{([^}]+)\}\<close> at the start: the group and what follows the match.\<close>

definition env_match :: "string \<Rightarrow> (string \<times> string) option" where
  "env_match s =
     (let body = drop 2 s; expr = takeWhile (\<lambda>c. c \<noteq> CHR ''}'') body;
          rest = dropWhile (\<lambda>c. c \<noteq> CHR ''}'') body
      in if prefix ''${'' s \<and> expr \<noteq> [] \<and> rest \<noteq> [] then Some (expr, tl rest) else None)"

lemma env_match_shorter: "env_match s = Some (e, t) \<Longrightarrow> length t < length s"
proof -
  assume m: "env_match s = Some (e, t)"
  define rest where "rest = dropWhile (\<lambda>c. c \<noteq> CHR ''}'') (drop 2 s)"
  have t: "t = tl rest" "rest \<noteq> []" using m by (simp_all add: env_match_def Let_def rest_def split: if_splits)
  have "length rest \<le> length (drop 2 s)" unfolding rest_def by (rule length_dropWhile_le)
  with t show ?thesis by (cases rest) simp_all
qed

function resolve_env :: "environ \<Rightarrow> string \<Rightarrow> string" where
  "resolve_env env [] = []"
| "resolve_env env (c # s) =
     (case env_match (c # s) of
        Some (expr, rest) \<Rightarrow> replacement env expr @ resolve_env env rest
      | None \<Rightarrow> c # resolve_env env s)"
  by pat_completeness auto
termination
proof (relation "measure (\<lambda>(env, s). length s)")
  fix env c s x expr rest
  assume "env_match (c # s) = Some x" "(expr, rest) = x"
  then show "((env, rest), env, c # s) \<in> measure (\<lambda>(env, s). length s)"
    using env_match_shorter [of "c # s" expr rest] by simp
qed simp_all

definition resolve_item :: "environ \<Rightarrow> json \<Rightarrow> json" where
  "resolve_item env x = (case x of JStr s \<Rightarrow> JStr (resolve_env env s) | _ \<Rightarrow> x)"

fun resolve_value :: "environ \<Rightarrow> json \<Rightarrow> json" where
  "resolve_value env (JStr s) = JStr (resolve_env env s)"
| "resolve_value env (JObj kvs) = JObj (map (\<lambda>(k, v). (k, resolve_value env v)) kvs)"
| "resolve_value env (JArr xs) = JArr (map (resolve_item env) xs)"
| "resolve_value env v = v"

text \<open>\<open>_resolve_dict\<close> of what a file holds: only a mapping has \<open>items\<close>.\<close>

definition resolve_dict :: "environ \<Rightarrow> json \<Rightarrow> json result" where
  "resolve_dict env raw = (case raw of JObj kvs \<Rightarrow> Inr (resolve_value env raw) | _ \<Rightarrow> Inl OtherError)"

section \<open>Access and conversion\<close>

text \<open>\<open>d[k]\<close>, \<open>d.get(k, x)\<close>, \<open>int(v)\<close> and \<open>bool(v)\<close> on a value of a file.\<close>

definition obj_field :: "json \<Rightarrow> string \<Rightarrow> json result" where
  "obj_field d k =
     (case d of
        JObj kvs \<Rightarrow> (case dict_get kvs k of None \<Rightarrow> Inl (KeyError k) | Some v \<Rightarrow> Inr v)
      | _ \<Rightarrow> Inl TypeError)"

definition obj_get :: "json \<Rightarrow> string \<Rightarrow> json \<Rightarrow> json result" where
  "obj_get d k x = (case d of JObj kvs \<Rightarrow> Inr (dict_get_or kvs k x) | _ \<Rightarrow> Inl OtherError)"

fun py_int :: "json \<Rightarrow> int result" where
  "py_int (JInt i) = Inr i"
| "py_int (JBool b) = Inr (if b then 1 else 0)"
| "py_int (JNum x) = Inr (if 0 \<le> x then \<lfloor>x\<rfloor> else \<lceil>x\<rceil>)"
| "py_int (JStr s) =
     (case parse_int s of None \<Rightarrow> Inl (ValueError ''invalid literal for int()'') | Some i \<Rightarrow> Inr i)"
| "py_int _ = Inl TypeError"

definition int_field :: "json \<Rightarrow> string \<Rightarrow> int result" where
  "int_field d k = bind_result (obj_field d k) py_int"

definition bool_field :: "json \<Rightarrow> string \<Rightarrow> bool result" where
  "bool_field d k = bind_result (obj_field d k) (\<lambda>v. Inr (truthy v))"

text \<open>\<open>_resolve_env\<close> of a value: \<open>re.sub\<close> wants a text.\<close>

definition resolve_text :: "environ \<Rightarrow> json \<Rightarrow> string result" where
  "resolve_text env v = (case v of JStr s \<Rightarrow> Inr (resolve_env env s) | _ \<Rightarrow> Inl TypeError)"

type_synonym files = "string \<Rightarrow> json result"

definition load_resolved :: "files \<Rightarrow> environ \<Rightarrow> string \<Rightarrow> json result" where
  "load_resolved files env path = bind_result (files path) (resolve_dict env)"

section \<open>The settings\<close>

record worker_settings =
  wk_id :: string
  wk_group :: json
  wk_max_jobs :: int
  wk_shutdown :: int

record redis_settings =
  rd_host :: json
  rd_port :: int
  rd_db :: int
  rd_password :: json
  rd_stream :: json
  rd_claim_timeout :: int
  rd_block :: int

record docker_settings =
  ds_host :: json
  ds_image :: json
  ds_network :: json
  ds_pull :: json

record loaded_profile = resource_profile +
  rp_description :: json

record sandbox_settings =
  ss_default_profile :: json
  ss_default_timeout :: int
  ss_max_timeout :: int
  ss_mount :: json
  ss_readonly :: bool
  ss_network :: bool
  ss_tmpfs :: int
  ss_drop_all :: bool
  ss_profiles :: "(string, loaded_profile) dict"
  ss_apparmor_dir :: json
  ss_apparmor :: bool

record health_settings =
  he_port :: int
  he_path :: json
  he_interval :: int
  he_max_failures :: int
  he_restart :: bool

record monitoring_settings =
  mo_level :: json
  mo_json_logs :: bool
  mo_interval :: int

record egress_settings =
  es_policy :: json
  es_rules :: json
  es_dns :: json
  es_search :: json

record app_config =
  ac_worker :: worker_settings
  ac_redis :: redis_settings
  ac_docker :: docker_settings
  ac_sandbox :: sandbox_settings
  ac_health :: health_settings
  ac_monitoring :: monitoring_settings
  ac_egress :: egress_settings

definition load_security_network :: "files \<Rightarrow> environ \<Rightarrow> string \<Rightarrow> egress_settings result" where
  "load_security_network files env path =
     bind_result (load_resolved files env path) (\<lambda>resolved.
     bind_result (obj_get resolved ''network'' (JObj [])) (\<lambda>net.
     bind_result (obj_get net ''default_policy'' (JStr ''deny'')) (\<lambda>policy.
     bind_result (obj_get net ''egress_rules'' (JObj [])) (\<lambda>rules.
     bind_result (obj_get net ''dns_servers'' (JArr [])) (\<lambda>dns.
     bind_result (obj_get net ''dns_search_domains'' (JArr [])) (\<lambda>search.
     Inr \<lparr>es_policy = policy, es_rules = rules, es_dns = dns, es_search = search\<rparr>))))))"

definition load_profile_of :: "json \<Rightarrow> loaded_profile result" where
  "load_profile_of d =
     bind_result (int_field d ''cpu_shares'') (\<lambda>shares.
     bind_result (int_field d ''cpu_quota'') (\<lambda>quota.
     bind_result (int_field d ''cpu_period'') (\<lambda>period.
     bind_result (int_field d ''memory_mb'') (\<lambda>memory.
     bind_result (int_field d ''memory_swap_mb'') (\<lambda>swap.
     bind_result (int_field d ''disk_size_gb'') (\<lambda>disk.
     bind_result (int_field d ''pids_limit'') (\<lambda>pids.
     bind_result (obj_field d ''description'') (\<lambda>descr.
     Inr \<lparr>rp_cpu_shares = shares, rp_cpu_quota = quota, rp_cpu_period = period, rp_memory = memory,
          rp_swap = swap, rp_disk = disk, rp_pids = pids, rp_description = descr\<rparr>))))))))"

fun load_profile_list :: "(string \<times> json) list \<Rightarrow> (string, loaded_profile) dict \<Rightarrow> (string, loaded_profile) dict result" where
  "load_profile_list [] profiles = Inr profiles"
| "load_profile_list ((name, d) # ps) profiles =
     bind_result (load_profile_of d) (\<lambda>p. load_profile_list ps (dict_set name p profiles))"

definition load_profiles :: "files \<Rightarrow> environ \<Rightarrow> string \<Rightarrow> (string, loaded_profile) dict result" where
  "load_profiles files env path =
     bind_result (load_resolved files env path) (\<lambda>resolved.
     bind_result (obj_get resolved ''profiles'' (JObj [])) (\<lambda>ps.
     case ps of
       JObj kvs \<Rightarrow>
         bind_result (load_profile_list kvs []) (\<lambda>profiles.
         if profiles = [] then Inl (ConfigError ''No resource profiles defined'') else Inr profiles)
     | _ \<Rightarrow> Inl OtherError))"

definition load_worker :: "environ \<Rightarrow> string \<Rightarrow> json \<Rightarrow> worker_settings result" where
  "load_worker env host w =
     bind_result (obj_get w ''id'' (JStr (''worker-'' @ host))) (\<lambda>raw.
     bind_result (resolve_text env raw) (\<lambda>i.
     bind_result (obj_field w ''group'') (\<lambda>group.
     bind_result (int_field w ''max_concurrent_jobs'') (\<lambda>jobs.
     bind_result (int_field w ''shutdown_timeout'') (\<lambda>shutdown.
     Inr \<lparr>wk_id = i, wk_group = group, wk_max_jobs = jobs, wk_shutdown = shutdown\<rparr>)))))"

definition load_redis :: "json \<Rightarrow> redis_settings result" where
  "load_redis r =
     bind_result (obj_field r ''host'') (\<lambda>host.
     bind_result (int_field r ''port'') (\<lambda>port.
     bind_result (int_field r ''db'') (\<lambda>db.
     bind_result (obj_get r ''password'' (JStr [])) (\<lambda>password.
     bind_result (obj_field r ''stream'') (\<lambda>stream.
     bind_result (int_field r ''claim_timeout_ms'') (\<lambda>claim.
     bind_result (int_field r ''block_ms'') (\<lambda>block.
     Inr \<lparr>rd_host = host, rd_port = port, rd_db = db, rd_password = password, rd_stream = stream,
          rd_claim_timeout = claim, rd_block = block\<rparr>)))))))"

definition load_docker :: "json \<Rightarrow> docker_settings result" where
  "load_docker d =
     bind_result (obj_field d ''host'') (\<lambda>host.
     bind_result (obj_field d ''default_image'') (\<lambda>image.
     bind_result (obj_field d ''network'') (\<lambda>network.
     bind_result (obj_field d ''pull_policy'') (\<lambda>pull.
     Inr \<lparr>ds_host = host, ds_image = image, ds_network = network, ds_pull = pull\<rparr>))))"

definition load_sandbox :: "files \<Rightarrow> environ \<Rightarrow> string \<Rightarrow> json \<Rightarrow> sandbox_settings result" where
  "load_sandbox files env profiles_path s =
     bind_result (obj_field s ''default_profile'') (\<lambda>profile.
     bind_result (int_field s ''default_timeout_s'') (\<lambda>dflt.
     bind_result (int_field s ''max_timeout_s'') (\<lambda>top.
     bind_result (obj_field s ''workspace_mount'') (\<lambda>mount.
     bind_result (bool_field s ''read_only_rootfs'') (\<lambda>readonly.
     bind_result (bool_field s ''default_network_access'') (\<lambda>network.
     bind_result (int_field s ''tmpfs_size_mb'') (\<lambda>tmpfs.
     bind_result (bool_field s ''drop_all_capabilities'') (\<lambda>drop_all.
     bind_result (load_profiles files env profiles_path) (\<lambda>profiles.
     bind_result (obj_get s ''apparmor_profile_dir'' (JStr ''/etc/paperclip/apparmor'')) (\<lambda>dir.
     bind_result (obj_get s ''apparmor_enabled'' (JBool True)) (\<lambda>enabled.
     Inr \<lparr>ss_default_profile = profile, ss_default_timeout = dflt, ss_max_timeout = top, ss_mount = mount,
          ss_readonly = readonly, ss_network = network, ss_tmpfs = tmpfs, ss_drop_all = drop_all,
          ss_profiles = profiles, ss_apparmor_dir = dir, ss_apparmor = truthy enabled\<rparr>)))))))))))"

definition load_health :: "json \<Rightarrow> health_settings result" where
  "load_health h =
     bind_result (int_field h ''port'') (\<lambda>port.
     bind_result (obj_field h ''path'') (\<lambda>path.
     bind_result (int_field h ''check_interval_s'') (\<lambda>interval.
     bind_result (int_field h ''max_failures'') (\<lambda>failures.
     bind_result (bool_field h ''auto_restart'') (\<lambda>restart.
     Inr \<lparr>he_port = port, he_path = path, he_interval = interval, he_max_failures = failures,
          he_restart = restart\<rparr>)))))"

definition load_monitoring :: "json \<Rightarrow> monitoring_settings result" where
  "load_monitoring m =
     bind_result (obj_field m ''log_level'') (\<lambda>level.
     bind_result (bool_field m ''json_logs'') (\<lambda>json_logs.
     bind_result (int_field m ''metrics_interval_s'') (\<lambda>interval.
     Inr \<lparr>mo_level = level, mo_json_logs = json_logs, mo_interval = interval\<rparr>)))"

definition read_config ::
    "files \<Rightarrow> environ \<Rightarrow> string \<Rightarrow> string \<Rightarrow> string option \<Rightarrow> string option \<Rightarrow> app_config result" where
  "read_config files env host config_dir worker_path profiles_path =
     (let wp = (case worker_path of None \<Rightarrow> path_join config_dir ''worker.yaml'' | Some p \<Rightarrow> p);
          pp = (case profiles_path of None \<Rightarrow> path_join config_dir ''resource_profiles.yaml'' | Some p \<Rightarrow> p)
      in bind_result (load_resolved files env wp) (\<lambda>resolved.
         bind_result (obj_field resolved ''worker'') (\<lambda>w.
         bind_result (obj_field resolved ''redis'') (\<lambda>r.
         bind_result (obj_field resolved ''docker'') (\<lambda>d.
         bind_result (obj_field resolved ''sandbox'') (\<lambda>s.
         bind_result (obj_field resolved ''health'') (\<lambda>h.
         bind_result (obj_field resolved ''monitoring'') (\<lambda>m.
         bind_result (load_worker env host w) (\<lambda>worker.
         bind_result (load_redis r) (\<lambda>redis.
         bind_result (load_docker d) (\<lambda>docker.
         bind_result (load_sandbox files env pp s) (\<lambda>sandbox.
         bind_result (load_health h) (\<lambda>health.
         bind_result (load_monitoring m) (\<lambda>monitoring.
         bind_result (load_security_network files env (path_join config_dir ''security.yaml'')) (\<lambda>egress.
         Inr \<lparr>ac_worker = worker, ac_redis = redis, ac_docker = docker, ac_sandbox = sandbox,
              ac_health = health, ac_monitoring = monitoring, ac_egress = egress\<rparr>)))))))))))))))"

text \<open>The cached configuration is a variable of the module.\<close>

definition load_config ::
    "files \<Rightarrow> environ \<Rightarrow> string \<Rightarrow> string \<Rightarrow> string option \<Rightarrow> string option \<Rightarrow> app_config option \<Rightarrow>
     app_config result \<times> app_config option" where
  "load_config files env host config_dir worker_path profiles_path cached =
     (case cached of
        Some c \<Rightarrow> (Inr c, cached)
      | None \<Rightarrow>
          (case read_config files env host config_dir worker_path profiles_path of
             Inl e \<Rightarrow> (Inl e, None) | Inr c \<Rightarrow> (Inr c, Some c)))"

definition get_config :: "files \<Rightarrow> environ \<Rightarrow> string \<Rightarrow> app_config option \<Rightarrow> app_config result \<times> app_config option" where
  "get_config files env host cached = load_config files env host ''config'' None None cached"

section \<open>What is substituted\<close>

text \<open>A template: plain text and the two forms of a variable, how they are written and what they stand for.\<close>

datatype piece = Plain string | Var string | VarOr string string

fun show_piece :: "piece \<Rightarrow> string" where
  "show_piece (Plain t) = t"
| "show_piece (Var v) = ''${'' @ v @ ''}''"
| "show_piece (VarOr v d) = ''${'' @ v @ '':-'' @ d @ ''}''"

fun expand :: "environ \<Rightarrow> piece \<Rightarrow> string" where
  "expand env (Plain t) = t"
| "expand env (Var v) = dict_get_or env (py_strip v) []"
| "expand env (VarOr v d) = dict_get_or env (py_strip v) (py_strip d)"

text \<open>Plain text has no dollar, a name no colon and no brace, a default no closing brace.\<close>

fun plain_piece :: "piece \<Rightarrow> bool" where
  "plain_piece (Plain t) = (CHR ''$'' \<notin> set t)"
| "plain_piece (Var v) = (v \<noteq> [] \<and> CHR '':'' \<notin> set v \<and> CHR ''}'' \<notin> set v)"
| "plain_piece (VarOr v d) = (CHR '':'' \<notin> set v \<and> CHR ''}'' \<notin> set v \<and> CHR ''}'' \<notin> set d)"

lemma split_default_none: "CHR '':'' \<notin> set v \<Longrightarrow> split_default v = None"
  by (induction v) auto

lemma split_default_some: "CHR '':'' \<notin> set v \<Longrightarrow> split_default (v @ '':-'' @ d) = Some (v, d)"
  by (induction v) auto

lemma env_match_braces:
  "e \<noteq> [] \<Longrightarrow> CHR ''}'' \<notin> set e \<Longrightarrow> env_match (''${'' @ e @ ''}'' @ s) = Some (e, s)"
proof -
  assume e: "e \<noteq> []" "CHR ''}'' \<notin> set e"
  have "takeWhile (\<lambda>c. c \<noteq> CHR ''}'') (e @ ''}'' @ s) = e" using e(2) by (subst takeWhile_append2) auto
  moreover have "dropWhile (\<lambda>c. c \<noteq> CHR ''}'') (e @ ''}'' @ s) = ''}'' @ s" using e(2) by (subst dropWhile_append2) auto
  ultimately show ?thesis using e(1) by (simp add: env_match_def Let_def)
qed

lemma env_match_other: "c \<noteq> CHR ''$'' \<Longrightarrow> env_match (c # s) = None"
  by (simp add: env_match_def)

lemma resolve_plain: "CHR ''$'' \<notin> set t \<Longrightarrow> resolve_env env (t @ s) = t @ resolve_env env s"
  by (induction t) (auto simp: env_match_other)

lemma resolve_braces:
  "e \<noteq> [] \<Longrightarrow> CHR ''}'' \<notin> set e \<Longrightarrow>
     resolve_env env (''${'' @ e @ ''}'' @ s) = replacement env e @ resolve_env env s"
  using env_match_braces [of e s] by simp

lemma resolve_piece:
  "plain_piece p \<Longrightarrow> resolve_env env (show_piece p @ s) = expand env p @ resolve_env env s"
proof (cases p)
  case (Plain t)
  then show "plain_piece p \<Longrightarrow> ?thesis" by (simp add: resolve_plain)
next
  case (Var v)
  assume "plain_piece p"
  then have v: "v \<noteq> []" "CHR ''}'' \<notin> set v" "split_default v = None"
    by (simp_all add: Var split_default_none)
  have "show_piece p @ s = ''${'' @ v @ ''}'' @ s" by (simp add: Var)
  then show ?thesis using resolve_braces [OF v(1,2), of env s] v(3) by (simp only:) (simp add: Var replacement_def)
next
  case (VarOr v d)
  assume "plain_piece p"
  then have v: "v @ '':-'' @ d \<noteq> []" "CHR ''}'' \<notin> set (v @ '':-'' @ d)" "split_default (v @ '':-'' @ d) = Some (v, d)"
    using split_default_some [of v d] by (simp_all add: VarOr)
  have "show_piece p @ s = ''${'' @ (v @ '':-'' @ d) @ ''}'' @ s" by (simp add: VarOr)
  then show ?thesis using resolve_braces [OF v(1,2), of env s] v(3)
    by (simp only: replacement_def) (simp add: VarOr)
qed

text \<open>
  C23. The substitution equals its specification on every template whose defaults hold no
  closing brace: each variable is replaced by its value, or by its default (nothing without
  one) when it is not set, with blanks around names and defaults removed, the rest of the text
  is kept, and no value is substituted again.
\<close>

theorem resolve_env_template:
  "list_all plain_piece ps \<Longrightarrow>
     resolve_env env (concat (map show_piece ps)) = concat (map (expand env) ps)"
  by (induction ps) (simp_all add: resolve_piece)

theorem resolve_env_template_witness:
  "resolve_env [(''A'', ''${B}'')] ''x${A}-${C:- d }'' = ''x${B}-d''"
  using resolve_env_template [of "[Plain ''x'', Var ''A'', Plain ''-'', VarOr ''C'' '' d '']" "[(''A'', ''${B}'')]"]
  by (simp add: dict_get_or_def dict_get_def py_strip_def is_space_def)

section \<open>The shipped configuration\<close>

text \<open>config/worker.yaml as the loader gives it.\<close>

definition shipped_worker :: json where
  "shipped_worker = JObj
     [(''id'', JStr ''${WORKER_ID:-worker-${HOSTNAME}}''), (''group'', JStr ''execution-workers''),
      (''max_concurrent_jobs'', JInt 4), (''shutdown_timeout'', JInt 30)]"

definition shipped_redis :: json where
  "shipped_redis = JObj
     [(''host'', JStr ''${REDIS_HOST:-localhost}''), (''port'', JStr ''${REDIS_PORT:-6379}''),
      (''db'', JStr ''${REDIS_DB:-0}''), (''password'', JStr ''${REDIS_PASSWORD:-}''),
      (''stream'', JStr ''jobs:execution''), (''claim_timeout_ms'', JInt 300000), (''block_ms'', JInt 5000)]"

definition shipped_docker :: json where
  "shipped_docker = JObj
     [(''host'', JStr ''${DOCKER_HOST:-unix:///var/run/docker.sock}''),
      (''default_image'', JStr ''${WORKER_EXEC_IMAGE:-execution-sandbox:latest}''),
      (''network'', JStr ''execution-sandbox-net''), (''pull_policy'', JStr ''missing'')]"

definition shipped_sandbox :: json where
  "shipped_sandbox = JObj
     [(''default_profile'', JStr ''medium''), (''default_timeout_s'', JInt 600), (''max_timeout_s'', JInt 3600),
      (''workspace_mount'', JStr ''/workspace''), (''read_only_rootfs'', JBool True),
      (''default_network_access'', JBool False), (''tmpfs_size_mb'', JInt 256),
      (''drop_all_capabilities'', JBool True)]"

definition shipped_health :: json where
  "shipped_health = JObj
     [(''port'', JStr ''${HEALTH_PORT:-8080}''), (''path'', JStr ''/health''), (''check_interval_s'', JInt 10),
      (''max_failures'', JInt 3), (''auto_restart'', JBool True)]"

definition shipped_monitoring :: json where
  "shipped_monitoring = JObj
     [(''log_level'', JStr ''${LOG_LEVEL:-info}''), (''json_logs'', JBool True), (''metrics_interval_s'', JInt 30)]"

definition shipped_config :: json where
  "shipped_config = JObj
     [(''worker'', shipped_worker), (''redis'', shipped_redis), (''docker'', shipped_docker),
      (''sandbox'', shipped_sandbox), (''health'', shipped_health), (''monitoring'', shipped_monitoring)]"

lemma read_config_worker:
  assumes "read_config files env host dir None None = Inr c"
  shows "\<exists>resolved w. load_resolved files env (path_join dir ''worker.yaml'') = Inr resolved \<and>
    obj_field resolved ''worker'' = Inr w \<and> load_worker env host w = Inr (ac_worker c)"
  using assms unfolding read_config_def Let_def by (auto simp: bind_result_Inr)

lemma load_worker_id:
  "load_worker env host w = Inr ws \<Longrightarrow> obj_get w ''id'' (JStr (''worker-'' @ host)) = Inr raw \<Longrightarrow>
     resolve_text env raw = Inr i \<Longrightarrow> wk_id ws = i"
  by (auto simp: load_worker_def bind_result_Inr)

lemma shipped_id_pieces:
  "resolve_env env ''${WORKER_ID:-worker-${HOSTNAME}}'' =
     dict_get_or env ''WORKER_ID'' ''worker-${HOSTNAME'' @ ''}''"
proof -
  have "resolve_env env (''${'' @ ''WORKER_ID:-worker-${HOSTNAME'' @ ''}'' @ ''}'') =
      replacement env ''WORKER_ID:-worker-${HOSTNAME'' @ resolve_env env ''}''"
    by (rule resolve_braces) simp_all
  moreover have "resolve_env env ''}'' = ''}''" by (simp add: env_match_other)
  moreover have "replacement env ''WORKER_ID:-worker-${HOSTNAME'' = dict_get_or env ''WORKER_ID'' ''worker-${HOSTNAME''"
    by (simp add: replacement_def py_strip_def is_space_def)
  ultimately show ?thesis by simp
qed

lemma resolve_hostname: "resolve_env env ''worker-${HOSTNAME}'' = ''worker-'' @ dict_get_or env ''HOSTNAME'' []"
  using resolve_env_template [of "[Plain ''worker-'', Var ''HOSTNAME'']" env]
  by (simp add: py_strip_def is_space_def)

text \<open>
  The worker id of the shipped configuration. The braces of its template are nested, which
  the substitution does not support: a WORKER_ID that is set gets a closing brace appended, and
  without one every worker whose environment does not export HOSTNAME has the same id
  \<open>worker-\<close>, whatever the name of its host is.
\<close>

theorem shipped_worker_id:
  assumes "files (path_join dir ''worker.yaml'') = Inr shipped_config"
    and "read_config files env host dir None None = Inr c"
    and "CHR ''$'' \<notin> set (dict_get_or env ''WORKER_ID'' [])"
  shows "wk_id (ac_worker c) =
    (case dict_get env ''WORKER_ID'' of
       Some w \<Rightarrow> w @ ''}''
     | None \<Rightarrow> ''worker-'' @ dict_get_or env ''HOSTNAME'' [])"
proof -
  obtain resolved w where w: "load_resolved files env (path_join dir ''worker.yaml'') = Inr resolved"
      "obj_field resolved ''worker'' = Inr w" "load_worker env host w = Inr (ac_worker c)"
    using read_config_worker [OF assms(2)] by blast
  have "w = resolve_value env shipped_worker"
    using w(1,2) assms(1)
    by (auto simp: load_resolved_def resolve_dict_def shipped_config_def obj_field_def dict_get_def)
  then have "obj_get w ''id'' (JStr (''worker-'' @ host)) = Inr (JStr (dict_get_or env ''WORKER_ID'' ''worker-${HOSTNAME'' @ ''}''))"
    using shipped_id_pieces [of env]
    by (simp add: shipped_worker_def obj_get_def dict_get_or_def dict_get_def del: resolve_env.simps)
  then have "wk_id (ac_worker c) = resolve_env env (dict_get_or env ''WORKER_ID'' ''worker-${HOSTNAME'' @ ''}'')"
    using load_worker_id [OF w(3)] by (simp add: resolve_text_def del: resolve_env.simps)
  then show ?thesis
    using assms(3) resolve_hostname [of env] resolve_plain [of "the (dict_get env ''WORKER_ID'') @ ''}''" env "[]"]
    by (cases "dict_get env ''WORKER_ID''") (simp_all add: dict_get_or_def del: resolve_env.simps(2))
qed

definition shipped_profile :: json where
  "shipped_profile = JObj
     [(''cpu_shares'', JInt 1024), (''cpu_quota'', JInt 100000), (''cpu_period'', JInt 100000),
      (''memory_mb'', JInt 2048), (''memory_swap_mb'', JInt 4096), (''disk_size_gb'', JInt 10),
      (''pids_limit'', JInt 200), (''description'', JStr ''Builds, test suites, repo management'')]"

definition sample_files :: files where
  "sample_files path =
     (if path = ''config/worker.yaml'' then Inr shipped_config
      else if path = ''config/resource_profiles.yaml''
        then Inr (JObj [(''profiles'', JObj [(''medium'', shipped_profile)])])
      else if path = ''config/security.yaml'' then Inr (JObj []) else Inl (FileNotFoundErr path))"

lemma sample_config:
  "map_sum (\<lambda>_. ()) (\<lambda>c. (wk_max_jobs (ac_worker c), rd_claim_timeout (ac_redis c),
       ss_default_timeout (ac_sandbox c), ss_max_timeout (ac_sandbox c)))
     (read_config sample_files [(''WORKER_ID'', ''w1'')] ''h'' ''config'' None None) = Inr (4, 300000, 600, 3600)"
  by code_simp

theorem shipped_worker_id_witness:
  "\<exists>c. read_config sample_files [(''WORKER_ID'', ''w1'')] ''h'' ''config'' None None = Inr c \<and>
     wk_id (ac_worker c) = ''w1}''"
proof -
  obtain c where c: "read_config sample_files [(''WORKER_ID'', ''w1'')] ''h'' ''config'' None None = Inr c"
    using sample_config by (cases "read_config sample_files [(''WORKER_ID'', ''w1'')] ''h'' ''config'' None None") auto
  have "sample_files (path_join ''config'' ''worker.yaml'') = Inr shipped_config"
    by (simp add: path_join_def sample_files_def)
  from shipped_worker_id [OF this c] have "wk_id (ac_worker c) = ''w1}''" by (simp add: dict_get_or_def dict_get_def)
  with c show ?thesis by (intro exI [of _ c] conjI)
qed

section \<open>Flags\<close>

text \<open>
  A flag of the sandbox that is given as a text, as every substituted value is, is on unless the
  text resolves to nothing: \<open>${READ_ONLY:-false}\<close> turns it on.
\<close>

lemma text_flag:
  assumes "resolve_dict env (JObj kvs) = Inr d" and "dict_get kvs k = Some (JStr t)"
  shows "bool_field d k = Inr (resolve_env env t \<noteq> [])"
proof -
  have "dict_get (map (\<lambda>(k, v). (k, resolve_value env v)) kvs) k = map_option (resolve_value env) (dict_get kvs k)"
    by (simp add: dict_get_def map_of_map split_beta)
  then show ?thesis
    using assms by (auto simp: resolve_dict_def bool_field_def obj_field_def simp del: resolve_env.simps)
qed

section \<open>The cache\<close>

text \<open>One load that succeeds fixes the configuration: later files, variables and paths are ignored.\<close>

lemma cached_config:
  assumes "load_config files env host dir wp pp cached = (Inr c, cached1)"
  shows "cached1 = Some c \<and> load_config files2 env2 host2 dir2 wp2 pp2 cached1 = (Inr c, cached1) \<and>
    get_config files2 env2 host2 cached1 = (Inr c, cached1)"
  using assms by (auto simp: load_config_def get_config_def split: option.splits sum.splits)

end
