(* ===== verification/Heartbeat.thy ===== *)
theory Heartbeat
  imports Prelude
begin

text \<open>
  The heartbeat metrics of the worker: the cycles and counters of the collector with its
  Prometheus export (src/heartbeat_metrics.py) and the table they are stored in (src/db.py).

  The SQL statements are functions on the list of rows. The connection has a transaction, as
  psycopg2 opens it with \<open>autocommit = False\<close>: the first statement begins one, \<open>commit\<close> ends it,
  \<open>NOW()\<close> is the time at which it began, and after a failed statement every other one fails until
  a rollback. Clock readings are arguments.
\<close>

section \<open>The table\<close>

record heartbeat =
  hb_agent :: string
  hb_worker :: string
  hb_scanned :: int
  hb_failures :: int
  hb_executed :: int
  hb_sleep :: int
  hb_duration :: int
  hb_status :: string
  hb_error :: string

record heartbeat_row =
  hw_id :: int
  hw_at :: real
  hw_record :: heartbeat

text \<open>No connection is \<open>None\<close>.\<close>

datatype transaction = NoTransaction | Begun real | Aborted

record metrics_db =
  db_conn :: "transaction option"
  db_rows :: "heartbeat_row list"

definition fits_integer :: "int \<Rightarrow> bool" where
  "fits_integer n \<longleftrightarrow> - (2 ^ 31) \<le> n \<and> n < 2 ^ 31"

text \<open>
  The types of the columns: VARCHAR(255), VARCHAR(50) and INTEGER. A text that is too long is
  refused also where its excess is spaces only, which PostgreSQL would cut off. psycopg2
  refuses a text with a NUL before it sends anything.
\<close>

definition sendable :: "heartbeat \<Rightarrow> bool" where
  "sendable r \<longleftrightarrow> CHR 0x00 \<notin> set (hb_agent r @ hb_worker r @ hb_status r @ hb_error r)"

definition storable :: "heartbeat \<Rightarrow> bool" where
  "storable r \<longleftrightarrow> char_count (hb_agent r) \<le> 255 \<and> char_count (hb_worker r) \<le> 255 \<and>
     char_count (hb_status r) \<le> 50 \<and>
     list_all fits_integer [hb_scanned r, hb_failures r, hb_executed r, hb_sleep r, hb_duration r]"

text \<open>A statement runs in a transaction; the first component is its \<open>NOW()\<close>.\<close>

definition run_statement :: "real \<Rightarrow> metrics_db \<Rightarrow> (real \<times> metrics_db) option" where
  "run_statement now db =
     (case db_conn db of
        Some NoTransaction \<Rightarrow> Some (now, db\<lparr>db_conn := Some (Begun now)\<rparr>)
      | Some (Begun t) \<Rightarrow> Some (t, db)
      | _ \<Rightarrow> None)"

definition commit :: "metrics_db \<Rightarrow> metrics_db" where
  "commit db = db\<lparr>db_conn := Some NoTransaction\<rparr>"

definition db_connect :: "metrics_db \<Rightarrow> metrics_db" where
  "db_connect db = commit db"

text \<open>The numbers of a BIGSERIAL column; gaps that failed inserts leave are not modelled.\<close>

definition insert_heartbeat :: "real \<Rightarrow> heartbeat \<Rightarrow> metrics_db \<Rightarrow> int result \<times> metrics_db" where
  "insert_heartbeat now r db =
     (case (if sendable r then run_statement now db else None) of
        None \<Rightarrow> (Inl OtherError, db)
      | Some (t, db1) \<Rightarrow>
          if storable r
          then let i = int (length (db_rows db1)) + 1
               in (Inr i, commit (db1\<lparr>db_rows := db_rows db1 @ [\<lparr>hw_id = i, hw_at = t, hw_record = r\<rparr>]\<rparr>))
          else (Inl OtherError, db1\<lparr>db_conn := Some Aborted\<rparr>))"

definition query :: "real \<Rightarrow> (real \<Rightarrow> heartbeat_row list \<Rightarrow> 'r) \<Rightarrow> metrics_db \<Rightarrow> 'r result \<times> metrics_db" where
  "query now f db =
     (case run_statement now db of
        None \<Rightarrow> (Inl OtherError, db) | Some (t, db1) \<Rightarrow> (Inr (f t (db_rows db1)), db1))"

definition recent :: "int \<Rightarrow> real \<Rightarrow> heartbeat_row list \<Rightarrow> heartbeat_row list" where
  "recent minutes t rows = filter (\<lambda>w. t - 60 * of_int minutes \<le> hw_at w) rows"

definition newest_first :: "heartbeat_row list \<Rightarrow> heartbeat_row list" where
  "newest_first rows = sort_key (\<lambda>w. - hw_at w) rows"

record agent_summary =
  sy_agent :: string
  sy_cycles :: int
  sy_scanned :: int
  sy_failures :: int
  sy_executed :: int
  sy_avg_sleep :: int
  sy_avg_duration :: int
  sy_last :: real
  sy_last_error :: "string option"

text \<open>\<open>AVG(x)::BIGINT\<close> rounds half away from zero; \<open>MAX\<close> of texts is the greatest one.\<close>

definition round_away :: "real \<Rightarrow> int" where
  "round_away x = (if 0 \<le> x then \<lfloor>x + 1/2\<rfloor> else \<lceil>x - 1/2\<rceil>)"

definition avg_bigint :: "int list \<Rightarrow> int" where
  "avg_bigint xs = round_away (of_int (sum_list xs) / of_nat (length xs))"

definition summary_of :: "heartbeat_row list \<Rightarrow> string \<Rightarrow> agent_summary" where
  "summary_of rows agent =
     (let ws = filter (\<lambda>w. hb_agent (hw_record w) = agent) rows;
          rs = map hw_record ws;
          errors = filter (\<lambda>x. x \<noteq> ''healthy'') (map hb_status rs)
      in \<lparr>sy_agent = agent, sy_cycles = int (length rs), sy_scanned = sum_list (map hb_scanned rs),
          sy_failures = sum_list (map hb_failures rs), sy_executed = sum_list (map hb_executed rs),
          sy_avg_sleep = avg_bigint (map hb_sleep rs), sy_avg_duration = avg_bigint (map hb_duration rs),
          sy_last = Max (set (map hw_at ws)),
          sy_last_error = (if errors = [] then None else Some (Max (set errors)))\<rparr>)"

definition db_agent_summary :: "int \<Rightarrow> real \<Rightarrow> metrics_db \<Rightarrow> agent_summary list result \<times> metrics_db" where
  "db_agent_summary minutes now =
     query now (\<lambda>t rows.
       let ws = recent minutes t rows
       in sort_key (\<lambda>x. - sy_last x) (map (summary_of ws) (remdups (map (hb_agent \<circ> hw_record) ws))))"

definition for_agent :: "string option \<Rightarrow> heartbeat_row list \<Rightarrow> heartbeat_row list" where
  "for_agent agent rows =
     (case agent of None \<Rightarrow> rows
      | Some a \<Rightarrow> if a = [] then rows else filter (\<lambda>w. hb_agent (hw_record w) = a) rows)"

definition db_recent_heartbeats :: "string option \<Rightarrow> nat \<Rightarrow> real \<Rightarrow> metrics_db \<Rightarrow> heartbeat_row list result \<times> metrics_db" where
  "db_recent_heartbeats agent limit now =
     query now (\<lambda>t rows. take limit (newest_first (for_agent agent rows)))"

text \<open>The sum of no rows is NULL, which is not greater than zero.\<close>

definition db_failure_rate :: "int \<Rightarrow> real \<Rightarrow> metrics_db \<Rightarrow> real result \<times> metrics_db" where
  "db_failure_rate minutes now =
     query now (\<lambda>t rows.
       let rs = map hw_record (recent minutes t rows); scanned = sum_list (map hb_scanned rs)
       in if 0 < scanned then of_int (sum_list (map hb_failures rs)) / of_int scanned else 0)"

definition db_sleep_trend :: "string option \<Rightarrow> nat \<Rightarrow> real \<Rightarrow> metrics_db \<Rightarrow> (real \<times> int \<times> string) list result \<times> metrics_db" where
  "db_sleep_trend agent limit now =
     query now (\<lambda>t rows. map (\<lambda>w. (hw_at w, hb_sleep (hw_record w), hb_agent (hw_record w)))
       (take limit (newest_first (for_agent agent rows))))"

definition db_close :: "metrics_db \<Rightarrow> metrics_db" where
  "db_close db = db\<lparr>db_conn := None\<rparr>"

definition db_health :: "real \<Rightarrow> metrics_db \<Rightarrow> bool \<times> metrics_db" where
  "db_health now db =
     (case run_statement now db of None \<Rightarrow> (False, db) | Some (t, db1) \<Rightarrow> (True, db1))"

section \<open>The collector\<close>

record cycle =
  cy_agent :: string
  cy_worker :: string
  cy_scanned :: int
  cy_failures :: int
  cy_executed :: int
  cy_sleep :: int
  cy_started :: real
  cy_status :: string
  cy_error :: string
  cy_completed :: bool

record collector =
  hm_db :: metrics_db
  hm_active :: "(string, cycle) dict"
  hm_last_flush :: real
  hm_flushes :: int
  hm_errors :: int
  hm_scanned :: int
  hm_failures :: int
  hm_executed :: int
  hm_cycles :: int

definition new_collector :: "metrics_db \<Rightarrow> collector" where
  "new_collector db = \<lparr>hm_db = db, hm_active = [], hm_last_flush = 0, hm_flushes = 0, hm_errors = 0,
     hm_scanned = 0, hm_failures = 0, hm_executed = 0, hm_cycles = 0\<rparr>"

definition trunc_int :: "real \<Rightarrow> int" where
  "trunc_int x = (if 0 \<le> x then \<lfloor>x\<rfloor> else \<lceil>x\<rceil>)"

definition cycle_duration :: "real \<Rightarrow> cycle \<Rightarrow> int" where
  "cycle_duration now c = trunc_int ((now - cy_started c) * 1000)"

definition finish_cycle :: "real \<Rightarrow> cycle \<Rightarrow> heartbeat" where
  "finish_cycle now c =
     \<lparr>hb_agent = cy_agent c, hb_worker = cy_worker c, hb_scanned = cy_scanned c,
      hb_failures = cy_failures c, hb_executed = cy_executed c, hb_sleep = cy_sleep c,
      hb_duration = cycle_duration now c, hb_status = cy_status c, hb_error = cy_error c\<rparr>"

definition start_cycle :: "string \<Rightarrow> string \<Rightarrow> real \<Rightarrow> collector \<Rightarrow> collector" where
  "start_cycle agent worker now h =
     h\<lparr>hm_active := dict_set agent
         \<lparr>cy_agent = agent, cy_worker = worker, cy_scanned = 0, cy_failures = 0, cy_executed = 0,
          cy_sleep = 0, cy_started = now, cy_status = ''healthy'', cy_error = [], cy_completed = False\<rparr>
         (hm_active h)\<rparr>"

text \<open>The values a cycle ends with.\<close>

record cycle_end =
  ce_scanned :: int
  ce_failures :: int
  ce_executed :: int
  ce_sleep :: int
  ce_status :: string
  ce_error :: string

definition default_end :: cycle_end where
  "default_end = \<lparr>ce_scanned = 0, ce_failures = 0, ce_executed = 0, ce_sleep = 0,
     ce_status = ''healthy'', ce_error = []\<rparr>"

definition end_values :: "cycle_end \<Rightarrow> cycle \<Rightarrow> cycle" where
  "end_values v c = c\<lparr>cy_scanned := ce_scanned v, cy_failures := ce_failures v, cy_executed := ce_executed v,
     cy_sleep := ce_sleep v, cy_status := ce_status v, cy_error := ce_error v\<rparr>"

definition end_cycle :: "string \<Rightarrow> cycle_end \<Rightarrow> real \<Rightarrow> collector \<Rightarrow> heartbeat option \<times> collector" where
  "end_cycle agent v now h =
     (case dict_get (hm_active h) agent of
        None \<Rightarrow> (None, h)
      | Some c \<Rightarrow>
          (let r = finish_cycle now (end_values v c);
               h1 = h\<lparr>hm_active := dict_pop agent (hm_active h), hm_scanned := hm_scanned h + ce_scanned v,
                      hm_failures := hm_failures h + ce_failures v, hm_executed := hm_executed h + ce_executed v,
                      hm_cycles := hm_cycles h + 1\<rparr>
           in case insert_heartbeat now r (hm_db h1) of
                (Inr i, db) \<Rightarrow> (Some r, h1\<lparr>hm_db := db, hm_flushes := hm_flushes h1 + 1, hm_last_flush := now\<rparr>)
              | (Inl e, db) \<Rightarrow> (None, h1\<lparr>hm_db := db, hm_errors := hm_errors h1 + 1\<rparr>)))"

record cycle_update =
  cu_scanned :: "int option"
  cu_failures :: "int option"
  cu_executed :: "int option"
  cu_sleep :: "int option"
  cu_status :: "string option"
  cu_error :: "string option"

definition or_keep :: "'v option \<Rightarrow> 'v \<Rightarrow> 'v" where
  "or_keep new old = (case new of None \<Rightarrow> old | Some v \<Rightarrow> v)"

definition update_cycle :: "string \<Rightarrow> cycle_update \<Rightarrow> collector \<Rightarrow> collector" where
  "update_cycle agent u h =
     (case dict_get (hm_active h) agent of
        None \<Rightarrow> h
      | Some c \<Rightarrow> h\<lparr>hm_active := dict_set agent
          (c\<lparr>cy_scanned := or_keep (cu_scanned u) (cy_scanned c), cy_failures := or_keep (cu_failures u) (cy_failures c),
             cy_executed := or_keep (cu_executed u) (cy_executed c), cy_sleep := or_keep (cu_sleep u) (cy_sleep c),
             cy_status := or_keep (cu_status u) (cy_status c), cy_error := or_keep (cu_error u) (cy_error c)\<rparr>)
          (hm_active h)\<rparr>)"

text \<open>The query helpers replace an exception by a default.\<close>

definition guarded :: "'r \<Rightarrow> 'r result \<times> metrics_db \<Rightarrow> collector \<Rightarrow> 'r \<times> collector" where
  "guarded d r h = ((case fst r of Inl e \<Rightarrow> d | Inr x \<Rightarrow> x), h\<lparr>hm_db := snd r\<rparr>)"

definition get_agent_summary :: "int \<Rightarrow> real \<Rightarrow> collector \<Rightarrow> agent_summary list \<times> collector" where
  "get_agent_summary minutes now h = guarded [] (db_agent_summary minutes now (hm_db h)) h"

definition get_failure_rate :: "int \<Rightarrow> real \<Rightarrow> collector \<Rightarrow> real \<times> collector" where
  "get_failure_rate minutes now h = guarded 0 (db_failure_rate minutes now (hm_db h)) h"

definition get_sleep_trend :: "string option \<Rightarrow> nat \<Rightarrow> real \<Rightarrow> collector \<Rightarrow> (real \<times> int \<times> string) list \<times> collector" where
  "get_sleep_trend agent limit now h = guarded [] (db_sleep_trend agent limit now (hm_db h)) h"

fun end_orphans :: "string list \<Rightarrow> real \<Rightarrow> collector \<Rightarrow> collector" where
  "end_orphans [] now h = h"
| "end_orphans (a # as) now h =
     end_orphans as now (snd (end_cycle a
       (default_end\<lparr>ce_status := ''orphaned'', ce_error := ''collector shutdown''\<rparr>) now h))"

definition close_collector :: "real \<Rightarrow> collector \<Rightarrow> collector" where
  "close_collector now h = end_orphans (dict_keys (hm_active h)) now h"

text \<open>The module's single collector.\<close>

definition get_collector :: "collector option \<Rightarrow> collector result" where
  "get_collector g = (case g of
     None \<Rightarrow> Inl (RuntimeError (''HeartbeatMetricsCollector not initialized '' @ em_dash @ '' call init_collector first''))
   | Some h \<Rightarrow> Inr h)"

definition init_collector :: "metrics_db \<Rightarrow> collector option \<Rightarrow> collector \<times> collector option" where
  "init_collector db g = (new_collector db, Some (new_collector db))"

section \<open>The Prometheus text\<close>

definition prom_head :: "string \<Rightarrow> string \<Rightarrow> string \<Rightarrow> string" where
  "prom_head name help ty =
     ''# HELP '' @ name @ '' '' @ help @ newline @ ''# TYPE '' @ name @ '' '' @ ty @ newline"

definition prom_value :: "string \<Rightarrow> int \<Rightarrow> string" where
  "prom_value name v = name @ '' '' @ show_int v @ newline"

definition safe_agent :: "string \<Rightarrow> string" where
  "safe_agent agent = py_replace (CHR 0x22) [CHR 0x5C, CHR 0x22] agent"

definition prom_agent :: "string \<Rightarrow> string \<Rightarrow> int \<Rightarrow> string" where
  "prom_agent name safe v =
     name @ ''{agent_id='' @ [CHR 0x22] @ safe @ [CHR 0x22] @ ''} '' @ show_int v @ newline"

definition status_value :: "string option \<Rightarrow> int" where
  "status_value st =
     dict_get_or [(''healthy'', 1), (''unhealthy'', 0), (''degraded'', 2)] (str_or st ''healthy'') 1"

fun sleep_lines :: "string list \<Rightarrow> (real \<times> int \<times> string) list \<Rightarrow> string" where
  "sleep_lines seen [] = []"
| "sleep_lines seen ((t, ms, a) # rows) =
     (let agent = safe_agent a
      in if agent \<in> set seen then sleep_lines seen rows
         else prom_agent ''paperclip_heartbeat_sleep_interval_ms'' agent ms @ sleep_lines (agent # seen) rows)"

definition counters_text :: "collector \<Rightarrow> string" where
  "counters_text h =
     prom_head ''paperclip_heartbeat_scanned_total'' ''Total tasks scanned across all heartbeats'' ''counter'' @
     prom_value ''paperclip_heartbeat_scanned_total'' (hm_scanned h) @
     prom_head ''paperclip_heartbeat_failures_total'' ''Total task failures detected'' ''counter'' @
     prom_value ''paperclip_heartbeat_failures_total'' (hm_failures h) @
     prom_head ''paperclip_heartbeat_executed_total'' ''Total tasks executed'' ''counter'' @
     prom_value ''paperclip_heartbeat_executed_total'' (hm_executed h) @
     prom_head ''paperclip_heartbeat_cycles_total'' ''Total heartbeat cycles completed'' ''counter'' @
     prom_value ''paperclip_heartbeat_cycles_total'' (hm_cycles h) @
     prom_head ''paperclip_heartbeat_db_flush_errors_total'' ''DB flush error count'' ''counter'' @
     prom_value ''paperclip_heartbeat_db_flush_errors_total'' (hm_errors h)"

definition active_text :: "real \<Rightarrow> collector \<Rightarrow> string" where
  "active_text now h =
     prom_head ''paperclip_heartbeat_active_cycles'' ''Active heartbeat cycles in flight'' ''gauge'' @
     concat (map (\<lambda>(a, c). prom_agent ''paperclip_heartbeat_active_cycles'' (safe_agent a) 1) (hm_active h)) @
     prom_head ''paperclip_heartbeat_cycle_duration_ms'' ''Current cycle duration in ms'' ''gauge'' @
     concat (map (\<lambda>(a, c). prom_agent ''paperclip_heartbeat_cycle_duration_ms'' (safe_agent a)
       (cycle_duration now c)) (hm_active h))"

definition status_text :: "agent_summary list result \<Rightarrow> string" where
  "status_text summary =
     prom_head ''paperclip_agent_heartbeat_status'' ''Agent status (1=healthy, 0=unhealthy, 2=degraded)'' ''gauge'' @
     (case summary of Inl e \<Rightarrow> []
      | Inr rows \<Rightarrow> concat (map (\<lambda>x. prom_agent ''paperclip_agent_heartbeat_status'' (safe_agent (sy_agent x))
          (status_value (sy_last_error x))) rows))"

definition prometheus_text :: "real \<Rightarrow> collector \<Rightarrow> string \<times> collector" where
  "prometheus_text now h =
     (let (healthy, db1) = db_health now (hm_db h);
          (summary, db2) = db_agent_summary 15 now db1;
          (sleep, db3) = db_sleep_trend None 20 now db2
      in (counters_text h @
          prom_head ''paperclip_metrics_db_healthy'' ''Database connection health (1=ok, 0=down)'' ''gauge'' @
          prom_value ''paperclip_metrics_db_healthy'' (if healthy then 1 else 0) @
          active_text now h @ status_text summary @
          prom_head ''paperclip_heartbeat_sleep_interval_ms'' ''Last sleep interval per agent'' ''gauge'' @
          (case sleep of Inl e \<Rightarrow> [] | Inr rows \<Rightarrow> sleep_lines [] rows),
          h\<lparr>hm_db := db3\<rparr>))"

section \<open>What the counters and the table agree on\<close>

datatype hb_op =
    HStart string string
  | HUpdate string cycle_update
  | HEnd string cycle_end
  | HSummary int
  | HRate int
  | HTrend "string option" nat
  | HExport
  | HClose

fun hb_exec :: "collector \<Rightarrow> real \<times> hb_op \<Rightarrow> collector" where
  "hb_exec h (t, HStart a w) = start_cycle a w t h"
| "hb_exec h (t, HUpdate a u) = update_cycle a u h"
| "hb_exec h (t, HEnd a v) = snd (end_cycle a v t h)"
| "hb_exec h (t, HSummary m) = snd (get_agent_summary m t h)"
| "hb_exec h (t, HRate m) = snd (get_failure_rate m t h)"
| "hb_exec h (t, HTrend a n) = snd (get_sleep_trend a n t h)"
| "hb_exec h (t, HExport) = snd (prometheus_text t h)"
| "hb_exec h (t, HClose) = close_collector t h"

text \<open>An operation other than the end of a cycle changes the cycles in flight and the connection only.\<close>

definition quiet :: "collector \<Rightarrow> collector \<Rightarrow> bool" where
  "quiet h h1 \<longleftrightarrow> db_rows (hm_db h1) = db_rows (hm_db h) \<and>
     h1\<lparr>hm_active := hm_active h, hm_db := hm_db h\<rparr> = h \<and>
     (db_conn (hm_db h) = Some Aborted \<longleftrightarrow> db_conn (hm_db h1) = Some Aborted) \<and>
     (db_conn (hm_db h) = None \<longleftrightarrow> db_conn (hm_db h1) = None)"

lemma run_statement_rows: "run_statement t db = Some (x, db1) \<Longrightarrow> db_rows db1 = db_rows db"
  by (auto simp: run_statement_def split: option.splits transaction.splits)

lemma run_statement_conn: "run_statement t db = Some (x, db1) \<Longrightarrow> db_conn db1 = Some (Begun x)"
  by (auto simp: run_statement_def split: option.splits transaction.splits)

lemma run_statement_ok:
  "run_statement t db = None \<longleftrightarrow> db_conn db = None \<or> db_conn db = Some Aborted"
  by (auto simp: run_statement_def split: option.splits transaction.splits)

definition same_state :: "metrics_db \<Rightarrow> metrics_db \<Rightarrow> bool" where
  "same_state db db1 \<longleftrightarrow> db_rows db1 = db_rows db \<and>
     (db_conn db = Some Aborted \<longleftrightarrow> db_conn db1 = Some Aborted) \<and> (db_conn db = None \<longleftrightarrow> db_conn db1 = None)"

lemma query_same: "same_state db (snd (query t f db))"
proof (cases "run_statement t db")
  case None
  then show ?thesis by (simp add: query_def same_state_def)
next
  case (Some r)
  obtain x db1 where r: "r = (x, db1)" by (cases r)
  have "\<not> (db_conn db = None \<or> db_conn db = Some Aborted)" using Some by (simp flip: run_statement_ok [of t])
  then show ?thesis
    using Some run_statement_rows [of t db x db1] run_statement_conn [of t db x db1]
    by (simp add: query_def same_state_def r)
qed

lemma same_state_trans: "same_state a b \<Longrightarrow> same_state b c \<Longrightarrow> same_state a c"
  by (simp add: same_state_def)

lemma health_query: "db_health t db = (\<not> isl (fst (query t (\<lambda>_ _. ()) db)), snd (query t (\<lambda>_ _. ()) db))"
  by (simp add: db_health_def query_def split: option.splits prod.splits)

lemma reads_same:
  "same_state db (snd (db_agent_summary m t db))" "same_state db (snd (db_failure_rate m t db))"
  "same_state db (snd (db_sleep_trend a n t db))" "same_state db (snd (db_health t db))"
  by (simp_all add: db_agent_summary_def db_failure_rate_def db_sleep_trend_def health_query query_same)

lemma quiet_db: "same_state (hm_db h) db \<Longrightarrow> quiet h (h\<lparr>hm_db := db\<rparr>)"
  by (simp add: quiet_def same_state_def)

lemma quiet_guarded: "same_state (hm_db h) (snd r) \<Longrightarrow> quiet h (snd (guarded d r h))"
  by (simp add: guarded_def quiet_db)

lemma prometheus_state:
  "snd (prometheus_text t h) = h\<lparr>hm_db := snd (db_sleep_trend None 20 t
     (snd (db_agent_summary 15 t (snd (db_health t (hm_db h))))))\<rparr>"
  by (simp only: prometheus_text_def Let_def split_beta snd_conv)

lemma quiet_export: "quiet h (snd (prometheus_text t h))"
  unfolding prometheus_state by (intro quiet_db) (metis same_state_trans reads_same)

lemma quiet_start: "quiet h (start_cycle a w t h)"
  by (simp add: quiet_def start_cycle_def)

lemma quiet_update: "quiet h (update_cycle a u h)"
  by (simp add: quiet_def update_cycle_def split: option.splits)

lemma insert_result:
  "insert_heartbeat t r db = (x, db1) \<Longrightarrow>
     (case x of Inl e \<Rightarrow> db_rows db1 = db_rows db
      | Inr i \<Rightarrow> db_conn db \<noteq> Some Aborted \<and> db_conn db1 = Some NoTransaction \<and>
          (\<exists>w. db_rows db1 = db_rows db @ [w] \<and> hw_record w = r))"
  using run_statement_rows [of t db] run_statement_ok [of t db]
  by (auto simp: insert_heartbeat_def commit_def Let_def split: option.splits if_splits prod.splits)

text \<open>How the end of a cycle changes the counters and the table.\<close>

definition ended :: "cycle_end \<Rightarrow> collector \<Rightarrow> collector \<Rightarrow> bool" where
  "ended v h h1 \<longleftrightarrow>
     hm_scanned h1 = hm_scanned h + ce_scanned v \<and> hm_failures h1 = hm_failures h + ce_failures v \<and>
     hm_executed h1 = hm_executed h + ce_executed v \<and> hm_cycles h1 = hm_cycles h + 1 \<and>
     ((hm_flushes h1 = hm_flushes h + 1 \<and> hm_errors h1 = hm_errors h \<and>
       (\<exists>w. db_rows (hm_db h1) = db_rows (hm_db h) @ [w] \<and> hb_scanned (hw_record w) = ce_scanned v \<and>
          hb_failures (hw_record w) = ce_failures v \<and> hb_executed (hw_record w) = ce_executed v)) \<or>
      (hm_flushes h1 = hm_flushes h \<and> hm_errors h1 = hm_errors h + 1 \<and> db_rows (hm_db h1) = db_rows (hm_db h)))"

lemma finish_values [simp]:
  "hb_scanned (finish_cycle t (end_values v c)) = ce_scanned v"
  "hb_failures (finish_cycle t (end_values v c)) = ce_failures v"
  "hb_executed (finish_cycle t (end_values v c)) = ce_executed v"
  by (simp_all add: finish_cycle_def end_values_def)

lemma end_cycle_none: "dict_get (hm_active h) a = None \<Longrightarrow> end_cycle a v t h = (None, h)"
  by (simp add: end_cycle_def)

lemma end_cycle_ended:
  assumes "dict_get (hm_active h) a = Some c"
  shows "ended v h (snd (end_cycle a v t h))"
proof -
  obtain x db1 where ins: "insert_heartbeat t (finish_cycle t (end_values v c)) (hm_db h) = (x, db1)"
    by (cases "insert_heartbeat t (finish_cycle t (end_values v c)) (hm_db h)")
  show ?thesis
  proof (cases x)
    case (Inl e)
    then show ?thesis using assms ins insert_result [OF ins] by (simp add: end_cycle_def ended_def)
  next
    case (Inr i)
    then obtain w where "db_rows db1 = db_rows (hm_db h) @ [w]" "hw_record w = finish_cycle t (end_values v c)"
      using insert_result [OF ins] by auto
    then show ?thesis using assms ins Inr by (simp add: end_cycle_def ended_def)
  qed
qed

text \<open>
  The counters of a collector that started over the rows \<open>rows0\<close>: every cycle was stored or was
  an error, the stored ones are the new rows, and without an error the totals are theirs.
\<close>

definition total :: "(heartbeat \<Rightarrow> int) \<Rightarrow> heartbeat_row list \<Rightarrow> int" where
  "total f ws = sum_list (map (f \<circ> hw_record) ws)"

lemma total_simps [simp]: "total f [] = 0" "total f (vs @ ws) = total f vs + total f ws"
  "total f [w] = f (hw_record w)"
  by (simp_all add: total_def)

definition accounted :: "heartbeat_row list \<Rightarrow> collector \<Rightarrow> bool" where
  "accounted rows0 h \<longleftrightarrow> 0 \<le> hm_errors h \<and> hm_cycles h = hm_flushes h + hm_errors h \<and>
     take (length rows0) (db_rows (hm_db h)) = rows0 \<and>
     int (length (drop (length rows0) (db_rows (hm_db h)))) = hm_flushes h \<and>
     (hm_errors h = 0 \<longrightarrow>
        (let ws = drop (length rows0) (db_rows (hm_db h))
         in hm_scanned h = total hb_scanned ws \<and> hm_failures h = total hb_failures ws \<and>
            hm_executed h = total hb_executed ws))"

lemma accounted_ended:
  assumes ok: "accounted rows0 h" and e: "ended v h h1"
  shows "accounted rows0 h1"
proof -
  have len: "length rows0 \<le> length (db_rows (hm_db h))"
    using ok unfolding accounted_def by (metis length_take min.cobounded1 min.commute)
  from e consider
      (stored) w where "db_rows (hm_db h1) = db_rows (hm_db h) @ [w]" "hb_scanned (hw_record w) = ce_scanned v"
        "hb_failures (hw_record w) = ce_failures v" "hb_executed (hw_record w) = ce_executed v"
        "hm_flushes h1 = hm_flushes h + 1" "hm_errors h1 = hm_errors h"
    | (lost) "db_rows (hm_db h1) = db_rows (hm_db h)" "hm_flushes h1 = hm_flushes h"
        "hm_errors h1 = hm_errors h + 1"
    by (auto simp: ended_def)
  then show ?thesis
  proof cases
    case stored
    then show ?thesis using ok e len by (simp add: accounted_def ended_def Let_def of_nat_diff)
  next
    case lost
    then show ?thesis using ok e by (simp add: accounted_def ended_def)
  qed
qed

lemma quiet_fields:
  assumes "quiet h h1"
  shows "hm_flushes h1 = hm_flushes h" "hm_errors h1 = hm_errors h" "hm_cycles h1 = hm_cycles h"
    "hm_scanned h1 = hm_scanned h" "hm_failures h1 = hm_failures h" "hm_executed h1 = hm_executed h"
  using assms unfolding quiet_def
  by (metis collector.select_convs collector.update_convs(1,2) collector.surjective)+

lemma accounted_quiet: "accounted rows0 h \<Longrightarrow> quiet h h1 \<Longrightarrow> accounted rows0 h1"
  by (simp add: accounted_def quiet_fields) (simp add: quiet_def)

lemma accounted_end: "accounted rows0 h \<Longrightarrow> accounted rows0 (snd (end_cycle a v t h))"
  by (cases "dict_get (hm_active h) a") (auto simp: end_cycle_none intro: accounted_ended end_cycle_ended)

lemma accounted_orphans: "accounted rows0 h \<Longrightarrow> accounted rows0 (end_orphans as t h)"
  by (induction as t h rule: end_orphans.induct) (simp_all add: accounted_end)

lemma hb_exec_quiet: "quiet h (hb_exec h (t, oper)) \<or> (\<exists>a v. oper = HEnd a v) \<or> oper = HClose"
  by (cases oper) (simp_all add: quiet_start quiet_update quiet_export quiet_guarded reads_same
    get_agent_summary_def get_failure_rate_def get_sleep_trend_def)

lemma accounted_exec: "accounted rows0 h \<Longrightarrow> accounted rows0 (hb_exec h s)"
proof -
  assume ok: "accounted rows0 h"
  obtain t oper where s: "s = (t, oper)" by (cases s)
  show "accounted rows0 (hb_exec h s)"
    using hb_exec_quiet [of h t oper] ok
    by (auto simp: s close_collector_def intro: accounted_quiet accounted_end accounted_orphans)
qed

interpretation heartbeats: op_system hb_exec "\<lambda>_. True" "accounted rows0" for rows0
  by unfold_locales (rule accounted_exec)

text \<open>
  C27. The counters of a collector and its table agree. After any sequence of starts, updates and
  ends of cycles, queries, exports and shutdowns, every cycle that ended was stored or counted
  as a flush error, the rows the collector found are untouched, it added one row per flush, and
  while there was no flush error its totals are the sums over the rows it added.
\<close>

theorem heartbeat_counters:
  "accounted (db_rows db) (foldl hb_exec (new_collector db) ops)"
  by (rule heartbeats.run_inv) (simp_all add: accounted_def new_collector_def list_all_iff)

section \<open>A failed insert\<close>

text \<open>A connection whose transaction has failed, with the rows it keeps.\<close>

definition stuck :: "heartbeat_row list \<Rightarrow> collector \<Rightarrow> bool" where
  "stuck rows h \<longleftrightarrow> db_conn (hm_db h) = Some Aborted \<and> db_rows (hm_db h) = rows"

lemma stuck_insert: "db_conn db = Some Aborted \<Longrightarrow> insert_heartbeat t r db = (Inl OtherError, db)"
  by (simp add: insert_heartbeat_def run_statement_def)

lemma stuck_end: "stuck rows h \<Longrightarrow> stuck rows (snd (end_cycle a v t h)) \<and> fst (end_cycle a v t h) = None"
  by (cases "dict_get (hm_active h) a") (simp_all add: end_cycle_def stuck_def stuck_insert)

lemma stuck_orphans: "stuck rows h \<Longrightarrow> stuck rows (end_orphans as t h)"
  by (induction as t h rule: end_orphans.induct) (simp_all add: stuck_end)

lemma stuck_quiet: "stuck rows h \<Longrightarrow> quiet h h1 \<Longrightarrow> stuck rows h1"
  by (simp add: stuck_def quiet_def)

lemma stuck_exec: "stuck rows h \<Longrightarrow> stuck rows (hb_exec h s)"
proof -
  assume ok: "stuck rows h"
  obtain t oper where s: "s = (t, oper)" by (cases s)
  show "stuck rows (hb_exec h s)"
    using hb_exec_quiet [of h t oper] ok
    by (auto simp: s close_collector_def stuck_end intro: stuck_quiet stuck_orphans)
qed

interpretation dead: op_system hb_exec "\<lambda>_. True" "stuck rows" for rows
  by unfold_locales (rule stuck_exec)

lemma stuck_health: "stuck rows h \<Longrightarrow> \<not> fst (db_health t (hm_db h))"
  by (simp add: stuck_def db_health_def run_statement_def)

lemma refused_insert_aborts:
  assumes "db_conn db \<noteq> None" "sendable r" "\<not> storable r"
  shows "fst (insert_heartbeat t r db) = Inl OtherError \<and>
    db_conn (snd (insert_heartbeat t r db)) = Some Aborted \<and> db_rows (snd (insert_heartbeat t r db)) = db_rows db"
proof (cases "run_statement t db")
  case None
  then show ?thesis using assms run_statement_ok [of t db] by (auto simp: insert_heartbeat_def)
next
  case (Some x)
  then show ?thesis using assms run_statement_rows [of t db "fst x" "snd x"]
    by (simp add: insert_heartbeat_def split_beta)
qed

lemma refused_end_stuck:
  assumes "dict_get (hm_active h) a = Some c" "db_conn (hm_db h) \<noteq> None"
    "sendable (finish_cycle t (end_values v c))" "\<not> storable (finish_cycle t (end_values v c))"
  shows "stuck (db_rows (hm_db h)) (snd (end_cycle a v t h))"
proof -
  obtain x db1 where ins: "insert_heartbeat t (finish_cycle t (end_values v c)) (hm_db h) = (x, db1)"
    by (cases "insert_heartbeat t (finish_cycle t (end_values v c)) (hm_db h)")
  have "x = Inl OtherError" "db_conn db1 = Some Aborted" "db_rows db1 = db_rows (hm_db h)"
    using refused_insert_aborts [OF assms(2-4), of t] by (simp_all add: ins)
  then show ?thesis using assms(1) ins by (simp add: end_cycle_def stuck_def)
qed

text \<open>
  C34. One refused row stops the storing of every later one. When the record of a cycle that ends
  does not fit its columns (an agent id of more than 255 characters, say), the failed insert is
  not rolled back: whatever is done with the collector afterwards, the table never changes
  again, no later cycle of any agent is recorded, and the health check of the connection fails.
\<close>

theorem refused_row_ends_recording:
  assumes "dict_get (hm_active h) a = Some c" "db_conn (hm_db h) \<noteq> None"
    "sendable (finish_cycle t (end_values v c))" "\<not> storable (finish_cycle t (end_values v c))"
  shows "let later = foldl hb_exec (snd (end_cycle a v t h)) ops
    in db_rows (hm_db later) = db_rows (hm_db h) \<and> fst (end_cycle b w t1 later) = None \<and>
       \<not> fst (db_health t1 (hm_db later))"
proof -
  have "stuck (db_rows (hm_db h)) (foldl hb_exec (snd (end_cycle a v t h)) ops)"
    by (rule dead.run_inv) (simp_all add: refused_end_stuck assms list_all_iff)
  then show ?thesis by (simp add: Let_def stuck_end stuck_health) (simp add: stuck_def)
qed

definition sample_collector :: "string \<Rightarrow> collector" where
  "sample_collector agent =
     start_cycle agent ''w-1'' 100 (new_collector (db_connect \<lparr>db_conn = None, db_rows = []\<rparr>))"

definition sample_end :: cycle_end where
  "sample_end = default_end\<lparr>ce_scanned := 2 ^ 31\<rparr>"

definition sample_cycle :: cycle where
  "sample_cycle = \<lparr>cy_agent = ''a'', cy_worker = ''w-1'', cy_scanned = 0, cy_failures = 0, cy_executed = 0,
     cy_sleep = 0, cy_started = 100, cy_status = ''healthy'', cy_error = [], cy_completed = False\<rparr>"

lemma sample_active: "dict_get (hm_active (sample_collector ''a'')) ''a'' = Some sample_cycle"
  by (simp add: sample_collector_def start_cycle_def new_collector_def sample_cycle_def)

lemma sample_conn: "db_conn (hm_db (sample_collector ''a'')) = Some NoTransaction"
  by (simp add: sample_collector_def start_cycle_def new_collector_def db_connect_def commit_def)

lemma sample_refused:
  "sendable (finish_cycle 101 (end_values sample_end sample_cycle))"
  "\<not> storable (finish_cycle 101 (end_values sample_end sample_cycle))"
  by (simp_all add: sendable_def storable_def fits_integer_def finish_cycle_def end_values_def sample_end_def
    default_end_def sample_cycle_def)

theorem refused_row_ends_recording_witness:
  "let later = foldl hb_exec (snd (end_cycle ''a'' sample_end 101 (sample_collector ''a''))) [(102, HStart ''b'' [])]
   in db_rows (hm_db later) = db_rows (hm_db (sample_collector ''a'')) \<and>
      fst (end_cycle ''b'' default_end 103 later) = None \<and> \<not> fst (db_health 103 (hm_db later))"
proof -
  have "db_conn (hm_db (sample_collector ''a'')) \<noteq> None" by (simp add: sample_conn)
  from refused_row_ends_recording [OF sample_active this sample_refused] show ?thesis .
qed

section \<open>The time of a row\<close>

lemma end_cycle_db:
  "dict_get (hm_active h) a = Some c \<Longrightarrow>
     hm_db (snd (end_cycle a v t h)) = snd (insert_heartbeat t (finish_cycle t (end_values v c)) (hm_db h))"
  by (cases "insert_heartbeat t (finish_cycle t (end_values v c)) (hm_db h)")
    (simp add: end_cycle_def Let_def split: sum.split)

lemma query_begins: "db_conn db = Some NoTransaction \<Longrightarrow> db_conn (snd (query t f db)) = Some (Begun t)"
  by (simp add: query_def run_statement_def)

lemma query_keeps: "db_conn db = Some (Begun x) \<Longrightarrow> snd (query t f db) = db"
  by (simp add: query_def run_statement_def)

lemma export_begins:
  assumes "db_conn (hm_db h) = Some NoTransaction"
  shows "db_conn (hm_db (snd (prometheus_text t h))) = Some (Begun t)"
proof -
  define db1 where "db1 = snd (db_health t (hm_db h))"
  have "db_conn db1 = Some (Begun t)" by (simp add: db1_def health_query query_begins assms)
  then show ?thesis
    by (simp add: prometheus_state query_keeps db_agent_summary_def db_sleep_trend_def flip: db1_def)
qed

lemma insert_dated:
  "db_conn db = Some (Begun x) \<Longrightarrow> sendable r \<Longrightarrow> storable r \<Longrightarrow>
     db_rows (snd (insert_heartbeat t r db)) =
       db_rows db @ [\<lparr>hw_id = int (length (db_rows db)) + 1, hw_at = x, hw_record = r\<rparr>]"
  by (simp add: insert_heartbeat_def run_statement_def commit_def Let_def)

text \<open>
  An export back-dates the next row. When nothing else uses the connection between an export
  of the metrics and the end of a cycle, the row of the cycle carries the time of the export
  and not of its own end, so that a row that is stored now is left out of a summary of the last
  minutes when the export was longer ago.
\<close>

theorem export_dates_next_row:
  assumes "db_conn (hm_db h) = Some NoTransaction" "dict_get (hm_active h) a = Some c"
    "sendable (finish_cycle t1 (end_values v c))" "storable (finish_cycle t1 (end_values v c))"
    "t + 60 * of_int minutes < t1"
  defines "h1 \<equiv> snd (end_cycle a v t1 (snd (prometheus_text t h)))"
  shows "\<exists>w. db_rows (hm_db h1) = db_rows (hm_db h) @ [w] \<and> hw_at w = t \<and>
    hw_record w = finish_cycle t1 (end_values v c) \<and> w \<notin> set (recent minutes t1 (db_rows (hm_db h1)))"
proof -
  define h0 where "h0 = snd (prometheus_text t h)"
  have act: "dict_get (hm_active h0) a = Some c" using assms(2) by (simp add: h0_def prometheus_state)
  have "same_state (hm_db h) (hm_db h0)"
    unfolding h0_def prometheus_state by (simp, metis same_state_trans reads_same)
  then have rows: "db_rows (hm_db h0) = db_rows (hm_db h)" by (simp add: same_state_def)
  have conn: "db_conn (hm_db h0) = Some (Begun t)" using assms(1) by (simp add: h0_def export_begins)
  let ?w = "\<lparr>hw_id = int (length (db_rows (hm_db h))) + 1, hw_at = t, hw_record = finish_cycle t1 (end_values v c)\<rparr>"
  have "db_rows (hm_db h1) = db_rows (snd (insert_heartbeat t1 (finish_cycle t1 (end_values v c)) (hm_db h0)))"
    by (simp add: h1_def end_cycle_db [OF act] flip: h0_def)
  also have "\<dots> = db_rows (hm_db h) @ [?w]" using insert_dated [OF conn assms(3,4)] by (simp add: rows)
  finally have new: "db_rows (hm_db h1) = db_rows (hm_db h) @ [?w]" .
  have "?w \<notin> set (recent minutes t1 (db_rows (hm_db h1)))" using assms(5) by (simp add: recent_def)
  then show ?thesis by (intro exI [of _ ?w] conjI new) simp_all
qed

lemma sample_stored:
  "sendable (finish_cycle 5000 (end_values default_end sample_cycle))"
  "storable (finish_cycle 5000 (end_values default_end sample_cycle))"
  by (simp_all add: sendable_def storable_def fits_integer_def finish_cycle_def end_values_def
    default_end_def sample_cycle_def cycle_duration_def trunc_int_def char_count_def continuation_def)

theorem export_dates_next_row_witness:
  "\<exists>w. db_rows (hm_db (snd (end_cycle ''a'' default_end 5000 (snd (prometheus_text 200 (sample_collector ''a''))))))
       = db_rows (hm_db (sample_collector ''a'')) @ [w] \<and> hw_at w = 200 \<and>
     hw_record w = finish_cycle 5000 (end_values default_end sample_cycle) \<and>
     w \<notin> set (recent 60 5000 (db_rows (hm_db
       (snd (end_cycle ''a'' default_end 5000 (snd (prometheus_text 200 (sample_collector ''a''))))))))"
  by (rule export_dates_next_row [OF sample_conn sample_active sample_stored]) simp

end
