(* ===== verification/Runtime.thy ===== *)
theory Runtime
  imports Lifecycle Consumer Config Heartbeat
begin

text \<open>
  The worker as a whole: the client of the orchestration engine (src/orchestrator.py), the HTTP
  server for health and metrics (src/health_check.py), and the start, the handling of jobs and
  the shutdown (src/main.py), composed from the consumer, the manager and the heartbeat metrics.

  What an HTTP request or a step of the start gives is a parameter.
\<close>

section \<open>The client of the orchestration engine\<close>

fun job_status_value :: "job_status \<Rightarrow> string" where
  "job_status_value QUEUED = ''queued''"
| "job_status_value RUNNING = ''running''"
| "job_status_value COMPLETED = ''completed''"
| "job_status_value FAILED = ''failed''"
| "job_status_value TIMEOUT = ''timeout''"
| "job_status_value CANCELLED = ''cancelled''"

text \<open>A reply with its status and its decoded body, an \<open>httpx.HTTPError\<close>, or another exception.\<close>

datatype http_reply = HttpReply int "json option" | HttpError | HttpOther

record post =
  po_path :: string
  po_body :: json

text \<open>
  What a report does: calls of the registered handlers, whose exceptions are swallowed, and
  posts. The first flag says whether a base URL is set, so that \<open>connect\<close> opened a client.
\<close>

datatype report_effect =
    CallStatusHandler string job_status
  | CallResultHandler job_result
  | Posted post

record orchestrator =
  oc_http :: bool
  oc_on_result :: bool
  oc_on_status :: bool

definition orchestrator_connect :: "string option \<Rightarrow> orchestrator \<Rightarrow> orchestrator" where
  "orchestrator_connect base_url cl = cl\<lparr>oc_http := oc_http cl \<or> str_or base_url [] \<noteq> []\<rparr>"

definition orchestrator_close :: "orchestrator \<Rightarrow> orchestrator" where
  "orchestrator_close cl = cl\<lparr>oc_http := False\<rparr>"

text \<open>A post whose reply is not looked at: only an \<open>HTTPError\<close> is caught.\<close>

definition send_post :: "orchestrator \<Rightarrow> (post \<Rightarrow> http_reply) \<Rightarrow> post \<Rightarrow> exc option \<times> report_effect list" where
  "send_post cl http p =
     (if \<not> oc_http cl then (None, [])
      else ((if http p = HttpOther then Some OtherError else None), [Posted p]))"

definition status_post :: "string \<Rightarrow> job_status \<Rightarrow> post" where
  "status_post i st =
     \<lparr>po_path = ''/api/jobs/'' @ i @ ''/status'', po_body = JObj [(''status'', JStr (job_status_value st))]\<rparr>"

definition report_status ::
    "orchestrator \<Rightarrow> (post \<Rightarrow> http_reply) \<Rightarrow> string \<Rightarrow> job_status \<Rightarrow> exc option \<times> report_effect list" where
  "report_status cl http i st =
     (let (e, posts) = send_post cl http (status_post i st)
      in (e, (if oc_on_status cl then [CallStatusHandler i st] else []) @ posts))"

definition result_post :: "job_result \<Rightarrow> int \<Rightarrow> json list \<Rightarrow> post" where
  "result_post r duration artifacts =
     \<lparr>po_path = ''/api/jobs/'' @ jr_job r @ ''/result'',
      po_body = JObj [(''status'', JStr (job_status_value (jr_status r))),
        (''exit_code'', case jr_exit r of None \<Rightarrow> JNull | Some c \<Rightarrow> JInt c),
        (''duration_ms'', JInt duration), (''error'', JStr (jr_error r)), (''artifacts'', JArr artifacts)]\<rparr>"

definition report_result ::
    "orchestrator \<Rightarrow> (post \<Rightarrow> http_reply) \<Rightarrow> job_result \<Rightarrow> int \<Rightarrow> json list \<Rightarrow> exc option \<times> report_effect list" where
  "report_result cl http r duration artifacts =
     (let (e, posts) = send_post cl http (result_post r duration artifacts)
      in (e, (if oc_on_result cl then [CallResultHandler r] else []) @ posts))"

definition job_post :: "string \<Rightarrow> json \<Rightarrow> string \<Rightarrow> int \<Rightarrow> bool \<Rightarrow> string option \<Rightarrow> post" where
  "job_post ty payload profile timeout network workspace =
     \<lparr>po_path = ''/api/jobs'',
      po_body = JObj [(''type'', JStr ty), (''payload'', payload), (''profile'', JStr profile),
        (''timeout_s'', JInt timeout), (''network_access'', JBool network),
        (''workspace'', case workspace of None \<Rightarrow> JNull | Some w \<Rightarrow> JStr w)]\<rparr>"

text \<open>\<open>raise_for_status\<close> raises an \<open>HTTPError\<close> unless the status is a success.\<close>

definition enqueue_job :: "orchestrator \<Rightarrow> (post \<Rightarrow> http_reply) \<Rightarrow> post \<Rightarrow> json option result" where
  "enqueue_job cl http p =
     (if \<not> oc_http cl then Inr None
      else case http p of
             HttpError \<Rightarrow> Inr None
           | HttpOther \<Rightarrow> Inl OtherError
           | HttpReply status body \<Rightarrow>
               if \<not> (200 \<le> status \<and> status < 300) then Inr None
               else case body of
                      None \<Rightarrow> Inl (ValueError ''invalid JSON'')
                    | Some data \<Rightarrow> map_sum id Some (obj_get data ''job_id'' (JStr [])))"

section \<open>Health and metrics over HTTP\<close>

record health_state =
  hs_started :: real
  hs_healthy :: bool
  hs_error :: string

definition initial_health :: "real \<Rightarrow> health_state" where
  "initial_health now = \<lparr>hs_started = now, hs_healthy = True, hs_error = []\<rparr>"

definition set_healthy :: "bool \<Rightarrow> string \<Rightarrow> health_state \<Rightarrow> health_state" where
  "set_healthy healthy error s = s\<lparr>hs_healthy := healthy, hs_error := error\<rparr>"

datatype reply_body = JsonBody json | TextBody string | NoBody

definition handle_health :: "health_state \<Rightarrow> int \<times> reply_body" where
  "handle_health s =
     (if hs_healthy s then (200, JsonBody (JObj [(''status'', JStr ''healthy'')]))
      else (503, JsonBody (JObj [(''status'', JStr ''unhealthy''), (''error'', JStr (hs_error s))])))"

definition handle_status :: "app_config \<Rightarrow> real \<Rightarrow> health_state \<Rightarrow> int \<times> reply_body" where
  "handle_status c now s =
     (200, JsonBody (JObj [(''worker_id'', JStr (wk_id (ac_worker c))), (''uptime_s'', JNum (now - hs_started s)),
        (''healthy'', JBool (hs_healthy s)),
        (''features'', JObj [(''read_only_rootfs'', JBool (ss_readonly (ac_sandbox c))),
           (''drop_all_capabilities'', JBool (ss_drop_all (ac_sandbox c))),
           (''default_profile'', ss_default_profile (ac_sandbox c))])]))"

text \<open>\<open>fmt\<close> is how Python prints a float. Without a collector the heartbeat part is left out.\<close>

definition uptime_text :: "(real \<Rightarrow> string) \<Rightarrow> real \<Rightarrow> health_state \<Rightarrow> string" where
  "uptime_text fmt now s =
     prom_head ''execution_worker_uptime_seconds'' ''Worker uptime'' ''gauge'' @
     ''execution_worker_uptime_seconds '' @ fmt (now - hs_started s) @ newline @
     prom_head ''execution_worker_healthy'' ''Health status (1=healthy, 0=unhealthy)'' ''gauge'' @
     prom_value ''execution_worker_healthy'' (if hs_healthy s then 1 else 0)"

definition handle_metrics ::
    "(real \<Rightarrow> string) \<Rightarrow> real \<Rightarrow> health_state \<Rightarrow> collector option \<Rightarrow> (int \<times> reply_body) \<times> collector option" where
  "handle_metrics fmt now s g =
     (case get_collector g of
        Inl e \<Rightarrow> ((200, TextBody (uptime_text fmt now s)), g)
      | Inr h \<Rightarrow> ((200, TextBody (uptime_text fmt now s @ fst (prometheus_text now h))),
                  Some (snd (prometheus_text now h))))"

definition do_get ::
    "(real \<Rightarrow> string) \<Rightarrow> app_config \<Rightarrow> real \<Rightarrow> string \<Rightarrow> health_state \<Rightarrow> collector option \<Rightarrow>
     (int \<times> reply_body) \<times> collector option" where
  "do_get fmt c now path s g =
     (if path = ''/health'' then (handle_health s, g)
      else if path = ''/status'' then (handle_status c now s, g)
      else if path = ''/metrics'' then handle_metrics fmt now s g
      else ((404, NoBody), g))"

section \<open>The life of the worker\<close>

datatype action =
    ConnectDocker
  | ConnectQueue
  | ConnectEngine
  | ConnectMetrics
  | StartHealthServer
  | StartMonitor
  | Consume
  | DrainJobs
  | CloseQueue
  | CloseDocker
  | CloseEngine
  | CloseCollector
  | CloseMetrics
  | StopHealthServer

text \<open>The trace is what was tried, in order.\<close>

record worker_run =
  wr_health :: health_state
  wr_collecting :: bool
  wr_trace :: "action list"

text \<open>Steps in sequence up to the first exception.\<close>

fun perform :: "(action \<Rightarrow> exc option) \<Rightarrow> action list \<Rightarrow> worker_run \<Rightarrow> exc option \<times> worker_run" where
  "perform world [] s = (None, s)"
| "perform world (a # as) s =
     (let s1 = s\<lparr>wr_trace := wr_trace s @ [a]\<rparr>
      in case world a of Some e \<Rightarrow> (Some e, s1) | None \<Rightarrow> perform world as s1)"

definition closing :: "bool \<Rightarrow> action list" where
  "closing collecting =
     [DrainJobs, CloseQueue, CloseDocker, CloseEngine] @ (if collecting then [CloseCollector] else []) @
     [CloseMetrics, StopHealthServer]"

definition shutdown_worker :: "(action \<Rightarrow> exc option) \<Rightarrow> worker_run \<Rightarrow> exc option \<times> worker_run" where
  "shutdown_worker world s =
     perform world (closing (wr_collecting s)) (s\<lparr>wr_health := set_healthy False ''Shutting down'' (wr_health s)\<rparr>)"

text \<open>The metrics database is optional: its error only leaves the collector out.\<close>

definition connect_metrics :: "(action \<Rightarrow> exc option) \<Rightarrow> worker_run \<Rightarrow> worker_run" where
  "connect_metrics world s =
     s\<lparr>wr_trace := wr_trace s @ [ConnectMetrics], wr_collecting := (world ConnectMetrics = None)\<rparr>"

definition serve_jobs :: "(action \<Rightarrow> exc option) \<Rightarrow> worker_run \<Rightarrow> worker_run" where
  "serve_jobs world s =
     (let s1 = s\<lparr>wr_health := set_healthy True [] (wr_health s), wr_trace := wr_trace s @ [Consume]\<rparr>
      in case world Consume of
           None \<Rightarrow> s1
         | Some e \<Rightarrow> s1\<lparr>wr_health := set_healthy False ''Worker main loop crashed'' (wr_health s1)\<rparr>)"

definition run_worker :: "(action \<Rightarrow> exc option) \<Rightarrow> worker_run \<Rightarrow> exc option \<times> worker_run" where
  "run_worker world s =
     (case perform world [ConnectDocker, ConnectQueue, ConnectEngine] s of
        (Some e, s1) \<Rightarrow> (Some e, s1)
      | (None, s1) \<Rightarrow>
          (case perform world [StartHealthServer, StartMonitor] (connect_metrics world s1) of
             (Some e, s2) \<Rightarrow> (Some e, s2)
           | (None, s2) \<Rightarrow> shutdown_worker world (serve_jobs world s2)))"

section \<open>The handler of the jobs\<close>

text \<open>
  \<open>_handle_job\<close> as the handler of the consumer: \<open>wait\<close> is what \<open>wait_for_job\<close> returns, with the
  table of that moment. \<open>ww_peak\<close> records the greatest number of executions there were.
\<close>

record worker_world =
  ww_active :: active
  ww_effects :: "effect list"
  ww_peak :: nat

definition handle_job ::
    "(json \<Rightarrow> string) \<Rightarrow> sandbox_manager \<Rightarrow> nat \<Rightarrow> (job \<Rightarrow> answers) \<Rightarrow> (job \<Rightarrow> real) \<Rightarrow>
     (string \<Rightarrow> active \<Rightarrow> int option \<times> active) \<Rightarrow> worker_world handling" where
  "handle_job other m limit an now wait j w =
     (case begin_job other m limit (an j) (now j) j (ww_active w) of
        (Inl e, effs, act1, calls) \<Rightarrow> (Some e, w\<lparr>ww_active := act1, ww_effects := ww_effects w @ effs\<rparr>)
      | (Inr None, effs, act1, calls) \<Rightarrow> (None, w\<lparr>ww_active := act1, ww_effects := ww_effects w @ effs\<rparr>)
      | (Inr (Some cid), effs, act1, calls) \<Rightarrow>
          (let (code, act2) = wait cid act1; (rep, act3) = finish_job j cid code act2
           in (None, w\<lparr>ww_active := act3, ww_effects := ww_effects w @ effs @ rep,
                       ww_peak := max (ww_peak w) (length (dict_keys act1))\<rparr>)))"

section \<open>One job at a time\<close>

text \<open>Passes of the monitor and other handlers leave no entry behind that was not there.\<close>

lemma update_entry_key_set: "set (dict_keys (update_entry c f act)) = set (dict_keys act)"
  by (auto simp: update_entry_def alist.keys_get split: option.split)

lemma monitor_container_keys: "set (dict_keys (snd (monitor_container now v ce act))) \<subseteq> set (dict_keys act)"
  by (auto simp: monitor_container_def Let_def timeout_check_def update_entry_key_set
      split: sum.split option.split)

lemma monitor_snapshot_keys:
  "set (dict_keys (snd (monitor_snapshot now docker ces act))) \<subseteq> set (dict_keys act)"
proof (induction ces arbitrary: act)
  case (Cons ce ces)
  show ?case
    using Cons.IH [of "snd (monitor_container now (docker (fst ce)) ce act)"]
      monitor_container_keys [of now "docker (fst ce)" ce act]
    by (auto simp: monitor_snapshot_Cons Let_def simp del: monitor_snapshot.simps(2))
qed simp

lemma monitor_pass_keys: "set (dict_keys (lf_active (monitor_pass now docker s))) \<subseteq> set (dict_keys (lf_active s))"
  by (simp add: pass_active monitor_snapshot_keys)

text \<open>Between two jobs the table is empty, and it never held more than one execution.\<close>

definition sequential :: "worker_world \<Rightarrow> bool" where
  "sequential w \<longleftrightarrow> ww_active w = [] \<and> ww_peak w \<le> 1"

lemma no_keys: "dict_keys act = [] \<longleftrightarrow> act = []"
  by (simp add: dict_keys_def)

lemma begin_job_empty:
  assumes "begin_job other m limit an now j [] = (r, effs, act1, calls)"
  shows "case r of Inr (Some cid) \<Rightarrow> dict_keys act1 = [cid] | _ \<Rightarrow> act1 = []"
  using assms
  by (auto simp: begin_job_def dispatch_def dict_keys_def dict_set_def
      split: sum.splits option.splits prod.splits exc.splits if_splits)

lemma handle_job_sequential:
  assumes "\<And>c act. set (dict_keys (snd (wait c act))) \<subseteq> set (dict_keys act)" "sequential w"
  shows "sequential (snd (handle_job other m limit an now wait j w))"
proof -
  obtain r effs act1 calls where b: "begin_job other m limit (an j) (now j) j [] = (r, effs, act1, calls)"
    using prod_cases4 by blast
  have empty: "ww_active w = []" using assms(2) by (simp add: sequential_def)
  show ?thesis
  proof (cases "\<exists>cid. r = Inr (Some cid)")
    case True
    then obtain cid where r: "r = Inr (Some cid)" by blast
    with begin_job_empty [OF b] have keys: "dict_keys act1 = [cid]" by simp
    obtain code act2 where wt: "wait cid act1 = (code, act2)" by fastforce
    with assms(1) [of cid act1] keys have "set (dict_keys act2) \<subseteq> {cid}" by simp
    then have "set (dict_keys (dict_pop cid act2)) = {}" by auto
    then have "dict_keys (dict_pop cid act2) = []" by (metis set_empty)
    then have "dict_pop cid act2 = []" by (simp only: no_keys)
    moreover have "snd (finish_job j cid code act2) = dict_pop cid act2"
      by (simp add: finish_job_def Let_def split: option.split)
    ultimately show ?thesis
      using assms(2) keys by (simp add: handle_job_def b r wt empty sequential_def split_beta)
  next
    case False
    with begin_job_empty [OF b] have "act1 = []" by (auto split: sum.splits option.splits)
    with False assms(2) show ?thesis
      by (auto simp: handle_job_def b empty sequential_def split: sum.split option.split)
  qed
qed

text \<open>
  The wait of the worker itself, while passes of the monitor go on: \<open>passes c k\<close> are the passes
  between poll \<open>k\<close> of container \<open>c\<close> and the next. It obeys the law of the waits, which makes every
  loop of the consumer that runs the jobs with it sequential. A wait that never ends blocks the
  worker, which then takes no further step; the definition answers at once to be total, so its runs
  include every run of the worker up to such a wait, and the invariant covers them.
\<close>

definition monitored_wait ::
    "(string \<Rightarrow> nat \<Rightarrow> (real \<times> (string \<Rightarrow> docker_view)) list) \<Rightarrow> string \<Rightarrow> active \<Rightarrow> int option \<times> active" where
  "monitored_wait passes c act =
     (let tab = tables \<lparr>lf_active = act, lf_alive = True\<rparr> (\<lambda>k. map (\<lambda>(t, docker). Pass t docker) (passes c k))
      in case wait_for_job tab c 0 of
           None \<Rightarrow> (None, act)
         | Some (k, code) \<Rightarrow> (code, tab k))"

lemma passes_keys:
  "set (dict_keys (lf_active (foldl lf_step s (map (\<lambda>(t, docker). Pass t docker) ps)))) \<subseteq> set (dict_keys (lf_active s))"
proof (induction ps arbitrary: s)
  case (Cons p ps)
  obtain t docker where p: "p = (t, docker)" by fastforce
  from Cons.IH [of "monitor_pass t docker s"] monitor_pass_keys [of t docker s]
  show ?case by (auto simp: p)
qed simp

lemma tables_keys:
  "set (dict_keys (tables s (\<lambda>k. map (\<lambda>(t, docker). Pass t docker) (ps k)) n)) \<subseteq> set (dict_keys (lf_active s))"
proof (induction n)
  case (Suc n)
  with passes_keys [of "timeline s (\<lambda>k. map (\<lambda>(t, docker). Pass t docker) (ps k)) n" "ps n"]
  show ?case by (auto simp: tables_def)
qed (simp add: tables_def)

lemma monitored_wait_keys: "set (dict_keys (snd (monitored_wait passes c act))) \<subseteq> set (dict_keys act)"
  using tables_keys [of "\<lparr>lf_active = act, lf_alive = True\<rparr>" "passes c"]
  by (auto simp: monitored_wait_def Let_def split: option.split)

interpretation jobs: handler_invariant "handle_job other m limit an now (monitored_wait passes)" sequential
  for other m limit an now passes
  by unfold_locales (rule handle_job_sequential [OF monitored_wait_keys])

text \<open>
  C18. The worker runs one job at a time. Whatever is in the queue and however many jobs the
  configuration allows at once, the loop of the consumer calls the handler and the handler
  waits for its container, so that there is never more than one execution and none between two
  messages: \<open>max_concurrent_jobs\<close> is never reached.
\<close>

theorem one_job_at_a_time:
  assumes "\<And>c act. set (dict_keys (snd (wait c act))) \<subseteq> set (dict_keys act)"
    and "start ops cfg loads (Some (handle_job other m limit an now wait))
      \<lparr>co_redis = r, co_world = \<lparr>ww_active = [], ww_effects = [], ww_peak = 0\<rparr>, co_connected = True,
       co_running = False, co_log = []\<rparr> xs = Inr s"
  shows "ww_active (co_world s) = [] \<and> ww_peak (co_world s) \<le> 1"
proof -
  have keeps: "handler_invariant (handle_job other m limit an now wait) sequential"
    by unfold_locales (rule handle_job_sequential [OF assms(1)])
  have "sequential (co_world s)"
    using assms(2) by (auto simp: start_def intro!: handler_invariant.rounds_good [OF keeps]) (simp add: sequential_def)
  then show ?thesis by (simp add: sequential_def)
qed

theorem one_job_at_a_time_witness:
  "\<exists>s. start (group_ops ''jobs'') \<lparr>cc_stream = ''jobs'', cc_worker = ''w'', cc_max = 4, cc_claim = 300000, cc_block = 5000\<rparr>
       (\<lambda>_. None) (Some (handle_job (\<lambda>_. []) sample_manager 4 (\<lambda>_. sample_answers) (\<lambda>_. 0) (\<lambda>c act. (Some 0, act))))
       \<lparr>co_redis = stuck_group, co_world = \<lparr>ww_active = [], ww_effects = [], ww_peak = 0\<rparr>, co_connected = True,
        co_running = False, co_log = []\<rparr> [Others (\<lambda>g. g)] = Inr s \<and> ww_peak (co_world s) \<le> 1"
proof -
  obtain s where s: "start (group_ops ''jobs'') \<lparr>cc_stream = ''jobs'', cc_worker = ''w'', cc_max = 4, cc_claim = 300000, cc_block = 5000\<rparr>
       (\<lambda>_. None) (Some (handle_job (\<lambda>_. []) sample_manager 4 (\<lambda>_. sample_answers) (\<lambda>_. 0) (\<lambda>c act. (Some 0, act))))
       \<lparr>co_redis = stuck_group, co_world = \<lparr>ww_active = [], ww_effects = [], ww_peak = 0\<rparr>, co_connected = True,
        co_running = False, co_log = []\<rparr> [Others (\<lambda>g. g)] = Inr s"
    by (simp add: start_def)
  from one_job_at_a_time [OF _ this] s show ?thesis by auto
qed

section \<open>Start and shutdown\<close>

definition tried :: "(action \<Rightarrow> exc option) \<Rightarrow> action list \<Rightarrow> action list" where
  "tried world as = takeWhile (\<lambda>a. world a = None) as @ take 1 (dropWhile (\<lambda>a. world a = None) as)"

definition failure :: "(action \<Rightarrow> exc option) \<Rightarrow> action list \<Rightarrow> exc option" where
  "failure world as = Option.bind (find (\<lambda>a. world a \<noteq> None) as) world"

lemma perform_eq:
  "perform world as s = (failure world as, s\<lparr>wr_trace := wr_trace s @ tried world as\<rparr>)"
proof (induction as arbitrary: s)
  case (Cons a as)
  then show ?case by (cases "world a") (simp_all add: tried_def failure_def)
qed (simp add: tried_def failure_def)

lemma failure_None: "failure world as = None \<longleftrightarrow> list_all (\<lambda>a. world a = None) as"
  by (induction as) (auto simp: failure_def)

lemma tried_all: "list_all (\<lambda>a. world a = None) as \<Longrightarrow> tried world as = as"
  by (induction as) (auto simp: tried_def)

lemma tried_subset: "set (tried world as) \<subseteq> set as"
  by (induction as) (auto simp: tried_def)

text \<open>
  C38. The worker closes what it opened only when its start succeeded. If Docker, the queue, the
  engine, the health server and the monitor start, the worker consumes jobs, then reports
  itself unhealthy and closes everything in order up to the first error, whether or not the
  metrics database could be reached and whether or not the loop crashed. If one of them
  fails, the exception ends the worker, nothing is consumed or closed, and its health is what
  it was.
\<close>

theorem worker_life:
  "(if list_all (\<lambda>a. world a = None) [ConnectDocker, ConnectQueue, ConnectEngine, StartHealthServer, StartMonitor]
    then wr_trace (snd (run_worker world s)) = wr_trace s @
           [ConnectDocker, ConnectQueue, ConnectEngine, ConnectMetrics, StartHealthServer, StartMonitor, Consume] @
           tried world (closing (world ConnectMetrics = None)) \<and>
         fst (run_worker world s) = failure world (closing (world ConnectMetrics = None)) \<and>
         \<not> hs_healthy (wr_health (snd (run_worker world s))) \<and>
         hs_error (wr_health (snd (run_worker world s))) = ''Shutting down''
    else fst (run_worker world s) \<noteq> None \<and> wr_health (snd (run_worker world s)) = wr_health s \<and>
         (\<exists>done_actions. wr_trace (snd (run_worker world s)) = wr_trace s @ done_actions \<and>
            set done_actions \<inter> insert Consume (set (closing True)) = {}))"
proof (cases "list_all (\<lambda>a. world a = None) [ConnectDocker, ConnectQueue, ConnectEngine]")
  case True
  let ?s = "connect_metrics world (s\<lparr>wr_trace := wr_trace s @ [ConnectDocker, ConnectQueue, ConnectEngine]\<rparr>)"
  have first: "run_worker world s = (case perform world [StartHealthServer, StartMonitor] ?s of
      (Some e, s2) \<Rightarrow> (Some e, s2) | (None, s2) \<Rightarrow> shutdown_worker world (serve_jobs world s2))"
    unfolding run_worker_def perform_eq [of world "[ConnectDocker, ConnectQueue, ConnectEngine]"]
    using True failure_None [of world "[ConnectDocker, ConnectQueue, ConnectEngine]"] tried_all [OF True] by simp
  show ?thesis
  proof (cases "list_all (\<lambda>a. world a = None) [StartHealthServer, StartMonitor]")
    case two: True
    let ?s2 = "?s\<lparr>wr_trace := wr_trace ?s @ [StartHealthServer, StartMonitor]\<rparr>"
    have "perform world [StartHealthServer, StartMonitor] ?s = (None, ?s2)"
      unfolding perform_eq using failure_None [of world "[StartHealthServer, StartMonitor]"] two tried_all [OF two] by simp
    then have "run_worker world s = shutdown_worker world (serve_jobs world ?s2)" by (simp add: first)
    then show ?thesis
      using True two
      by (simp add: shutdown_worker_def perform_eq serve_jobs_def Let_def connect_metrics_def set_healthy_def
          split: option.split)
  next
    case False
    have "failure world [StartHealthServer, StartMonitor] \<noteq> None"
      using False failure_None [of world "[StartHealthServer, StartMonitor]"] by simp
    then obtain e where e: "failure world [StartHealthServer, StartMonitor] = Some e" by blast
    have run: "run_worker world s = (Some e, ?s\<lparr>wr_trace := wr_trace ?s @ tried world [StartHealthServer, StartMonitor]\<rparr>)"
      by (simp only: first perform_eq e) simp
    have "set ([ConnectDocker, ConnectQueue, ConnectEngine, ConnectMetrics] @ tried world [StartHealthServer, StartMonitor]) \<inter>
        insert Consume (set (closing True)) = {}"
      using tried_subset [of world "[StartHealthServer, StartMonitor]"] by (auto simp: closing_def)
    with False show ?thesis
      by (auto simp: run connect_metrics_def)
  qed
next
  case False
  have "failure world [ConnectDocker, ConnectQueue, ConnectEngine] \<noteq> None"
    using False failure_None [of world "[ConnectDocker, ConnectQueue, ConnectEngine]"] by simp
  then obtain e where e: "failure world [ConnectDocker, ConnectQueue, ConnectEngine] = Some e" by blast
  have run: "run_worker world s = (Some e, s\<lparr>wr_trace := wr_trace s @ tried world [ConnectDocker, ConnectQueue, ConnectEngine]\<rparr>)"
    by (simp only: run_worker_def perform_eq e) simp
  have "set (tried world [ConnectDocker, ConnectQueue, ConnectEngine]) \<inter> insert Consume (set (closing True)) = {}"
    using tried_subset [of world "[ConnectDocker, ConnectQueue, ConnectEngine]"] by (auto simp: closing_def)
  with False show ?thesis by (auto simp: run)
qed

end
