(* ===== verification/Wiring.thy ===== *)
theory Wiring
  imports Runtime
begin

text \<open>
  The construction of the worker (\<open>ExecutionWorker.__init__\<close> in src/main.py): what of the loaded
  configuration and of the environment each component gets; and the containers of a worker that
  is built from the shipped configuration (config/worker.yaml, config/security.yaml).

  Python hands the values of the files on as they are; here they get the type at which the
  component uses them. \<open>None\<close> is a value of another type.
\<close>

section \<open>Values of the files\<close>

fun json_text :: "json \<Rightarrow> string option" where
  "json_text (JStr s) = Some s"
| "json_text _ = None"

fun text_list :: "json \<Rightarrow> string list option" where
  "text_list (JArr xs) = those (map json_text xs)"
| "text_list _ = None"

fun text_lists :: "json \<Rightarrow> (string, string list) dict option" where
  "text_lists (JObj kvs) = those (map (\<lambda>(k, v). map_option (Pair k) (text_list v)) kvs)"
| "text_lists _ = None"

section \<open>The components\<close>

definition wire_egress :: "egress_settings \<Rightarrow> egress_config option" where
  "wire_egress e =
     Option.bind (text_lists (es_rules e)) (\<lambda>rules.
     Option.bind (text_list (es_dns e)) (\<lambda>dns.
     Option.bind (text_list (es_search e)) (\<lambda>search.
     Option.bind (json_text (es_policy e)) (\<lambda>policy.
     Some \<lparr>eg_rules = rules, eg_dns = dns, eg_search = search, eg_default = policy\<rparr>))))"

definition wire_docker :: "docker_settings \<Rightarrow> docker_config option" where
  "wire_docker d =
     Option.bind (json_text (ds_image d)) (\<lambda>img.
     Option.bind (json_text (ds_network d)) (\<lambda>network.
     Option.bind (json_text (ds_pull d)) (\<lambda>pull.
     Some \<lparr>dk_image = img, dk_network = network, dk_pull = pull\<rparr>)))"

definition wire_sandbox :: "sandbox_settings \<Rightarrow> sandbox_config option" where
  "wire_sandbox s =
     Option.bind (json_text (ss_default_profile s)) (\<lambda>profile.
     Option.bind (json_text (ss_mount s)) (\<lambda>mnt.
     Some \<lparr>sc_default_profile = profile, sc_default_timeout = ss_default_timeout s, sc_max_timeout = ss_max_timeout s,
          sc_mount = mnt, sc_readonly = ss_readonly s, sc_tmpfs = ss_tmpfs s, sc_drop_all = ss_drop_all s,
          sc_profiles = map (\<lambda>(k, p). (k, resource_profile.truncate p)) (ss_profiles s)\<rparr>))"

text \<open>The egress manager is built in any case, the AppArmor manager when it is enabled.\<close>

definition wire_manager :: "app_config \<Rightarrow> sandbox_manager option" where
  "wire_manager c =
     Option.bind (wire_docker (ac_docker c)) (\<lambda>docker.
     Option.bind (wire_sandbox (ac_sandbox c)) (\<lambda>sandbox.
     Option.bind (wire_egress (ac_egress c)) (\<lambda>egress.
     Some \<lparr>sm_docker = docker, sm_sandbox = sandbox, sm_apparmor = ss_apparmor (ac_sandbox c),
          sm_egress = Some egress, sm_worker = wk_id (ac_worker c)\<rparr>)))"

definition wire_consumer :: "app_config \<Rightarrow> consumer_config option" where
  "wire_consumer c =
     map_option (\<lambda>stream. \<lparr>cc_stream = stream, cc_worker = wk_id (ac_worker c), cc_max = wk_max_jobs (ac_worker c),
        cc_claim = rd_claim_timeout (ac_redis c), cc_block = rd_block (ac_redis c)\<rparr>)
       (json_text (rd_stream (ac_redis c)))"

text \<open>
  \<open>MetricsDB()\<close> without arguments: the parameters of the connection are joined without quotes.
  An empty variable counts as missing where the code uses \<open>or\<close>.
\<close>

definition env_first :: "environ \<Rightarrow> string \<Rightarrow> string \<Rightarrow> string \<Rightarrow> string" where
  "env_first env a b dflt = str_or (dict_get env a) (dict_get_or env b dflt)"

definition metrics_dsn :: "environ \<Rightarrow> string result" where
  "metrics_dsn env =
     bind_result (py_int (JStr (dict_get_or env ''PG_PORT'' ''5432''))) (\<lambda>port.
     Inr (''host='' @ dict_get_or env ''PG_HOST'' ''postgres'' @ '' port='' @ show_int port @
          '' dbname='' @ env_first env ''PG_DB'' ''POSTGRES_DB'' ''paperclip'' @
          '' user='' @ env_first env ''PG_USER'' ''POSTGRES_USER'' ''paperclip'' @
          '' password='' @ env_first env ''PG_PASSWORD'' ''POSTGRES_PASSWORD'' ''paperclip''))"

record execution_worker =
  ew_sandbox :: sandbox_manager
  ew_consumer :: consumer_config
  ew_group :: json
  ew_dsn :: string
  ew_orchestrator_url :: "string option"

definition text_or_missing :: "string \<Rightarrow> string option" where
  "text_or_missing s = (if s = [] then None else Some s)"

definition execution_worker :: "environ \<Rightarrow> app_config \<Rightarrow> execution_worker option result" where
  "execution_worker env c =
     bind_result (metrics_dsn env) (\<lambda>dsn.
     Inr (Option.bind (wire_manager c) (\<lambda>manager.
          Option.bind (wire_consumer c) (\<lambda>consumer.
          Some \<lparr>ew_sandbox = manager, ew_consumer = consumer, ew_group = wk_group (ac_worker c), ew_dsn = dsn,
               ew_orchestrator_url = text_or_missing (dict_get_or env ''ORCHESTRATOR_URL'' [])\<rparr>))))"

section \<open>The shipped network policy\<close>

definition shipped_rules :: json where
  "shipped_rules = JObj
     [(''github'', JArr [JStr ''140.82.112.0/20'', JStr ''185.199.108.0/22'']),
      (''pypi'', JArr [JStr ''151.101.0.0/16'', JStr ''151.101.64.0/16'']),
      (''npm'', JArr [JStr ''104.16.0.0/12'']),
      (''docker_registry'', JArr [JStr ''docker.io'', JStr ''ghcr.io'']),
      (''cloud_apis'', JArr [JStr ''aws:*.amazonaws.com'']),
      (''test_endpoints'', JArr [JStr ''0.0.0.0/0'']),
      (''scan_targets'', JArr [JStr ''0.0.0.0/0''])]"

definition shipped_network :: json where
  "shipped_network = JObj
     [(''default_policy'', JStr ''deny''), (''egress_rules'', shipped_rules),
      (''dns_servers'', JArr [JStr ''8.8.8.8'', JStr ''1.1.1.1'']), (''dns_search_domains'', JArr [])]"

definition shipped_egress :: egress_config where
  "shipped_egress =
     \<lparr>eg_rules =
        [(''github'', [''140.82.112.0/20'', ''185.199.108.0/22'']), (''pypi'', [''151.101.0.0/16'', ''151.101.64.0/16'']),
         (''npm'', [''104.16.0.0/12'']), (''docker_registry'', [''docker.io'', ''ghcr.io'']),
         (''cloud_apis'', [''aws:*.amazonaws.com'']), (''test_endpoints'', [''0.0.0.0/0'']),
         (''scan_targets'', [''0.0.0.0/0''])],
      eg_dns = [''8.8.8.8'', ''1.1.1.1''], eg_search = [], eg_default = ''deny''\<rparr>"

lemma resolve_constant: "CHR ''$'' \<notin> set t \<Longrightarrow> resolve_env env t = t"
  using resolve_plain [of t env "[]"] by simp

lemma shipped_network_resolved: "resolve_value env shipped_network = shipped_network"
  by (simp add: shipped_network_def shipped_rules_def resolve_item_def resolve_constant del: resolve_env.simps(2))

lemma shipped_sandbox_resolved: "resolve_value env shipped_sandbox = shipped_sandbox"
  by (simp add: shipped_sandbox_def resolve_constant del: resolve_env.simps(2))

lemma shipped_egress_loaded:
  assumes "files path = Inr (JObj security)" and "dict_get security ''network'' = Some shipped_network"
    and "load_security_network files env path = Inr e"
  shows "wire_egress e = Some shipped_egress"
proof -
  have "dict_get (map (\<lambda>(k, v). (k, resolve_value env v)) security) ''network'' = Some shipped_network"
    using assms(2) by (simp add: dict_get_def map_of_map split_beta shipped_network_resolved)
  then have "e = \<lparr>es_policy = JStr ''deny'', es_rules = shipped_rules,
      es_dns = JArr [JStr ''8.8.8.8'', JStr ''1.1.1.1''], es_search = JArr []\<rparr>"
    using assms(1,3)
    by (simp add: load_security_network_def load_resolved_def resolve_dict_def obj_get_def dict_get_or_def)
      (auto simp: shipped_network_def dict_get_or_def dict_get_def)
  then show ?thesis by (simp add: wire_egress_def shipped_rules_def shipped_egress_def)
qed

lemma read_config_parts:
  assumes "read_config files env host dir None None = Inr c"
    and "files (path_join dir ''worker.yaml'') = Inr shipped_config"
  shows "load_sandbox files env (path_join dir ''resource_profiles.yaml'') shipped_sandbox = Inr (ac_sandbox c)"
    and "load_docker (resolve_value env shipped_docker) = Inr (ac_docker c)"
    and "load_security_network files env (path_join dir ''security.yaml'') = Inr (ac_egress c)"
proof -
  obtain resolved s d where r: "load_resolved files env (path_join dir ''worker.yaml'') = Inr resolved"
    and s: "obj_field resolved ''sandbox'' = Inr s" "load_sandbox files env (path_join dir ''resource_profiles.yaml'') s = Inr (ac_sandbox c)"
    and d: "obj_field resolved ''docker'' = Inr d" "load_docker d = Inr (ac_docker c)"
    and net: "load_security_network files env (path_join dir ''security.yaml'') = Inr (ac_egress c)"
    using assms(1) unfolding read_config_def Let_def by (auto simp: bind_result_Inr)
  have "s = resolve_value env shipped_sandbox" "d = resolve_value env shipped_docker"
    using r s(1) d(1) assms(2)
    by (auto simp: load_resolved_def resolve_dict_def shipped_config_def obj_field_def dict_get_def)
  with s(2) d(2) net show "load_sandbox files env (path_join dir ''resource_profiles.yaml'') shipped_sandbox = Inr (ac_sandbox c)"
    "load_docker (resolve_value env shipped_docker) = Inr (ac_docker c)"
    "load_security_network files env (path_join dir ''security.yaml'') = Inr (ac_egress c)"
    by (simp_all add: shipped_sandbox_resolved)
qed

lemma shipped_sandbox_loaded:
  assumes "load_sandbox files env pp shipped_sandbox = Inr s"
  shows "ss_readonly s \<and> ss_drop_all s \<and> ss_apparmor s \<and> \<not> ss_network s \<and> ss_tmpfs s = 256 \<and>
    ss_mount s = JStr ''/workspace''"
  using assms
  by (auto simp: load_sandbox_def bind_result_Inr shipped_sandbox_def int_field_def bool_field_def obj_field_def
      obj_get_def dict_get_or_def dict_get_def)

lemma shipped_docker_network:
  "load_docker (resolve_value env shipped_docker) = Inr d \<Longrightarrow> ds_network d = JStr ''execution-sandbox-net''"
  by (auto simp: load_docker_def bind_result_Inr shipped_docker_def obj_field_def dict_get_def resolve_constant
      simp del: resolve_env.simps(2))

lemma wire_manager_parts:
  assumes "wire_manager c = Some m"
  shows "Some (dk_network (sm_docker m)) = json_text (ds_network (ac_docker c)) \<and>
    sc_readonly (sm_sandbox m) = ss_readonly (ac_sandbox c) \<and> sc_drop_all (sm_sandbox m) = ss_drop_all (ac_sandbox c) \<and>
    sm_apparmor m = ss_apparmor (ac_sandbox c) \<and> sm_egress m = wire_egress (ac_egress c)"
  using assms by (auto simp: wire_manager_def wire_docker_def wire_sandbox_def bind_eq_Some_conv)

lemma shipped_wide_open:
  "''0.0.0.0/0'' \<in> set (resolve_category_cidrs shipped_egress cat) \<longleftrightarrow> cat \<in> {''test_endpoints'', ''scan_targets''}"
proof (cases "cat \<in> set (dict_keys (eg_rules shipped_egress))")
  case True
  have "list_all (\<lambda>cat. ''0.0.0.0/0'' \<in> set (resolve_category_cidrs shipped_egress cat) \<longleftrightarrow>
      cat \<in> {''test_endpoints'', ''scan_targets''}) (dict_keys (eg_rules shipped_egress))" by code_simp
  with True show ?thesis unfolding list_all_iff by blast
next
  case False
  then have "dict_get (eg_rules shipped_egress) cat = None" using alist.keys_get [of cat "eg_rules shipped_egress"] by blast
  moreover have "cat \<notin> {''test_endpoints'', ''scan_targets''}"
    using False by (auto simp: shipped_egress_def dict_keys_def)
  ultimately show ?thesis by (simp add: resolve_category_cidrs_def dict_get_or_def)
qed

text \<open>Which capabilities reach a category, for any table of categories.\<close>

lemma dict_preimage:
  assumes "dict_wf d"
  shows "(\<exists>v\<in>{v. \<exists>k\<in>S. dict_get d k = Some v}. v \<in> C) \<longleftrightarrow>
    S \<inter> set (map fst (filter (\<lambda>p. snd p \<in> C) d)) \<noteq> {}"
proof -
  have entry: "dict_get d k = Some v \<longleftrightarrow> (k, v) \<in> set d" for k v
    using dict_get_mem [OF assms] dict_get_Some_mem by metis
  have "k \<in> set (map fst (filter (\<lambda>p. snd p \<in> C) d)) \<longleftrightarrow> (\<exists>v. (k, v) \<in> set d \<and> v \<in> C)" for k
    by (auto simp: image_iff)
  then show ?thesis unfolding entry by blast
qed

lemma open_unless:
  "(x \<in> U \<longleftrightarrow> S \<inter> T \<noteq> {}) \<Longrightarrow> (x \<in> (if a \<in> S then {x} else U) \<longleftrightarrow> S \<inter> insert a T \<noteq> {})"
  by auto

lemma open_capabilities:
  "map fst (filter (\<lambda>p. snd p \<in> {''test_endpoints'', ''scan_targets''}) CAPABILITY_TO_CATEGORY) =
     [''net.outbound_test_endpoints'', ''net.outbound_scan_targets'']"
  "dict_wf CAPABILITY_TO_CATEGORY"
  by code_simp+

lemma shipped_open_policy:
  "''0.0.0.0/0'' \<in> set (po_cidrs (resolve_policy shipped_egress caps)) \<longleftrightarrow>
     set caps \<inter> {''net.outbound_all'', ''net.outbound_test_endpoints'', ''net.outbound_scan_targets''} \<noteq> {}"
proof -
  have "''0.0.0.0/0'' \<in> (\<Union>c\<in>granted_categories caps. set (resolve_category_cidrs shipped_egress c)) \<longleftrightarrow>
      set caps \<inter> set [''net.outbound_test_endpoints'', ''net.outbound_scan_targets''] \<noteq> {}"
    unfolding UN_iff shipped_wide_open granted_categories_def open_capabilities(1) [symmetric]
    by (rule dict_preimage [OF open_capabilities(2)])
  from open_unless [OF this, of "''net.outbound_all''"] show ?thesis
    unfolding resolve_policy_cidrs list.set .
qed


definition wired_files :: files where
  "wired_files path =
     (if path = ''config/security.yaml'' then Inr (JObj [(''network'', shipped_network)]) else sample_files path)"

definition wired_env :: environ where
  "wired_env = [(''WORKER_ID'', ''w1'')]"

lemma wired_port: "parse_int ''5432'' = Some 5432"
  by code_simp

lemma wired_dsn:
  "metrics_dsn wired_env = Inr ''host=postgres port=5432 dbname=paperclip user=paperclip password=paperclip''"
  by (simp add: metrics_dsn_def wired_env_def dict_get_or_def dict_get_def env_first_def str_or_def wired_port
      show_int_def show_nat.simps)

lemma wired_parts:
  "map_sum (\<lambda>_. ()) (\<lambda>c. (map_option (\<lambda>_. ()) (wire_egress (ac_egress c)),
       map_option dk_pull (wire_docker (ac_docker c)), map_option sc_tmpfs (wire_sandbox (ac_sandbox c)),
       map_option cc_stream (wire_consumer c)))
     (read_config wired_files wired_env ''h'' ''config'' None None) =
   Inr (Some (), Some ''missing'', Some 256, Some ''jobs:execution'')"
  by code_simp

lemma wired_worker_runs:
  "\<exists>c w. read_config wired_files wired_env ''h'' ''config'' None None = Inr c \<and>
     execution_worker wired_env c = Inr (Some w) \<and> dk_pull (sm_docker (ew_sandbox w)) = ''missing''"
proof -
  obtain c where c: "read_config wired_files wired_env ''h'' ''config'' None None = Inr c"
    and parts: "map_option (\<lambda>_. ()) (wire_egress (ac_egress c)) = Some ()"
      "map_option dk_pull (wire_docker (ac_docker c)) = Some ''missing''"
      "map_option sc_tmpfs (wire_sandbox (ac_sandbox c)) = Some 256"
      "map_option cc_stream (wire_consumer c) = Some ''jobs:execution''"
    using wired_parts by (cases "read_config wired_files wired_env ''h'' ''config'' None None") auto
  from parts obtain e d s q where "wire_egress (ac_egress c) = Some e"
    "wire_docker (ac_docker c) = Some d" "dk_pull d = ''missing''"
    "wire_sandbox (ac_sandbox c) = Some s" "wire_consumer c = Some q" by auto
  with c show ?thesis by (simp add: execution_worker_def wired_dsn wire_manager_def)
qed


end
