(* ===== verification/Spec2Isabelle.thy ===== *)
theory Spec2Isabelle
  imports Application EventStream Seccomp AuditLog Secrets RateLimit Permissions Settings Wiring
begin

text \<open>
  Tacktcix: an agent platform. Two programs of the repository are modelled.

  The BACKEND (backend/app) keeps companies, agents, tasks, documents and an activity feed in a
  database. Onboarding collects the answers of a user about a company and generates its
  documents from them (\<open>Onboarding\<close>, onboarding_service.py): the knowledge graph
  (\<open>Knowledge\<close>, knowledge_graph_service.py), the constitution (\<open>Constitution\<close>,
  constitution_service.py), the architecture plan (\<open>Architecture\<close>, architecture_service.py), the
  roadmap (\<open>Roadmap\<close>, roadmap_service.py) and from it the first tasks and workflows (\<open>TaskGen\<close>,
  task_generation_service.py). Agents are registered, seeded and counted by the registry
  (\<open>Registry\<close>, agent_registry_service.py), which records what happens through the event service
  and publishes it on an in-memory bus (\<open>Events\<close>, event_service.py); \<open>EventStream\<close> is the stream
  of server-sent events that reads the bus (api/events.py). The orchestrator routes tasks to
  agents (\<open>Orchestrator\<close>, task_orchestrator_service.py); its guarantees are in \<open>Routing\<close> and
  \<open>Assignment\<close>. \<open>Api\<close> holds the handlers of the HTTP routes over these services (backend/app/api,
  core/database.py), \<open>Metrics\<close> the request metrics and the health check (core/metrics.py,
  core/health.py), \<open>Application\<close> the assembly of routes and middlewares (main.py), \<open>Schemas\<close> the
  schemas of requests and responses and the validation of stored rows (models/onboarding.py,
  models/agent.py), \<open>Migrations\<close> the revisions of the database schema and the tables of the models
  (backend/alembic/versions, models), \<open>Settings\<close> the database URL and the fallback entry point
  (core/config.py, backend/api/app.py). The state is a chain of records, each the state of the
  one before with more tables: \<open>session\<close> (events, bus, clock and identifiers), \<open>backend\<close> (agents),
  \<open>store\<close> (tasks, workflows), \<open>site\<close> (companies, onboarding sessions and documents), so that every
  operation of a service acts on the state of every program that embeds it.

  The EXECUTION WORKER (src) takes jobs from a Redis stream and runs them in Docker containers.
  \<open>Consumer\<close> is the loop on the stream (consumer.py), \<open>Worker\<close> the parser of its messages, the
  manager and the job handler (consumer.py, worker_manager.py, main.py), \<open>Lifecycle\<close> the monitor
  thread, the waits and the shutdown (worker_manager.py), \<open>Sandbox\<close> the container runtime
  (container_runtime.py) with the egress filter (\<open>Egress\<close>, network_egress.py), the AppArmor and
  seccomp profiles (\<open>AppArmor\<close>, \<open>Seccomp\<close>: sandbox/) and the permissions engine (\<open>Permissions\<close>,
  permissions.py). Beside them stand the rate limiter (\<open>RateLimit\<close>, ratelimit/token_bucket.py),
  the audit log (\<open>AuditLog\<close>, audit/audit_logger.py) with the regular expressions it uses (\<open>Regex\<close>),
  the secret store (\<open>Secrets\<close>, secrets/encrypted_store.py), the configuration (\<open>Config\<close>,
  config.py) and the heartbeat metrics with their table (\<open>Heartbeat\<close>, heartbeat_metrics.py,
  db.py). \<open>Runtime\<close> composes the worker: the client of the orchestration engine, the health
  server, the handler of the consumer, the start and the shutdown (orchestrator.py,
  health_check.py, main.py); \<open>Wiring\<close> builds the objects of the worker from the configuration and
  the environment (main.py).

  \<open>Prelude\<close> holds what they share: exceptions as the left summand of a sum, strings as lists
  of bytes, dictionaries as association lists in insertion order, JSON values, exact decimal
  rounding, and the general interfaces. The interfaces are locales:
  \<^item> \<open>py_dict\<close>, a dictionary; interpreted on the association lists.
  \<^item> \<open>inv_system\<close> and \<open>op_system\<close>, a step relation, or operations, that keep an invariant;
    interpreted on the event bus, the requests of the API, the heartbeat collector (healthy and
    with a refused row), the worker's handlers, the table of executions (settled, tracked and
    stalled entries) and the rounds of the consumer.
  \<^item> \<open>metered\<close>, operations that lower a potential with every hit; interpreted twice on the rate
    limiter, globally and per agent.
  \<^item> \<open>unit_score\<close> in \<open>Routing\<close>, a score in the unit interval, interpreted on the three scores and
    their total, and \<open>load_aware\<close>, a selection that respects limits, under which every greedy loop
    does, interpreted on the orchestrator's batch.
  \<^item> \<open>key_shape\<close> in \<open>Regex\<close> and its extension \<open>redacted_key\<close> in \<open>AuditLog\<close>, a kind of key whose
    matches no other pattern can bring back; interpreted on the four kinds of keys the log redacts.
  \<^item> \<open>consumer_group\<close> in \<open>Consumer\<close>, what the code relies on of the commands of Redis, interpreted on
    \<open>group_ops\<close>, an executable group; \<open>handler_invariant\<close>, an invariant the loop keeps because its
    handler does, interpreted in \<open>Runtime\<close> on the job handler.
  The order of the severities of the audit log is an instance of \<open>linorder\<close>.

  What is shown. Orchestrator: the best agent is selected, a batch respects every agent's
  limit, loses no task and leaves one over only when all agents are full. Registry: the load
  counter counts the open tasks. Events: queues stay within their bounds and deliver what was
  published, to a client of the stream exactly the events of its company. An event whose row the
  table or its foreign key refuses fails the operation that records it, and the theorems on routing
  say when. Onboarding: the processing of a session writes once exactly the documents generated
  from the vision, and the graph is well formed. API: the session of a request is closed
  without a commit (\<open>get_db\<close>); which rows pass the schema of their response, which routes are ever
  served. Migrations: a downgrade undoes its upgrade (a lemma compares the tables and columns of the
  revisions with the models). Rate limiter: admitted requests are bounded by burst plus rate times
  time, the retry time is exact. Egress and permissions: deny by default, exactly the granted
  ranges, and no other text in the script of the filter, which the Docker client of the worker has
  no method to run. Sandbox: the isolation of every container, the tiers of the profiles, and that
  the shipped configuration reaches the containers. Audit log: complete in the file, the newest
  entries in the stream, which Redis trims; no key of the default shapes in the details that are
  texts, while lists and dictionaries keep theirs. Secrets: a map. Configuration: the substitution of variables equals its
  specification. Worker: the bound on concurrent executions under every interleaving, every
  wait returns while the monitor lives, a message is acknowledged only after its handler
  returned, the order of start and shutdown. Several theorems state what the code does where
  this is not what its documentation says: lost metadata updates, dependencies on the text
  "None", lost assignments of equal titles, Redis windows that admit too much, jobs that are
  acknowledged without having run or are never reported, egress rules that are never installed,
  routings that a long title fails, one record that ends the recording of metrics, a container whose
  disappearance stops the worker, messages that fill every slot of a consumer.

  Bounds and termination. Loops run over lists; no definition needs fuel. The wait for a job may
  run forever and is a \<open>partial_function\<close>: the theorem that it returns is in \<open>Lifecycle\<close>, as are
  the runs in which it does not. The endless loop of the consumer is a list of rounds of any
  length. Floating point numbers are reals, so rounding errors are not modelled. A set whose
  iteration order the code sees is a list in an arbitrary order, as is a table.
  \<open>time.monotonic()\<close> is any monotone clock, \<open>uuid4\<close> any function of the number of flushes.
  The column lengths of the tables of events and agents and the foreign key of the events are
  checked when a row is written; the rows of the other tables are assumed to fit, integer columns
  are unbounded, the foreign key of a task on its agent is not checked, and an over-long value is
  refused even when its excess is only spaces (PostgreSQL would cut them off).

  Outside the repository and therefore parameters, with what is relied on stated in the
  theorems: Redis commands (with how many
  entries an approximate trimming keeps), Docker's answers and the methods its client has, \<open>apparmor_parser\<close>, HTTP replies, \<open>json.loads\<close> and
  \<open>yaml.safe_load\<close> with the files they read, AES-GCM, SHA-256 and base64, the registry of the
  Prometheus client, the environment and the clocks. \<open>re.search\<close> of the permissions engine is a
  parameter; the fragment of \<open>re\<close> that the audit log uses is modelled.

  Not modelled: the environment of Alembic (backend/alembic/env.py) and backend/api/index.py, which
  only call and import; the conversions pydantic makes between types; the set-up of logging and of
  signal handlers; sockets and threads of the servers; the text of connection strings; default values
  of columns. Strings are lists of bytes, so the decoding of a decrypted secret is the identity and
  lower() changes ASCII letters only. Of the reports of the job handler only HTTPError is an
  exception, as the code expects. A wait of the worker that never ends is the value None of
  \<open>wait_for_job\<close>; only \<open>monitored_wait\<close>, which feeds the invariant of the job handler, answers there, so
  that it has runs which the blocked worker has not.
\<close>

section \<open>From a job to the rules of its container\<close>

text \<open>
  C8. The egress filter of a dispatched job is never installed. A job with network access and at
  least one capability runs on the sandbox network, with NET_ADMIN and NET_RAW, which it gets for
  the rules; but the Docker client has no method \<open>exec_run\<close>, so no script is sent to its
  container (or any other) and the attempt only reports a failure, which is ignored. A client with
  that method would get, as the last call of the dispatch, the script of exactly the policy that the
  capabilities resolve to, and that script opens the default policy only for the wildcard.
\<close>

theorem dispatched_job_egress:
  assumes "dispatch other m limit an t0 j act = (Inr cid, act', calls)"
    and "jb_network j" and "jb_caps j \<noteq> []" and "sm_egress m = Some cfg"
  shows "(\<exists>args. Run args \<in> set calls \<and> ra_network args = dk_network (sm_docker m) \<and>
      ra_cap_add args = Some [''NET_ADMIN'', ''NET_RAW'']) \<and>
    (case an_exec an of
       None \<Rightarrow> (\<nexists>c script. ExecRoot c script \<in> set calls) \<and>
         \<not> fst (apply_egress_rules m an cid (jb_caps j))
     | Some exec_run \<Rightarrow>
         last calls = ExecRoot cid
           [''/bin/bash'', ''-c'', build_rules_script (resolve_policy cfg (jb_caps j))] \<and>
         (''iptables -P OUTPUT ACCEPT'' \<in> set (rules_lines (resolve_policy cfg (jb_caps j))) \<longleftrightarrow>
           ''net.outbound_all'' \<in> set (jb_caps j) \<or>
           (\<exists>cat\<in>granted_categories (jb_caps j). ''0.0.0.0/0'' \<in> set (resolve_category_cidrs cfg cat))))"
proof -
  obtain p where p: "dispatch_params other m j = Inr p"
    and create: "create_container m an p = (Inr cid, calls)"
    using assms(1) by (auto simp: dispatch_def split: if_splits sum.splits prod.splits)
  have net: "cp_network p" and caps: "cp_caps p = Some (jb_caps j)"
    using p assms(2,3) by (auto simp: dispatch_params_def split: option.splits sum.splits)
  then have needs: "needs_egress m p" by (simp add: needs_egress_def assms(4))
  have "fst (create_container m an p) = Inr cid" by (simp add: create)
  then obtain before dir where
    trace: "snd (create_container m an p) = before @ [Run (container_args m p dir)] @
       (if needs_egress m p then snd (apply_egress_rules m an cid (the (cp_caps p))) else [])"
    and before: "\<nexists>c script. ExecRoot c script \<in> set before" by (rule created_trace)
  then have calls: "calls = before @ [Run (container_args m p dir)] @ snd (apply_egress_rules m an cid (jb_caps j))"
    by (simp add: create needs caps)
  have args: "ra_network (container_args m p dir) = dk_network (sm_docker m)"
    "ra_cap_add (container_args m p dir) = Some [''NET_ADMIN'', ''NET_RAW'']"
    using net needs by (simp_all add: container_args_def EGRESS_REQUIRED_CAPS_def)
  define script where "script = [''/bin/bash'', ''-c'', build_rules_script (resolve_policy cfg (jb_caps j))]"
  have rules: "apply_egress_rules m an cid (jb_caps j) =
      (apply_to_container (an_exec an) cid (resolve_policy cfg (jb_caps j)),
       if an_exec an = None then [] else [ExecRoot cid script])"
    by (simp only: apply_egress_rules_def assms(4) option.case Let_def script_def)
  have opened: "''iptables -P OUTPUT ACCEPT'' \<in> set (rules_lines (resolve_policy cfg (jb_caps j))) \<longleftrightarrow>
      ''net.outbound_all'' \<in> set (jb_caps j) \<or>
      (\<exists>cat\<in>granted_categories (jb_caps j). ''0.0.0.0/0'' \<in> set (resolve_category_cidrs cfg cat))"
    unfolding rules_lines_accept resolve_policy_cidrs by simp
  show ?thesis
  proof (cases "an_exec an")
    case None
    then have "calls = before @ [Run (container_args m p dir)]" by (simp add: calls rules)
    with None before args show ?thesis by (auto simp: rules apply_to_container_def)
  next
    case (Some exec_run)
    then have "calls = before @ [Run (container_args m p dir), ExecRoot cid script]" by (simp add: calls rules)
    with args opened show ?thesis by (simp only: Some option.case script_def) auto
  qed
qed

theorem dispatched_job_egress_witness:
  "\<exists>act calls. dispatch (\<lambda>_. []) sample_manager 1 sample_answers 0
       (sample_job\<lparr>jb_caps := [''net.outbound_npm'']\<rparr>) [] = (Inr ''cid'', act, calls) \<and>
     (\<nexists>c script. ExecRoot c script \<in> set calls)"
proof -
  let ?j = "sample_job\<lparr>jb_caps := [''net.outbound_npm'']\<rparr>"
  have "fst (dispatch (\<lambda>_. []) sample_manager 1 sample_answers 0 ?j []) = Inr ''cid''"
    by (simp add: dispatch_def at_capacity_def dict_keys_def dispatch_params_def sample_manager_def
        dict_get_def build_command_def sample_job_def dict_get_or_def create_container_def Let_def
        ensure_image_def prepare_workspace_def sample_answers_def split: prod.split)
  then obtain act calls where
    d: "dispatch (\<lambda>_. []) sample_manager 1 sample_answers 0 ?j [] = (Inr ''cid'', act, calls)"
    by (metis prod.collapse)
  have "jb_network ?j" "jb_caps ?j = [''net.outbound_npm'']" "sm_egress sample_manager = Some sample_egress"
    "an_exec sample_answers = None"
    by (simp_all add: sample_job_def sample_manager_def sample_answers_def)
  with dispatched_job_egress [OF d] d show ?thesis by auto
qed

end
